(* ===== verification/Prelude.thy ===== *)
theory Prelude
  imports Main "HOL-Library.Word" "HOL-Library.AList" "HOL-Library.Sublist"
begin

text \<open>
  Shared vocabulary of the development: the machine integers the code uses, decimal
  printing (\<^verbatim>\<open>std::to_string\<close>), splitting of path strings at a separator, and the
  collections of facts (\<^verbatim>\<open>named_theorems\<close>) that the component theories fill and use:
  \<open>path_simps\<close> (the components of the path strings the service builds), \<open>frame_simps\<close>
  (fields an operation leaves alone) and \<open>inv_intros\<close> (operations that keep an invariant).
\<close>

named_theorems path_simps "components of path strings"
named_theorems frame_simps "fields an operation leaves unchanged"
named_theorems inv_intros "operations that keep an invariant"

section \<open>Machine integers\<close>

text \<open>
  \<^verbatim>\<open>int32_t\<close> values are \<open>int\<close>; every operation of the code that could leave the range of
  the type goes through \<open>wrap32\<close>, the value a 32-bit two's complement register holds.
\<close>

type_synonym int32 = int
type_synonym uint64 = "64 word"

definition INT32_MAX :: int where "INT32_MAX = 2147483647"
definition INT32_MIN :: int where "INT32_MIN = - 2147483648"

definition wrap32 :: "int \<Rightarrow> int32" where
  "wrap32 i = sint (word_of_int i :: 32 word)"

definition in_int32 :: "int \<Rightarrow> bool" where
  "in_int32 i \<longleftrightarrow> INT32_MIN \<le> i \<and> i \<le> INT32_MAX"

lemma wrap32_eq: "wrap32 i = (i + 2147483648) mod 4294967296 - 2147483648"
  by (simp add: wrap32_def sint_sbintrunc' signed_take_bit_eq_take_bit_shift take_bit_eq_mod)

lemma wrap32_in_int32: "in_int32 (wrap32 i)"
  by (simp add: wrap32_eq in_int32_def INT32_MIN_def INT32_MAX_def)

lemma wrap32_id: "in_int32 i \<Longrightarrow> wrap32 i = i"
  by (simp add: wrap32_eq in_int32_def INT32_MIN_def INT32_MAX_def)

section \<open>Decimal numbers\<close>

definition digit_char :: "nat \<Rightarrow> char" where
  "digit_char d = char_of (48 + d)"

fun nat_to_string :: "nat \<Rightarrow> string" where
  "nat_to_string n =
     (if n < 10 then [digit_char n] else nat_to_string (n div 10) @ [digit_char (n mod 10)])"

declare nat_to_string.simps [simp del]

definition to_string :: "int \<Rightarrow> string" where
  "to_string i = (if i < 0 then CHR ''-'' # nat_to_string (nat (- i)) else nat_to_string (nat i))"

definition char_digit :: "char \<Rightarrow> nat" where
  "char_digit c = of_char c - 48"

definition digits_value :: "string \<Rightarrow> nat" where
  "digits_value = foldl (\<lambda>a c. 10 * a + char_digit c) 0"

lemma of_char_digit_char: "d < 10 \<Longrightarrow> of_char (digit_char d) = (48 + d :: nat)"
  by (simp add: digit_char_def)

lemma char_digit_digit_char: "d < 10 \<Longrightarrow> char_digit (digit_char d) = d"
  by (simp add: char_digit_def of_char_digit_char)

lemma digits_value_nat_to_string: "digits_value (nat_to_string n) = n"
proof (induction n rule: nat_to_string.induct)
  case (1 n)
  show ?case
  proof (cases "n < 10")
    case True
    then show ?thesis
      by (subst nat_to_string.simps) (simp add: digits_value_def char_digit_digit_char)
  next
    case False
    with 1 have "digits_value (nat_to_string (n div 10)) = n div 10" by simp
    then have "digits_value (nat_to_string (n div 10) @ [digit_char (n mod 10)])
        = 10 * (n div 10) + n mod 10"
      by (simp add: digits_value_def char_digit_digit_char)
    with False show ?thesis by (subst nat_to_string.simps) simp
  qed
qed

lemma nat_to_string_chars:
  "c \<in> set (nat_to_string n) \<Longrightarrow> (48::nat) \<le> of_char c \<and> of_char c < (58::nat)"
proof (induction n rule: nat_to_string.induct)
  case (1 n)
  show ?case
  proof (cases "n < 10")
    case True
    with "1.prems" show ?thesis
      by (subst (asm) nat_to_string.simps) (simp add: of_char_digit_char)
  next
    case False
    with "1.prems" have "c \<in> set (nat_to_string (n div 10)) \<or> c = digit_char (n mod 10)"
      by (subst (asm) nat_to_string.simps) auto
    with False "1.IH" show ?thesis by (auto simp: of_char_digit_char)
  qed
qed

lemma nat_to_string_not_Nil [simp]: "nat_to_string n \<noteq> []"
  by (subst nat_to_string.simps) simp

lemma to_string_not_Nil [simp]: "to_string i \<noteq> []"
  by (simp add: to_string_def)

lemma minus_not_in_nat_to_string [simp]: "CHR ''-'' \<notin> set (nat_to_string n)"
  using nat_to_string_chars [of "CHR ''-''" n] by auto

lemma slash_not_in_to_string [simp]: "CHR ''/'' \<notin> set (to_string i)"
  using nat_to_string_chars [of "CHR ''/''"] by (auto simp: to_string_def)

lemma nat_to_string_inj: "nat_to_string m = nat_to_string n \<Longrightarrow> m = n"
  by (metis digits_value_nat_to_string)

lemma to_string_inj: "to_string i = to_string j \<longleftrightarrow> i = j"
proof
  assume eq: "to_string i = to_string j"
  have no_minus: "nat_to_string m \<noteq> CHR ''-'' # xs" for m xs
    using minus_not_in_nat_to_string [of m] by (metis list.set_intros(1))
  from eq show "i = j"
    using no_minus no_minus [symmetric]
    by (auto simp: to_string_def dest!: nat_to_string_inj split: if_splits)
qed simp

text \<open>What a C library reads of a string: everything before the first zero byte.\<close>

definition c_str :: "string \<Rightarrow> string" where
  "c_str s = takeWhile (\<lambda>c. c \<noteq> CHR 0x00) s"

section \<open>Splitting strings and paths\<close>

text \<open>\<open>split_on c s\<close> cuts a string at every occurrence of a separator, as repeated
  \<^verbatim>\<open>std::getline\<close> does.\<close>

fun split_on :: "char \<Rightarrow> string \<Rightarrow> string list" where
  "split_on c [] = [[]]"
| "split_on c (x # xs) =
     (if x = c then [] # split_on c xs
      else (case split_on c xs of [] \<Rightarrow> [[x]] | y # ys \<Rightarrow> (x # y) # ys))"

lemma split_on_not_Nil [simp]: "split_on c xs \<noteq> []"
  by (induction xs) (auto split: list.splits)

lemma split_on_append_sep: "split_on c (xs @ c # ys) = split_on c xs @ split_on c ys"
  by (induction xs) (auto split: list.splits)

lemma split_on_no_sep: "c \<notin> set xs \<Longrightarrow> split_on c xs = [xs]"
  by (induction xs) auto

lemma split_on_sep_free: "x \<in> set (split_on c xs) \<Longrightarrow> c \<notin> set x"
proof (induction xs arbitrary: x)
  case step: (Cons a xs)
  show ?case
  proof (cases "split_on c xs")
    case Nil
    then show ?thesis by simp
  next
    case (Cons y ys)
    then have "c \<notin> set y" "\<And>z. z \<in> set ys \<Longrightarrow> c \<notin> set z"
      using step.IH by auto
    with Cons step.prems step.IH show ?thesis by (auto split: if_splits)
  qed
qed simp

text \<open>
  The components of a path: the kernel resolves a path by its non-empty components, so
  repeated and trailing slashes do not matter.
\<close>

definition comps :: "string \<Rightarrow> string list" where
  "comps p = filter (\<lambda>x. x \<noteq> []) (split_on CHR ''/'' p)"

lemma comps_append_slash: "comps (xs @ CHR ''/'' # ys) = comps xs @ comps ys"
  by (simp add: comps_def split_on_append_sep)

lemma comps_Nil [simp]: "comps [] = []"
  by (simp add: comps_def)

lemma comps_name: "CHR ''/'' \<notin> set n \<Longrightarrow> n \<noteq> [] \<Longrightarrow> comps n = [n]"
  by (simp add: comps_def split_on_no_sep)

lemma comps_to_string [simp]: "comps (to_string i) = [to_string i]"
  by (rule comps_name) simp_all

lemma comps_to_string_slash: "comps (to_string i @ CHR ''/'' # ys) = to_string i # comps ys"
  by (simp add: comps_append_slash)

lemma comps_components:
  "x \<in> set (comps p) \<Longrightarrow> x \<noteq> [] \<and> CHR ''/'' \<notin> set x"
  by (auto simp: comps_def dest: split_on_sep_free)

section \<open>Association lists\<close>

lemma map_of_AList_update: "map_of (AList.update k v xs) = (map_of xs)(k \<mapsto> v)"
  by (simp add: update_conv')

lemma map_of_AList_delete: "map_of (AList.delete k xs) = (map_of xs)(k := None)"
  by (simp add: delete_conv')

lemma keys_AList_delete: "fst ` set (AList.delete k xs) = fst ` set xs - {k}"
  by (induction xs) auto

end
