(* ===== verification/ConcurrentMap.thy ===== *)
theory ConcurrentMap
  imports Prelude "HOL-Library.List_Lexorder" "HOL-Library.Char_ord"
begin

text \<open>
  \<^verbatim>\<open>utils/include/concurrent_map.h\<close>: a \<^verbatim>\<open>std::map\<close> behind a recursive mutex. A
  \<^verbatim>\<open>std::map\<close> is the list of its entries in key order (\<open>std_wf\<close>), so that iteration
  order, sizes and the number of erased entries are those of the code. Every public
  operation takes the lock for its whole body, so each one is a single step here. The
  member template \<^verbatim>\<open>Emplace\<close> applies \<open>->\<close> to a \<^verbatim>\<open>std::pair\<close>, cannot be
  instantiated and is never called; it has no model.

  The locale \<open>keyed_store\<close> is the contract the service relies on (what a lookup returns
  after an insertion or an erasure); it is interpreted on the operations of this file.
\<close>

section \<open>std::map\<close>

type_synonym ('k, 'v) stdmap = "('k \<times> 'v) list"

definition std_wf :: "('k::linorder, 'v) stdmap \<Rightarrow> bool" where
  "std_wf m \<longleftrightarrow> sorted_wrt (<) (map fst m)"

fun std_upsert :: "'k::linorder \<Rightarrow> 'v \<Rightarrow> ('k, 'v) stdmap \<Rightarrow> ('k, 'v) stdmap" where
  "std_upsert k v [] = [(k, v)]"
| "std_upsert k v ((a, b) # m) =
     (if k < a then (k, v) # (a, b) # m
      else if k = a then (k, v) # m
      else (a, b) # std_upsert k v m)"

definition std_erase :: "'k \<Rightarrow> ('k, 'v) stdmap \<Rightarrow> ('k, 'v) stdmap" where
  "std_erase k m = filter (\<lambda>(a, _). a \<noteq> k) m"

lemma map_of_std_upsert [simp]: "map_of (std_upsert k v m) = (map_of m)(k \<mapsto> v)"
  by (induction k v m rule: std_upsert.induct) (auto simp: fun_eq_iff)

lemma map_of_std_erase [simp]: "map_of (std_erase k m) = (map_of m)(k := None)"
  by (induction m) (auto simp: std_erase_def fun_eq_iff)

lemma keys_std_upsert: "fst ` set (std_upsert k v m) = insert k (fst ` set m)"
  by (induction k v m rule: std_upsert.induct) auto

lemma std_wf_Nil [simp]: "std_wf []"
  by (simp add: std_wf_def)

lemma std_wf_Cons: "std_wf ((a, b) # m) \<longleftrightarrow> (\<forall>k \<in> fst ` set m. a < k) \<and> std_wf m"
  by (simp add: std_wf_def)

lemma std_wf_upsert: "std_wf m \<Longrightarrow> std_wf (std_upsert k v m)"
  by (induction k v m rule: std_upsert.induct)
    (auto simp: std_wf_Cons keys_std_upsert intro: less_trans)

lemma std_wf_filter: "std_wf m \<Longrightarrow> std_wf (filter P m)"
  by (induction m) (auto simp: std_wf_Cons)

lemma std_wf_erase: "std_wf m \<Longrightarrow> std_wf (std_erase k m)"
  by (simp add: std_erase_def std_wf_filter)

lemma std_wf_distinct: "std_wf m \<Longrightarrow> distinct (map fst m)"
  by (simp add: std_wf_def strict_sorted_iff)

lemma std_wf_map_snd: "std_wf m \<Longrightarrow> (\<And>x. fst (f x) = fst x) \<Longrightarrow> std_wf (map f m)"
  by (simp add: std_wf_def comp_def)

text \<open>Two ordered maps with the same lookups are the same map.\<close>

lemma entries_from_keys:
  "distinct (map fst m) \<Longrightarrow> map (\<lambda>k. (k, the (map_of m k))) (map fst m) = m"
  by (auto intro!: map_idI simp: comp_def)

lemma std_wf_ext:
  assumes "std_wf m" "std_wf m'" and eq: "map_of m = map_of m'"
  shows "m = m'"
proof -
  have d: "distinct (map fst m)" "distinct (map fst m')"
    using assms by (auto dest: std_wf_distinct)
  have "set (map fst m) = set (map fst m')"
    using eq by (metis dom_map_of_conv_image_fst list.set_map)
  then have keys: "map fst m = map fst m'"
    using assms by (intro strict_sorted_equal) (simp_all add: std_wf_def)
  have "m = map (\<lambda>k. (k, the (map_of m k))) (map fst m)"
    using entries_from_keys [OF d(1)] by simp
  also have "\<dots> = map (\<lambda>k. (k, the (map_of m' k))) (map fst m')"
    using keys eq by simp
  also have "\<dots> = m'"
    by (rule entries_from_keys [OF d(2)])
  finally show ?thesis .
qed

section \<open>The operations of ConcurrentMap\<close>

text \<open>\<^verbatim>\<open>mapped_type()\<close>, the value-initialised entry, is the argument \<open>d\<close>.\<close>

definition Find :: "'v \<Rightarrow> ('k, 'v) stdmap \<Rightarrow> 'k \<Rightarrow> bool \<times> 'v" where
  "Find d m key = (case map_of m key of None \<Rightarrow> (False, d) | Some v \<Rightarrow> (True, v))"

definition Contains :: "('k, 'v) stdmap \<Rightarrow> 'k \<Rightarrow> bool" where
  "Contains m key \<longleftrightarrow> map_of m key \<noteq> None"

definition InsertOrAssign ::
  "'k::linorder \<Rightarrow> 'v \<Rightarrow> ('k, 'v) stdmap \<Rightarrow> bool \<times> ('k, 'v) stdmap" where
  "InsertOrAssign key v m = (map_of m key = None, std_upsert key v m)"

definition Insert :: "'k::linorder \<Rightarrow> 'v \<Rightarrow> ('k, 'v) stdmap \<Rightarrow> bool \<times> ('k, 'v) stdmap" where
  "Insert key v m = (if map_of m key = None then (True, std_upsert key v m) else (False, m))"

definition Erase :: "'k \<Rightarrow> ('k, 'v) stdmap \<Rightarrow> nat \<times> ('k, 'v) stdmap" where
  "Erase key m = (length m - length (std_erase key m), std_erase key m)"

definition Clear :: "('k, 'v) stdmap \<Rightarrow> ('k, 'v) stdmap" where
  "Clear m = []"

definition Empty :: "('k, 'v) stdmap \<Rightarrow> bool" where
  "Empty m \<longleftrightarrow> m = []"

definition Size :: "('k, 'v) stdmap \<Rightarrow> nat" where
  "Size m = length m"

text \<open>
  \<^verbatim>\<open>EraseIf\<close>: the action sees the key and may write the value; an entry goes when the
  action returns true. The header has two bodies, chosen by the language standard:
  \<^verbatim>\<open>std::erase_if\<close> and the explicit iterator loop.
\<close>

fun erase_if :: "('k \<Rightarrow> 'v \<Rightarrow> bool \<times> 'v) \<Rightarrow> ('k, 'v) stdmap \<Rightarrow> nat \<times> ('k, 'v) stdmap" where
  "erase_if act [] = (0, [])"
| "erase_if act ((k, v) # m) =
     (case act k v of (gone, v') \<Rightarrow>
      (case erase_if act m of (n, m') \<Rightarrow> if gone then (Suc n, m') else (n, (k, v') # m')))"

definition EraseIf ::
  "('k \<Rightarrow> 'v \<Rightarrow> bool \<times> 'v) option \<Rightarrow> ('k, 'v) stdmap \<Rightarrow> nat \<times> ('k, 'v) stdmap" where
  "EraseIf action m = (case action of None \<Rightarrow> (0, m) | Some act \<Rightarrow> erase_if act m)"

text \<open>The loop: \<open>seen\<close> holds the entries the iterator has passed, in reverse.\<close>

fun erase_loop ::
  "('k \<Rightarrow> 'v \<Rightarrow> bool \<times> 'v) \<Rightarrow> ('k, 'v) stdmap \<Rightarrow> ('k, 'v) stdmap \<Rightarrow> ('k, 'v) stdmap" where
  "erase_loop act seen [] = rev seen"
| "erase_loop act seen ((k, v) # it) =
     (case act k v of (gone, v') \<Rightarrow>
      if gone then erase_loop act seen it else erase_loop act ((k, v') # seen) it)"

definition EraseIf_cpp17 ::
  "('k \<Rightarrow> 'v \<Rightarrow> bool \<times> 'v) option \<Rightarrow> ('k, 'v) stdmap \<Rightarrow> nat \<times> ('k, 'v) stdmap" where
  "EraseIf_cpp17 action m =
     (case action of None \<Rightarrow> (0, m)
      | Some act \<Rightarrow> (let count = length m; entries = erase_loop act [] m
                    in (count - length entries, entries)))"

text \<open>
  \<^verbatim>\<open>ForEach\<close>: the action may write the value and whatever its closure captures (the
  state \<open>s\<close>); true stops the iteration. \<^verbatim>\<open>ForEachCopies\<close> runs on a clone, so only
  the captured state changes.
\<close>

fun for_each ::
  "('k \<Rightarrow> 'v \<Rightarrow> 's \<Rightarrow> bool \<times> 'v \<times> 's) \<Rightarrow> ('k, 'v) stdmap \<Rightarrow> 's \<Rightarrow> ('k, 'v) stdmap \<times> 's" where
  "for_each act [] s = ([], s)"
| "for_each act ((k, v) # m) s =
     (case act k v s of (stop, v', s') \<Rightarrow>
      if stop then ((k, v') # m, s')
      else (case for_each act m s' of (m', s'') \<Rightarrow> ((k, v') # m', s'')))"

definition ForEach ::
  "('k \<Rightarrow> 'v \<Rightarrow> 's \<Rightarrow> bool \<times> 'v \<times> 's) option \<Rightarrow> ('k, 'v) stdmap \<Rightarrow> 's \<Rightarrow> ('k, 'v) stdmap \<times> 's" where
  "ForEach action m s = (case action of None \<Rightarrow> (m, s) | Some act \<Rightarrow> for_each act m s)"

definition Clone :: "('k, 'v) stdmap \<Rightarrow> ('k, 'v) stdmap" where
  "Clone m = m"

definition ForEachCopies ::
  "('k \<Rightarrow> 'v \<Rightarrow> 's \<Rightarrow> bool \<times> 'v \<times> 's) option \<Rightarrow> ('k, 'v) stdmap \<Rightarrow> 's \<Rightarrow> ('k, 'v) stdmap \<times> 's" where
  "ForEachCopies action m s =
     (case action of None \<Rightarrow> (m, s)
      | Some act \<Rightarrow> (case for_each act (Clone m) s of (entries, s') \<Rightarrow> (m, s')))"

definition Compute ::
  "'v \<Rightarrow> 'k::linorder \<Rightarrow> ('k \<Rightarrow> 'v \<Rightarrow> bool \<times> 'v) option \<Rightarrow> ('k, 'v) stdmap
    \<Rightarrow> bool \<times> ('k, 'v) stdmap" where
  "Compute d key action m =
     (case action of None \<Rightarrow> (False, m)
      | Some act \<Rightarrow>
          (let m1 = (if map_of m key = None then std_upsert key d m else m)
           in case map_of m1 key of None \<Rightarrow> (False, m1)
              | Some v \<Rightarrow> (case act key v of (keep, v') \<Rightarrow>
                  (True, if keep then std_upsert key v' m1 else std_erase key m1))))"

definition ComputeIfPresent ::
  "'k::linorder \<Rightarrow> ('k \<Rightarrow> 'v \<Rightarrow> bool \<times> 'v) option \<Rightarrow> ('k, 'v) stdmap \<Rightarrow> bool \<times> ('k, 'v) stdmap" where
  "ComputeIfPresent key action m =
     (case action of None \<Rightarrow> (False, m)
      | Some act \<Rightarrow>
          (case map_of m key of None \<Rightarrow> (False, m)
           | Some v \<Rightarrow> (case act key v of (keep, v') \<Rightarrow>
               (True, if keep then std_upsert key v' m else std_erase key m))))"

definition ComputeIfAbsent ::
  "'k::linorder \<Rightarrow> ('k \<Rightarrow> 'v) option \<Rightarrow> ('k, 'v) stdmap \<Rightarrow> bool \<times> ('k, 'v) stdmap" where
  "ComputeIfAbsent key action m =
     (case action of None \<Rightarrow> (False, m)
      | Some act \<Rightarrow>
          (case map_of m key of Some v \<Rightarrow> (False, m)
           | None \<Rightarrow> (True, std_upsert key (act key) m)))"

section \<open>The contract of a keyed store\<close>

text \<open>
  What the clients of the map rely on: a lookup sees the last write of its key, and no other
  operation on another key. \<open>entries_ok P\<close> says that every stored entry satisfies \<open>P\<close>; the
  clients prove their per-entry invariants through \<open>entries_ok_put\<close> and \<open>entries_ok_drop\<close>.
\<close>

definition entries_ok :: "('k \<Rightarrow> 'v \<Rightarrow> bool) \<Rightarrow> ('k \<Rightarrow> 'v option) \<Rightarrow> bool" where
  "entries_ok P g \<longleftrightarrow> (\<forall>k v. g k = Some v \<longrightarrow> P k v)"

locale keyed_store =
  fixes get :: "'m \<Rightarrow> 'k \<Rightarrow> 'v option"
    and put :: "'k \<Rightarrow> 'v \<Rightarrow> 'm \<Rightarrow> 'm"
    and drop_key :: "'k \<Rightarrow> 'm \<Rightarrow> 'm"
    and good :: "'m \<Rightarrow> bool"
  assumes get_put: "good m \<Longrightarrow> get (put k v m) = (get m)(k \<mapsto> v)"
    and get_drop: "good m \<Longrightarrow> get (drop_key k m) = (get m)(k := None)"
    and good_put: "good m \<Longrightarrow> good (put k v m)"
    and good_drop: "good m \<Longrightarrow> good (drop_key k m)"
begin

lemma get_put_same: "good m \<Longrightarrow> get (put k v m) k = Some v"
  by (simp add: get_put)

lemma get_put_other: "good m \<Longrightarrow> k' \<noteq> k \<Longrightarrow> get (put k v m) k' = get m k'"
  by (simp add: get_put)

lemma get_drop_other: "good m \<Longrightarrow> k' \<noteq> k \<Longrightarrow> get (drop_key k m) k' = get m k'"
  by (simp add: get_drop)

lemma entries_ok_put:
  "good m \<Longrightarrow> entries_ok P (get m) \<Longrightarrow> P k v \<Longrightarrow> entries_ok P (get (put k v m))"
  by (simp add: entries_ok_def get_put)

lemma entries_ok_drop:
  "good m \<Longrightarrow> entries_ok P (get m) \<Longrightarrow> entries_ok P (get (drop_key k m))"
  by (simp add: entries_ok_def get_drop)

end

interpretation wm: keyed_store
  "\<lambda>m. map_of m" "\<lambda>k v m. snd (InsertOrAssign k v m)" "\<lambda>k m. snd (Erase k m)" std_wf
  by unfold_locales
    (simp_all add: InsertOrAssign_def Erase_def std_wf_upsert std_wf_erase)

section \<open>Properties\<close>

lemma Find_InsertOrAssign:
  "Find d (snd (InsertOrAssign k v m)) k' = (if k' = k then (True, v) else Find d m k')"
  by (simp add: Find_def InsertOrAssign_def)

lemma Find_Erase:
  "Find d (snd (Erase k m)) k' = (if k' = k then (False, d) else Find d m k')"
  by (simp add: Find_def Erase_def)

lemma erase_if_filter:
  "erase_if act m =
     (length (filter (\<lambda>(k, v). fst (act k v)) m),
      map (\<lambda>(k, v). (k, snd (act k v))) (filter (\<lambda>(k, v). \<not> fst (act k v)) m))"
  by (induction act m rule: erase_if.induct) (auto split: prod.splits)

lemma erase_loop_filter:
  "erase_loop act seen m =
     rev seen @ map (\<lambda>(k, v). (k, snd (act k v))) (filter (\<lambda>(k, v). \<not> fst (act k v)) m)"
  by (induction act seen m rule: erase_loop.induct) (auto split: prod.splits)

lemma length_filter_split:
  "length xs - length (filter (\<lambda>x. \<not> P x) xs) = length (filter P xs)"
  using sum_length_filter_compl [of P xs] by linarith

text \<open>The two bodies of \<^verbatim>\<open>EraseIf\<close> are the same function.\<close>

theorem EraseIf_bodies_agree: "EraseIf_cpp17 action m = EraseIf action m"
proof (cases action)
  case (Some act)
  have "filter (\<lambda>(k, v). \<not> fst (act k v)) m = filter (\<lambda>x. \<not> (case x of (k, v) \<Rightarrow> fst (act k v))) m"
    by (intro filter_cong) auto
  then show ?thesis
    using Some length_filter_split [where P = "\<lambda>(k, v). fst (act k v)" and xs = m]
    by (simp add: EraseIf_def EraseIf_cpp17_def erase_if_filter erase_loop_filter)
qed (simp add: EraseIf_def EraseIf_cpp17_def)

lemma std_wf_erase_if: "std_wf m \<Longrightarrow> std_wf (snd (erase_if act m))"
  by (simp add: erase_if_filter std_wf_map_snd std_wf_filter split_beta)

lemma fst_for_each: "map fst (fst (for_each act m s)) = map fst m"
proof (induction m arbitrary: s)
  case (Cons x m)
  obtain k v where x: "x = (k, v)" by (cases x)
  obtain stop v' s' where act: "act k v s = (stop, v', s')" by (cases "act k v s")
  obtain m' s'' where rec: "for_each act m s' = (m', s'')" by (cases "for_each act m s'")
  with Cons.IH [of s'] show ?case by (simp add: x act)
qed simp

end
