(* ===== verification/Dump.thy ===== *)
theory Dump
  imports ConcurrentMap
begin

text \<open>
  \<^verbatim>\<open>utils/dfx/hidumper_adapter\<close>: the commands \<^verbatim>\<open>hidumper\<close> can run in the service. A command
  has the words of its format, a help text and an action that appends to an output string; the
  helper keeps the commands by their first word. What the code prints to the descriptor of the
  dump is the text a function returns.
\<close>

record Command =
  cmd_format :: "string list"
  cmd_help :: string
  cmd_action :: "string list \<Rightarrow> string \<Rightarrow> bool \<times> string"

definition ShowHelp :: "Command \<Rightarrow> string" where
  "ShowHelp cmd = cmd_help cmd"

definition DoAction :: "Command \<Rightarrow> string list \<Rightarrow> string \<Rightarrow> bool \<times> string" where
  "DoAction cmd input out = cmd_action cmd input out"

definition GetOption :: "Command \<Rightarrow> string" where
  "GetOption cmd = (case cmd_format cmd of [] \<Rightarrow> '''' | seg # _ \<Rightarrow> seg)"

fun format_segs :: "string list \<Rightarrow> string" where
  "format_segs [] = ''''"
| "format_segs (seg # rest) = seg @ '' '' @ format_segs rest"

definition GetFormat :: "Command \<Rightarrow> string" where
  "GetFormat cmd = format_segs (cmd_format cmd)"

text \<open>\<^verbatim>\<open>std::map::insert\<close>: an option that is already registered keeps its command.\<close>

definition RegisterCommand ::
  "Command \<Rightarrow> (string, Command) stdmap \<Rightarrow> (string, Command) stdmap" where
  "RegisterCommand cmd m =
     (if map_of m (GetOption cmd) = None then std_upsert (GetOption cmd) cmd m else m)"

text \<open>The conversions \<^verbatim>\<open>%-15s\<close> and \<^verbatim>\<open>%-20s\<close>.\<close>

definition pad_right :: "nat \<Rightarrow> string \<Rightarrow> string" where
  "pad_right n s = s @ replicate (n - length s) CHR '' ''"

definition help_row :: "string \<Rightarrow> string \<Rightarrow> string" where
  "help_row a b = CHR 0x0A # pad_right 15 (c_str a) @ '': '' @ pad_right 20 (c_str b)"

definition Dispatch :: "(string, Command) stdmap \<Rightarrow> string list \<Rightarrow> bool \<times> string" where
  "Dispatch m args =
     (if args = [] \<or> hd args = ''-h''
      then (False, help_row ''Option'' ''Description''
              @ concat (map (\<lambda>(key, cmd). help_row (GetFormat cmd) (ShowHelp cmd)) m))
      else (case map_of m (hd args) of
              None \<Rightarrow> (False, '''')
            | Some cmd \<Rightarrow> (case DoAction cmd args '''' of (ret, out) \<Rightarrow>
                (ret, CHR 0x0A # c_str out))))"

lemma Dispatch_registered:
  "map_of m (GetOption cmd) = None \<Longrightarrow> hd args = GetOption cmd \<Longrightarrow> args \<noteq> [] \<Longrightarrow>
     GetOption cmd \<noteq> ''-h'' \<Longrightarrow>
   Dispatch (RegisterCommand cmd m) args =
     (fst (DoAction cmd args ''''), CHR 0x0A # c_str (snd (DoAction cmd args '''')))"
  by (simp add: Dispatch_def RegisterCommand_def split_beta)

lemma std_wf_RegisterCommand: "std_wf m \<Longrightarrow> std_wf (RegisterCommand cmd m)"
  by (simp add: RegisterCommand_def std_wf_upsert)

end
