(* ===== verification/FileSystem.thy ===== *)
theory FileSystem
  imports Prelude
begin

text \<open>
  The part of the operating system the code calls: a tree of directories and regular files
  and a table of open file descriptors. A path string is resolved by its non-empty components
  (\<open>comps\<close>); symbolic links and the names \<^verbatim>\<open>.\<close> and \<^verbatim>\<open>..\<close> are not interpreted, no path
  the service builds uses them. Calls that can fail for reasons outside the state (permissions,
  a full disk, a short read or write) ask the environment record \<open>fs_env\<close>, which is an argument
  of every operation: a theorem holds for every environment it does not constrain. The answers
  of an environment are fixed while one operation runs and may differ from one operation to the
  next.
\<close>

section \<open>Nodes, descriptors and the environment\<close>

datatype node = DirNode | FileNode string

type_synonym fs = "(string list \<times> node) list"

text \<open>An open descriptor: what is left to read, or the file and offset it writes at.\<close>

datatype ofd = ReadFd string | DirFd | WriteFd "string list" nat

record os_state =
  files :: fs
  fds :: "(int \<times> ofd) list"

text \<open>\<^verbatim>\<open>std::filesystem::copy_file\<close> succeeds, fails before it opens the target, or fails after
  writing a prefix.\<close>

datatype copy_outcome = Copied | NotCopied | CopiedPart nat

record fs_env =
  opendir_ok :: "string \<Rightarrow> bool"
  mkdir_ok :: "string \<Rightarrow> bool"
  remove_ok :: "string \<Rightarrow> bool"
  rmdir_ok :: "string \<Rightarrow> bool"
  open_ok :: "string \<Rightarrow> bool"
  seek_ok :: "string \<Rightarrow> bool"
  flush_ok :: "string \<Rightarrow> bool"
  sync_ok :: "string \<Rightarrow> bool"
  copy_outcome_of :: "string \<Rightarrow> copy_outcome"
  read_max :: "int \<Rightarrow> nat \<Rightarrow> int"
  write_max :: "int \<Rightarrow> nat \<Rightarrow> int"
  alloc_ok :: "int \<Rightarrow> bool"
  realpath_of :: "string \<Rightarrow> string option"

section \<open>Looking up\<close>

definition node_at :: "fs \<Rightarrow> string list \<Rightarrow> node option" where
  "node_at t k = (if k = [] then Some DirNode else map_of t k)"

definition lookup_path :: "fs \<Rightarrow> string \<Rightarrow> node option" where
  "lookup_path t p = (if p = [] then None else node_at t (comps p))"

definition parent_ok :: "fs \<Rightarrow> string list \<Rightarrow> bool" where
  "parent_ok t k \<longleftrightarrow> k \<noteq> [] \<and> node_at t (butlast k) = Some DirNode"

text \<open>The names \<^verbatim>\<open>readdir\<close> lists (without \<^verbatim>\<open>.\<close> and \<^verbatim>\<open>..\<close>).\<close>

definition dir_entries :: "fs \<Rightarrow> string list \<Rightarrow> string list" where
  "dir_entries t k = map last (filter (\<lambda>q. q \<noteq> [] \<and> butlast q = k) (map fst t))"

definition file_content :: "fs \<Rightarrow> string list \<Rightarrow> string" where
  "file_content t k = (case node_at t k of Some (FileNode c) \<Rightarrow> c | _ \<Rightarrow> [])"

definition bytes_at :: "fs \<Rightarrow> string \<Rightarrow> string option" where
  "bytes_at t p = (case lookup_path t p of Some (FileNode c) \<Rightarrow> Some c | _ \<Rightarrow> None)"

definition fresh_fd :: "(int \<times> ofd) list \<Rightarrow> int" where
  "fresh_fd tab =
     (case find (\<lambda>n. int n \<notin> set (map fst tab)) [0 ..< Suc (length tab)] of
        Some n \<Rightarrow> int n | None \<Rightarrow> 0)"

section \<open>System calls\<close>

definition os_access :: "fs \<Rightarrow> string \<Rightarrow> bool" where
  "os_access t p \<longleftrightarrow> lookup_path t p \<noteq> None"

definition os_opendir :: "'e fs_env_scheme \<Rightarrow> fs \<Rightarrow> string \<Rightarrow> bool" where
  "os_opendir e t p \<longleftrightarrow> lookup_path t p = Some DirNode \<and> opendir_ok e p"

definition os_mkdir :: "'e fs_env_scheme \<Rightarrow> string \<Rightarrow> fs \<Rightarrow> bool \<times> fs" where
  "os_mkdir e p t =
     (if lookup_path t p = None \<and> parent_ok t (comps p) \<and> mkdir_ok e p
      then (True, AList.update (comps p) DirNode t) else (False, t))"

definition os_remove :: "'e fs_env_scheme \<Rightarrow> string \<Rightarrow> fs \<Rightarrow> bool \<times> fs" where
  "os_remove e p t =
     (case lookup_path t p of
        None \<Rightarrow> (False, t)
      | Some (FileNode c) \<Rightarrow>
          if remove_ok e p then (True, AList.delete (comps p) t) else (False, t)
      | Some DirNode \<Rightarrow>
          if comps p \<noteq> [] \<and> dir_entries t (comps p) = [] \<and> remove_ok e p
          then (True, AList.delete (comps p) t) else (False, t))"

definition os_rmdir :: "'e fs_env_scheme \<Rightarrow> string \<Rightarrow> fs \<Rightarrow> bool \<times> fs" where
  "os_rmdir e p t =
     (if lookup_path t p = Some DirNode \<and> comps p \<noteq> [] \<and> dir_entries t (comps p) = []
         \<and> rmdir_ok e p
      then (True, AList.delete (comps p) t) else (False, t))"

definition os_copy_file :: "'e fs_env_scheme \<Rightarrow> string \<Rightarrow> string \<Rightarrow> fs \<Rightarrow> bool \<times> fs" where
  "os_copy_file e src dst t =
     (case lookup_path t src of
        Some (FileNode c) \<Rightarrow>
          (if comps src = comps dst \<or> dst = [] \<or> lookup_path t dst = Some DirNode
              \<or> (lookup_path t dst = None \<and> \<not> parent_ok t (comps dst))
           then (False, t)
           else (case copy_outcome_of e dst of
                   Copied \<Rightarrow> (True, AList.update (comps dst) (FileNode c) t)
                 | NotCopied \<Rightarrow> (False, t)
                 | CopiedPart n \<Rightarrow> (False, AList.update (comps dst) (FileNode (take n c)) t)))
      | _ \<Rightarrow> (False, t))"

text \<open>\<^verbatim>\<open>open(p, O_RDONLY)\<close> and \<^verbatim>\<open>open(p, O_WRONLY | O_CREAT)\<close>: the latter never truncates.\<close>

definition os_open_read ::
  "'e fs_env_scheme \<Rightarrow> string \<Rightarrow> 's os_state_scheme \<Rightarrow> int \<times> 's os_state_scheme" where
  "os_open_read e p s =
     (case (if open_ok e p then lookup_path (files s) p else None) of
        None \<Rightarrow> (- 1, s)
      | Some n \<Rightarrow> (let fd = fresh_fd (fds s) in
          (fd, s\<lparr>fds := (fd, case n of FileNode c \<Rightarrow> ReadFd c | DirNode \<Rightarrow> DirFd) # fds s\<rparr>)))"

definition os_open_write ::
  "'e fs_env_scheme \<Rightarrow> string \<Rightarrow> 's os_state_scheme \<Rightarrow> int \<times> 's os_state_scheme" where
  "os_open_write e p s =
     (let k = comps p; fd = fresh_fd (fds s) in
      if \<not> open_ok e p \<or> p = [] then (- 1, s)
      else (case node_at (files s) k of
              Some DirNode \<Rightarrow> (- 1, s)
            | Some (FileNode c) \<Rightarrow> (fd, s\<lparr>fds := (fd, WriteFd k 0) # fds s\<rparr>)
            | None \<Rightarrow>
                if parent_ok (files s) k
                then (fd, s\<lparr>files := AList.update k (FileNode []) (files s),
                            fds := (fd, WriteFd k 0) # fds s\<rparr>)
                else (- 1, s)))"

definition os_read ::
  "'e fs_env_scheme \<Rightarrow> int \<Rightarrow> nat \<Rightarrow> 's os_state_scheme
    \<Rightarrow> int \<times> string \<times> 's os_state_scheme" where
  "os_read e fd len s =
     (case map_of (fds s) fd of
        Some (ReadFd c) \<Rightarrow>
          (if read_max e fd len < 0 then (- 1, [], s)
           else let n = min (nat (read_max e fd len)) (min len (length c)) in
             (int n, take n c, s\<lparr>fds := AList.update fd (ReadFd (drop n c)) (fds s)\<rparr>))
      | _ \<Rightarrow> (- 1, [], s))"

definition overwrite :: "nat \<Rightarrow> string \<Rightarrow> string \<Rightarrow> string" where
  "overwrite off new old = take off old @ new @ drop (off + length new) old"

definition os_write ::
  "'e fs_env_scheme \<Rightarrow> int \<Rightarrow> string \<Rightarrow> 's os_state_scheme
    \<Rightarrow> int \<times> 's os_state_scheme" where
  "os_write e fd buf s =
     (case map_of (fds s) fd of
        Some (WriteFd k off) \<Rightarrow>
          (if write_max e fd (length buf) < 0 then (- 1, s)
           else let n = min (nat (write_max e fd (length buf))) (length buf) in
             (int n,
              s\<lparr>files := (case node_at (files s) k of
                   Some (FileNode c) \<Rightarrow>
                     AList.update k (FileNode (overwrite off (take n buf) c)) (files s)
                 | _ \<Rightarrow> files s),
                fds := AList.update fd (WriteFd k (off + n)) (fds s)\<rparr>))
      | _ \<Rightarrow> (- 1, s))"

definition os_close :: "int \<Rightarrow> 's os_state_scheme \<Rightarrow> 's os_state_scheme" where
  "os_close fd s = s\<lparr>fds := AList.delete fd (fds s)\<rparr>"

section \<open>Well-formed trees\<close>

text \<open>
  Every key is a non-empty list of names, occurs once, and its parent is a directory. Every
  call keeps this.
\<close>

definition name_ok :: "string \<Rightarrow> bool" where
  "name_ok n \<longleftrightarrow> n \<noteq> [] \<and> CHR ''/'' \<notin> set n"

definition wf_fs :: "fs \<Rightarrow> bool" where
  "wf_fs t \<longleftrightarrow> distinct (map fst t) \<and>
     (\<forall>k n. map_of t k = Some n \<longrightarrow> list_all name_ok k \<and> parent_ok t k)"

lemma node_at_Nil [simp]: "node_at t [] = Some DirNode"
  by (simp add: node_at_def)

lemma node_at_update:
  "k \<noteq> [] \<Longrightarrow> node_at (AList.update k n t) q = (if q = k then Some n else node_at t q)"
  by (simp add: node_at_def map_of_AList_update)

lemma node_at_delete:
  "k \<noteq> [] \<Longrightarrow> node_at (AList.delete k t) q = (if q = k then None else node_at t q)"
  by (simp add: node_at_def map_of_AList_delete)

lemma in_dir_entries:
  "n \<in> set (dir_entries t k) \<longleftrightarrow> map_of t (k @ [n]) \<noteq> None"
proof
  assume "n \<in> set (dir_entries t k)"
  then obtain q where q: "q \<in> fst ` set t" "q \<noteq> []" "butlast q = k" "n = last q"
    by (auto simp: dir_entries_def)
  then have "q = k @ [n]" by (metis append_butlast_last_id)
  with q(1) have "k @ [n] \<in> fst ` set t" by simp
  then show "map_of t (k @ [n]) \<noteq> None" by (simp only: map_of_eq_None_iff not_not)
next
  assume "map_of t (k @ [n]) \<noteq> None"
  then have "k @ [n] \<in> fst ` set t" by (metis map_of_eq_None_iff)
  then show "n \<in> set (dir_entries t k)"
    by (force simp: dir_entries_def)
qed

lemma dir_entries_empty_iff: "dir_entries t k = [] \<longleftrightarrow> (\<forall>n. map_of t (k @ [n]) = None)"
proof -
  have "dir_entries t k = [] \<longleftrightarrow> (\<forall>n. n \<notin> set (dir_entries t k))" by (cases "dir_entries t k") auto
  then show ?thesis by (simp add: in_dir_entries)
qed

lemma comps_names: "list_all name_ok (comps p)"
  by (auto simp: list_all_iff name_ok_def dest: comps_components)

lemma wf_fs_update:
  assumes wf: "wf_fs t" and names: "list_all name_ok k" and parent: "parent_ok t k"
    and leaf: "n = DirNode \<or> map_of t k \<noteq> Some DirNode"
  shows "wf_fs (AList.update k n t)"
proof -
  have k: "k \<noteq> []" using parent by (simp add: parent_ok_def)
  have keep: "parent_ok (AList.update k n t) q" if q: "parent_ok t q" for q
  proof (cases "butlast q = k")
    case True
    with q k leaf have "n = DirNode" by (auto simp: parent_ok_def node_at_def)
    with q True k show ?thesis by (simp add: parent_ok_def node_at_update)
  next
    case False
    with q k show ?thesis by (simp add: parent_ok_def node_at_update)
  qed
  show ?thesis
    unfolding wf_fs_def
  proof (intro conjI allI impI)
    show "distinct (map fst (AList.update k n t))"
      using wf by (simp add: wf_fs_def distinct_update)
  next
    fix q m assume q: "map_of (AList.update k n t) q = Some m"
    have "list_all name_ok q \<and> parent_ok t q"
    proof (cases "q = k")
      case True
      with names parent show ?thesis by simp
    next
      case False
      with q have "map_of t q = Some m" by (simp add: map_of_AList_update)
      with wf show ?thesis by (simp add: wf_fs_def)
    qed
    then show "list_all name_ok q" "parent_ok (AList.update k n t) q"
      using keep by simp_all
  qed
qed

lemma wf_fs_delete:
  assumes wf: "wf_fs t" and leaf: "dir_entries t k = [] \<or> map_of t k \<noteq> Some DirNode"
  shows "wf_fs (AList.delete k t)"
  unfolding wf_fs_def
proof (intro conjI allI impI)
  show "distinct (map fst (AList.delete k t))"
    using wf by (simp add: wf_fs_def distinct_delete)
next
  fix q n assume q: "map_of (AList.delete k t) q = Some n"
  then have q': "map_of t q = Some n" and "q \<noteq> k"
    by (auto simp: map_of_AList_delete split: if_splits)
  with wf have names: "list_all name_ok q" and par: "parent_ok t q"
    by (auto simp: wf_fs_def)
  have "butlast q \<noteq> k" if "k \<noteq> []"
  proof
    assume eq: "butlast q = k"
    with par have "q = k @ [last q]" "node_at t k = Some DirNode"
      by (auto simp: parent_ok_def)
    with q' that leaf show False
      by (metis dir_entries_empty_iff node_at_def option.distinct(1))
  qed
  with names par show "list_all name_ok q" "parent_ok (AList.delete k t) q"
    by (cases "k = []"; auto simp: parent_ok_def node_at_def map_of_AList_delete)+
qed

lemma lookup_path_DirNode_map_of:
  "lookup_path t p = Some n \<Longrightarrow> comps p \<noteq> [] \<Longrightarrow> map_of t (comps p) = Some n"
  by (simp add: lookup_path_def node_at_def split: if_splits)

lemma wf_os_mkdir: "wf_fs t \<Longrightarrow> wf_fs (snd (os_mkdir e p t))"
  by (auto simp: os_mkdir_def intro!: wf_fs_update comps_names)

lemma wf_os_remove: "wf_fs t \<Longrightarrow> wf_fs (snd (os_remove e p t))"
  by (auto simp: os_remove_def lookup_path_def node_at_def
      split: option.splits node.splits if_splits intro!: wf_fs_delete)

lemma wf_os_rmdir: "wf_fs t \<Longrightarrow> wf_fs (snd (os_rmdir e p t))"
  by (auto simp: os_rmdir_def intro!: wf_fs_delete)

lemma parent_ok_existing: "wf_fs t \<Longrightarrow> map_of t k = Some n \<Longrightarrow> parent_ok t k"
  by (simp add: wf_fs_def)

lemma wf_os_copy_file:
  assumes "wf_fs t" shows "wf_fs (snd (os_copy_file e src dst t))"
proof -
  have "wf_fs (AList.update (comps dst) (FileNode c) t)"
    if "dst \<noteq> []" "lookup_path t dst \<noteq> Some DirNode"
      "lookup_path t dst = None \<longrightarrow> parent_ok t (comps dst)" for c
  proof (rule wf_fs_update [OF assms comps_names])
    show "parent_ok t (comps dst)"
      using that assms
      by (cases "lookup_path t dst")
        (auto simp: lookup_path_def node_at_def intro: parent_ok_existing split: if_splits)
    show "FileNode c = DirNode \<or> map_of t (comps dst) \<noteq> Some DirNode"
      using that by (auto simp: lookup_path_def node_at_def split: if_splits)
  qed
  with assms show ?thesis
    by (auto simp: os_copy_file_def split: option.splits node.splits copy_outcome.splits)
qed

lemma wf_os_open_write:
  assumes "wf_fs (files s)" shows "wf_fs (files (snd (os_open_write e p s)))"
  using assms
  by (auto simp: os_open_write_def Let_def node_at_def split: option.splits node.splits if_splits
      intro!: wf_fs_update comps_names)

lemma wf_os_write:
  assumes wf: "wf_fs (files s)" shows "wf_fs (files (snd (os_write e fd buf s)))"
proof -
  have "wf_fs (AList.update k (FileNode c) (files s))"
    if "node_at (files s) k = Some (FileNode c')" for k c c'
  proof (rule wf_fs_update [OF wf])
    from that have m: "map_of (files s) k = Some (FileNode c')"
      by (simp add: node_at_def split: if_splits)
    with wf show "list_all name_ok k" "parent_ok (files s) k"
      by (auto simp: wf_fs_def)
    from m show "FileNode c = DirNode \<or> map_of (files s) k \<noteq> Some DirNode" by simp
  qed
  with wf show ?thesis
    by (auto simp: os_write_def Let_def split: option.splits ofd.splits node.splits)
qed

section \<open>Descriptors\<close>

lemma fresh_fd_fresh: "fresh_fd tab \<notin> fst ` set tab"
proof -
  let ?P = "\<lambda>n. int n \<notin> set (map fst tab)"
  have "\<exists>n < Suc (length tab). ?P n"
  proof (rule ccontr)
    assume "\<not> ?thesis"
    then have "int ` {..< Suc (length tab)} \<subseteq> set (map fst tab)" by auto
    then have "card (int ` {..< Suc (length tab)}) \<le> card (set (map fst tab))"
      by (intro card_mono) auto
    also have "\<dots> \<le> length (map fst tab)" by (rule card_length)
    finally show False by (simp add: card_image)
  qed
  then have "find ?P [0 ..< Suc (length tab)] \<noteq> None"
    by (auto simp: find_None_iff simp del: upt_Suc)
  then obtain n where eq: "find ?P [0 ..< Suc (length tab)] = Some n" by auto
  then have "?P n" by (auto simp: find_Some_iff simp del: upt_Suc)
  moreover have "fresh_fd tab = int n"
    unfolding fresh_fd_def eq by simp
  ultimately show ?thesis by simp
qed

lemma fresh_fd_nonneg: "0 \<le> fresh_fd tab"
  by (simp add: fresh_fd_def split: option.split)

lemma delete_fresh: "fd \<notin> fst ` set tab \<Longrightarrow> AList.delete fd tab = tab"
  by (simp add: delete_idem)

text \<open>A file that is opened for reading and closed again leaves no trace. A stream of \<^verbatim>\<open>fopen\<close> is the descriptor it holds.\<close>

lemma os_open_read_closed:
  assumes "os_open_read e p s = (fd, s1)" "\<not> fd < 0"
  shows "os_close fd s1 = s"
  using assms delete_fresh [OF fresh_fd_fresh [of "fds s"]]
  by (auto simp: os_open_read_def os_close_def Let_def split: option.splits if_splits)

lemma os_open_read_fails: "fst (os_open_read e p s) < 0 \<longleftrightarrow> \<not> (open_ok e p \<and> os_access (files s) p)"
  using fresh_fd_nonneg [of "fds s"] by (auto simp: os_open_read_def os_access_def Let_def split: option.splits)

text \<open>Opening, looking at the file and closing.\<close>

lemma os_open_read_files: "os_open_read e p s = (fd, s1) \<Longrightarrow> files s1 = files s"
  by (auto simp: os_open_read_def Let_def split: option.splits if_splits)

lemma os_open_read_None: "os_open_read e p s = (fd, s1) \<Longrightarrow> fd < 0 \<Longrightarrow> s1 = s"
  using fresh_fd_nonneg [of "fds s"] by (auto simp: os_open_read_def Let_def split: option.splits if_splits)

lemma os_open_read_cases:
  obtains fd s1 where "os_open_read e p s = (fd, s1)" "fd < 0 \<longleftrightarrow> \<not> (open_ok e p \<and> os_access (files s) p)"
    "fd < 0 \<longrightarrow> s1 = s" "\<not> fd < 0 \<longrightarrow> os_close fd s1 = s" "files s1 = files s"
proof -
  obtain fd s1 where o1: "os_open_read e p s = (fd, s1)" by fastforce
  show thesis
    using os_open_read_fails [of e p s] os_open_read_closed [OF o1] os_open_read_files [OF o1] os_open_read_None [OF o1]
    by (intro that [OF o1] impI) (simp_all add: o1)
qed

end
