(* ===== verification/FileDeal.thy ===== *)
theory FileDeal
  imports FileSystem
begin

text \<open>
  \<^verbatim>\<open>utils/src/file_deal.cpp\<close>: the file helpers the service and the client share. A helper that
  only inspects the disk takes the tree \<open>t\<close>; one that changes it returns the new tree beside its
  result. \<open>DeleteDir\<close> recurses over the directory entries with a fuel bounded by the depth of the
  tree; \<open>DeleteDir_fuel_enough\<close> shows that the bound always suffices.
\<close>

section \<open>Inspecting and creating\<close>

definition IsDirExist :: "'e fs_env_scheme \<Rightarrow> fs \<Rightarrow> string \<Rightarrow> bool" where
  "IsDirExist e t path \<longleftrightarrow> os_opendir e t path"

definition Mkdir :: "'e fs_env_scheme \<Rightarrow> string \<Rightarrow> fs \<Rightarrow> bool \<times> fs" where
  "Mkdir e path t =
     (if \<not> IsDirExist e t path
      then (case os_mkdir e path t of (made, t') \<Rightarrow> if \<not> made then (False, t') else (True, t'))
      else (True, t))"

definition IsFileExist :: "fs \<Rightarrow> string \<Rightarrow> bool" where
  "IsFileExist t name \<longleftrightarrow> os_access t name"

definition DeleteFile :: "'e fs_env_scheme \<Rightarrow> string \<Rightarrow> fs \<Rightarrow> bool \<times> fs" where
  "DeleteFile e sourceFile t =
     (if \<not> IsFileExist t sourceFile then (True, t)
      else (case os_remove e sourceFile t of (removed, t') \<Rightarrow>
        if \<not> removed then (False, t') else (True, t')))"

definition PATH_MAX :: nat where "PATH_MAX = 4096"

text \<open>\<^verbatim>\<open>GetRealPath\<close>: \<open>Some\<close> carries the out-parameter of a true result.\<close>

definition GetRealPath :: "'e fs_env_scheme \<Rightarrow> fs \<Rightarrow> string \<Rightarrow> string option" where
  "GetRealPath e t inOriPath =
     (if length inOriPath > PATH_MAX then None
      else (case realpath_of e inOriPath of
              None \<Rightarrow> None
            | Some outRealPath \<Rightarrow>
                if \<not> IsFileExist t outRealPath then None
                else if outRealPath \<noteq> inOriPath then None
                else Some outRealPath))"

definition ForcedRefreshDisk :: "'e fs_env_scheme \<Rightarrow> fs \<Rightarrow> string \<Rightarrow> bool" where
  "ForcedRefreshDisk e t sourcePath =
     (case GetRealPath e t sourcePath of
        None \<Rightarrow> False
      | Some fileRealPath \<Rightarrow>
          if \<not> open_ok e fileRealPath then False
          else if \<not> flush_ok e fileRealPath then False
          else if \<not> sync_ok e fileRealPath then False
          else True)"

text \<open>A failed refresh is only logged.\<close>

definition CopyFile :: "'e fs_env_scheme \<Rightarrow> string \<Rightarrow> string \<Rightarrow> fs \<Rightarrow> bool \<times> fs" where
  "CopyFile e sourceFile newFile t =
     (case os_copy_file e sourceFile newFile t of (copied, t') \<Rightarrow>
        if \<not> copied then (False, t')
        else if \<not> ForcedRefreshDisk e t' newFile then (True, t')
        else (True, t'))"

definition IsFileExistInDir :: "'e fs_env_scheme \<Rightarrow> fs \<Rightarrow> string \<Rightarrow> bool" where
  "IsFileExistInDir e t path \<longleftrightarrow>
     (if \<not> os_opendir e t path then False
      else (case dir_entries t (comps path) of [] \<Rightarrow> False | _ # _ \<Rightarrow> True))"

section \<open>Deleting a directory\<close>

definition join_path :: "string \<Rightarrow> string \<Rightarrow> string" where
  "join_path path name =
     (if path \<noteq> [] \<and> last path \<noteq> CHR ''/'' then path @ ''/'' @ name else path @ name)"

fun DeleteDir_go :: "nat \<Rightarrow> 'e fs_env_scheme \<Rightarrow> string \<Rightarrow> bool \<Rightarrow> fs \<Rightarrow> (bool \<times> fs) option"
  and DeleteDir_entries ::
    "nat \<Rightarrow> 'e fs_env_scheme \<Rightarrow> string \<Rightarrow> string list \<Rightarrow> fs \<Rightarrow> (bool \<times> fs) option" where
  "DeleteDir_go 0 e path deleteRootDir t = None"
| "DeleteDir_go (Suc fuel) e path deleteRootDir t =
     (if \<not> os_opendir e t path then Some (False, t)
      else (case DeleteDir_entries fuel e path (dir_entries t (comps path)) t of
              None \<Rightarrow> None
            | Some (ok, t1) \<Rightarrow>
                if \<not> ok then Some (False, t1)
                else if deleteRootDir
                then (case os_rmdir e path t1 of (removed, t2) \<Rightarrow> Some (removed, t2))
                else Some (True, t1)))"
| "DeleteDir_entries fuel e path [] t = Some (True, t)"
| "DeleteDir_entries fuel e path (d_name # rest) t =
     (let fullPath = join_path path d_name in
      if lookup_path t fullPath = Some DirNode
      then (case DeleteDir_go fuel e fullPath True t of
              None \<Rightarrow> None
            | Some (ok, t1) \<Rightarrow>
                if \<not> ok then Some (False, t1) else DeleteDir_entries fuel e path rest t1)
      else (case os_remove e fullPath t of (removed, t1) \<Rightarrow>
              if \<not> removed then Some (False, t1) else DeleteDir_entries fuel e path rest t1))"

definition tree_depth :: "fs \<Rightarrow> nat" where
  "tree_depth t = foldr max (map (\<lambda>x. length (fst x)) t) 0"

definition DeleteDir :: "'e fs_env_scheme \<Rightarrow> string \<Rightarrow> bool \<Rightarrow> fs \<Rightarrow> bool \<times> fs" where
  "DeleteDir e path deleteRootDir t =
     (case DeleteDir_go (Suc (Suc (tree_depth t))) e path deleteRootDir t of
        Some r \<Rightarrow> r | None \<Rightarrow> (False, t))"

section \<open>Strings\<close>

fun find_last_of :: "char \<Rightarrow> string \<Rightarrow> nat option" where
  "find_last_of c [] = None"
| "find_last_of c (x # xs) =
     (case find_last_of c xs of
        Some i \<Rightarrow> Some (Suc i)
      | None \<Rightarrow> if x = c then Some 0 else None)"

definition tolower :: "char \<Rightarrow> char" where
  "tolower c =
     (let n = of_char c :: nat in if 65 \<le> n \<and> n \<le> 90 then char_of (n + 32) else c)"

definition GetExtension :: "string \<Rightarrow> string" where
  "GetExtension filePath =
     (let filename =
        (case find_last_of CHR ''/'' filePath of
           None \<Rightarrow> filePath
         | Some pos \<Rightarrow> if pos + 1 < length filePath then drop (pos + 1) filePath else filePath)
      in case find_last_of CHR ''.'' filename of
           None \<Rightarrow> ''''
         | Some pos \<Rightarrow>
             if pos + 1 < length filename then map tolower (drop pos filename) else '''')"

text \<open>\<^verbatim>\<open>std::filesystem::path::extension\<close>: the last dot of the file name starts the extension,
  unless it is the name's first character.\<close>

definition path_extension :: "string \<Rightarrow> string" where
  "path_extension p =
     (let filename = last (split_on CHR ''/'' p) in
      if filename = ''.'' \<or> filename = ''..'' then ''''
      else (case find_last_of CHR ''.'' filename of
              None \<Rightarrow> '''' | Some 0 \<Rightarrow> '''' | Some (Suc i) \<Rightarrow> drop (Suc i) filename))"

definition IsZipFile :: "fs \<Rightarrow> string \<Rightarrow> bool" where
  "IsZipFile t filePath =
     (case lookup_path t filePath of
        Some (FileNode _) \<Rightarrow> path_extension filePath = ''.zip''
      | _ \<Rightarrow> False)"

definition PATH_SIZE_MIX :: nat where "PATH_SIZE_MIX = 4"
definition SLICE_SIZE :: nat where "SLICE_SIZE = 2"
definition DEFAULT_ANONYMOUS :: string where "DEFAULT_ANONYMOUS = ''***''"

definition ToBeAnonymous :: "string \<Rightarrow> string" where
  "ToBeAnonymous path =
     (let pathVector = filter (\<lambda>x. x \<noteq> []) (split_on CHR ''/'' path) in
      if length pathVector \<le> PATH_SIZE_MIX then DEFAULT_ANONYMOUS
      else pathVector ! 0 @ ''/'' @ pathVector ! 1 @ ''/'' @ DEFAULT_ANONYMOUS @ ''/''
           @ pathVector ! (length pathVector - SLICE_SIZE) @ ''/'' @ last pathVector)"

section \<open>Lemmas: single calls\<close>

lemma comps_join_path: "comps (join_path p n) = comps p @ comps n"
proof (cases "p \<noteq> [] \<and> last p \<noteq> CHR ''/''")
  case True
  then show ?thesis by (simp add: join_path_def comps_append_slash)
next
  case False
  show ?thesis
  proof (cases "p = []")
    case True
    then show ?thesis by (simp add: join_path_def)
  next
    case ne: False
    with False have "p = butlast p @ [CHR ''/'']" by (metis append_butlast_last_id)
    then obtain r where r: "p = r @ [CHR ''/'']" by blast
    then have "join_path p n = r @ CHR ''/'' # n" by (simp add: join_path_def)
    moreover have "comps p = comps r"
      using comps_append_slash [of r "[]"] by (simp add: r)
    ultimately show ?thesis by (simp add: comps_append_slash)
  qed
qed

lemma comps_name_ok: "name_ok n \<Longrightarrow> comps n = [n]"
  by (simp add: name_ok_def comps_name)

lemma join_path_not_Nil: "name_ok n \<Longrightarrow> join_path p n \<noteq> []"
  by (auto simp: join_path_def name_ok_def)

lemma os_remove_le:
  "os_remove e p t = (r, t') \<Longrightarrow> map_of t' \<subseteq>\<^sub>m map_of t \<and> (\<forall>q. q \<noteq> comps p \<longrightarrow> map_of t' q = map_of t q)"
  by (auto simp: os_remove_def map_of_AList_delete map_le_def
      split: option.splits node.splits if_splits)

lemma os_remove_gone:
  "os_remove e p t = (True, t') \<Longrightarrow> comps p \<noteq> [] \<Longrightarrow> map_of t' (comps p) = None"
  by (auto simp: os_remove_def map_of_AList_delete split: option.splits node.splits if_splits)

lemma os_rmdir_le:
  "os_rmdir e p t = (r, t') \<Longrightarrow> map_of t' \<subseteq>\<^sub>m map_of t \<and> (\<forall>q. q \<noteq> comps p \<longrightarrow> map_of t' q = map_of t q)"
  by (auto simp: os_rmdir_def map_of_AList_delete map_le_def split: if_splits)

lemma os_rmdir_gone: "os_rmdir e p t = (True, t') \<Longrightarrow> map_of t' (comps p) = None"
  by (auto simp: os_rmdir_def map_of_AList_delete split: if_splits)

section \<open>Lemmas: DeleteDir\<close>

text \<open>Nothing outside the directory changes, nothing is added, the tree stays well formed.\<close>

definition shrinks_below :: "string list \<Rightarrow> fs \<Rightarrow> fs \<Rightarrow> bool" where
  "shrinks_below k t t' \<longleftrightarrow>
     map_of t' \<subseteq>\<^sub>m map_of t \<and> (\<forall>q. \<not> prefix k q \<longrightarrow> map_of t' q = map_of t q)
     \<and> (wf_fs t \<longrightarrow> wf_fs t')"

lemma shrinks_below_refl [simp]: "shrinks_below k t t"
  by (simp add: shrinks_below_def)

lemma shrinks_below_trans:
  "shrinks_below k t t1 \<Longrightarrow> shrinks_below k t1 t2 \<Longrightarrow> shrinks_below k t t2"
  by (auto simp: shrinks_below_def intro: map_le_trans)

lemma shrinks_below_mono: "shrinks_below (k @ l) t t' \<Longrightarrow> shrinks_below k t t'"
  by (auto simp: shrinks_below_def dest: append_prefixD)

lemma os_remove_shrinks: "os_remove e p t = (r, t') \<Longrightarrow> shrinks_below (comps p) t t'"
  using os_remove_le [of e p t r t'] wf_os_remove [of t e p]
  by (auto simp: shrinks_below_def)

lemma os_rmdir_shrinks: "os_rmdir e p t = (r, t') \<Longrightarrow> shrinks_below (comps p) t t'"
  using os_rmdir_le [of e p t r t'] wf_os_rmdir [of t e p]
  by (auto simp: shrinks_below_def)

lemma DeleteDir_go_shrinks:
  "DeleteDir_go fuel e p root t = Some (ok, t') \<Longrightarrow> shrinks_below (comps p) t t'"
  "DeleteDir_entries fuel e p ns t = Some (ok, t') \<Longrightarrow> shrinks_below (comps p) t t'"
proof (induction fuel e p root t and fuel e p ns t arbitrary: ok t' and ok t'
    rule: DeleteDir_go_DeleteDir_entries.induct)
  case (2 fuel e p root t)
  then show ?case
    by (fastforce split: if_splits option.splits prod.splits
        dest: os_rmdir_shrinks intro: shrinks_below_trans)
next
  case (4 fuel e p n rest t)
  let ?full = "join_path p n"
  have sub: "shrinks_below (comps ?full) t t1 \<Longrightarrow> shrinks_below (comps p) t t1" for t1
    by (simp add: comps_join_path shrinks_below_mono)
  show ?case
  proof (cases "lookup_path t ?full = Some DirNode")
    case True
    with 4 show ?thesis
      by (fastforce simp: Let_def split: option.splits prod.splits if_splits
          dest: sub intro: shrinks_below_trans)
  next
    case False
    with 4 show ?thesis
      by (fastforce simp: Let_def split: prod.splits if_splits
          dest: sub os_remove_shrinks intro: shrinks_below_trans)
  qed
qed auto

text \<open>The fuel is enough when it bounds the depth below the directory.\<close>

definition depth_le :: "fs \<Rightarrow> nat \<Rightarrow> bool" where
  "depth_le t d \<longleftrightarrow> (\<forall>q. map_of t q \<noteq> None \<longrightarrow> length q \<le> d)"

lemma depth_le_shrinks: "depth_le t d \<Longrightarrow> shrinks_below k t t' \<Longrightarrow> depth_le t' d"
  by (auto simp: depth_le_def shrinks_below_def map_le_def dom_def)

lemma depth_le_tree_depth: "depth_le t (tree_depth t)"
proof -
  have "length (fst x) \<le> foldr max (map (\<lambda>x. length (fst x)) t) 0" if "x \<in> set t" for x
    using that by (induction t) auto
  then show ?thesis
    by (fastforce simp: depth_le_def tree_depth_def dest: map_of_SomeD)
qed

lemma DeleteDir_go_total:
  "0 < fuel \<Longrightarrow> wf_fs t \<Longrightarrow> depth_le t (length (comps p) + (fuel - 1)) \<Longrightarrow>
     DeleteDir_go fuel e p root t \<noteq> None"
  "wf_fs t \<Longrightarrow> depth_le t (length (comps p) + fuel) \<Longrightarrow> list_all name_ok ns \<Longrightarrow>
     DeleteDir_entries fuel e p ns t \<noteq> None"
proof (induction fuel e p root t and fuel e p ns t
    rule: DeleteDir_go_DeleteDir_entries.induct)
  case (2 fuel e p root t)
  have "list_all name_ok (dir_entries t (comps p))"
    using 2 by (fastforce simp: list_all_iff in_dir_entries wf_fs_def)
  with 2 show ?case by (fastforce split: option.splits prod.splits)
next
  case (4 fuel e p n rest t)
  let ?full = "join_path p n"
  have n: "comps ?full = comps p @ [n]"
    using 4 by (simp add: comps_join_path comps_name_ok)
  have step: "shrinks_below k t t1 \<Longrightarrow> wf_fs t1 \<and> depth_le t1 (length (comps p) + fuel)" for k t1
    using 4 depth_le_shrinks by (auto simp: shrinks_below_def)
  show ?case
  proof (cases "lookup_path t ?full = Some DirNode")
    case True
    then have "map_of t (comps ?full) \<noteq> None"
      by (auto simp: n dest: lookup_path_DirNode_map_of)
    with "4.prems" have "0 < fuel"
      by (auto simp: depth_le_def n)
    moreover from this have "length (comps ?full) + (fuel - 1) = length (comps p) + fuel"
      by (simp add: n)
    ultimately obtain ok t1 where go: "DeleteDir_go fuel e ?full True t = Some (ok, t1)"
      using 4 True by fastforce
    then show ?thesis
      using 4 True step [OF DeleteDir_go_shrinks(1) [OF go]] by (cases ok) (auto simp: Let_def)
  next
    case False
    obtain r t1 where rm: "os_remove e ?full t = (r, t1)" by fastforce
    then show ?thesis
      using 4 False step [OF os_remove_shrinks [OF rm]] by (cases r) (auto simp: Let_def)
  qed
qed auto

lemma DeleteDir_fuel_enough:
  assumes "wf_fs t"
  shows "DeleteDir_go (Suc (Suc (tree_depth t))) e p root t = Some (DeleteDir e p root t)"
proof -
  have "depth_le t (length (comps p) + (Suc (Suc (tree_depth t)) - 1))"
    using depth_le_tree_depth [of t] by (fastforce simp: depth_le_def)
  then have "DeleteDir_go (Suc (Suc (tree_depth t))) e p root t \<noteq> None"
    using assms by (intro DeleteDir_go_total) auto
  then show ?thesis by (auto simp: DeleteDir_def)
qed

lemma DeleteDir_shrinks: "DeleteDir e p root t = (ok, t') \<Longrightarrow> shrinks_below (comps p) t t'"
  by (auto simp: DeleteDir_def simp del: DeleteDir_go.simps split: option.splits
      dest: DeleteDir_go_shrinks(1))

text \<open>A successful run leaves none of the listed entries, hence nothing below the directory.\<close>

lemma shrinks_below_None: "shrinks_below k t t' \<Longrightarrow> map_of t q = None \<Longrightarrow> map_of t' q = None"
  by (auto simp: shrinks_below_def map_le_def dom_def)

lemma DeleteDir_go_root_gone:
  "DeleteDir_go fuel e p True t = Some (True, t') \<Longrightarrow> map_of t' (comps p) = None"
  by (cases fuel) (auto split: if_splits option.splits prod.splits dest: os_rmdir_gone)

lemma DeleteDir_entries_gone:
  "DeleteDir_entries fuel e p ns t = Some (True, t') \<Longrightarrow> list_all name_ok ns \<Longrightarrow> n \<in> set ns \<Longrightarrow>
     map_of t' (comps p @ [n]) = None"
proof (induction ns arbitrary: t)
  case (Cons m rest)
  let ?full = "join_path p m"
  have full: "comps ?full = comps p @ [m]"
    using Cons.prems by (simp add: comps_join_path comps_name_ok)
  obtain t1 where rest: "DeleteDir_entries fuel e p rest t1 = Some (True, t')"
    and gone: "map_of t1 (comps ?full) = None"
    using Cons.prems(1)
    by (fastforce simp: Let_def full split: if_splits option.splits prod.splits
        dest: DeleteDir_go_root_gone os_remove_gone [of e ?full])
  show ?case
  proof (cases "n = m")
    case True
    with gone full DeleteDir_go_shrinks(2) [OF rest] show ?thesis
      by (simp add: shrinks_below_None)
  next
    case False
    with Cons.IH [OF rest] Cons.prems show ?thesis by simp
  qed
qed simp

lemma wf_fs_ancestor:
  "wf_fs t \<Longrightarrow> map_of t (k @ n # r) \<noteq> None \<Longrightarrow> map_of t (k @ [n]) \<noteq> None"
proof (induction r rule: rev_induct)
  case (snoc x r)
  then have "parent_ok t ((k @ n # r) @ [x])"
    by (auto simp: wf_fs_def simp flip: append_Cons append_assoc)
  then have "map_of t (k @ n # r) \<noteq> None"
    by (simp add: parent_ok_def node_at_def butlast_append split: if_splits)
  with snoc show ?case by blast
qed simp

lemma no_entries_no_descendants:
  assumes "wf_fs t" "dir_entries t k = []" "strict_prefix k q"
  shows "map_of t q = None"
proof -
  from \<open>strict_prefix k q\<close> obtain n r where "q = k @ n # r"
    by (rule strict_prefixE')
  with assms show ?thesis
    using wf_fs_ancestor by (fastforce simp: dir_entries_empty_iff)
qed

lemma entries_all_gone:
  assumes "shrinks_below k t t'" "\<And>n. n \<in> set (dir_entries t k) \<Longrightarrow> map_of t' (k @ [n]) = None"
  shows "dir_entries t' k = []"
proof -
  have "map_of t' (k @ [n]) = None" for n
    using assms shrinks_below_None [OF assms(1)] by (cases "n \<in> set (dir_entries t k)") (auto simp: in_dir_entries)
  then show ?thesis by (simp add: dir_entries_empty_iff)
qed

lemma dir_entries_names: "wf_fs t \<Longrightarrow> list_all name_ok (dir_entries t k)"
  by (fastforce simp: list_all_iff in_dir_entries wf_fs_def)

lemma DeleteDir_go_entries_empty:
  assumes "wf_fs t" "DeleteDir_entries fuel e p (dir_entries t (comps p)) t = Some (True, t1)"
  shows "dir_entries t1 (comps p) = []"
  using assms DeleteDir_go_shrinks(2) DeleteDir_entries_gone dir_entries_names
  by (blast intro: entries_all_gone)

lemma DeleteDir_success_empty:
  assumes wf: "wf_fs t" and del: "DeleteDir e p root t = (True, t')"
    and below: "prefix (comps p) q" "q \<noteq> comps p \<or> root"
  shows "map_of t' q = None"
proof -
  let ?fuel = "Suc (tree_depth t)"
  have go: "DeleteDir_go (Suc ?fuel) e p root t = Some (True, t')"
    using DeleteDir_fuel_enough [OF wf, of e p root] del by simp
  then obtain t1 where t1: "DeleteDir_entries ?fuel e p (dir_entries t (comps p)) t = Some (True, t1)"
    by (auto split: if_splits option.splits)
  have wf1: "wf_fs t1"
    using DeleteDir_go_shrinks(2) [OF t1] wf by (simp add: shrinks_below_def)
  have strict: "map_of t1 q = None" if "q \<noteq> comps p"
    using no_entries_no_descendants [OF wf1 DeleteDir_go_entries_empty [OF wf t1]] that below
    by (simp add: strict_prefix_def)
  show ?thesis
  proof (cases root)
    case False
    with go t1 have "t' = t1" by (auto split: if_splits)
    with False below strict show ?thesis by simp
  next
    case True
    with go t1 have rm: "os_rmdir e p t1 = (True, t')" by (auto split: if_splits prod.splits)
    show ?thesis
    proof (cases "q = comps p")
      case True
      with os_rmdir_gone [OF rm] show ?thesis by simp
    next
      case False
      with strict shrinks_below_None [OF os_rmdir_shrinks [OF rm]] show ?thesis by simp
    qed
  qed
qed

lemma DeleteDir_entries_keeps_dir:
  "DeleteDir_entries fuel e p ns t = Some (ok, t') \<Longrightarrow> list_all name_ok ns \<Longrightarrow>
     map_of t' (comps p) = map_of t (comps p)"
proof (induction ns arbitrary: t ok)
  case (Cons m rest)
  let ?full = "join_path p m"
  have same: "map_of t1 (comps p) = map_of t (comps p)" if "shrinks_below (comps ?full) t t1" for t1
    using that Cons.prems by (auto simp: shrinks_below_def comps_join_path comps_name_ok)
  obtain t1 ok1 where sh: "shrinks_below (comps ?full) t t1"
    and rest: "t' = t1 \<or> DeleteDir_entries fuel e p rest t1 = Some (ok1, t')"
    using Cons.prems(1)
    by (auto simp: Let_def split: if_splits option.splits prod.splits
        dest: DeleteDir_go_shrinks(1) os_remove_shrinks)
  from rest show ?case
  proof
    assume "DeleteDir_entries fuel e p rest t1 = Some (ok1, t')"
    with Cons.IH Cons.prems same [OF sh] show ?thesis by simp
  qed (use same [OF sh] in simp)
qed simp

text \<open>
  With no failure from outside the deletion succeeds.
\<close>

definition disk_ok :: "'e fs_env_scheme \<Rightarrow> bool" where
  "disk_ok e \<longleftrightarrow> (\<forall>p. opendir_ok e p \<and> mkdir_ok e p \<and> remove_ok e p \<and> rmdir_ok e p \<and> open_ok e p
     \<and> seek_ok e p \<and> copy_outcome_of e p = Copied)
   \<and> (\<forall>fd n. int n \<le> read_max e fd n \<and> int n \<le> write_max e fd n) \<and> (\<forall>n. alloc_ok e n)"

lemma disk_okD:
  assumes "disk_ok e"
  shows "opendir_ok e p" "mkdir_ok e p" "remove_ok e p" "rmdir_ok e p" "open_ok e p" "seek_ok e p"
    "copy_outcome_of e p = Copied" "int n \<le> read_max e fd n" "int n \<le> write_max e fd n"
    "alloc_ok e m"
  using assms by (auto simp: disk_ok_def)

lemma os_rmdir_empty:
  "disk_ok e \<Longrightarrow> os_opendir e t p \<Longrightarrow> comps p \<noteq> [] \<Longrightarrow> dir_entries t (comps p) = [] \<Longrightarrow>
     fst (os_rmdir e p t)"
  by (simp add: os_rmdir_def os_opendir_def disk_okD)

lemma dir_entries_distinct: "distinct (map fst t) \<Longrightarrow> distinct (dir_entries t k)"
proof -
  assume d: "distinct (map fst t)"
  have "inj_on last (set (filter (\<lambda>q. q \<noteq> [] \<and> butlast q = k) (map fst t)))"
    by (rule inj_onI) (auto, metis append_butlast_last_id)
  with d show ?thesis by (simp add: dir_entries_def distinct_map)
qed

lemma lookup_path_outside:
  "shrinks_below k t t' \<Longrightarrow> \<not> prefix k (comps p) \<Longrightarrow> lookup_path t' p = lookup_path t p"
  by (simp add: lookup_path_def node_at_def shrinks_below_def)

lemma DeleteDir_go_succeeds:
  "disk_ok e \<Longrightarrow> os_opendir e t p \<Longrightarrow> comps p \<noteq> [] \<Longrightarrow> wf_fs t \<Longrightarrow>
     DeleteDir_go fuel e p root t = Some (ok, t') \<Longrightarrow> ok"
  "disk_ok e \<Longrightarrow> wf_fs t \<Longrightarrow> comps p \<noteq> [] \<Longrightarrow> distinct ns \<Longrightarrow> list_all name_ok ns \<Longrightarrow>
     (\<forall>n \<in> set ns. map_of t (comps p @ [n]) \<noteq> None) \<Longrightarrow>
     DeleteDir_entries fuel e p ns t = Some (ok, t') \<Longrightarrow> ok"
proof (induction fuel e p root t and fuel e p ns t arbitrary: ok t' and ok t'
    rule: DeleteDir_go_DeleteDir_entries.induct)
  case (2 fuel e p root t)
  then obtain ok1 t1 where
    t1: "DeleteDir_entries fuel e p (dir_entries t (comps p)) t = Some (ok1, t1)"
    by (auto split: option.splits)
  have ok1: "ok1"
    using 2 t1 dir_entries_names [of t "comps p"] dir_entries_distinct [of t "comps p"]
    by (auto simp: wf_fs_def in_dir_entries)
  show ?case
  proof (cases root)
    case False
    with 2 t1 ok1 show ?thesis by auto
  next
    case True
    have empty: "dir_entries t1 (comps p) = []"
      using DeleteDir_go_entries_empty [of t fuel e p t1] 2 t1 ok1 by simp
    have "os_opendir e t1 p"
      using 2 DeleteDir_entries_keeps_dir [OF t1] dir_entries_names [of t "comps p"]
      by (auto simp: os_opendir_def lookup_path_def node_at_def split: if_splits)
    with empty 2 t1 ok1 True show ?thesis
      using os_rmdir_empty [of e t1 p] by (auto split: prod.splits)
  qed
next
  case (4 fuel e p n rest t)
  let ?full = "join_path p n"
  have full: "comps ?full = comps p @ [n]" and ne: "?full \<noteq> []"
    using 4 by (simp_all add: comps_join_path comps_name_ok join_path_not_Nil)
  have others: "\<forall>m \<in> set rest. map_of t1 (comps p @ [m]) \<noteq> None"
    if "shrinks_below (comps ?full) t t1" for t1
  proof
    fix m assume m: "m \<in> set rest"
    then have "\<not> prefix (comps ?full) (comps p @ [m])"
      using "4.prems" by (auto simp: full)
    then have "map_of t1 (comps p @ [m]) = map_of t (comps p @ [m])"
      using that by (simp add: shrinks_below_def)
    with m "4.prems" show "map_of t1 (comps p @ [m]) \<noteq> None" by simp
  qed
  show ?case
  proof (cases "lookup_path t ?full = Some DirNode")
    case True
    with 4 obtain ok1 t1 where t1: "DeleteDir_go fuel e ?full True t = Some (ok1, t1)"
      by (auto simp: Let_def split: option.splits)
    have ok1: "ok1"
      using 4 t1 True by (auto simp: os_opendir_def disk_okD full)
    have "wf_fs t1" "\<forall>m \<in> set rest. map_of t1 (comps p @ [m]) \<noteq> None"
      using 4 others DeleteDir_go_shrinks(1) [OF t1] by (simp_all add: shrinks_below_def)
    with "4.prems" True t1 ok1 "4.IH"(2) [of ?full "(ok1, t1)" ok1 t1] show ?thesis
      by (simp add: Let_def)
  next
    case False
    obtain r t1 where t1: "os_remove e ?full t = (r, t1)" by fastforce
    have "map_of t (comps ?full) \<noteq> None"
      using 4 full by simp
    then obtain c where "lookup_path t ?full = Some (FileNode c)"
      using False ne full by (auto simp: lookup_path_def node_at_def) (metis node.exhaust)
    then have r: "r"
      using t1 4 by (auto simp: os_remove_def disk_okD)
    have "wf_fs t1" "\<forall>m \<in> set rest. map_of t1 (comps p @ [m]) \<noteq> None"
      using 4 others os_remove_shrinks [OF t1] by (simp_all add: shrinks_below_def)
    with "4.prems" False t1 r "4.IH"(3) [of ?full r t1] show ?thesis
      by (simp add: Let_def)
  qed
qed auto

lemma DeleteDir_succeeds:
  assumes "disk_ok e" "wf_fs t" "os_opendir e t p" "comps p \<noteq> []"
  shows "fst (DeleteDir e p root t)"
proof -
  obtain ok t' where r: "DeleteDir e p root t = (ok, t')" by fastforce
  with DeleteDir_fuel_enough [OF assms(2), of e p root]
  have "DeleteDir_go (Suc (Suc (tree_depth t))) e p root t = Some (ok, t')" by simp
  with assms r show ?thesis
    using DeleteDir_go_succeeds(1) by fastforce
qed

section \<open>Effects on an undisturbed disk\<close>

lemma DeleteDir_clears:
  assumes "disk_ok e" and wf: "wf_fs t" and "os_opendir e t p" "comps p \<noteq> []"
  obtains t' where "DeleteDir e p False t = (True, t')" "wf_fs t'"
    "\<And>k. map_of t' k = (if strict_prefix (comps p) k then None else map_of t k)"
proof -
  obtain ok t' where r: "DeleteDir e p False t = (ok, t')" by fastforce
  with DeleteDir_succeeds [OF assms, of False] have r: "DeleteDir e p False t = (True, t')" by simp
  note sh = DeleteDir_shrinks [OF r]
  have "map_of t' (comps p) = map_of t (comps p)"
    using DeleteDir_fuel_enough [OF wf, of e p False] r dir_entries_names [OF wf, of "comps p"]
    by (auto split: if_splits option.splits dest: DeleteDir_entries_keeps_dir)
  moreover have "map_of t' k = None" if "strict_prefix (comps p) k" for k
    using DeleteDir_success_empty [OF wf r] that by (auto simp: strict_prefix_def)
  moreover have "map_of t' k = map_of t k" if "\<not> prefix (comps p) k" for k
    using sh that by (simp add: shrinks_below_def)
  ultimately have "map_of t' k = (if strict_prefix (comps p) k then None else map_of t k)" for k
    by (cases "k = comps p") (auto simp: strict_prefix_def)
  moreover have "wf_fs t'" using sh wf by (simp add: shrinks_below_def)
  ultimately show thesis using that r by blast
qed

lemma CopyFile_new:
  assumes "disk_ok e" "src \<noteq> ''''" "map_of t (comps src) = Some (FileNode c)" "comps src \<noteq> []"
    "dst \<noteq> ''''" "map_of t (comps dst) = None" "parent_ok t (comps dst)"
  obtains t' where "CopyFile e src dst t = (True, t')"
    "map_of t' = (map_of t)(comps dst \<mapsto> FileNode c)"
proof -
  have "comps src \<noteq> comps dst" using assms(3,6) by auto
  moreover have "comps dst \<noteq> []" using assms(7) by (simp add: parent_ok_def)
  ultimately show thesis
    using assms that
    by (auto simp: CopyFile_def os_copy_file_def lookup_path_def node_at_def disk_okD
        map_of_AList_update)
qed

lemma DeleteFile_file:
  assumes "disk_ok e" "p \<noteq> ''''" "comps p \<noteq> []" "map_of t (comps p) = Some (FileNode c)"
  obtains t' where "DeleteFile e p t = (True, t')" "map_of t' = (map_of t)(comps p := None)"
  using assms that
  by (auto simp: DeleteFile_def IsFileExist_def os_access_def os_remove_def lookup_path_def node_at_def
      disk_okD map_of_AList_delete)

lemma open_write_close:
  assumes "disk_ok e" "p \<noteq> ''''" "comps p \<noteq> []" "buf \<noteq> ''''"
    and node: "map_of (files s) (comps p) = Some (FileNode old) \<or>
          (map_of (files s) (comps p) = None \<and> parent_ok (files s) (comps p) \<and> old = '''')"
  obtains s1 s2 t where "os_open_write e p s = (fresh_fd (fds s), s1)"
    "os_write e (fresh_fd (fds s)) buf s1 = (int (length buf), s2)"
    "os_close (fresh_fd (fds s)) s2 = s\<lparr>files := t\<rparr>"
    "map_of t = (map_of (files s))(comps p \<mapsto> FileNode (overwrite 0 buf old))"
proof -
  let ?fd = "fresh_fd (fds s)" and ?k = "comps p"
  have full: "\<not> write_max e ?fd (length buf) < 0" "min (nat (write_max e ?fd (length buf))) (length buf) = length buf"
    using disk_okD(9) [OF assms(1), of "length buf" ?fd] by auto
  have del: "AList.delete ?fd (fds s) = fds s"
    using fresh_fd_fresh by (rule delete_fresh)
  from node show thesis
  proof
    assume old: "map_of (files s) ?k = Some (FileNode old)"
    show thesis
    proof (rule that)
      show "os_open_write e p s = (?fd, s\<lparr>fds := (?fd, WriteFd ?k 0) # fds s\<rparr>)"
        using assms old by (simp add: os_open_write_def Let_def disk_okD node_at_def)
      show "os_write e ?fd buf (s\<lparr>fds := (?fd, WriteFd ?k 0) # fds s\<rparr>) = (int (length buf),
          s\<lparr>files := AList.update ?k (FileNode (overwrite 0 buf old)) (files s),
            fds := (?fd, WriteFd ?k (length buf)) # fds s\<rparr>)"
        using assms(3) full old by (simp add: os_write_def Let_def node_at_def)
      show "map_of (AList.update ?k (FileNode (overwrite 0 buf old)) (files s))
          = (map_of (files s))(?k \<mapsto> FileNode (overwrite 0 buf old))"
        by (rule map_of_AList_update)
    qed (simp add: os_close_def del)
  next
    assume new: "map_of (files s) ?k = None \<and> parent_ok (files s) ?k \<and> old = ''''"
    let ?t = "AList.update ?k (FileNode []) (files s)"
    show thesis
    proof (rule that)
      show "os_open_write e p s = (?fd, s\<lparr>files := ?t, fds := (?fd, WriteFd ?k 0) # fds s\<rparr>)"
        using assms new by (simp add: os_open_write_def Let_def disk_okD node_at_def)
      show "os_write e ?fd buf (s\<lparr>files := ?t, fds := (?fd, WriteFd ?k 0) # fds s\<rparr>) =
          (int (length buf), s\<lparr>files := AList.update ?k (FileNode (overwrite 0 buf old)) ?t,
            fds := (?fd, WriteFd ?k (length buf)) # fds s\<rparr>)"
        using assms(3) full new by (simp add: os_write_def Let_def node_at_update)
      show "map_of (AList.update ?k (FileNode (overwrite 0 buf old)) ?t)
          = (map_of (files s))(?k \<mapsto> FileNode (overwrite 0 buf old))"
        by (simp add: map_of_AList_update)
    qed (simp add: os_close_def del)
  qed
qed

section \<open>Properties\<close>

text \<open>C23: \<^verbatim>\<open>DeleteDir\<close> terminates on every tree: the recursion never runs deeper than the tree,
  so the fuel of the model is never the reason for a result.\<close>

theorem DeleteDir_terminates:
  "wf_fs t \<Longrightarrow> tree_depth t + 2 \<le> fuel \<Longrightarrow>
     \<exists>r. DeleteDir_go fuel e p root t = Some r \<and>
         DeleteDir_go (Suc (Suc (tree_depth t))) e p root t = Some (DeleteDir e p root t)"
proof -
  assume wf: "wf_fs t" and fuel: "tree_depth t + 2 \<le> fuel"
  have "depth_le t (length (comps p) + (fuel - 1))"
    using depth_le_tree_depth [of t] fuel by (fastforce simp: depth_le_def)
  then have "DeleteDir_go fuel e p root t \<noteq> None"
    using wf fuel by (intro DeleteDir_go_total(1)) auto
  with DeleteDir_fuel_enough [OF wf, of e p root] show ?thesis by auto
qed

text \<open>C22: when \<^verbatim>\<open>DeleteDir\<close> reports success, nothing below the directory is left, the directory
  itself is gone exactly when its deletion was asked for, and nothing else changed.\<close>

theorem DeleteDir_success:
  assumes "wf_fs t" "DeleteDir e p root t = (True, t')"
  shows "wf_fs t' \<and> (\<forall>k. strict_prefix (comps p) k \<longrightarrow> map_of t' k = None) \<and>
    map_of t' (comps p) = (if root then None else map_of t (comps p)) \<and>
    (\<forall>k. \<not> prefix (comps p) k \<longrightarrow> map_of t' k = map_of t k)"
proof -
  note sh = DeleteDir_shrinks [OF assms(2)]
  have "map_of t' (comps p) = map_of t (comps p)" if "\<not> root"
    using DeleteDir_fuel_enough [OF assms(1), of e p root] assms(2) that
      dir_entries_names [OF assms(1), of "comps p"]
    by (auto split: if_splits option.splits dest: DeleteDir_entries_keeps_dir)
  moreover have "map_of t' (comps p) = None" if root
    using DeleteDir_success_empty [OF assms] that by simp
  moreover have "map_of t' k = None" if "strict_prefix (comps p) k" for k
    using DeleteDir_success_empty [OF assms, of k] that by (auto simp: strict_prefix_def)
  ultimately show ?thesis
    using sh assms(1) by (simp add: shrinks_below_def)
qed

lemma find_last_of_append:
  "find_last_of c (xs @ ys) =
     (case find_last_of c ys of Some i \<Rightarrow> Some (length xs + i) | None \<Rightarrow> find_last_of c xs)"
  by (induction xs) (auto split: option.splits)

lemma find_last_of_None: "find_last_of c xs = None \<longleftrightarrow> c \<notin> set xs"
  by (induction xs) (auto split: option.splits)

text \<open>The extension of a file name is its part from the last dot on, in lower case, whatever
  dots occur in the directories or earlier in the name.\<close>

theorem GetExtension_of_name:
  assumes "CHR ''/'' \<notin> set stem" "CHR ''/'' \<notin> set ext" "CHR ''.'' \<notin> set ext" "ext \<noteq> ''''"
  shows "GetExtension (dir @ ''/'' @ stem @ ''.'' @ ext) = ''.'' @ map tolower ext"
proof -
  let ?name = "stem @ CHR ''.'' # ext"
  have slash: "find_last_of CHR ''/'' (dir @ CHR ''/'' # ?name) = Some (length dir)"
    using assms(1,2) by (simp add: find_last_of_append find_last_of_None [THEN iffD2])
  have dot: "find_last_of CHR ''.'' ?name = Some (length stem)"
    using assms(3) by (simp add: find_last_of_append find_last_of_None [THEN iffD2])
  have "tolower CHR ''.'' = CHR ''.''" by code_simp
  with slash dot assms(4) show ?thesis by (simp add: GetExtension_def Let_def)
qed

theorem GetExtension_of_name_witness:
  "GetExtension (''/data/a.b'' @ ''/'' @ ''my.video'' @ ''.'' @ ''MP4'') = ''.'' @ map tolower ''MP4''"
  by (rule GetExtension_of_name) simp_all

text \<open>A logged path shows at most its first two and last two components: two paths that agree
  on these are printed alike, and a path of at most four components is not shown at all.\<close>

theorem ToBeAnonymous_hides:
  assumes "take 2 (comps p) = take 2 (comps q)"
    and "drop (length (comps p) - 2) (comps p) = drop (length (comps q) - 2) (comps q)"
    and "4 < length (comps p) \<longleftrightarrow> 4 < length (comps q)"
  shows "ToBeAnonymous p = ToBeAnonymous q \<and>
    (length (comps p) \<le> 4 \<longrightarrow> ToBeAnonymous p = ''***'')"
proof
  have tops: "xs ! 0 = take 2 xs ! 0 \<and> xs ! 1 = take 2 xs ! 1 \<and>
      xs ! (length xs - 2) = drop (length xs - 2) xs ! 0 \<and> last xs = last (drop (length xs - 2) xs)"
    if "4 < length xs" for xs :: "string list"
    using that by simp
  have eq: "ToBeAnonymous p = (if length (comps p) \<le> 4 then ''***''
      else comps p ! 0 @ ''/'' @ comps p ! 1 @ ''/'' @ ''***'' @ ''/''
        @ comps p ! (length (comps p) - 2) @ ''/'' @ last (comps p))" for p
    by (simp add: ToBeAnonymous_def comps_def PATH_SIZE_MIX_def SLICE_SIZE_def DEFAULT_ANONYMOUS_def Let_def)
  show "ToBeAnonymous p = ToBeAnonymous q"
  proof (cases "4 < length (comps p)")
    case True
    with assms tops [of "comps p"] tops [of "comps q"]
    have "comps p ! 0 = comps q ! 0" "comps p ! 1 = comps q ! 1"
      "comps p ! (length (comps p) - 2) = comps q ! (length (comps q) - 2)"
      "last (comps p) = last (comps q)"
      by metis+
    with True assms(3) show ?thesis unfolding eq by simp
  next
    case False
    with assms(3) show ?thesis unfolding eq by simp
  qed
  show "length (comps p) \<le> 4 \<longrightarrow> ToBeAnonymous p = ''***''"
    unfolding eq by simp
qed

text \<open>A small tree for the witnesses.\<close>

definition small_tree :: fs where
  "small_tree = [([''a''], DirNode), ([''a'', ''b''], DirNode), ([''a'', ''b'', ''c''], FileNode ''x''),
     ([''d''], FileNode ''y'')]"

definition calm_env :: fs_env where
  "calm_env = \<lparr>opendir_ok = (\<lambda>_. True), mkdir_ok = (\<lambda>_. True), remove_ok = (\<lambda>_. True),
     rmdir_ok = (\<lambda>_. True), open_ok = (\<lambda>_. True), seek_ok = (\<lambda>_. True), flush_ok = (\<lambda>_. True),
     sync_ok = (\<lambda>_. True), copy_outcome_of = (\<lambda>_. Copied), read_max = (\<lambda>_ n. int n),
     write_max = (\<lambda>_ n. int n), alloc_ok = (\<lambda>_. True), realpath_of = Some\<rparr>"

lemma wf_fs_list:
  "wf_fs t \<longleftrightarrow> distinct (map fst t) \<and> list_all (\<lambda>(k, _). list_all name_ok k \<and> parent_ok t k) t"
proof -
  have "(\<forall>k n. map_of t k = Some n \<longrightarrow> P k) \<longleftrightarrow> list_all (\<lambda>(k, _). P k) t" for P
  proof -
    have "(\<forall>k n. map_of t k = Some n \<longrightarrow> P k) \<longleftrightarrow> (\<forall>k \<in> dom (map_of t). P k)" by auto
    then show ?thesis by (auto simp: dom_map_of_conv_image_fst list_all_iff)
  qed
  then show ?thesis by (simp add: wf_fs_def)
qed

lemma small_tree_wf: "wf_fs small_tree"
  by (simp add: wf_fs_list small_tree_def parent_ok_def node_at_def name_ok_def)

lemma calm_env_ok: "disk_ok calm_env"
  by (simp add: disk_ok_def calm_env_def)

theorem DeleteDir_terminates_witness:
  "\<exists>r. DeleteDir_go 9 calm_env ''/a'' True small_tree = Some r"
proof -
  have "tree_depth small_tree + 2 \<le> 9" by (simp add: tree_depth_def small_tree_def)
  from DeleteDir_terminates [OF small_tree_wf this] show ?thesis by blast
qed

theorem DeleteDir_success_witness:
  "map_of (snd (DeleteDir calm_env ''/a'' True small_tree)) [''a'', ''b'', ''c''] = None \<and>
   map_of (snd (DeleteDir calm_env ''/a'' True small_tree)) [''d''] = Some (FileNode ''y'')"
proof -
  have c: "comps ''/a'' = [''a'']" by (simp add: comps_def)
  have "fst (DeleteDir calm_env ''/a'' True small_tree)"
    by (rule DeleteDir_succeeds [OF calm_env_ok small_tree_wf])
      (simp_all add: os_opendir_def lookup_path_def node_at_def c small_tree_def calm_env_def)
  then have "DeleteDir calm_env ''/a'' True small_tree
      = (True, snd (DeleteDir calm_env ''/a'' True small_tree))"
    by (metis prod.collapse)
  from DeleteDir_success [OF small_tree_wf this] show ?thesis
    by (auto simp: c small_tree_def)
qed

theorem ToBeAnonymous_hides_witness:
  "ToBeAnonymous ''/data/service/el1/public/100/home'' = ToBeAnonymous ''/data/service/x/100/home'' \<and>
   ToBeAnonymous ''/a/b'' = ''***''"
  using ToBeAnonymous_hides [of "''/data/service/el1/public/100/home''" "''/data/service/x/100/home''"]
    ToBeAnonymous_hides [of "''/a/b''" "''/a/b''"]
  by (simp add: comps_def)

lemma wf_fs_absent:
  assumes "wf_fs t" "map_of t k = None" "k \<noteq> []" "prefix k q"
  shows "map_of t q = None"
proof -
  obtain r where q: "q = k @ r" using assms(4) by (rule prefixE)
  have k: "k = butlast k @ [last k]" using assms(3) by simp
  then have "q = butlast k @ last k # r" using q by (metis append.assoc append_Cons append_Nil)
  show ?thesis
  proof (rule ccontr)
    assume "map_of t q \<noteq> None"
    then have "map_of t (butlast k @ [last k]) \<noteq> None"
      using wf_fs_ancestor [OF assms(1)] \<open>q = butlast k @ last k # r\<close> by metis
    then show False using k [symmetric] assms(2) by simp
  qed
qed

lemma DeleteDir_root:
  assumes "disk_ok e" and wf: "wf_fs t" and "os_opendir e t p" and ne: "comps p \<noteq> []"
  obtains t' where "DeleteDir e p True t = (True, t')" "wf_fs t'"
    "\<forall>k. map_of t' k = (if prefix (comps p) k then None else map_of t k)"
proof -
  have "fst (DeleteDir e p True t)" using DeleteDir_succeeds [OF assms] .
  then obtain t' where r: "DeleteDir e p True t = (True, t')" by (metis prod.collapse)
  note sh = DeleteDir_shrinks [OF r]
  show thesis
  proof (rule that [OF r])
    show "wf_fs t'" using sh wf by (simp add: shrinks_below_def)
    show "\<forall>k. map_of t' k = (if prefix (comps p) k then None else map_of t k)"
      using DeleteDir_success_empty [OF wf r] sh by (simp add: shrinks_below_def)
  qed
qed

end
