(* ===== verification/WallpaperTypes.thy ===== *)
theory WallpaperTypes
  imports Prelude
begin

text \<open>
  The data the components exchange: \<^verbatim>\<open>utils/include/wallpaper_manager_common_info.h\<close>,
  \<^verbatim>\<open>utils/include/wallpaper_common.h\<close>, \<^verbatim>\<open>utils/dfx/hisysevent_adapter/dfx_types.h\<close> and
  \<^verbatim>\<open>services/include/wallpaper_data.h\<close>. An enumeration is a datatype; the \<open>_value\<close> functions
  give the integers that cross a process boundary, and the \<open>to_\<close> functions read them back.
\<close>

section \<open>Enumerations\<close>

datatype WallpaperType = WALLPAPER_SYSTEM | WALLPAPER_LOCKSCREEN

definition WallpaperType_value :: "WallpaperType \<Rightarrow> int32" where
  "WallpaperType_value w = (case w of WALLPAPER_SYSTEM \<Rightarrow> 0 | WALLPAPER_LOCKSCREEN \<Rightarrow> 1)"

text \<open>\<^verbatim>\<open>static_cast<WallpaperType>\<close> of an integer; \<open>None\<close> outside the enumeration. The
  handlers cast only after they have compared the integer with both enumerators.\<close>

definition to_WallpaperType :: "int32 \<Rightarrow> WallpaperType option" where
  "to_WallpaperType i =
     (if i = 0 then Some WALLPAPER_SYSTEM else if i = 1 then Some WALLPAPER_LOCKSCREEN else None)"

datatype WallpaperResourceType = DEFAULT | PICTURE | VIDEO | PACKAGE

definition WallpaperResourceType_value :: "WallpaperResourceType \<Rightarrow> int32" where
  "WallpaperResourceType_value r =
     (case r of DEFAULT \<Rightarrow> 0 | PICTURE \<Rightarrow> 1 | VIDEO \<Rightarrow> 2 | PACKAGE \<Rightarrow> 3)"

definition to_WallpaperResourceType :: "int32 \<Rightarrow> WallpaperResourceType option" where
  "to_WallpaperResourceType i =
     (if i = 0 then Some DEFAULT else if i = 1 then Some PICTURE
      else if i = 2 then Some VIDEO else if i = 3 then Some PACKAGE else None)"

datatype FoldState = NORMAL | UNFOLD_1 | UNFOLD_2

definition FoldState_value :: "FoldState \<Rightarrow> int32" where
  "FoldState_value f = (case f of NORMAL \<Rightarrow> 0 | UNFOLD_1 \<Rightarrow> 1 | UNFOLD_2 \<Rightarrow> 2)"

datatype RotateState = PORT | LAND

definition RotateState_value :: "RotateState \<Rightarrow> int32" where
  "RotateState_value r = (case r of PORT \<Rightarrow> 0 | LAND \<Rightarrow> 1)"

lemma to_WallpaperType_value [simp]: "to_WallpaperType (WallpaperType_value w) = Some w"
  by (cases w) (simp_all add: to_WallpaperType_def WallpaperType_value_def)

lemma to_WallpaperType_Some: "to_WallpaperType i = Some w \<longleftrightarrow> i = WallpaperType_value w"
  by (cases w) (auto simp: to_WallpaperType_def WallpaperType_value_def)

lemma to_WallpaperType_None: "to_WallpaperType i = None \<longleftrightarrow> i \<noteq> 0 \<and> i \<noteq> 1"
  by (simp add: to_WallpaperType_def)

lemma to_WallpaperResourceType_value [simp]:
  "to_WallpaperResourceType (WallpaperResourceType_value r) = Some r"
  by (cases r) (simp_all add: to_WallpaperResourceType_def WallpaperResourceType_value_def)

section \<open>Error codes\<close>

datatype ErrorCode =
  NO_ERROR | E_OK | E_SA_DIED | E_READ_PARCEL_ERROR | E_WRITE_PARCEL_ERROR | E_PUBLISH_FAIL
| E_TRANSACT_ERROR | E_DEAL_FAILED | E_PARAMETERS_INVALID | E_SET_RTC_FAILED | E_NOT_FOUND
| E_NO_PERMISSION | E_FILE_ERROR | E_IMAGE_ERRCODE | E_NO_MEMORY | E_NOT_SYSTEM_APP
| E_USER_IDENTITY_ERROR | E_CHECK_DESCRIPTOR_ERROR | E_PICTURE_OVERSIZED | E_UNKNOWN

text \<open>
  The number of an error code. \<^verbatim>\<open>NO_ERROR\<close> is 0; the others count up from the base of the
  subsystem, \<^verbatim>\<open>ErrCodeOffset(SUBSYS_SMALLSERVICES, 7)\<close>, which a system header computes and
  is the argument \<open>off\<close> here.
\<close>

definition ErrorCode_value :: "int \<Rightarrow> ErrorCode \<Rightarrow> int32" where
  "ErrorCode_value off e =
     (case e of NO_ERROR \<Rightarrow> 0 | E_OK \<Rightarrow> off | E_SA_DIED \<Rightarrow> off + 1 | E_READ_PARCEL_ERROR \<Rightarrow> off + 2
      | E_WRITE_PARCEL_ERROR \<Rightarrow> off + 3 | E_PUBLISH_FAIL \<Rightarrow> off + 4 | E_TRANSACT_ERROR \<Rightarrow> off + 5
      | E_DEAL_FAILED \<Rightarrow> off + 6 | E_PARAMETERS_INVALID \<Rightarrow> off + 7 | E_SET_RTC_FAILED \<Rightarrow> off + 8
      | E_NOT_FOUND \<Rightarrow> off + 9 | E_NO_PERMISSION \<Rightarrow> off + 10 | E_FILE_ERROR \<Rightarrow> off + 11
      | E_IMAGE_ERRCODE \<Rightarrow> off + 12 | E_NO_MEMORY \<Rightarrow> off + 13 | E_NOT_SYSTEM_APP \<Rightarrow> off + 14
      | E_USER_IDENTITY_ERROR \<Rightarrow> off + 15 | E_CHECK_DESCRIPTOR_ERROR \<Rightarrow> off + 16
      | E_PICTURE_OVERSIZED \<Rightarrow> off + 17 | E_UNKNOWN \<Rightarrow> off + 18)"

lemma ErrorCode_value_inj:
  "0 < off \<Longrightarrow> ErrorCode_value off a = ErrorCode_value off b \<longleftrightarrow> a = b"
  by (cases a; cases b) (simp_all add: ErrorCode_value_def)

section \<open>Faults\<close>

datatype FaultType = SERVICE_FAULT | SET_WALLPAPER_FAULT | LOAD_WALLPAPER_FAULT

datatype FaultCode =
  SF_SERVICE_UNAVAILABLE | SF_SERVICE_SUBSCRIBECOMMINEVENT | SF_STARTABILITY_FAILED
| RF_DROP_FAILED | RF_FD_INPUT_FAILED

section \<open>Records\<close>

text \<open>\<^verbatim>\<open>ComponentName\<close>, the package and class of a live wallpaper.\<close>

record ComponentName =
  package_name :: string
  class_name :: string

definition ComponentName_empty :: ComponentName where
  "ComponentName_empty = \<lparr>package_name = '''', class_name = ''''\<rparr>"

definition SetComponentInfo :: "string \<Rightarrow> string \<Rightarrow> ComponentName \<Rightarrow> ComponentName" where
  "SetComponentInfo pkg cls c = c\<lparr>package_name := pkg, class_name := cls\<rparr>"

definition ComponentName_equals :: "ComponentName \<Rightarrow> ComponentName \<Rightarrow> bool" where
  "ComponentName_equals c obj \<longleftrightarrow> package_name c = package_name obj \<and> class_name c = class_name obj"

record WallpaperData =
  userId :: int32
  wallpaperFile :: string
  normalLandFile :: string
  unfoldedOnePortFile :: string
  unfoldedOneLandFile :: string
  unfoldedTwoPortFile :: string
  unfoldedTwoLandFile :: string
  liveWallpaperFile :: string
  customPackageUri :: string
  cropFile :: string
  data_name :: string
  wallpaperId :: int32
  allowBackup :: bool
  resourceType :: WallpaperResourceType
  wallpaperComponent :: ComponentName

definition WallpaperData_default :: WallpaperData where
  "WallpaperData_default =
     \<lparr>userId = 0, wallpaperFile = '''', normalLandFile = '''', unfoldedOnePortFile = '''',
      unfoldedOneLandFile = '''', unfoldedTwoPortFile = '''', unfoldedTwoLandFile = '''',
      liveWallpaperFile = '''', customPackageUri = '''', cropFile = '''', data_name = '''',
      wallpaperId = - 1, allowBackup = False, resourceType = DEFAULT,
      wallpaperComponent = ComponentName_empty\<rparr>"

definition WallpaperData_make :: "int32 \<Rightarrow> string \<Rightarrow> WallpaperData" where
  "WallpaperData_make uid fileName =
     WallpaperData_default\<lparr>userId := uid, wallpaperFile := fileName\<rparr>"

record WallpaperPictureInfo =
  foldState :: FoldState
  rotateState :: RotateState
  pic_fd :: int32
  pic_length :: int32
  tempPath :: string

record WallpaperInfo =
  info_foldState :: FoldState
  info_rotateState :: RotateState
  source :: string

record ApiInfo =
  needException :: bool
  isSystemApi :: bool

end
