(* ===== verification/ServiceState.thy ===== *)
theory ServiceState
  imports Dump FileDeal WallpaperTypes
begin

text \<open>
  The state of \<^verbatim>\<open>WallpaperService\<close> (the data members of \<^verbatim>\<open>wallpaper_service.h\<close>, on top of the
  files and descriptors of its process), the environment a handler runs in, and the calls that
  leave the process, recorded in order in \<open>effects\<close>. A handler holds the mutexes of the code
  over the same state it touches here and is one step of the model.

  Libraries whose code is not in the repository are fields of \<open>env\<close>: the access token and
  account managers, the image and colour codecs, cJSON, the configuration policy, the ability
  and common event managers. Objects they hand out (a parsed JSON item, an image source, a
  pixel map, a remote object) are handles of type \<open>nat\<close>; a null pointer is \<open>None\<close>.
\<close>

section \<open>The environment\<close>

type_synonym handle = nat

record env = fs_env +
  \<comment> \<open>the caller of the handler\<close>
  CallingTokenID :: int
  CallingIsSystemApp :: bool
  CallingIsNative :: bool
  PermissionGranted :: "string \<Rightarrow> bool"
  \<comment> \<open>OsAccountManager; None is a failed query\<close>
  ActiveOsAccountIds :: "int32 list option"
  AllCreatedOsAccounts :: "int32 list option"
  OsAccountIsGuest :: "int32 \<Rightarrow> bool option"
  SceneBoardEnabled :: bool
  \<comment> \<open>configuration policy: the paths array of GetCfgFiles, with its null entries\<close>
  CfgFiles :: "string option list option"
  \<comment> \<open>cJSON\<close>
  cJSON_Parse :: "string \<Rightarrow> handle option"
  cJSON_GetObjectItemCaseSensitive :: "handle \<Rightarrow> string \<Rightarrow> handle option"
  cJSON_IsNumber :: "handle \<Rightarrow> bool"
  cJSON_valueint :: "handle \<Rightarrow> int32"
  cJSON_IsString :: "handle \<Rightarrow> bool"
  cJSON_valuestring :: "handle \<Rightarrow> string"
  cJSON_IsObject :: "handle \<Rightarrow> bool"
  cJSON_PrintNumbers :: "(string \<times> int32) list \<Rightarrow> string option"
  \<comment> \<open>image framework: source of a file, its size, the decoded picture, its main colour\<close>
  ImageSourceOf :: "string \<Rightarrow> string option \<Rightarrow> handle option"
  ImageSizeOf :: "handle \<Rightarrow> int32 \<times> int32"
  DecodePixelMap :: "handle \<Rightarrow> (int32 \<times> int32) option \<Rightarrow> handle option"
  ColorPickerOf :: "handle \<Rightarrow> handle option"
  MainColorOf :: "handle \<Rightarrow> uint64 option"
  DecodeTlv :: "string \<Rightarrow> handle option"
  PackJpeg :: "handle \<Rightarrow> string \<times> int"
  \<comment> \<open>system ability, ability and common event managers\<close>
  PublishOk :: bool
  SubscribeOk :: bool
  AbilityManagerConnect :: int
  ConnectExtension :: int
  RemoteObjectDead :: "handle \<Rightarrow> bool"
  COMMON_EVENT_SERVICE_ID :: int32
  MEMORY_MANAGER_SA_ID :: int32
  COMMON_EVENT_USER_ADDED :: string
  COMMON_EVENT_USER_REMOVED :: string
  COMMON_EVENT_USER_SWITCHED :: string

section \<open>The state\<close>

text \<open>Work posted to the service's event handler, with its delay in milliseconds.\<close>

datatype task =
  TaskInit
| TaskRegisterSubscriber int32
| TaskInitQueryUserId int32
| TaskStartExtensionAbility int32

datatype effect =
  PublishCommonEvent string int32 string "(string \<times> int32) list"
| CallbackOnCall handle WallpaperType
| ListenerOnWallpaperChange handle WallpaperType WallpaperResourceType string
| ListenerOnColorsChange handle "uint64 list" WallpaperType
| ReportedFault FaultType FaultCode
| NotifiedProcessStatus int32
| AddedDeathRecipient handle
| RemovedDeathRecipient handle
| SubscribedCommonEvent
| UnsubscribedCommonEvent
| DereferencedNull

type_synonym WallpaperMap = "(int32, WallpaperData) stdmap"

record service = os_state +
  running :: bool
  wallpaperTmpFullPath :: string
  wallpaperCropPath :: string
  systemWallpaperMap :: WallpaperMap
  lockWallpaperMap :: WallpaperMap
  wallpaperIdCounter :: int32
  callbackProxy :: "handle option"
  subscriber :: bool
  connection :: bool
  recipient :: bool
  extensionRemoteObject :: "handle option"
  lockWallpaperColor :: uint64
  systemWallpaperColor :: uint64
  wallpaperEventMap :: "(string, (int32, handle option) stdmap) stdmap"
  currentUserId :: int32
  appBundleName :: string
  serviceHandler :: "(task \<times> int) list option"
  cmdHandler :: "(string, Command) stdmap"
  effects :: "effect list"

definition emit :: "effect \<Rightarrow> service \<Rightarrow> service" where
  "emit x s = s\<lparr>effects := effects s @ [x]\<rparr>"

text \<open>Running a file helper on the files of the service.\<close>

definition on_files :: "(fs \<Rightarrow> bool \<times> fs) \<Rightarrow> service \<Rightarrow> bool \<times> service" where
  "on_files f s = (case f (files s) of (ok, t) \<Rightarrow> (ok, s\<lparr>files := t\<rparr>))"

text \<open>The two wallpaper maps, selected as the code's conditional expressions do.\<close>

definition wallpaper_map :: "WallpaperType \<Rightarrow> service \<Rightarrow> WallpaperMap" where
  "wallpaper_map w s =
     (if w = WALLPAPER_SYSTEM then systemWallpaperMap s else lockWallpaperMap s)"

definition set_wallpaper_map :: "WallpaperType \<Rightarrow> WallpaperMap \<Rightarrow> service \<Rightarrow> service" where
  "set_wallpaper_map w m s =
     (if w = WALLPAPER_SYSTEM then s\<lparr>systemWallpaperMap := m\<rparr> else s\<lparr>lockWallpaperMap := m\<rparr>)"

definition find_wallpaper :: "WallpaperType \<Rightarrow> int32 \<Rightarrow> service \<Rightarrow> bool \<times> WallpaperData" where
  "find_wallpaper w u s = Find WallpaperData_default (wallpaper_map w s) u"

definition insert_wallpaper ::
  "WallpaperType \<Rightarrow> int32 \<Rightarrow> WallpaperData \<Rightarrow> service \<Rightarrow> service" where
  "insert_wallpaper w u d s =
     set_wallpaper_map w (snd (InsertOrAssign u d (wallpaper_map w s))) s"

definition erase_wallpaper :: "WallpaperType \<Rightarrow> int32 \<Rightarrow> service \<Rightarrow> service" where
  "erase_wallpaper w u s = set_wallpaper_map w (snd (Erase u (wallpaper_map w s))) s"

text \<open>What the maps hold for a user: the view the properties are stated in.\<close>

definition entry :: "WallpaperType \<Rightarrow> int32 \<Rightarrow> service \<Rightarrow> WallpaperData option" where
  "entry w u s = map_of (wallpaper_map w s) u"

section \<open>Constants of the service\<close>

definition WALLPAPER_USERID_PATH :: string where
  "WALLPAPER_USERID_PATH = ''/data/service/el1/public/wallpaper/''"
definition WALLPAPER_SYSTEM_DIRNAME :: string where "WALLPAPER_SYSTEM_DIRNAME = ''system''"
definition WALLPAPER_LOCKSCREEN_DIRNAME :: string where
  "WALLPAPER_LOCKSCREEN_DIRNAME = ''lockscreen''"
definition WALLPAPER_TMP_DIRNAME :: string where "WALLPAPER_TMP_DIRNAME = ''fwsettmp''"
definition WALLPAPER_CROP_PICTURE :: string where "WALLPAPER_CROP_PICTURE = ''crop_file''"
definition WALLPAPER_SYSTEM_ORIG :: string where "WALLPAPER_SYSTEM_ORIG = ''wallpaper_system_orig''"
definition WALLPAPER_HOME :: string where "WALLPAPER_HOME = ''wallpaper_home''"
definition WALLPAPER_LOCK_ORIG :: string where "WALLPAPER_LOCK_ORIG = ''wallpaper_lock_orig''"
definition WALLPAPER_LOCK :: string where "WALLPAPER_LOCK = ''wallpaper_lock''"
definition LIVE_WALLPAPER_SYSTEM_ORIG :: string where
  "LIVE_WALLPAPER_SYSTEM_ORIG = ''live_wallpaper_system_orig''"
definition LIVE_WALLPAPER_LOCK_ORIG :: string where
  "LIVE_WALLPAPER_LOCK_ORIG = ''live_wallpaper_lock_orig''"
definition CUSTOM_WALLPAPER_LOCK :: string where "CUSTOM_WALLPAPER_LOCK = ''custom_lock.zip''"
definition CUSTOM_WALLPAPER_SYSTEM :: string where "CUSTOM_WALLPAPER_SYSTEM = ''custom_system.zip''"
definition SCENEBOARD_BUNDLE_NAME :: string where "SCENEBOARD_BUNDLE_NAME = ''com.ohos.sceneboard''"
definition SHOW_SYSTEM_SCREEN :: string where "SHOW_SYSTEM_SCREEN = ''SHOW_SYSTEMSCREEN''"
definition SHOW_LOCK_SCREEN :: string where "SHOW_LOCK_SCREEN = ''SHOW_LOCKSCREEN''"
definition SYSTEM_RES_TYPE :: string where "SYSTEM_RES_TYPE = ''SystemResType''"
definition LOCKSCREEN_RES_TYPE :: string where "LOCKSCREEN_RES_TYPE = ''LockScreenResType''"
definition WALLPAPER_CHANGE :: string where "WALLPAPER_CHANGE = ''wallpaperChange''"
definition COLOR_CHANGE :: string where "COLOR_CHANGE = ''colorChange''"
definition WALLPAPER_DEFAULT_FILEFULLPATH :: string where
  "WALLPAPER_DEFAULT_FILEFULLPATH = ''/system/etc/wallpaperdefault.jpeg''"
definition WALLPAPER_DEFAULT_LOCK_FILEFULLPATH :: string where
  "WALLPAPER_DEFAULT_LOCK_FILEFULLPATH = ''/system/etc/wallpaperlockdefault.jpeg''"
definition PERMISSION_GET_WALLPAPER :: string where
  "PERMISSION_GET_WALLPAPER = ''ohos.permission.GET_WALLPAPER''"
definition PERMISSION_SET_WALLPAPER :: string where
  "PERMISSION_SET_WALLPAPER = ''ohos.permission.SET_WALLPAPER''"
definition DEFAULT_WALLPAPER_ID :: int32 where "DEFAULT_WALLPAPER_ID = - 1"
definition DEFAULT_USER_ID :: int32 where "DEFAULT_USER_ID = 0"
definition FOO_MAX_LEN :: int32 where "FOO_MAX_LEN = 52428800"
definition MAX_VIDEO_SIZE :: int32 where "MAX_VIDEO_SIZE = 104857600"
definition MIN_SIZE :: int32 where "MIN_SIZE = 64"
definition COMPRESSION_RATIO :: int32 where "COMPRESSION_RATIO = 8"

section \<open>The initial object\<close>

text \<open>
  The constructed object, before \<^verbatim>\<open>OnStart\<close>. The members the constructors leave uninitialised
  are given values here; \<^verbatim>\<open>InitData\<close> overwrites each of them.
\<close>

definition constructed :: "fs \<Rightarrow> (int \<times> ofd) list \<Rightarrow> service" where
  "constructed t tab =
     \<lparr>files = t, fds = tab, running = False, wallpaperTmpFullPath = '''', wallpaperCropPath = '''',
      systemWallpaperMap = [], lockWallpaperMap = [], wallpaperIdCounter = 0,
      callbackProxy = None, subscriber = False, connection = False, recipient = False,
      extensionRemoteObject = None, lockWallpaperColor = 0, systemWallpaperColor = 0,
      wallpaperEventMap = [], currentUserId = 0, appBundleName = '''', serviceHandler = None,
      cmdHandler = [], effects = []\<rparr>"

section \<open>Lemmas\<close>

lemma entry_insert [simp]:
  "entry w u (insert_wallpaper w' u' d s) = (if w = w' \<and> u = u' then Some d else entry w u s)"
  by (cases w; cases w')
    (auto simp: entry_def insert_wallpaper_def wallpaper_map_def set_wallpaper_map_def
      InsertOrAssign_def)

lemma entry_erase [simp]:
  "entry w u (erase_wallpaper w' u' s) = (if w = w' \<and> u = u' then None else entry w u s)"
  by (cases w; cases w')
    (auto simp: entry_def erase_wallpaper_def wallpaper_map_def set_wallpaper_map_def Erase_def)

lemma find_wallpaper_entry:
  "find_wallpaper w u s =
     (case entry w u s of None \<Rightarrow> (False, WallpaperData_default) | Some d \<Rightarrow> (True, d))"
  by (simp add: find_wallpaper_def entry_def Find_def)

lemma insert_wallpaper_fields [simp]:
  "files (insert_wallpaper w u d s) = files s" "fds (insert_wallpaper w u d s) = fds s"
  "running (insert_wallpaper w u d s) = running s"
  "wallpaperTmpFullPath (insert_wallpaper w u d s) = wallpaperTmpFullPath s"
  "wallpaperIdCounter (insert_wallpaper w u d s) = wallpaperIdCounter s"
  "callbackProxy (insert_wallpaper w u d s) = callbackProxy s"
  "lockWallpaperColor (insert_wallpaper w u d s) = lockWallpaperColor s"
  "systemWallpaperColor (insert_wallpaper w u d s) = systemWallpaperColor s"
  "wallpaperEventMap (insert_wallpaper w u d s) = wallpaperEventMap s"
  "currentUserId (insert_wallpaper w u d s) = currentUserId s"
  "serviceHandler (insert_wallpaper w u d s) = serviceHandler s"
  "effects (insert_wallpaper w u d s) = effects s"
  "cmdHandler (insert_wallpaper w u d s) = cmdHandler s"
  by (simp_all add: insert_wallpaper_def set_wallpaper_map_def)

lemma erase_wallpaper_fields [simp]:
  "files (erase_wallpaper w u s) = files s" "fds (erase_wallpaper w u s) = fds s"
  "running (erase_wallpaper w u s) = running s"
  "wallpaperTmpFullPath (erase_wallpaper w u s) = wallpaperTmpFullPath s"
  "wallpaperIdCounter (erase_wallpaper w u s) = wallpaperIdCounter s"
  "callbackProxy (erase_wallpaper w u s) = callbackProxy s"
  "wallpaperEventMap (erase_wallpaper w u s) = wallpaperEventMap s"
  "currentUserId (erase_wallpaper w u s) = currentUserId s"
  "serviceHandler (erase_wallpaper w u s) = serviceHandler s"
  "effects (erase_wallpaper w u s) = effects s"
  "cmdHandler (erase_wallpaper w u s) = cmdHandler s"
  by (simp_all add: erase_wallpaper_def set_wallpaper_map_def)

lemma entry_updates [simp]:
  "entry w u (s\<lparr>files := t\<rparr>) = entry w u s" "entry w u (s\<lparr>fds := tab\<rparr>) = entry w u s"
  "entry w u (s\<lparr>effects := x\<rparr>) = entry w u s"
  "entry w u (s\<lparr>wallpaperIdCounter := i\<rparr>) = entry w u s"
  "entry w u (s\<lparr>systemWallpaperColor := c\<rparr>) = entry w u s"
  "entry w u (s\<lparr>lockWallpaperColor := c\<rparr>) = entry w u s"
  "entry w u (s\<lparr>wallpaperEventMap := m\<rparr>) = entry w u s"
  "entry w u (s\<lparr>callbackProxy := p\<rparr>) = entry w u s"
  "entry w u (s\<lparr>currentUserId := v\<rparr>) = entry w u s"
  "entry w u (s\<lparr>serviceHandler := h\<rparr>) = entry w u s"
  "entry w u (s\<lparr>running := b\<rparr>) = entry w u s"
  "entry w u (s\<lparr>subscriber := b\<rparr>) = entry w u s"
  "entry w u (s\<lparr>connection := b\<rparr>) = entry w u s"
  "entry w u (s\<lparr>recipient := b\<rparr>) = entry w u s"
  "entry w u (s\<lparr>extensionRemoteObject := r\<rparr>) = entry w u s"
  "entry w u (s\<lparr>cmdHandler := cmds\<rparr>) = entry w u s"
  by (simp_all add: entry_def wallpaper_map_def)

lemma emit_fields [simp]:
  "files (emit x s) = files s" "fds (emit x s) = fds s" "entry w u (emit x s) = entry w u s"
  "systemWallpaperMap (emit x s) = systemWallpaperMap s"
  "lockWallpaperMap (emit x s) = lockWallpaperMap s"
  "running (emit x s) = running s" "wallpaperIdCounter (emit x s) = wallpaperIdCounter s"
  "wallpaperTmpFullPath (emit x s) = wallpaperTmpFullPath s"
  "callbackProxy (emit x s) = callbackProxy s"
  "lockWallpaperColor (emit x s) = lockWallpaperColor s"
  "systemWallpaperColor (emit x s) = systemWallpaperColor s"
  "wallpaperEventMap (emit x s) = wallpaperEventMap s"
  "currentUserId (emit x s) = currentUserId s" "serviceHandler (emit x s) = serviceHandler s"
  "effects (emit x s) = effects s @ [x]"
  by (simp_all add: emit_def)

end
