(* ===== verification/WallpaperPaths.thy ===== *)
theory WallpaperPaths
  imports ServiceState
begin

text \<open>
  Where the pictures of a user live: the path functions of \<^verbatim>\<open>wallpaper_service.cpp\<close>. They
  read the disk (the tree \<open>t\<close>) and the configuration but change nothing.
\<close>

section \<open>Directories and file names\<close>

definition GetUserDir :: "int32 \<Rightarrow> string" where
  "GetUserDir uid = WALLPAPER_USERID_PATH @ to_string uid"

definition GetWallpaperDir :: "int32 \<Rightarrow> WallpaperType \<Rightarrow> string" where
  "GetWallpaperDir uid wallpaperType =
     (let userIdPath = GetUserDir uid in
      case wallpaperType of
        WALLPAPER_SYSTEM \<Rightarrow> userIdPath @ ''/'' @ WALLPAPER_SYSTEM_DIRNAME
      | WALLPAPER_LOCKSCREEN \<Rightarrow> userIdPath @ ''/'' @ WALLPAPER_LOCKSCREEN_DIRNAME)"

definition GetFoldStateName :: "FoldState \<Rightarrow> string" where
  "GetFoldStateName f =
     (case f of NORMAL \<Rightarrow> ''normal'' | UNFOLD_1 \<Rightarrow> ''unfold1'' | UNFOLD_2 \<Rightarrow> ''unfold2'')"

definition GetRotateStateName :: "RotateState \<Rightarrow> string" where
  "GetRotateStateName r = (case r of PORT \<Rightarrow> ''port'' | LAND \<Rightarrow> ''land'')"

definition GetWallpaperDataFile ::
  "FoldState \<Rightarrow> RotateState \<Rightarrow> int32 \<Rightarrow> WallpaperType \<Rightarrow> string" where
  "GetWallpaperDataFile f r uid wallpaperType =
     (let wallpaperTypeName =
            (if wallpaperType = WALLPAPER_SYSTEM then WALLPAPER_HOME else WALLPAPER_LOCK);
          foldStateName = GetFoldStateName f;
          rotateStateName = GetRotateStateName r
      in if foldStateName = ''normal'' \<and> rotateStateName = ''port''
         then GetWallpaperDir uid wallpaperType @ ''/'' @ wallpaperTypeName
         else GetWallpaperDir uid wallpaperType @ ''/'' @ foldStateName @ ''_'' @ rotateStateName
              @ ''_'' @ wallpaperTypeName)"

definition UpdateWallpaperDataFile ::
  "FoldState \<Rightarrow> RotateState \<Rightarrow> int32 \<Rightarrow> WallpaperType \<Rightarrow> WallpaperData \<Rightarrow> WallpaperData" where
  "UpdateWallpaperDataFile f r uid wallpaperType d =
     (case f of
        NORMAL \<Rightarrow>
          (case r of
             PORT \<Rightarrow> d\<lparr>wallpaperFile := GetWallpaperDir uid wallpaperType @ ''/''
                       @ (if wallpaperType = WALLPAPER_SYSTEM then WALLPAPER_HOME else WALLPAPER_LOCK)\<rparr>
           | LAND \<Rightarrow> d\<lparr>normalLandFile := GetWallpaperDataFile f r uid wallpaperType\<rparr>)
      | UNFOLD_1 \<Rightarrow>
          (case r of
             PORT \<Rightarrow> d\<lparr>unfoldedOnePortFile := GetWallpaperDataFile f r uid wallpaperType\<rparr>
           | LAND \<Rightarrow> d\<lparr>unfoldedOneLandFile := GetWallpaperDataFile f r uid wallpaperType\<rparr>)
      | UNFOLD_2 \<Rightarrow>
          (case r of
             PORT \<Rightarrow> d\<lparr>unfoldedTwoPortFile := GetWallpaperDataFile f r uid wallpaperType\<rparr>
           | LAND \<Rightarrow> d\<lparr>unfoldedTwoLandFile := GetWallpaperDataFile f r uid wallpaperType\<rparr>))"

definition ClearnWallpaperDataFile :: "WallpaperData \<Rightarrow> WallpaperData" where
  "ClearnWallpaperDataFile d =
     d\<lparr>normalLandFile := '''', unfoldedOnePortFile := '''', unfoldedOneLandFile := '''',
       unfoldedTwoPortFile := '''', unfoldedTwoLandFile := ''''\<rparr>"

section \<open>Choosing the file to show\<close>

text \<open>
  \<^verbatim>\<open>GetWallpaperPath\<close> tests the fold state three times, each test with its own returns; the
  path found by an earlier test survives when no later one applies.
\<close>

definition GetWallpaperPath :: "int32 \<Rightarrow> int32 \<Rightarrow> WallpaperData \<Rightarrow> string" where
  "GetWallpaperPath foldSt rotateSt d =
     (if foldSt = FoldState_value UNFOLD_2 \<and> rotateSt = RotateState_value LAND
          \<and> unfoldedTwoLandFile d \<noteq> '''' then unfoldedTwoLandFile d
      else if foldSt = FoldState_value UNFOLD_2 \<and> unfoldedTwoPortFile d \<noteq> ''''
      then unfoldedTwoPortFile d
      else let path2 = (if foldSt = FoldState_value UNFOLD_2 then wallpaperFile d else '''') in
      if foldSt = FoldState_value UNFOLD_1 \<and> rotateSt = RotateState_value LAND
          \<and> unfoldedOneLandFile d \<noteq> '''' then unfoldedOneLandFile d
      else if foldSt = FoldState_value UNFOLD_1 \<and> unfoldedOnePortFile d \<noteq> ''''
      then unfoldedOnePortFile d
      else let path1 = (if foldSt = FoldState_value UNFOLD_1 then wallpaperFile d else path2) in
      if foldSt = FoldState_value NORMAL \<and> rotateSt = RotateState_value LAND
          \<and> normalLandFile d \<noteq> '''' then normalLandFile d
      else if foldSt = FoldState_value NORMAL then wallpaperFile d
      else path1)"

definition GetWallpaperFile :: "WallpaperResourceType \<Rightarrow> WallpaperData \<Rightarrow> string" where
  "GetWallpaperFile r d =
     (case r of
        PICTURE \<Rightarrow> wallpaperFile d
      | DEFAULT \<Rightarrow> wallpaperFile d
      | VIDEO \<Rightarrow> liveWallpaperFile d
      | PACKAGE \<Rightarrow> customPackageUri d)"

section \<open>Preset wallpapers\<close>

definition GetExistFilePath :: "fs \<Rightarrow> string \<Rightarrow> string" where
  "GetExistFilePath t filePath = (if \<not> IsFileExist t filePath then '''' else filePath)"

text \<open>The first path of the array that is not null.\<close>

fun first_path :: "string option list \<Rightarrow> string" where
  "first_path [] = ''''"
| "first_path (None # paths) = first_path paths"
| "first_path (Some cfgPath # paths) = cfgPath @ ''default/''"

definition GetDefaultResDir :: "env \<Rightarrow> string" where
  "GetDefaultResDir e =
     (case CfgFiles e of None \<Rightarrow> '''' | Some paths \<Rightarrow> first_path paths)"

text \<open>The text an input stream reads from a path, when it opens.\<close>

definition read_text :: "env \<Rightarrow> fs \<Rightarrow> string \<Rightarrow> string option" where
  "read_text e t p =
     (if lookup_path t p \<noteq> None \<and> open_ok e p then Some (file_content t (comps p)) else None)"

definition GetWallpaperPathInJson :: "env \<Rightarrow> fs \<Rightarrow> string \<Rightarrow> string \<Rightarrow> string" where
  "GetWallpaperPathInJson e t manifestName filePath =
     (let resPath = GetDefaultResDir e in
      if resPath = '''' \<or> \<not> IsDirExist e t resPath then ''''
      else case read_text e t (resPath @ manifestName) of
             None \<Rightarrow> ''''
           | Some content \<Rightarrow>
      (case cJSON_Parse e (c_str content) of
         None \<Rightarrow> ''''
       | Some root \<Rightarrow>
      (case cJSON_GetObjectItemCaseSensitive e root ''image'' of
         None \<Rightarrow> ''''
       | Some img \<Rightarrow>
           if \<not> cJSON_IsObject e img then ''''
           else (case cJSON_GetObjectItemCaseSensitive e img ''src'' of
                   None \<Rightarrow> ''''
                 | Some src \<Rightarrow>
                     if \<not> cJSON_IsString e src then ''''
                     else GetExistFilePath t (resPath @ filePath @ cJSON_valuestring e src)))))"

definition GetWallpaperDefaultPath :: "env \<Rightarrow> fs \<Rightarrow> WallpaperType \<Rightarrow> WallpaperData" where
  "GetWallpaperDefaultPath e t wallpaperType =
     (let manifest = ''manifest.json''; res = ''resources/''; base = ''base/''; land = ''land/'';
          json = GetWallpaperPathInJson e t;
          d = (if wallpaperType = WALLPAPER_SYSTEM then
                 WallpaperData_default
                   \<lparr>wallpaperFile := json (''home/'' @ manifest) (''home/'' @ base @ res),
                    normalLandFile := json (''home/'' @ base @ land @ manifest) (''home/'' @ base @ land @ res),
                    unfoldedOnePortFile := json (''home/unfolded/'' @ manifest) (''home/unfolded/'' @ res),
                    unfoldedOneLandFile :=
                      json (''home/unfolded/'' @ land @ manifest) (''home/unfolded/'' @ land @ res),
                    unfoldedTwoPortFile := json (''home/unfolded2/'' @ manifest) (''home/unfolded2/'' @ res),
                    unfoldedTwoLandFile :=
                      json (''home/unfolded2/'' @ land @ manifest) (''home/unfolded2/'' @ land @ res)\<rparr>
               else
                 WallpaperData_default
                   \<lparr>wallpaperFile := json (''lock/'' @ manifest) (''lock/'' @ base @ res),
                    normalLandFile := json (''lock/'' @ base @ land @ manifest) (''lock/'' @ base @ land @ res),
                    unfoldedOnePortFile := json (''lock/unfolded/'' @ manifest) (''lock/unfolded/'' @ res),
                    unfoldedOneLandFile :=
                      json (''lock/unfolded/'' @ land @ manifest) (''lock/unfolded/'' @ land @ res),
                    unfoldedTwoPortFile := json (''lock/unfolded2/'' @ manifest) (''lock/unfolded2/'' @ res),
                    unfoldedTwoLandFile :=
                      json (''lock/unfolded2/'' @ land @ manifest) (''lock/unfolded2/'' @ land @ res)\<rparr>)
      in if wallpaperFile d = ''''
         then d\<lparr>wallpaperFile := (if wallpaperType = WALLPAPER_SYSTEM
                                  then WALLPAPER_DEFAULT_FILEFULLPATH
                                  else WALLPAPER_DEFAULT_LOCK_FILEFULLPATH)\<rparr>
         else d)"

text \<open>
  The record of a user who has set nothing: the assignments \<^verbatim>\<open>UpdataWallpaperMap\<close> and
  \<^verbatim>\<open>RestoreUserResources\<close> share.
\<close>

definition default_data :: "env \<Rightarrow> fs \<Rightarrow> int32 \<Rightarrow> WallpaperType \<Rightarrow> WallpaperData" where
  "default_data e t uid wallpaperType =
     (let wallpaperPath = GetWallpaperDir uid wallpaperType in
      (GetWallpaperDefaultPath e t wallpaperType)
        \<lparr>userId := uid, allowBackup := True, resourceType := PICTURE,
         wallpaperId := DEFAULT_WALLPAPER_ID,
         liveWallpaperFile := wallpaperPath @ ''/''
           @ (if wallpaperType = WALLPAPER_SYSTEM then LIVE_WALLPAPER_SYSTEM_ORIG
              else LIVE_WALLPAPER_LOCK_ORIG),
         customPackageUri := wallpaperPath @ ''/''
           @ (if wallpaperType = WALLPAPER_SYSTEM then CUSTOM_WALLPAPER_SYSTEM
              else CUSTOM_WALLPAPER_LOCK)\<rparr>)"

section \<open>Path components\<close>

definition user_comps :: "int32 \<Rightarrow> string list" where
  "user_comps uid =
     [''data'', ''service'', ''el1'', ''public'', ''wallpaper'', to_string uid]"

definition type_dirname :: "WallpaperType \<Rightarrow> string" where
  "type_dirname w =
     (case w of WALLPAPER_SYSTEM \<Rightarrow> WALLPAPER_SYSTEM_DIRNAME
      | WALLPAPER_LOCKSCREEN \<Rightarrow> WALLPAPER_LOCKSCREEN_DIRNAME)"

definition type_comps :: "int32 \<Rightarrow> WallpaperType \<Rightarrow> string list" where
  "type_comps uid w = user_comps uid @ [type_dirname w]"

lemma comps_USERID_PATH [path_simps]:
  "comps (WALLPAPER_USERID_PATH @ p) = [''data'', ''service'', ''el1'', ''public'', ''wallpaper''] @ comps p"
proof -
  have "WALLPAPER_USERID_PATH @ p = ''/data/service/el1/public/wallpaper'' @ CHR ''/'' # p"
    by (simp add: WALLPAPER_USERID_PATH_def)
  then have "comps (WALLPAPER_USERID_PATH @ p)
      = comps ''/data/service/el1/public/wallpaper'' @ comps p"
    by (simp only: comps_append_slash)
  then show ?thesis by (simp add: comps_def)
qed

lemma comps_GetUserDir [path_simps]: "comps (GetUserDir uid) = user_comps uid"
  by (simp add: GetUserDir_def user_comps_def comps_USERID_PATH)

lemma comps_GetUserDir_slash [path_simps]:
  "comps (GetUserDir uid @ CHR ''/'' # p) = user_comps uid @ comps p"
  by (simp add: comps_append_slash comps_GetUserDir)

lemma comps_dirnames: "comps WALLPAPER_SYSTEM_DIRNAME = [WALLPAPER_SYSTEM_DIRNAME]"
  "comps WALLPAPER_LOCKSCREEN_DIRNAME = [WALLPAPER_LOCKSCREEN_DIRNAME]"
  by (simp_all add: comps_def WALLPAPER_SYSTEM_DIRNAME_def WALLPAPER_LOCKSCREEN_DIRNAME_def)

lemma comps_GetWallpaperDir [path_simps]: "comps (GetWallpaperDir uid w) = type_comps uid w"
  by (cases w)
    (simp_all add: GetWallpaperDir_def type_comps_def type_dirname_def comps_GetUserDir_slash
      comps_dirnames)

lemma comps_in_GetWallpaperDir [path_simps]:
  "comps (GetWallpaperDir uid w @ CHR ''/'' # p) = type_comps uid w @ comps p"
  by (simp add: comps_append_slash comps_GetWallpaperDir)

lemma user_comps_inj: "user_comps u = user_comps v \<longleftrightarrow> u = v"
  by (simp add: user_comps_def to_string_inj)

lemma user_comps_prefix: "prefix (user_comps u) (user_comps v @ r) \<longleftrightarrow> u = v"
  by (auto simp: user_comps_def to_string_inj)

lemma type_dirname_inj: "type_dirname w = type_dirname w' \<longleftrightarrow> w = w'"
  by (cases w; cases w')
    (simp_all add: type_dirname_def WALLPAPER_SYSTEM_DIRNAME_def WALLPAPER_LOCKSCREEN_DIRNAME_def)

lemma type_comps_inj: "type_comps u w = type_comps v w' \<longleftrightarrow> u = v \<and> w = w'"
  by (auto simp: type_comps_def user_comps_def to_string_inj type_dirname_inj)

lemma type_comps_prefix: "prefix (type_comps u w) (type_comps v w' @ r) \<longleftrightarrow> u = v \<and> w = w'"
  by (auto simp: type_comps_def user_comps_def to_string_inj type_dirname_inj)

section \<open>Properties\<close>

text \<open>The files to try for a screen state, the best first.\<close>

definition candidates :: "FoldState \<Rightarrow> RotateState \<Rightarrow> WallpaperData \<Rightarrow> string list" where
  "candidates f r d =
     (case r of
        LAND \<Rightarrow> [case f of NORMAL \<Rightarrow> normalLandFile d | UNFOLD_1 \<Rightarrow> unfoldedOneLandFile d
                 | UNFOLD_2 \<Rightarrow> unfoldedTwoLandFile d]
      | PORT \<Rightarrow> [])
     @ (case f of NORMAL \<Rightarrow> [] | UNFOLD_1 \<Rightarrow> [unfoldedOnePortFile d] | UNFOLD_2 \<Rightarrow> [unfoldedTwoPortFile d])
     @ [wallpaperFile d]"

fun first_nonempty :: "string list \<Rightarrow> string" where
  "first_nonempty [] = ''''"
| "first_nonempty (p # ps) = (if p \<noteq> '''' then p else first_nonempty ps)"

text \<open>The picture shown for a screen state is the first that exists among the one for this
  fold and rotation, the one for this fold upright, and the normal picture; an unknown fold
  state has none, and an unknown rotation counts as upright.\<close>

theorem GetWallpaperPath_falls_back:
  "GetWallpaperPath (FoldState_value f) (RotateState_value r) d = first_nonempty (candidates f r d)
   \<and> (foldSt \<notin> range FoldState_value \<longrightarrow> GetWallpaperPath foldSt rotateSt d = '''')
   \<and> (rotateSt \<notin> range RotateState_value \<longrightarrow>
        GetWallpaperPath (FoldState_value f) rotateSt d = first_nonempty (candidates f PORT d))"
proof (intro conjI impI)
  show "GetWallpaperPath (FoldState_value f) (RotateState_value r) d = first_nonempty (candidates f r d)"
    by (cases f; cases r)
      (simp_all add: GetWallpaperPath_def candidates_def FoldState_value_def RotateState_value_def)
next
  assume "foldSt \<notin> range FoldState_value"
  then have "foldSt \<noteq> FoldState_value g" for g by blast
  then show "GetWallpaperPath foldSt rotateSt d = ''''"
    by (simp add: GetWallpaperPath_def)
next
  assume "rotateSt \<notin> range RotateState_value"
  then have "rotateSt \<noteq> RotateState_value q" for q by blast
  then show "GetWallpaperPath (FoldState_value f) rotateSt d = first_nonempty (candidates f PORT d)"
    by (cases f) (simp_all add: GetWallpaperPath_def candidates_def FoldState_value_def)
qed

theorem GetWallpaperPath_falls_back_witness:
  "GetWallpaperPath 7 0 (WallpaperData_make 100 ''/p'') = '''' \<and>
   GetWallpaperPath 0 9 (WallpaperData_make 100 ''/p'') = ''/p''"
proof -
  have r: "(7 :: int) \<notin> range FoldState_value" "(9 :: int) \<notin> range RotateState_value"
    by (auto simp: FoldState_value_def RotateState_value_def split: FoldState.splits RotateState.splits)
  have v: "FoldState_value NORMAL = 0" by (simp add: FoldState_value_def)
  show ?thesis
    using r GetWallpaperPath_falls_back [of NORMAL PORT "WallpaperData_make 100 ''/p''" 7 0]
      GetWallpaperPath_falls_back [of NORMAL PORT "WallpaperData_make 100 ''/p''" 7 9]
    by (simp add: v candidates_def WallpaperData_make_def WallpaperData_default_def)
qed

lemma GetWallpaperDataFile_not_Nil: "GetWallpaperDataFile f r u w \<noteq> ''''"
  by (simp add: GetWallpaperDataFile_def Let_def)

text \<open>The last component of the file of a screen state.\<close>

definition screen_name :: "FoldState \<Rightarrow> RotateState \<Rightarrow> WallpaperType \<Rightarrow> string" where
  "screen_name f r w =
     (if f = NORMAL \<and> r = PORT then [] else GetFoldStateName f @ ''_'' @ GetRotateStateName r @ ''_'')
     @ (if w = WALLPAPER_SYSTEM then WALLPAPER_HOME else WALLPAPER_LOCK)"

definition screen_states :: "(FoldState \<times> RotateState) list" where
  "screen_states = [(NORMAL, PORT), (NORMAL, LAND), (UNFOLD_1, PORT), (UNFOLD_1, LAND),
     (UNFOLD_2, PORT), (UNFOLD_2, LAND)]"

lemma screen_names_distinct: "distinct (map (\<lambda>(f, r). screen_name f r w) screen_states)"
  by (cases w; hypsubst; code_simp)

lemma set_screen_states: "x \<in> set screen_states"
  by (cases x; cases "fst x"; cases "snd x") (simp_all add: screen_states_def)

lemma screen_name_inj: "screen_name f r w = screen_name f' r' w \<longleftrightarrow> f = f' \<and> r = r'"
proof
  assume eq: "screen_name f r w = screen_name f' r' w"
  have "inj_on (\<lambda>(f, r). screen_name f r w) (set screen_states)"
    using screen_names_distinct [of w] by (simp add: distinct_map)
  from inj_onD [OF this _ set_screen_states [of "(f, r)"] set_screen_states [of "(f', r')"]] eq
  show "f = f' \<and> r = r'" by simp
qed simp

lemma screen_name_ok: "name_ok (screen_name f r w)"
  by (cases f; cases r) (simp_all add: screen_name_def name_ok_def GetFoldStateName_def
      GetRotateStateName_def WALLPAPER_HOME_def WALLPAPER_LOCK_def)

lemma GetWallpaperDataFile_eq:
  "GetWallpaperDataFile f r u w = GetWallpaperDir u w @ CHR ''/'' # screen_name f r w"
  by (cases f; cases r) (simp_all add: GetWallpaperDataFile_def screen_name_def GetFoldStateName_def
      GetRotateStateName_def Let_def)

lemma comps_GetWallpaperDataFile:
  "comps (GetWallpaperDataFile f r u w) = type_comps u w @ [screen_name f r w]"
  by (simp add: GetWallpaperDataFile_eq comps_in_GetWallpaperDir comps_name_ok screen_name_ok)

text \<open>Storing the picture of a screen state and asking for that state gives the stored file,
  and the files of different screen states, users and types are different.\<close>

theorem stored_picture_is_shown:
  "GetWallpaperPath (FoldState_value f) (RotateState_value r) (UpdateWallpaperDataFile f r u w d)
     = GetWallpaperDataFile f r u w
   \<and> (comps (GetWallpaperDataFile f r u w) = comps (GetWallpaperDataFile f' r' u' w')
        \<longleftrightarrow> f = f' \<and> r = r' \<and> u = u' \<and> w = w')"
proof
  have "GetWallpaperDir u w @ ''/'' @ (if w = WALLPAPER_SYSTEM then WALLPAPER_HOME else WALLPAPER_LOCK)
      = GetWallpaperDataFile NORMAL PORT u w"
    by (simp add: GetWallpaperDataFile_eq screen_name_def)
  then show "GetWallpaperPath (FoldState_value f) (RotateState_value r) (UpdateWallpaperDataFile f r u w d)
     = GetWallpaperDataFile f r u w"
    unfolding UpdateWallpaperDataFile_def
    by (cases f; cases r)
      (simp_all add: GetWallpaperPath_def FoldState_value_def RotateState_value_def
        GetWallpaperDataFile_not_Nil)
  show "comps (GetWallpaperDataFile f r u w) = comps (GetWallpaperDataFile f' r' u' w')
        \<longleftrightarrow> f = f' \<and> r = r' \<and> u = u' \<and> w = w'"
    by (auto simp: comps_GetWallpaperDataFile type_comps_inj screen_name_inj)
qed

end
