(* ===== verification/ServiceInvariant.thy ===== *)
theory ServiceInvariant
  imports WallpaperPaths
begin

text \<open>
  The well-formedness of the service (\<open>service_ok\<close>) and the footprint of an operation run for
  one user (\<open>confined\<close>): files outside the directory of the user and the temporary files stay,
  and so do the records of other users. Both are carried together by \<open>safe\<close>; the theories of
  the operations prove \<open>safe\<close> for each of them (collection \<open>inv_intros\<close>).
\<close>

section \<open>Records\<close>

definition own_file :: "WallpaperType \<Rightarrow> int32 \<Rightarrow> string \<Rightarrow> bool" where
  "own_file w u p \<longleftrightarrow> prefix (type_comps u w) (comps p)"

text \<open>\<open>res\<close> is the directory of the preset resources, empty when there is none.\<close>

definition preset_file :: "string \<Rightarrow> string \<Rightarrow> bool" where
  "preset_file res p \<longleftrightarrow> p = WALLPAPER_DEFAULT_FILEFULLPATH
     \<or> p = WALLPAPER_DEFAULT_LOCK_FILEFULLPATH \<or> (res \<noteq> '''' \<and> prefix res p)"

definition file_ok :: "string \<Rightarrow> WallpaperType \<Rightarrow> int32 \<Rightarrow> string \<Rightarrow> bool" where
  "file_ok res w u p \<longleftrightarrow> p = '''' \<or> own_file w u p \<or> preset_file res p"

definition live_file :: "int32 \<Rightarrow> WallpaperType \<Rightarrow> string" where
  "live_file u w = GetWallpaperDir u w @ ''/''
     @ (if w = WALLPAPER_SYSTEM then LIVE_WALLPAPER_SYSTEM_ORIG else LIVE_WALLPAPER_LOCK_ORIG)"

definition custom_file :: "int32 \<Rightarrow> WallpaperType \<Rightarrow> string" where
  "custom_file u w = GetWallpaperDir u w @ ''/''
     @ (if w = WALLPAPER_SYSTEM then CUSTOM_WALLPAPER_SYSTEM else CUSTOM_WALLPAPER_LOCK)"

definition picture_file :: "int32 \<Rightarrow> WallpaperType \<Rightarrow> string" where
  "picture_file u w = GetWallpaperDir u w @ ''/''
     @ (if w = WALLPAPER_SYSTEM then WALLPAPER_HOME else WALLPAPER_LOCK)"

definition picture_files :: "WallpaperData \<Rightarrow> string list" where
  "picture_files d = [wallpaperFile d, normalLandFile d, unfoldedOnePortFile d,
     unfoldedOneLandFile d, unfoldedTwoPortFile d, unfoldedTwoLandFile d]"

definition data_ok :: "string \<Rightarrow> WallpaperType \<Rightarrow> int32 \<Rightarrow> WallpaperData \<Rightarrow> bool" where
  "data_ok res w u d \<longleftrightarrow> userId d = u \<and> wallpaperFile d \<noteq> '''' \<and>
     list_all (file_ok res w u) (picture_files d) \<and>
     liveWallpaperFile d = live_file u w \<and> customPackageUri d = custom_file u w \<and>
     allowBackup d \<and> DEFAULT_WALLPAPER_ID \<le> wallpaperId d \<and> wallpaperId d \<le> INT32_MAX"

section \<open>The record of the presets\<close>

text \<open>
  Where the presets lie among the resources: \<^verbatim>\<open>home\<close> or \<^verbatim>\<open>lock\<close> by the type, a directory for each fold with one
  for the turned screen in it. A manifest lies beside its directory \<^verbatim>\<open>resources\<close>, except that of the normal upright
  screen, which lies at the top. Only that screen has a preset without resources, one for each type.
\<close>

definition preset_root :: "WallpaperType \<Rightarrow> string" where
  "preset_root w = (case w of WALLPAPER_SYSTEM \<Rightarrow> ''home/'' | WALLPAPER_LOCKSCREEN \<Rightarrow> ''lock/'')"

definition preset_folder :: "WallpaperType \<Rightarrow> FoldState \<times> RotateState \<Rightarrow> string" where
  "preset_folder w x = preset_root w @
     (case fst x of NORMAL \<Rightarrow> ''base/'' | UNFOLD_1 \<Rightarrow> ''unfolded/'' | UNFOLD_2 \<Rightarrow> ''unfolded2/'') @
     (case snd x of PORT \<Rightarrow> '''' | LAND \<Rightarrow> ''land/'')"

definition preset_picture :: "env \<Rightarrow> fs \<Rightarrow> WallpaperType \<Rightarrow> FoldState \<times> RotateState \<Rightarrow> string" where
  "preset_picture e t w x =
     (let manifest = (if x = (NORMAL, PORT) then preset_root w else preset_folder w x) @ ''manifest.json'';
          p = GetWallpaperPathInJson e t manifest (preset_folder w x @ ''resources/'')
      in if x = (NORMAL, PORT) \<and> p = ''''
         then (case w of WALLPAPER_SYSTEM \<Rightarrow> WALLPAPER_DEFAULT_FILEFULLPATH
               | WALLPAPER_LOCKSCREEN \<Rightarrow> WALLPAPER_DEFAULT_LOCK_FILEFULLPATH)
         else p)"

definition preset_record :: "env \<Rightarrow> fs \<Rightarrow> int32 \<Rightarrow> WallpaperType \<Rightarrow> WallpaperResourceType \<Rightarrow> WallpaperData" where
  "preset_record e t u w r =
     \<lparr>userId = u,
      wallpaperFile = preset_picture e t w (NORMAL, PORT), normalLandFile = preset_picture e t w (NORMAL, LAND),
      unfoldedOnePortFile = preset_picture e t w (UNFOLD_1, PORT), unfoldedOneLandFile = preset_picture e t w (UNFOLD_1, LAND),
      unfoldedTwoPortFile = preset_picture e t w (UNFOLD_2, PORT), unfoldedTwoLandFile = preset_picture e t w (UNFOLD_2, LAND),
      liveWallpaperFile = live_file u w, customPackageUri = custom_file u w, cropFile = '''', data_name = '''',
      wallpaperId = DEFAULT_WALLPAPER_ID, allowBackup = True, resourceType = r, wallpaperComponent = ComponentName_empty\<rparr>"

lemma default_data_preset: "default_data e t u w = preset_record e t u w PICTURE"
  by (cases w) (simp_all add: default_data_def GetWallpaperDefaultPath_def preset_record_def preset_picture_def preset_folder_def
      preset_root_def WallpaperData_default_def live_file_def custom_file_def Let_def)

text \<open>The record depends on what lies where, not on how the tree is stored.\<close>

lemma preset_record_cong:
  assumes "map_of t = map_of t'"
  shows "preset_record e t u w r = preset_record e t' u w r"
proof -
  have p: "lookup_path t = lookup_path t'" "file_content t = file_content t'"
    using assms by (simp_all add: lookup_path_def file_content_def node_at_def fun_eq_iff)
  have q: "IsDirExist e t = IsDirExist e t'" "read_text e t = read_text e t'" "GetExistFilePath t = GetExistFilePath t'"
    by (simp_all add: IsDirExist_def os_opendir_def read_text_def GetExistFilePath_def IsFileExist_def os_access_def p
        fun_eq_iff)
  have "GetWallpaperPathInJson e t = GetWallpaperPathInJson e t'"
    by (intro ext) (unfold GetWallpaperPathInJson_def q, rule refl)
  then show ?thesis by (simp add: preset_record_def preset_picture_def)
qed

text \<open>The tree without what lies in the directory of a user and type.\<close>

definition cleared_fs :: "int32 \<Rightarrow> WallpaperType \<Rightarrow> fs \<Rightarrow> fs" where
  "cleared_fs u w t = filter (\<lambda>x. \<not> strict_prefix (type_comps u w) (fst x)) t"

lemma map_of_cleared_fs: "map_of (cleared_fs u w t) k = (if strict_prefix (type_comps u w) k then None else map_of t k)"
  by (induction t) (auto simp: cleared_fs_def)

section \<open>The service\<close>

definition temp_names :: "string list" where
  "temp_names = WALLPAPER_TMP_DIRNAME
     # [GetFoldStateName f @ ''_'' @ GetRotateStateName r. f \<leftarrow> [NORMAL, UNFOLD_1, UNFOLD_2], r \<leftarrow> [PORT, LAND]]"

definition temp_comps :: "string \<Rightarrow> string list" where
  "temp_comps n = [''data'', ''service'', ''el1'', ''public'', ''wallpaper'', n]"

definition listeners_ok :: "(string, (int32, handle option) stdmap) stdmap \<Rightarrow> bool" where
  "listeners_ok m \<longleftrightarrow> std_wf m \<and> (\<forall>inner \<in> snd ` set m. std_wf inner)"

definition temp_path_ok :: "string \<Rightarrow> bool" where
  "temp_path_ok p \<longleftrightarrow> p = '''' \<or> p = WALLPAPER_USERID_PATH @ WALLPAPER_TMP_DIRNAME"

definition service_ok :: "string \<Rightarrow> service \<Rightarrow> bool" where
  "service_ok res s \<longleftrightarrow> wf_fs (files s) \<and> distinct (map fst (fds s)) \<and>
     (\<forall>w. std_wf (wallpaper_map w s) \<and> entries_ok (data_ok res w) (map_of (wallpaper_map w s))) \<and>
     DEFAULT_WALLPAPER_ID \<le> wallpaperIdCounter s \<and> wallpaperIdCounter s \<le> INT32_MAX \<and>
     listeners_ok (wallpaperEventMap s) \<and> std_wf (cmdHandler s) \<and>
     temp_path_ok (wallpaperTmpFullPath s)"

definition scope :: "int32 \<Rightarrow> string list \<Rightarrow> bool" where
  "scope u k \<longleftrightarrow> prefix (user_comps u) k \<or> k \<in> temp_comps ` set temp_names"

definition confined :: "int32 \<Rightarrow> service \<Rightarrow> service \<Rightarrow> bool" where
  "confined u s s' \<longleftrightarrow>
     (\<forall>k. \<not> scope u k \<longrightarrow> map_of (files s') k = map_of (files s) k) \<and>
     (\<forall>w v. v \<noteq> u \<longrightarrow> entry w v s' = entry w v s) \<and>
     wallpaperTmpFullPath s = wallpaperTmpFullPath s' \<and> running s = running s'"

definition safe :: "string \<Rightarrow> int32 \<Rightarrow> service \<Rightarrow> service \<Rightarrow> bool" where
  "safe res u s0 s \<longleftrightarrow> service_ok res s \<and> confined u s0 s"

lemma confined_refl [simp]: "confined u s s"
  by (simp add: confined_def)

lemma confined_trans: "confined u s s' \<Longrightarrow> confined u s' s'' \<Longrightarrow> confined u s s''"
  by (simp add: confined_def)

lemma safe_refl: "service_ok res s \<Longrightarrow> safe res u s s"
  by (simp add: safe_def)

lemma safeD: "safe res u s0 s \<Longrightarrow> service_ok res s" "safe res u s0 s \<Longrightarrow> confined u s0 s"
  by (simp_all add: safe_def)

lemma service_ok_wf_fs: "service_ok res s \<Longrightarrow> wf_fs (files s)"
  by (simp add: service_ok_def)

lemma service_ok_entry: "service_ok res s \<Longrightarrow> entry w u s = Some d \<Longrightarrow> data_ok res w u d"
  by (simp add: service_ok_def entry_def entries_ok_def)

lemma safe_entry: "safe res v s0 s \<Longrightarrow> entry w u s = Some d \<Longrightarrow> data_ok res w u d"
  by (blast dest: safeD service_ok_entry)

section \<open>Scopes\<close>

lemma scope_user [intro]: "prefix (user_comps u) k \<Longrightarrow> scope u k"
  by (simp add: scope_def)

lemma scope_type: "prefix (type_comps u w) k \<Longrightarrow> scope u k"
  unfolding type_comps_def by (rule scope_user) (rule prefix_order.trans [OF prefixI], simp_all)

lemma scope_own: "own_file w u p \<Longrightarrow> scope u (comps p)"
  by (simp add: own_file_def scope_type)

lemma own_file_in_dir: "own_file w u (GetWallpaperDir u w @ CHR ''/'' # p)"
  by (simp add: own_file_def path_simps)

lemma own_files [simp]: "own_file w u (live_file u w)" "own_file w u (custom_file u w)"
  "own_file w u (picture_file u w)"
  by (simp_all add: live_file_def custom_file_def picture_file_def own_file_in_dir)

lemma user_dir_not_temp: "\<not> prefix (user_comps u) (temp_comps n) \<or> n = to_string u"
  by (simp add: user_comps_def temp_comps_def)

lemma comps_temp: "name_ok n \<Longrightarrow> comps (WALLPAPER_USERID_PATH @ n) = temp_comps n"
  by (simp add: comps_USERID_PATH comps_name_ok temp_comps_def)

lemma temp_names_ok: "n \<in> set temp_names \<Longrightarrow> name_ok n"
  by (auto simp: temp_names_def name_ok_def WALLPAPER_TMP_DIRNAME_def GetFoldStateName_def
      GetRotateStateName_def)

lemma scope_temp: "n \<in> set temp_names \<Longrightarrow> scope u (comps (WALLPAPER_USERID_PATH @ n))"
  by (simp add: comps_temp temp_names_ok scope_def)

section \<open>Primitive steps\<close>

text \<open>A change of the files alone.\<close>

definition files_in_scope :: "int32 \<Rightarrow> fs \<Rightarrow> fs \<Rightarrow> bool" where
  "files_in_scope u t t' \<longleftrightarrow> (wf_fs t \<longrightarrow> wf_fs t') \<and> (\<forall>k. \<not> scope u k \<longrightarrow> map_of t' k = map_of t k)"

lemma files_in_scope_refl [simp]: "files_in_scope u t t"
  by (simp add: files_in_scope_def)

lemma wallpaper_map_updates [simp]:
  "wallpaper_map w (s\<lparr>files := t\<rparr>) = wallpaper_map w s"
  "wallpaper_map w (s\<lparr>fds := tab\<rparr>) = wallpaper_map w s"
  "wallpaper_map w (s\<lparr>effects := x\<rparr>) = wallpaper_map w s"
  "wallpaper_map w (s\<lparr>wallpaperIdCounter := i\<rparr>) = wallpaper_map w s"
  "wallpaper_map w (s\<lparr>systemWallpaperColor := c\<rparr>) = wallpaper_map w s"
  "wallpaper_map w (s\<lparr>lockWallpaperColor := c\<rparr>) = wallpaper_map w s"
  "wallpaper_map w (s\<lparr>wallpaperEventMap := m\<rparr>) = wallpaper_map w s"
  "wallpaper_map w (s\<lparr>callbackProxy := p\<rparr>) = wallpaper_map w s"
  "wallpaper_map w (s\<lparr>currentUserId := v\<rparr>) = wallpaper_map w s"
  "wallpaper_map w (s\<lparr>serviceHandler := h\<rparr>) = wallpaper_map w s"
  "wallpaper_map w (s\<lparr>running := b\<rparr>) = wallpaper_map w s"
  "wallpaper_map w (s\<lparr>subscriber := b\<rparr>) = wallpaper_map w s"
  "wallpaper_map w (s\<lparr>connection := b\<rparr>) = wallpaper_map w s"
  "wallpaper_map w (s\<lparr>recipient := b\<rparr>) = wallpaper_map w s"
  "wallpaper_map w (s\<lparr>extensionRemoteObject := r\<rparr>) = wallpaper_map w s"
  "wallpaper_map w (s\<lparr>cmdHandler := cmds\<rparr>) = wallpaper_map w s"
  by (simp_all add: wallpaper_map_def)

lemma safe_files:
  "safe res u s0 s \<Longrightarrow> files_in_scope u (files s) t \<Longrightarrow> safe res u s0 (s\<lparr>files := t\<rparr>)"
  by (simp add: safe_def service_ok_def confined_def files_in_scope_def)

lemma safe_on_files:
  "on_files f s = (r, s') \<Longrightarrow> (\<And>t. files_in_scope u t (snd (f t))) \<Longrightarrow>
     safe res u s0 s \<Longrightarrow> safe res u s0 s'"
  by (auto simp: on_files_def split: prod.splits)
    (metis safe_files snd_conv)

lemma safe_emit: "safe res u s0 s \<Longrightarrow> safe res u s0 (emit x s)"
  by (simp add: safe_def service_ok_def confined_def emit_def)

lemma safe_fds:
  "safe res u s0 s \<Longrightarrow> distinct (map fst tab) \<Longrightarrow> safe res u s0 (s\<lparr>fds := tab\<rparr>)"
  by (simp add: safe_def service_ok_def confined_def)

lemma safe_insert:
  assumes "safe res u s0 s" "data_ok res w u d"
  shows "safe res u s0 (insert_wallpaper w u d s)"
proof -
  have "std_wf (wallpaper_map v (insert_wallpaper w u d s)) \<and>
    entries_ok (data_ok res v) (map_of (wallpaper_map v (insert_wallpaper w u d s)))" for v
  proof (cases "v = w")
    case True
    then have "wallpaper_map v (insert_wallpaper w u d s)
        = snd (InsertOrAssign u d (wallpaper_map w s))"
      by (cases w) (simp_all add: insert_wallpaper_def set_wallpaper_map_def wallpaper_map_def)
    with assms True show ?thesis
      by (simp add: safe_def service_ok_def wm.good_put wm.entries_ok_put)
  next
    case False
    then have "wallpaper_map v (insert_wallpaper w u d s) = wallpaper_map v s"
      by (cases w; cases v) (simp_all add: insert_wallpaper_def set_wallpaper_map_def wallpaper_map_def)
    with assms show ?thesis by (simp add: safe_def service_ok_def)
  qed
  with assms show ?thesis
    by (simp add: safe_def service_ok_def confined_def)
qed

lemma safe_erase:
  assumes "safe res u s0 s"
  shows "safe res u s0 (erase_wallpaper w u s)"
proof -
  have "std_wf (wallpaper_map v (erase_wallpaper w u s)) \<and>
    entries_ok (data_ok res v) (map_of (wallpaper_map v (erase_wallpaper w u s)))" for v
  proof (cases "v = w")
    case True
    then have "wallpaper_map v (erase_wallpaper w u s) = snd (Erase u (wallpaper_map w s))"
      by (cases w) (simp_all add: erase_wallpaper_def set_wallpaper_map_def wallpaper_map_def)
    with assms True show ?thesis
      by (simp add: safe_def service_ok_def wm.good_drop wm.entries_ok_drop)
  next
    case False
    then have "wallpaper_map v (erase_wallpaper w u s) = wallpaper_map v s"
      by (cases w; cases v) (simp_all add: erase_wallpaper_def set_wallpaper_map_def wallpaper_map_def)
    with assms show ?thesis by (simp add: safe_def service_ok_def)
  qed
  with assms show ?thesis
    by (simp add: safe_def service_ok_def confined_def)
qed

lemma safe_colors:
  "safe res u s0 s \<Longrightarrow> safe res u s0 (s\<lparr>systemWallpaperColor := c\<rparr>)"
  "safe res u s0 s \<Longrightarrow> safe res u s0 (s\<lparr>lockWallpaperColor := c\<rparr>)"
  by (simp_all add: safe_def service_ok_def confined_def)

section \<open>File operations in scope\<close>

lemma files_in_scope_shrinks:
  "shrinks_below k t t' \<Longrightarrow> (\<And>q. prefix k q \<Longrightarrow> scope u q) \<Longrightarrow> files_in_scope u t t'"
  by (auto simp: files_in_scope_def shrinks_below_def)

lemma files_in_scope_DeleteDir:
  assumes "\<And>q. prefix (comps p) q \<Longrightarrow> scope u q"
  shows "files_in_scope u t (snd (DeleteDir e p root t))"
  by (rule files_in_scope_shrinks [OF DeleteDir_shrinks assms]) (rule prod.collapse [symmetric])

lemma files_in_scope_os_remove:
  assumes "scope u (comps p)" shows "files_in_scope u t (snd (os_remove e p t))"
  using assms wf_os_remove [of t e p]
  by (auto simp: files_in_scope_def os_remove_def map_of_AList_delete
      split: option.splits node.splits)

lemma files_in_scope_DeleteFile:
  assumes "scope u (comps p)" shows "files_in_scope u t (snd (DeleteFile e p t))"
  using files_in_scope_os_remove [OF assms, of t e]
  by (auto simp: DeleteFile_def split: prod.splits)

lemma files_in_scope_Mkdir:
  assumes "scope u (comps p)" shows "files_in_scope u t (snd (Mkdir e p t))"
  using assms wf_os_mkdir [of t e p]
  by (auto simp: files_in_scope_def Mkdir_def os_mkdir_def map_of_AList_update split: prod.splits)

lemma files_in_scope_CopyFile:
  assumes "scope u (comps q)" shows "files_in_scope u t (snd (CopyFile e p q t))"
  using assms wf_os_copy_file [of t e p q]
  by (auto simp: files_in_scope_def CopyFile_def os_copy_file_def map_of_AList_update
      split: prod.splits option.splits node.splits copy_outcome.splits)

section \<open>Descriptors\<close>

lemma safe_close: "safe res u s0 s \<Longrightarrow> safe res u s0 (os_close fd s)"
  unfolding os_close_def
  by (rule safe_fds) (simp_all add: distinct_delete safe_def service_ok_def)

lemma safe_open_read:
  "os_open_read e p s = (fd, s') \<Longrightarrow> safe res u s0 s \<Longrightarrow> safe res u s0 s'"
  using fresh_fd_fresh [of "fds s"]
  by (auto simp: os_open_read_def Let_def split: option.splits if_splits intro!: safe_fds)
    (simp_all add: safe_def service_ok_def)

lemma safe_read: "os_read e fd n s = (r, buf, s') \<Longrightarrow> safe res u s0 s \<Longrightarrow> safe res u s0 s'"
  by (auto simp: os_read_def Let_def split: option.splits ofd.splits if_splits intro!: safe_fds)
    (simp_all add: safe_def service_ok_def distinct_update)

lemma open_write_fd:
  "os_open_write e p s = (fd, s') \<Longrightarrow> 0 \<le> fd \<Longrightarrow>
     map_of (fds s') fd = Some (WriteFd (comps p) 0)"
  by (auto simp: os_open_write_def Let_def split: option.splits node.splits if_splits)

lemma safe_open_write:
  assumes op: "os_open_write e p s = (fd, s')" and scope: "scope u (comps p)"
    and safe: "safe res u s0 s"
  shows "safe res u s0 s'"
proof -
  let ?tab = "(fresh_fd (fds s), WriteFd (comps p) 0) # fds s"
  have wf: "wf_fs (files s')"
    using wf_os_open_write [of s e p] op safe by (simp add: safe_def service_ok_def)
  have tab: "distinct (map fst ?tab)"
    using fresh_fd_fresh [of "fds s"] safe by (simp add: safe_def service_ok_def)
  from op consider "s' = s" | "s' = s\<lparr>fds := ?tab\<rparr>"
    | "s' = (s\<lparr>files := AList.update (comps p) (FileNode []) (files s)\<rparr>)\<lparr>fds := ?tab\<rparr>"
    by (auto simp: os_open_write_def Let_def split: option.splits node.splits if_splits)
  then show ?thesis
  proof cases
    case 3
    with wf scope have "files_in_scope u (files s) (AList.update (comps p) (FileNode []) (files s))"
      by (auto simp: files_in_scope_def map_of_AList_update)
    with 3 safe tab show ?thesis by (blast intro: safe_files safe_fds)
  qed (use safe tab in \<open>auto intro: safe_fds\<close>)
qed

lemma safe_write:
  assumes op: "os_write e fd buf s = (r, s')" and fd: "map_of (fds s) fd = Some (WriteFd k off)"
    and scope: "scope u k" and safe: "safe res u s0 s"
  shows "safe res u s0 s'"
proof -
  have wf: "wf_fs (files s')"
    using wf_os_write [of s e fd buf] op safe by (simp add: safe_def service_ok_def)
  have eq: "s' = (s\<lparr>files := files s'\<rparr>)\<lparr>fds := fds s'\<rparr>"
    using op fd by (auto simp: os_write_def Let_def split: if_splits)
  have "map_of (files s') q = map_of (files s) q" if "q \<noteq> k" for q
    using op fd that
    by (auto simp: os_write_def Let_def map_of_AList_update split: if_splits option.splits node.splits)
  with wf scope have t: "files_in_scope u (files s) (files s')"
    unfolding files_in_scope_def by metis
  have "distinct (map fst (fds s'))"
    using op fd safe
    by (auto simp: os_write_def Let_def safe_def service_ok_def distinct_update split: if_splits)
  with eq safe_files [OF safe t] show ?thesis
    using safe_fds by metis
qed

end
