(* ===== verification/Samples.thy ===== *)
theory Samples
  imports ServiceInvariant
begin

text \<open>
  A concrete environment and service on which the hypotheses of the theorems hold together: user
  100 is active, the caller is a system application with every permission, no call to the system
  fails, and the user has an older picture on the disk.
\<close>

definition sample_env :: env where
  "sample_env =
     \<lparr>opendir_ok = (\<lambda>_. True), mkdir_ok = (\<lambda>_. True), remove_ok = (\<lambda>_. True),
      rmdir_ok = (\<lambda>_. True), open_ok = (\<lambda>_. True), seek_ok = (\<lambda>_. True), flush_ok = (\<lambda>_. True),
      sync_ok = (\<lambda>_. True), copy_outcome_of = (\<lambda>_. Copied), read_max = (\<lambda>_ n. int n),
      write_max = (\<lambda>_ n. int n), alloc_ok = (\<lambda>_. True), realpath_of = (\<lambda>p. Some p),
      CallingTokenID = 1, CallingIsSystemApp = True, CallingIsNative = False,
      PermissionGranted = (\<lambda>_. True), ActiveOsAccountIds = Some [100],
      AllCreatedOsAccounts = Some [100], OsAccountIsGuest = (\<lambda>_. Some False),
      SceneBoardEnabled = True, CfgFiles = None, cJSON_Parse = (\<lambda>_. None),
      cJSON_GetObjectItemCaseSensitive = (\<lambda>_ _. None), cJSON_IsNumber = (\<lambda>_. False),
      cJSON_valueint = (\<lambda>_. 0), cJSON_IsString = (\<lambda>_. False), cJSON_valuestring = (\<lambda>_. ''''),
      cJSON_IsObject = (\<lambda>_. False), cJSON_PrintNumbers = (\<lambda>_. Some ''{}''),
      ImageSourceOf = (\<lambda>_ _. Some 1), ImageSizeOf = (\<lambda>_. (1080, 2340)),
      DecodePixelMap = (\<lambda>_ _. Some 2), ColorPickerOf = (\<lambda>_. Some 3),
      MainColorOf = (\<lambda>_. Some 7), DecodeTlv = (\<lambda>_. Some 4), PackJpeg = (\<lambda>_. (''jpeg'', 4)),
      PublishOk = True, SubscribeOk = True, AbilityManagerConnect = 0, ConnectExtension = 0,
      RemoteObjectDead = (\<lambda>_. False), COMMON_EVENT_SERVICE_ID = 3299,
      MEMORY_MANAGER_SA_ID = 1909, COMMON_EVENT_USER_ADDED = ''added'',
      COMMON_EVENT_USER_REMOVED = ''removed'', COMMON_EVENT_USER_SWITCHED = ''switched''\<rparr>"

definition sample_files :: fs where
  "sample_files =
     [([''data''], DirNode), ([''data'', ''service''], DirNode),
      ([''data'', ''service'', ''el1''], DirNode),
      ([''data'', ''service'', ''el1'', ''public''], DirNode),
      ([''data'', ''service'', ''el1'', ''public'', ''wallpaper''], DirNode),
      ([''data'', ''service'', ''el1'', ''public'', ''wallpaper'', ''100''], DirNode),
      ([''data'', ''service'', ''el1'', ''public'', ''wallpaper'', ''100'', ''system''], DirNode),
      ([''data'', ''service'', ''el1'', ''public'', ''wallpaper'', ''100'', ''lockscreen''], DirNode),
      ([''data'', ''service'', ''el1'', ''public'', ''wallpaper'', ''100'', ''system'', ''wallpaper_home''],
         FileNode ''old'')]"

definition sample_service :: service where
  "sample_service =
     (constructed sample_files [(5, ReadFd ''picture''), (0, ReadFd '''')])
       \<lparr>wallpaperTmpFullPath := WALLPAPER_USERID_PATH @ WALLPAPER_TMP_DIRNAME,
        wallpaperIdCounter := 4, callbackProxy := Some 9,
        wallpaperEventMap := [(WALLPAPER_CHANGE, [(1, Some 11), (2, None), (3, Some 13)])]\<rparr>"

lemma to_string_100: "to_string 100 = ''100''"
  by code_simp

lemma user_comps_100:
  "user_comps 100 = [''data'', ''service'', ''el1'', ''public'', ''wallpaper'', ''100'']"
  by (simp add: user_comps_def to_string_100)

lemma type_comps_100:
  "type_comps 100 WALLPAPER_SYSTEM =
     [''data'', ''service'', ''el1'', ''public'', ''wallpaper'', ''100'', ''system'']"
  "type_comps 100 WALLPAPER_LOCKSCREEN =
     [''data'', ''service'', ''el1'', ''public'', ''wallpaper'', ''100'', ''lockscreen'']"
  by (simp_all add: type_comps_def user_comps_100 type_dirname_def WALLPAPER_SYSTEM_DIRNAME_def
      WALLPAPER_LOCKSCREEN_DIRNAME_def)

lemma sample_wf: "wf_fs sample_files"
  by (simp add: wf_fs_list sample_files_def parent_ok_def node_at_def name_ok_def)

lemma sample_disk: "disk_ok sample_env"
  by (simp add: disk_ok_def sample_env_def)

lemma sample_service_ok: "service_ok '''' sample_service"
  using sample_wf
  by (simp add: service_ok_def sample_service_def constructed_def wallpaper_map_def entries_ok_def
      listeners_ok_def temp_path_ok_def DEFAULT_WALLPAPER_ID_def INT32_MAX_def std_wf_Cons)

lemma sample_fields [simp]:
  "files sample_service = sample_files"
  "fds sample_service = [(5, ReadFd ''picture''), (0, ReadFd '''')]"
  "wallpaperTmpFullPath sample_service = WALLPAPER_USERID_PATH @ WALLPAPER_TMP_DIRNAME"
  "entry w u sample_service = None"
  by (simp_all add: sample_service_def constructed_def entry_def wallpaper_map_def)

lemma sample_nodes:
  "map_of sample_files (user_comps 100) = Some DirNode"
  "map_of sample_files (type_comps 100 w) = Some DirNode"
  "map_of sample_files (user_comps 100 @ [''wallpapercfg'']) = None"
  "map_of sample_files (temp_comps WALLPAPER_TMP_DIRNAME) = None"
  by (cases w; simp add: user_comps_100 type_comps_100 sample_files_def temp_comps_def
      WALLPAPER_TMP_DIRNAME_def)+

lemma sample_resources: "GetDefaultResDir sample_env = ''''"
  by (simp add: GetDefaultResDir_def sample_env_def)

lemma sample_answers [simp]:
  "CallingIsSystemApp sample_env" "PermissionGranted sample_env p"
  "OsAccountIsGuest sample_env u = Some False" "ActiveOsAccountIds sample_env = Some [100]"
  "SceneBoardEnabled sample_env" "CallingTokenID sample_env = 1"
  by (simp_all add: sample_env_def)

end
