(* ===== verification/UserStore.thy ===== *)
theory UserStore
  imports Samples
begin

text \<open>
  The per-user store of \<^verbatim>\<open>wallpaper_service.cpp\<close>: the two wallpaper maps, the directories of
  the users, the wallpaper identifiers and the persisted configuration file. A function with an
  out-parameter and a bool result returns an option or a pair.
\<close>

section \<open>Caller and account queries\<close>

definition CheckCallingPermission :: "env \<Rightarrow> string \<Rightarrow> bool" where
  "CheckCallingPermission e permissionName = PermissionGranted e permissionName"

definition IsSystemApp :: "env \<Rightarrow> bool" where
  "IsSystemApp e = CallingIsSystemApp e"

definition IsNativeSa :: "env \<Rightarrow> bool" where
  "IsNativeSa e = CallingIsNative e"

definition QueryActiveUserId :: "env \<Rightarrow> int32" where
  "QueryActiveUserId e =
     (case ActiveOsAccountIds e of
        None \<Rightarrow> DEFAULT_USER_ID
      | Some ids \<Rightarrow> (case ids of [] \<Rightarrow> DEFAULT_USER_ID | id0 # _ \<Rightarrow> id0))"

definition CheckUserPermissionById :: "env \<Rightarrow> int32 \<Rightarrow> bool" where
  "CheckUserPermissionById e uid =
     (case OsAccountIsGuest e uid of
        None \<Rightarrow> False
      | Some guest \<Rightarrow> if guest then False else True)"

definition ReporterFault :: "FaultType \<Rightarrow> FaultCode \<Rightarrow> service \<Rightarrow> service" where
  "ReporterFault faultType faultCode s = emit (ReportedFault faultType faultCode) s"

section \<open>Reading the maps\<close>

definition GetFileNameFromMap :: "int32 \<Rightarrow> WallpaperType \<Rightarrow> service \<Rightarrow> bool \<times> string" where
  "GetFileNameFromMap uid wallpaperType s =
     (case find_wallpaper wallpaperType uid s of (found, d) \<Rightarrow>
        if \<not> found then (False, '''')
        else (let filePathName = (case resourceType d of
                    PICTURE \<Rightarrow> wallpaperFile d
                  | VIDEO \<Rightarrow> liveWallpaperFile d
                  | DEFAULT \<Rightarrow> wallpaperFile d
                  | PACKAGE \<Rightarrow> customPackageUri d)
              in (filePathName \<noteq> '''', filePathName)))"

definition GetResType :: "int32 \<Rightarrow> WallpaperType \<Rightarrow> service \<Rightarrow> WallpaperResourceType" where
  "GetResType uid wallpaperType s =
     (case find_wallpaper wallpaperType uid s of (found, d) \<Rightarrow>
        if found then resourceType d else DEFAULT)"

definition GetWallpaperId :: "env \<Rightarrow> int32 \<Rightarrow> service \<Rightarrow> int32" where
  "GetWallpaperId e wallpaperType s =
     (let uid = QueryActiveUserId e in
      if wallpaperType = WallpaperType_value WALLPAPER_LOCKSCREEN then
        (case Find WallpaperData_default (lockWallpaperMap s) uid of (found, d) \<Rightarrow>
           if found then wallpaperId d else - 1)
      else if wallpaperType = WallpaperType_value WALLPAPER_SYSTEM then
        (case Find WallpaperData_default (systemWallpaperMap s) uid of (found, d) \<Rightarrow>
           if found then wallpaperId d else - 1)
      else - 1)"

definition MakeWallpaperIdLocked :: "service \<Rightarrow> int32 \<times> service" where
  "MakeWallpaperIdLocked s =
     (let cur = (if wallpaperIdCounter s = INT32_MAX then DEFAULT_WALLPAPER_ID
                 else wallpaperIdCounter s);
          nxt = wrap32 (cur + 1)
      in (nxt, s\<lparr>wallpaperIdCounter := nxt\<rparr>))"

section \<open>Filling the maps\<close>

definition UpdataWallpaperMap :: "env \<Rightarrow> int32 \<Rightarrow> WallpaperType \<Rightarrow> service \<Rightarrow> service" where
  "UpdataWallpaperMap e uid wallpaperType s =
     (let t = files s;
          wallpaperPath = GetWallpaperDir uid wallpaperType;
          wallpaperFilePath = wallpaperPath @ ''/''
            @ (if wallpaperType = WALLPAPER_SYSTEM then WALLPAPER_HOME else WALLPAPER_LOCK);
          pick = (\<lambda>sys lock. GetExistFilePath t (wallpaperPath @ ''/''
            @ (if wallpaperType = WALLPAPER_SYSTEM then sys else lock)));
          d = default_data e t uid wallpaperType;
          d' = (if IsFileExist t wallpaperFilePath
                then d\<lparr>wallpaperFile := pick WALLPAPER_HOME WALLPAPER_LOCK,
                       normalLandFile := pick ''normal_land_wallpaper_home'' ''normal_land_wallpaper_lock'',
                       unfoldedOnePortFile := pick ''unfold1_port_wallpaper_home'' ''unfold1_port_wallpaper_lock'',
                       unfoldedOneLandFile := pick ''unfold1_land_wallpaper_home'' ''unfold1_land_wallpaper_lock'',
                       unfoldedTwoPortFile := pick ''unfold2_port_wallpaper_home'' ''unfold2_port_wallpaper_lock'',
                       unfoldedTwoLandFile := pick ''unfold2_land_wallpaper_home'' ''unfold2_land_wallpaper_lock''\<rparr>
                else d)
      in insert_wallpaper wallpaperType uid d' s)"

definition GetWallpaperSafeLocked ::
  "env \<Rightarrow> int32 \<Rightarrow> WallpaperType \<Rightarrow> service \<Rightarrow> WallpaperData option \<times> service" where
  "GetWallpaperSafeLocked e uid wallpaperType s =
     (case find_wallpaper wallpaperType uid s of (found, d) \<Rightarrow>
        if found then (Some (ClearnWallpaperDataFile d), s)
        else (let s1 = UpdataWallpaperMap e uid wallpaperType s in
              case find_wallpaper wallpaperType uid s1 of (found1, d1) \<Rightarrow>
                if \<not> found1 then (None, s1) else (Some (ClearnWallpaperDataFile d1), s1)))"

definition ClearWallpaperLocked :: "int32 \<Rightarrow> WallpaperType \<Rightarrow> service \<Rightarrow> service" where
  "ClearWallpaperLocked uid wallpaperType s =
     (case find_wallpaper wallpaperType uid s of (found, d) \<Rightarrow>
        if \<not> found then s
        else if wallpaperFile d \<noteq> '''' \<or> liveWallpaperFile d \<noteq> ''''
        then erase_wallpaper wallpaperType uid s
        else s)"

section \<open>Directories of users\<close>

definition InitUserDir :: "env \<Rightarrow> int32 \<Rightarrow> service \<Rightarrow> bool \<times> service" where
  "InitUserDir e uid s =
     (let userDir = GetUserDir uid in
      case on_files (Mkdir e userDir) s of (ok, s1) \<Rightarrow>
      if \<not> ok then (False, s1) else
      case on_files (Mkdir e (userDir @ ''/'' @ WALLPAPER_SYSTEM_DIRNAME)) s1 of (ok2, s2) \<Rightarrow>
      if \<not> ok2 then (False, s2) else
      case on_files (Mkdir e (userDir @ ''/'' @ WALLPAPER_LOCKSCREEN_DIRNAME)) s2 of (ok3, s3) \<Rightarrow>
      if \<not> ok3 then (False, s3) else (True, s3))"

definition ClearRedundantFile :: "env \<Rightarrow> int32 \<Rightarrow> WallpaperType \<Rightarrow> string \<Rightarrow> service \<Rightarrow> service" where
  "ClearRedundantFile e uid wallpaperType fileName s =
     snd (on_files (DeleteFile e (GetWallpaperDir uid wallpaperType @ ''/'' @ fileName)) s)"

definition OnInitUser :: "env \<Rightarrow> int32 \<Rightarrow> service \<Rightarrow> service" where
  "OnInitUser e uid s =
     (if uid < 0 then s
      else let userDir = GetUserDir uid in
      case (if IsFileExist (files s) userDir then on_files (DeleteDir e userDir True) s
            else (True, s)) of (ok, s1) \<Rightarrow>
      if \<not> ok then s1
      else (case InitUserDir e uid s1 of (made, s2) \<Rightarrow>
        if \<not> made then s2
        else UpdataWallpaperMap e uid WALLPAPER_LOCKSCREEN
               (UpdataWallpaperMap e uid WALLPAPER_SYSTEM s2)))"

definition OnRemovedUser :: "env \<Rightarrow> int32 \<Rightarrow> service \<Rightarrow> service" where
  "OnRemovedUser e uid s =
     (if uid < 0 then s
      else let s1 = ClearWallpaperLocked uid WALLPAPER_SYSTEM s;
               s2 = ClearWallpaperLocked uid WALLPAPER_LOCKSCREEN s1
           in snd (on_files (DeleteDir e (GetUserDir uid) True) s2))"

definition init_boot_user :: "env \<Rightarrow> int32 \<Rightarrow> service \<Rightarrow> service" where
  "init_boot_user e uid s =
     (let s1 = snd (InitUserDir e uid s);
          s2 = UpdataWallpaperMap e uid WALLPAPER_SYSTEM s1;
          s3 = UpdataWallpaperMap e uid WALLPAPER_LOCKSCREEN s2;
          s4 = ClearRedundantFile e uid WALLPAPER_SYSTEM WALLPAPER_SYSTEM_ORIG s3
      in ClearRedundantFile e uid WALLPAPER_LOCKSCREEN WALLPAPER_LOCK_ORIG s4)"

fun init_boot_users :: "env \<Rightarrow> int32 list \<Rightarrow> service \<Rightarrow> service" where
  "init_boot_users e [] s = s"
| "init_boot_users e (uid # rest) s = init_boot_users e rest (init_boot_user e uid s)"

definition InitUsersOnBoot :: "env \<Rightarrow> service \<Rightarrow> bool \<times> service" where
  "InitUsersOnBoot e s =
     (case AllCreatedOsAccounts e of
        None \<Rightarrow> (False, s)
      | Some infos \<Rightarrow> if infos = [] then (False, s) else (True, init_boot_users e infos s))"

text \<open>\<^verbatim>\<open>GetPictureFileName\<close> initialises a user it does not know, which empties the directory of
  that user.\<close>

definition GetPictureFileName ::
  "env \<Rightarrow> int32 \<Rightarrow> WallpaperType \<Rightarrow> service \<Rightarrow> bool \<times> string \<times> service" where
  "GetPictureFileName e uid wallpaperType s =
     (case find_wallpaper wallpaperType uid s of (found, d) \<Rightarrow>
      case (if \<not> found
            then (let s1 = OnInitUser e uid s in (snd (find_wallpaper wallpaperType uid s1), s1))
            else (d, s)) of (d1, s1) \<Rightarrow>
        (wallpaperFile d1 \<noteq> '''', wallpaperFile d1, s1))"

definition RestoreUserResources ::
  "env \<Rightarrow> int32 \<Rightarrow> WallpaperData \<Rightarrow> WallpaperType \<Rightarrow> service \<Rightarrow> bool \<times> WallpaperData \<times> service" where
  "RestoreUserResources e uid d wallpaperType s =
     (case on_files (DeleteDir e (GetWallpaperDir uid wallpaperType) False) s of (ok, s1) \<Rightarrow>
        if \<not> ok then (False, d, s1)
        else (let d1 = default_data e (files s1) uid wallpaperType in
              if wallpaperFile d1 = '''' then (False, d1, s1) else (True, d1, s1)))"

section \<open>The persisted configuration\<close>

definition wallpapercfg_path :: "int32 \<Rightarrow> string" where
  "wallpapercfg_path uid = GetUserDir uid @ ''/wallpapercfg''"

definition WriteWallpapercfgFile :: "env \<Rightarrow> string \<Rightarrow> int32 \<Rightarrow> service \<Rightarrow> bool \<times> service" where
  "WriteWallpapercfgFile e wallpaperJson uid s =
     (case os_open_write e (wallpapercfg_path uid) s of (fd, s1) \<Rightarrow>
        if fd \<le> 0 then (False, s1)
        else (case os_write e fd (c_str wallpaperJson) s1 of (written, s2) \<Rightarrow>
          if written \<le> 0 then (False, os_close fd s2) else (True, os_close fd s2)))"

definition SaveWallpaperState ::
  "env \<Rightarrow> int32 \<Rightarrow> WallpaperType \<Rightarrow> WallpaperResourceType \<Rightarrow> service \<Rightarrow> bool \<times> service" where
  "SaveWallpaperState e uid wallpaperType r s =
     (case GetWallpaperSafeLocked e uid WALLPAPER_SYSTEM s of
        (None, s1) \<Rightarrow> (False, s1)
      | (Some systemData, s1) \<Rightarrow>
     (case GetWallpaperSafeLocked e uid WALLPAPER_LOCKSCREEN s1 of
        (None, s2) \<Rightarrow> (False, s2)
      | (Some lockScreenData, s2) \<Rightarrow>
     (let systemResourceType =
            (if wallpaperType = WALLPAPER_SYSTEM then WallpaperResourceType_value r
             else WallpaperResourceType_value (resourceType systemData));
          lockScreenResourceType =
            (if wallpaperType = WALLPAPER_SYSTEM
             then WallpaperResourceType_value (resourceType lockScreenData)
             else WallpaperResourceType_value r)
      in case cJSON_PrintNumbers e [(SYSTEM_RES_TYPE, systemResourceType),
                                    (LOCKSCREEN_RES_TYPE, lockScreenResourceType)] of
           None \<Rightarrow> (False, s2)
         | Some json \<Rightarrow>
             (case WriteWallpapercfgFile e json uid s2 of (ok, s3) \<Rightarrow>
                if \<not> ok then (False, s3) else (True, s3)))))"

text \<open>
  The resource types read back are stored in the local copies of the two records; nothing is
  written to the maps after that.
\<close>

definition parse_res_type :: "env \<Rightarrow> handle \<Rightarrow> string \<Rightarrow> WallpaperData \<Rightarrow> WallpaperData" where
  "parse_res_type e root key d =
     (case cJSON_GetObjectItemCaseSensitive e root key of
        None \<Rightarrow> d
      | Some item \<Rightarrow>
          if cJSON_IsNumber e item
          then (case to_WallpaperResourceType (cJSON_valueint e item) of
                  Some r \<Rightarrow> d\<lparr>resourceType := r\<rparr> | None \<Rightarrow> d)
          else d)"

definition LoadWallpaperState_full :: "env \<Rightarrow> service \<Rightarrow> (WallpaperData \<times> WallpaperData) option \<times> service" where
  "LoadWallpaperState_full e s =
     (let uid = QueryActiveUserId e in
      case os_open_read e (wallpapercfg_path uid) s of (fd, s1) \<Rightarrow>
      if fd \<le> 0 then (None, s1) else
      case os_read e fd 254 s1 of (nread, buf, s2) \<Rightarrow>
      if nread \<le> 0 then (None, os_close fd s2) else
      let s3 = os_close fd s2 in
      if c_str buf = '''' then (None, s3) else
      case GetWallpaperSafeLocked e uid WALLPAPER_SYSTEM s3 of
        (None, s4) \<Rightarrow> (None, s4)
      | (Some systemData, s4) \<Rightarrow>
      (case GetWallpaperSafeLocked e uid WALLPAPER_LOCKSCREEN s4 of
         (None, s5) \<Rightarrow> (None, s5)
       | (Some lockScreenData, s5) \<Rightarrow>
      (case cJSON_Parse e (c_str buf) of
         None \<Rightarrow> (None, s5)
       | Some root \<Rightarrow>
           (Some (parse_res_type e root SYSTEM_RES_TYPE systemData,
                  parse_res_type e root LOCKSCREEN_RES_TYPE lockScreenData), s5))))"

definition LoadWallpaperState :: "env \<Rightarrow> service \<Rightarrow> service" where
  "LoadWallpaperState e s = snd (LoadWallpaperState_full e s)"

section \<open>What the operations keep\<close>

lemma json_file_ok: "file_ok (GetDefaultResDir e) w u (GetWallpaperPathInJson e t m f)"
  by (auto simp: GetWallpaperPathInJson_def Let_def file_ok_def preset_file_def GetExistFilePath_def
      split: option.splits)

lemma preset_consts_ok: "file_ok res w u WALLPAPER_DEFAULT_FILEFULLPATH"
  "file_ok res w u WALLPAPER_DEFAULT_LOCK_FILEFULLPATH" "file_ok res w u ''''"
  by (simp_all add: file_ok_def preset_file_def)

lemma default_path_ok:
  "list_all (file_ok (GetDefaultResDir e) w u) (picture_files (GetWallpaperDefaultPath e t w'))"
  by (simp add: GetWallpaperDefaultPath_def picture_files_def Let_def json_file_ok preset_consts_ok)

lemma default_path_nonempty: "wallpaperFile (GetWallpaperDefaultPath e t w) \<noteq> ''''"
  by (simp add: GetWallpaperDefaultPath_def Let_def WALLPAPER_DEFAULT_FILEFULLPATH_def
      WALLPAPER_DEFAULT_LOCK_FILEFULLPATH_def)

lemma default_data_fields [simp]:
  "picture_files (default_data e t u w) = picture_files (GetWallpaperDefaultPath e t w)"
  "wallpaperFile (default_data e t u w) = wallpaperFile (GetWallpaperDefaultPath e t w)"
  "userId (default_data e t u w) = u" "allowBackup (default_data e t u w)"
  "wallpaperId (default_data e t u w) = DEFAULT_WALLPAPER_ID"
  "resourceType (default_data e t u w) = PICTURE"
  "liveWallpaperFile (default_data e t u w) = live_file u w"
  "customPackageUri (default_data e t u w) = custom_file u w"
  by (simp_all add: default_data_def picture_files_def live_file_def custom_file_def Let_def)

lemma default_data_ok: "data_ok (GetDefaultResDir e) w u (default_data e t u w)"
  by (simp add: data_ok_def default_path_ok default_path_nonempty DEFAULT_WALLPAPER_ID_def
      INT32_MAX_def)

text \<open>The record \<^verbatim>\<open>UpdataWallpaperMap\<close> stores.\<close>

definition disk_data :: "env \<Rightarrow> fs \<Rightarrow> int32 \<Rightarrow> WallpaperType \<Rightarrow> WallpaperData" where
  "disk_data e t u w =
     (if IsFileExist t (picture_file u w)
      then (default_data e t u w)
        \<lparr>wallpaperFile := picture_file u w,
         normalLandFile := GetExistFilePath t (GetWallpaperDataFile NORMAL LAND u w),
         unfoldedOnePortFile := GetExistFilePath t (GetWallpaperDataFile UNFOLD_1 PORT u w),
         unfoldedOneLandFile := GetExistFilePath t (GetWallpaperDataFile UNFOLD_1 LAND u w),
         unfoldedTwoPortFile := GetExistFilePath t (GetWallpaperDataFile UNFOLD_2 PORT u w),
         unfoldedTwoLandFile := GetExistFilePath t (GetWallpaperDataFile UNFOLD_2 LAND u w)\<rparr>
      else default_data e t u w)"

lemma UpdataWallpaperMap_disk_data:
  "UpdataWallpaperMap e u w s = insert_wallpaper w u (disk_data e (files s) u w) s"
  by (cases w)
    (simp_all add: UpdataWallpaperMap_def disk_data_def picture_file_def Let_def GetExistFilePath_def
      GetWallpaperDataFile_def GetFoldStateName_def GetRotateStateName_def WALLPAPER_HOME_def
      WALLPAPER_LOCK_def)

lemma GetWallpaperDataFile_own: "own_file w u (GetWallpaperDataFile f r u w)"
  by (simp add: GetWallpaperDataFile_def Let_def own_file_in_dir)

lemma exist_file_ok: "own_file w u p \<Longrightarrow> file_ok res w u (GetExistFilePath t p)"
  by (simp add: file_ok_def GetExistFilePath_def)

lemma picture_file_not_Nil [simp]: "picture_file u w \<noteq> ''''"
  by (simp add: picture_file_def)

lemma disk_data_ok: "data_ok (GetDefaultResDir e) w u (disk_data e t u w)"
  using default_data_ok [of e w u t]
  by (auto simp: disk_data_def data_ok_def picture_files_def file_ok_def [of _ _ _ "picture_file u w"]
      intro: exist_file_ok GetWallpaperDataFile_own)

lemma entry_UpdataWallpaperMap [simp]:
  "entry w' v (UpdataWallpaperMap e u w s) =
     (if w' = w \<and> v = u then Some (disk_data e (files s) u w) else entry w' v s)"
  by (simp add: UpdataWallpaperMap_disk_data)

lemma safe_UpdataWallpaperMap [inv_intros]:
  "safe (GetDefaultResDir e) u s0 s \<Longrightarrow> safe (GetDefaultResDir e) u s0 (UpdataWallpaperMap e u w s)"
  by (simp add: UpdataWallpaperMap_disk_data safe_insert disk_data_ok)

lemma GetWallpaperSafeLocked_eq:
  "GetWallpaperSafeLocked e u w s =
     (case entry w u s of
        Some d \<Rightarrow> (Some (ClearnWallpaperDataFile d), s)
      | None \<Rightarrow> (Some (ClearnWallpaperDataFile (disk_data e (files s) u w)), UpdataWallpaperMap e u w s))"
  by (simp add: GetWallpaperSafeLocked_def find_wallpaper_entry split: option.splits)

lemma ClearnWallpaperDataFile_ok: "data_ok res w u d \<Longrightarrow> data_ok res w u (ClearnWallpaperDataFile d)"
  by (auto simp: data_ok_def ClearnWallpaperDataFile_def picture_files_def file_ok_def)

lemma safe_GetWallpaperSafeLocked:
  assumes "GetWallpaperSafeLocked e u w s = (r, s')" "safe (GetDefaultResDir e) u s0 s"
  shows "safe (GetDefaultResDir e) u s0 s'"
    "\<exists>d. r = Some d \<and> data_ok (GetDefaultResDir e) w u d"
  using assms
  by (auto simp: GetWallpaperSafeLocked_eq disk_data_ok ClearnWallpaperDataFile_ok split: option.splits
      intro: inv_intros dest: safe_entry)

lemma safe_MakeWallpaperIdLocked:
  assumes "MakeWallpaperIdLocked s = (i, s')" "safe res u s0 s"
  shows "safe res u s0 s'" "DEFAULT_WALLPAPER_ID \<le> i \<and> i \<le> INT32_MAX"
  using assms
  by (auto simp: MakeWallpaperIdLocked_def safe_def service_ok_def confined_def Let_def wrap32_eq
      INT32_MAX_def DEFAULT_WALLPAPER_ID_def split: if_splits)

lemma comps_user_dir_scope:
  "scope u (comps (GetUserDir u))" "scope u (comps (GetUserDir u @ CHR ''/'' # p))"
  by (simp_all add: path_simps scope_user)

lemma safe_InitUserDir:
  assumes "InitUserDir e u s = (r, s')" "safe res u s0 s"
  shows "safe res u s0 s'"
  using assms
  by (auto simp: InitUserDir_def Let_def split: prod.splits if_splits
      dest!: safe_on_files intro: files_in_scope_Mkdir comps_user_dir_scope)

lemma safe_ClearRedundantFile [inv_intros]:
  "safe res u s0 s \<Longrightarrow> safe res u s0 (ClearRedundantFile e u w f s)"
  unfolding ClearRedundantFile_def
  by (rule safe_on_files [OF prod.collapse [symmetric]])
    (auto intro!: files_in_scope_DeleteFile scope_own own_file_in_dir)

lemma prefix_scope:
  "prefix (comps (GetUserDir u)) q \<Longrightarrow> scope u q" "prefix (comps (GetWallpaperDir u w)) q \<Longrightarrow> scope u q"
  by (simp_all add: path_simps scope_user scope_type)

lemma safe_DeleteDir_user:
  "on_files (DeleteDir e (GetUserDir u) b) s = (r, s') \<Longrightarrow> safe res u s0 s \<Longrightarrow> safe res u s0 s'"
  by (erule safe_on_files) (simp add: files_in_scope_DeleteDir prefix_scope)

lemma safe_DeleteDir_type:
  "on_files (DeleteDir e (GetWallpaperDir u w) b) s = (r, s') \<Longrightarrow> safe res u s0 s \<Longrightarrow> safe res u s0 s'"
  by (erule safe_on_files) (simp add: files_in_scope_DeleteDir prefix_scope)

lemma safe_OnInitUser [inv_intros]:
  "safe (GetDefaultResDir e) u s0 s \<Longrightarrow> safe (GetDefaultResDir e) u s0 (OnInitUser e u s)"
  by (auto simp: OnInitUser_def Let_def split: prod.splits if_splits
      dest: safe_DeleteDir_user safe_InitUserDir intro: inv_intros)

lemma safe_ClearWallpaperLocked [inv_intros]:
  "safe res u s0 s \<Longrightarrow> safe res u s0 (ClearWallpaperLocked u w s)"
  by (simp add: ClearWallpaperLocked_def safe_erase split: prod.splits)

lemma safe_OnRemovedUser [inv_intros]:
  "safe res u s0 s \<Longrightarrow> safe res u s0 (OnRemovedUser e u s)"
  by (auto simp: OnRemovedUser_def Let_def intro: inv_intros
      intro!: safe_DeleteDir_user [OF prod.collapse [symmetric]])

lemma safe_GetPictureFileName:
  assumes "GetPictureFileName e u w s = (r, p, s')" "safe (GetDefaultResDir e) u s0 s"
  shows "safe (GetDefaultResDir e) u s0 s'"
  using assms by (auto simp: GetPictureFileName_def Let_def split: prod.splits if_splits intro: inv_intros)

lemma safe_RestoreUserResources:
  assumes "RestoreUserResources e u d w s = (r, d', s')" "safe (GetDefaultResDir e) u s0 s"
  shows "safe (GetDefaultResDir e) u s0 s'" "r \<Longrightarrow> d' = default_data e (files s') u w"
  using assms
  by (auto simp: RestoreUserResources_def Let_def split: prod.splits if_splits dest: safe_DeleteDir_type)

lemma safe_WriteWallpapercfgFile:
  assumes "WriteWallpapercfgFile e json u s = (r, s')" "safe res u s0 s"
  shows "safe res u s0 s'"
proof -
  have sc: "scope u (comps (wallpapercfg_path u))"
    using comps_user_dir_scope(2) [of u "''wallpapercfg''"] by (simp add: wallpapercfg_path_def)
  obtain fd s1 where op: "os_open_write e (wallpapercfg_path u) s = (fd, s1)" by fastforce
  from safe_open_write [OF op sc assms(2)] have s1: "safe res u s0 s1" .
  obtain n s2 where wr: "os_write e fd (c_str json) s1 = (n, s2)" by fastforce
  show ?thesis
  proof (cases "fd \<le> 0")
    case False
    with op have "map_of (fds s1) fd = Some (WriteFd (comps (wallpapercfg_path u)) 0)"
      by (intro open_write_fd) auto
    from safe_write [OF wr this sc s1] False assms(1) op wr show ?thesis
      by (auto simp: WriteWallpapercfgFile_def split: if_splits intro: safe_close)
  qed (use assms(1) op s1 in \<open>simp add: WriteWallpapercfgFile_def\<close>)
qed

lemma safe_SaveWallpaperState:
  assumes "SaveWallpaperState e u w r s = (b, s')" "safe (GetDefaultResDir e) u s0 s"
  shows "safe (GetDefaultResDir e) u s0 s'"
  using assms
  by (auto simp: SaveWallpaperState_def Let_def split: prod.splits option.splits if_splits
      dest: safe_GetWallpaperSafeLocked(1) safe_WriteWallpapercfgFile)

lemma safe_LoadWallpaperState:
  assumes "safe (GetDefaultResDir e) (QueryActiveUserId e) s0 s"
  shows "safe (GetDefaultResDir e) (QueryActiveUserId e) s0 (LoadWallpaperState e s)"
proof -
  obtain x s' where r: "LoadWallpaperState_full e s = (x, s')" by fastforce
  then have "safe (GetDefaultResDir e) (QueryActiveUserId e) s0 s'"
    using assms
    by (auto simp: LoadWallpaperState_full_def Let_def split: prod.splits if_splits option.splits
        dest!: safe_open_read safe_read dest: safe_GetWallpaperSafeLocked(1) intro: safe_close)
  with r show ?thesis by (simp add: LoadWallpaperState_def)
qed

section \<open>Frames\<close>

text \<open>What changes and what does not, for the functional properties of the handlers.\<close>

lemma files_on_files: "on_files f s = (r, s') \<Longrightarrow> s' = s\<lparr>files := snd (f (files s))\<rparr> \<and> r = fst (f (files s))"
  by (auto simp: on_files_def split: prod.splits)

text \<open>The fields no operation on one user's records touches.\<close>

definition same_rest :: "service \<Rightarrow> service \<Rightarrow> bool" where
  "same_rest s s' \<longleftrightarrow> fds s' = fds s \<and> wallpaperIdCounter s' = wallpaperIdCounter s \<and>
     wallpaperTmpFullPath s' = wallpaperTmpFullPath s \<and> callbackProxy s' = callbackProxy s \<and>
     wallpaperEventMap s' = wallpaperEventMap s \<and> effects s' = effects s \<and>
     systemWallpaperColor s' = systemWallpaperColor s \<and> lockWallpaperColor s' = lockWallpaperColor s"

lemma same_rest_refl [simp]: "same_rest s s"
  by (simp add: same_rest_def)

lemma same_rest_trans: "same_rest s s' \<Longrightarrow> same_rest s' s'' \<Longrightarrow> same_rest s s''"
  by (simp add: same_rest_def)

lemma same_rest_simps [simp]: "same_rest s (s\<lparr>files := t\<rparr>)" "same_rest s (insert_wallpaper w u d s)"
  "same_rest s (UpdataWallpaperMap e u w s)"
  by (simp_all add: same_rest_def UpdataWallpaperMap_disk_data)

lemma GetWallpaperSafeLocked_frame:
  assumes "GetWallpaperSafeLocked e u w s = (r, s')"
  shows "files s' = files s" "same_rest s s'"
    "entry w' v s \<noteq> None \<Longrightarrow> entry w' v s' = entry w' v s" "entry w u s' \<noteq> None"
    "r = Some (ClearnWallpaperDataFile (case entry w u s of Some d \<Rightarrow> d | None \<Rightarrow> disk_data e (files s) u w))"
  using assms
  by (auto simp: GetWallpaperSafeLocked_eq UpdataWallpaperMap_disk_data split: option.splits)

lemma GetWallpaperSafeLocked_entry:
  "entry w u s = Some d \<Longrightarrow> GetWallpaperSafeLocked e u w s = (Some (ClearnWallpaperDataFile d), s)"
  by (simp add: GetWallpaperSafeLocked_eq)

text \<open>The configuration file can be written: its directory exists and it is not a directory.\<close>

definition cfg_comps :: "int32 \<Rightarrow> string list" where
  "cfg_comps u = user_comps u @ [''wallpapercfg'']"

definition cfg_writable :: "env \<Rightarrow> int32 \<Rightarrow> service \<Rightarrow> bool" where
  "cfg_writable e u s \<longleftrightarrow> (\<forall>xs. \<exists>j. cJSON_PrintNumbers e xs = Some j \<and> c_str j \<noteq> '''') \<and>
     map_of (files s) (user_comps u) = Some DirNode \<and>
     map_of (files s) (cfg_comps u) \<noteq> Some DirNode \<and> 0 \<in> fst ` set (fds s)"

lemma comps_cfg: "comps (wallpapercfg_path u) = cfg_comps u" "wallpapercfg_path u \<noteq> ''''"
proof -
  have "comps (GetUserDir u @ CHR ''/'' # ''wallpapercfg'') = user_comps u @ comps ''wallpapercfg''"
    by (rule comps_GetUserDir_slash)
  then show "comps (wallpapercfg_path u) = cfg_comps u"
    by (simp add: wallpapercfg_path_def cfg_comps_def comps_def [of "''wallpapercfg''"])
qed (simp add: wallpapercfg_path_def)

lemma SaveWallpaperState_succeeds:
  assumes disk: "disk_ok e" and cfg: "cfg_writable e u s"
  obtains s' where "SaveWallpaperState e u w r s = (True, s')" "same_rest s s'"
    "\<forall>k. k \<noteq> cfg_comps u \<longrightarrow> map_of (files s') k = map_of (files s) k"
    "\<forall>w' v. entry w' v s \<noteq> None \<longrightarrow> entry w' v s' = entry w' v s"
    "map_of (files s') (cfg_comps u) \<noteq> Some DirNode"
proof -
  obtain x1 s1 where s1: "GetWallpaperSafeLocked e u WALLPAPER_SYSTEM s = (x1, s1)" by fastforce
  obtain x2 s2 where s2: "GetWallpaperSafeLocked e u WALLPAPER_LOCKSCREEN s1 = (x2, s2)" by fastforce
  note f1 = GetWallpaperSafeLocked_frame [OF s1] and f2 = GetWallpaperSafeLocked_frame [OF s2]
  have fields: "files s2 = files s" "same_rest s s2" "fds s2 = fds s"
    using f1(1,2) f2(1,2) same_rest_trans by (auto simp: same_rest_def)
  have ent: "entry w' v s2 = entry w' v s" if "entry w' v s \<noteq> None" for w' v
    using f1(3) f2(3) that by metis
  obtain json where json: "cJSON_PrintNumbers e
      [(SYSTEM_RES_TYPE, if w = WALLPAPER_SYSTEM then WallpaperResourceType_value r
          else WallpaperResourceType_value (resourceType (the x1))),
       (LOCKSCREEN_RES_TYPE, if w = WALLPAPER_SYSTEM
          then WallpaperResourceType_value (resourceType (the x2))
          else WallpaperResourceType_value r)] = Some json" "c_str json \<noteq> ''''"
    using cfg unfolding cfg_writable_def by blast
  have node: "map_of (files s2) (comps (wallpapercfg_path u)) =
        Some (FileNode (file_content (files s2) (cfg_comps u))) \<or>
      (map_of (files s2) (comps (wallpapercfg_path u)) = None \<and>
       parent_ok (files s2) (comps (wallpapercfg_path u)) \<and> file_content (files s2) (cfg_comps u) = '''')"
    using cfg fields(1)
    by (auto simp: comps_cfg cfg_writable_def file_content_def node_at_def parent_ok_def cfg_comps_def
        split: option.splits node.splits)
  have ne: "comps (wallpapercfg_path u) \<noteq> []" by (simp add: comps_cfg cfg_comps_def)
  obtain s3 s4 t where wr: "os_open_write e (wallpapercfg_path u) s2 = (fresh_fd (fds s2), s3)"
    "os_write e (fresh_fd (fds s2)) (c_str json) s3 = (int (length (c_str json)), s4)"
    "os_close (fresh_fd (fds s2)) s4 = s2\<lparr>files := t\<rparr>"
    "map_of t = (map_of (files s2))(comps (wallpapercfg_path u) \<mapsto>
       FileNode (overwrite 0 (c_str json) (file_content (files s2) (cfg_comps u))))"
    by (rule open_write_close [OF disk comps_cfg(2) ne json(2) node])
  have "fresh_fd (fds s2) \<noteq> 0"
    using cfg fields(3) fresh_fd_fresh [of "fds s2"] unfolding cfg_writable_def by metis
  then have pos: "\<not> fresh_fd (fds s2) \<le> 0" using fresh_fd_nonneg [of "fds s2"] by simp
  have len: "\<not> int (length (c_str json)) \<le> 0" using json(2) by simp
  obtain d1 d2 where d: "x1 = Some d1" "x2 = Some d2" using f1(5) f2(5) by blast
  show thesis
  proof (rule that)
    show "SaveWallpaperState e u w r s = (True, s2\<lparr>files := t\<rparr>)"
      using json(1) pos len
      by (cases "w = WALLPAPER_SYSTEM")
        (simp_all add: SaveWallpaperState_def s1 s2 d Let_def WriteWallpapercfgFile_def wr(1,2,3))
    show "same_rest s (s2\<lparr>files := t\<rparr>)"
      using fields(2) same_rest_trans by (auto simp: same_rest_def)
    show "\<forall>k. k \<noteq> cfg_comps u \<longrightarrow> map_of (files (s2\<lparr>files := t\<rparr>)) k = map_of (files s) k"
      using wr(4) fields(1) by (simp add: comps_cfg)
    show "\<forall>w' v. entry w' v s \<noteq> None \<longrightarrow> entry w' v (s2\<lparr>files := t\<rparr>) = entry w' v s"
      using ent by (simp del: not_None_eq)
    show "map_of (files (s2\<lparr>files := t\<rparr>)) (cfg_comps u) \<noteq> Some DirNode"
      using wr(4) by (simp add: comps_cfg)
  qed
qed

section \<open>Properties\<close>

text \<open>C20: identifiers are consecutive and wrap from the largest 32-bit integer back to 0: the
  \<open>n\<close>-th identifier made from a counter in range is \<open>counter + n\<close> modulo \<open>2 ^ 31\<close>, so it is
  never negative and no two of \<open>2 ^ 31\<close> consecutive ones are equal.\<close>

theorem identifiers_consecutive:
  assumes "DEFAULT_WALLPAPER_ID \<le> wallpaperIdCounter s" "wallpaperIdCounter s \<le> INT32_MAX"
  shows "fst (MakeWallpaperIdLocked (((\<lambda>x. snd (MakeWallpaperIdLocked x)) ^^ n) s))
    = (wallpaperIdCounter s + int n + 1) mod 2147483648"
proof -
  have one: "fst (MakeWallpaperIdLocked x) = (wallpaperIdCounter x + 1) mod 2147483648 \<and>
      wallpaperIdCounter (snd (MakeWallpaperIdLocked x)) = (wallpaperIdCounter x + 1) mod 2147483648"
    if "- 1 \<le> wallpaperIdCounter x" "wallpaperIdCounter x \<le> 2147483647" for x
    using that
    by (auto simp: MakeWallpaperIdLocked_def Let_def wrap32_eq INT32_MAX_def DEFAULT_WALLPAPER_ID_def)
  have "wallpaperIdCounter (((\<lambda>x. snd (MakeWallpaperIdLocked x)) ^^ n) s)
      = (if n = 0 then wallpaperIdCounter s else (wallpaperIdCounter s + int n) mod 2147483648)"
  proof (induction n)
    case (Suc n)
    let ?x = "((\<lambda>x. snd (MakeWallpaperIdLocked x)) ^^ n) s"
    have "0 \<le> k mod 2147483648 \<and> k mod 2147483648 \<le> 2147483647" for k :: int
      using pos_mod_bound [of 2147483648 k] by simp
    then have "- 1 \<le> wallpaperIdCounter ?x" "wallpaperIdCounter ?x \<le> 2147483647"
      using Suc.IH assms by (auto simp: DEFAULT_WALLPAPER_ID_def INT32_MAX_def intro: order_trans [of "- 1" 0])
    from one [OF this] Suc.IH show ?case by (simp add: mod_simps algebra_simps)
  qed simp
  note counter = this
  let ?x = "((\<lambda>x. snd (MakeWallpaperIdLocked x)) ^^ n) s"
  have "0 \<le> k mod 2147483648 \<and> k mod 2147483648 \<le> 2147483647" for k :: int
    using pos_mod_bound [of 2147483648 k] by simp
  then have "- 1 \<le> wallpaperIdCounter ?x" "wallpaperIdCounter ?x \<le> 2147483647"
    using counter assms by (auto simp: DEFAULT_WALLPAPER_ID_def INT32_MAX_def intro: order_trans [of "- 1" 0])
  from one [OF this] counter show ?thesis by (simp add: mod_simps algebra_simps)
qed

theorem identifiers_consecutive_witness:
  "fst (MakeWallpaperIdLocked (((\<lambda>x. snd (MakeWallpaperIdLocked x)) ^^ 2)
     (sample_service\<lparr>wallpaperIdCounter := INT32_MAX\<rparr>))) = 2"
  using identifiers_consecutive [of "sample_service\<lparr>wallpaperIdCounter := INT32_MAX\<rparr>" 2]
  by (simp add: DEFAULT_WALLPAPER_ID_def INT32_MAX_def)

text \<open>C21: after a restart, the record rebuilt from the disk shows, for each screen state, the file
  stored for that state whenever the normal picture is there too.\<close>

theorem restart_finds_pictures:
  assumes "os_access t (GetWallpaperDataFile NORMAL PORT u w)" "os_access t (GetWallpaperDataFile f r u w)"
    and "files s = t"
  shows "\<exists>d. entry w u (UpdataWallpaperMap e u w s) = Some d \<and>
    GetWallpaperPath (FoldState_value f) (RotateState_value r) d = GetWallpaperDataFile f r u w"
proof -
  have pic: "GetWallpaperDataFile NORMAL PORT u w = picture_file u w"
    by (simp add: GetWallpaperDataFile_eq screen_name_def picture_file_def)
  have "GetWallpaperPath (FoldState_value f) (RotateState_value r) (disk_data e t u w)
      = GetWallpaperDataFile f r u w"
    using assms(1,2) GetWallpaperDataFile_not_Nil
    by (cases f; cases r)
      (simp_all add: GetWallpaperPath_def disk_data_def pic IsFileExist_def GetExistFilePath_def
        FoldState_value_def RotateState_value_def)
  with assms(3) show ?thesis by simp
qed

theorem restart_finds_pictures_witness:
  "\<exists>d. entry WALLPAPER_SYSTEM 100 (UpdataWallpaperMap sample_env 100 WALLPAPER_SYSTEM sample_service) = Some d \<and>
    GetWallpaperPath 0 0 d = GetWallpaperDataFile NORMAL PORT 100 WALLPAPER_SYSTEM"
proof -
  have "os_access sample_files (GetWallpaperDataFile NORMAL PORT 100 WALLPAPER_SYSTEM)"
    by (simp add: os_access_def lookup_path_def node_at_def comps_GetWallpaperDataFile type_comps_100
        GetWallpaperDataFile_not_Nil screen_name_def WALLPAPER_HOME_def sample_files_def)
  from restart_finds_pictures [OF this this sample_fields(1), of sample_env] show ?thesis
    by (simp add: FoldState_value_def RotateState_value_def)
qed

text \<open>Loading the persisted state stores nothing: a record that is in a map stays what it was,
  whatever the configuration file says.\<close>

theorem LoadWallpaperState_stores_nothing:
  assumes "entry w u s = Some d"
  shows "entry w u (LoadWallpaperState e s) = Some d \<and> files (LoadWallpaperState e s) = files s"
proof -
  define K where "K x \<longleftrightarrow> entry w u x = Some d \<and> files x = files s" for x
  have get: "K s2" if "GetWallpaperSafeLocked e a b s1 = (x, s2)" "K s1" for a b x s1 s2
    using GetWallpaperSafeLocked_frame [OF that(1)] that(2) by (simp add: K_def)
  have op: "K s2" if "os_open_read e p s1 = (fd, s2)" "K s1" for p fd s1 s2
    using that by (auto simp: K_def os_open_read_def Let_def split: option.splits if_splits)
  have rd: "K s2" if "os_read e fd m s1 = (n, buf, s2)" "K s1" for m fd n buf s1 s2
    using that by (auto simp: K_def os_read_def Let_def split: option.splits ofd.splits if_splits)
  have cl: "K s1 \<Longrightarrow> K (os_close fd s1)" for fd s1
    by (simp add: K_def os_close_def)
  have "K s" using assms by (simp add: K_def)
  moreover obtain r s' where run: "LoadWallpaperState_full e s = (r, s')" by fastforce
  ultimately have "K s'"
    by (auto simp: LoadWallpaperState_full_def Let_def split: prod.splits if_splits option.splits
        dest!: op rd dest: get intro: cl)
  with run show ?thesis by (simp add: LoadWallpaperState_def K_def)
qed

theorem LoadWallpaperState_stores_nothing_witness:
  "entry WALLPAPER_SYSTEM 100 (LoadWallpaperState sample_env
     (UpdataWallpaperMap sample_env 100 WALLPAPER_SYSTEM sample_service))
   = Some (disk_data sample_env sample_files 100 WALLPAPER_SYSTEM)"
  using LoadWallpaperState_stores_nothing [of WALLPAPER_SYSTEM 100
      "UpdataWallpaperMap sample_env 100 WALLPAPER_SYSTEM sample_service"]
  by simp

lemma json_file_preset:
  "GetWallpaperPathInJson e t m f = '''' \<or> preset_file (GetDefaultResDir e) (GetWallpaperPathInJson e t m f)"
  by (auto simp: GetWallpaperPathInJson_def Let_def preset_file_def GetExistFilePath_def
      split: option.splits)

lemma default_file_preset: "preset_file (GetDefaultResDir e) (wallpaperFile (GetWallpaperDefaultPath e t w))"
proof -
  have c: "preset_file res WALLPAPER_DEFAULT_FILEFULLPATH" "preset_file res WALLPAPER_DEFAULT_LOCK_FILEFULLPATH"
    for res by (simp_all add: preset_file_def)
  have j: "GetWallpaperPathInJson e t m f \<noteq> '''' \<Longrightarrow>
      preset_file (GetDefaultResDir e) (GetWallpaperPathInJson e t m f)" for m f
    using json_file_preset by blast
  show ?thesis
    by (simp add: GetWallpaperDefaultPath_def Let_def c j)
qed

end
