(* ===== verification/Notify.thy ===== *)
theory Notify
  imports UserStore
begin

text \<open>
  Everything the service tells others: the listeners registered by \<^verbatim>\<open>On\<close>, the callback of
  \<^verbatim>\<open>RegisterWallpaperCallback\<close>, the common events of
  \<^verbatim>\<open>wallpaper_common_event_manager.cpp\<close>, and the main colours.
\<close>

section \<open>Common events\<close>

definition SendWallpaperLockSettingMessage :: "WallpaperResourceType \<Rightarrow> service \<Rightarrow> service" where
  "SendWallpaperLockSettingMessage r s =
     emit (PublishCommonEvent ''com.ohos.wallpaperlocksettingsuccess'' 11000
             ''WallpaperLockSettingMessage''
             [(''WallpaperLockSettingMessage'', 1),
              (''WallpaperLockScreenResourceType'', WallpaperResourceType_value r)]) s"

definition SendWallpaperSystemSettingMessage :: "WallpaperResourceType \<Rightarrow> service \<Rightarrow> service" where
  "SendWallpaperSystemSettingMessage r s =
     emit (PublishCommonEvent ''com.ohos.wallpapersystemsettingsuccess'' 21000
             ''WallpaperSystemSettingMessage''
             [(''WallpaperSystemSettingMessage'', 1),
              (''WallpaperSystemResourceType'', WallpaperResourceType_value r)]) s"

section \<open>Listeners\<close>

definition On ::
  "env \<Rightarrow> string \<Rightarrow> handle option \<Rightarrow> service \<Rightarrow> ErrorCode \<times> service" where
  "On e type listener s =
     (if listener = None then (E_DEAL_FAILED, s)
      else if type = WALLPAPER_CHANGE \<and> \<not> IsSystemApp e then (E_NOT_SYSTEM_APP, s)
      else let m = wallpaperEventMap s;
               inner = (case map_of m type of None \<Rightarrow> [] | Some i \<Rightarrow> i);
               inner' = std_upsert (wrap32 (CallingTokenID e)) listener inner
           in (NO_ERROR, s\<lparr>wallpaperEventMap := std_upsert type inner' m\<rparr>))"

definition Off ::
  "env \<Rightarrow> string \<Rightarrow> handle option \<Rightarrow> service \<Rightarrow> ErrorCode \<times> service" where
  "Off e type listener s =
     (if type = WALLPAPER_CHANGE \<and> \<not> IsSystemApp e then (E_NOT_SYSTEM_APP, s)
      else case map_of (wallpaperEventMap s) type of
             None \<Rightarrow> (NO_ERROR, s)
           | Some inner \<Rightarrow>
               (case map_of inner (wrap32 (CallingTokenID e)) of
                  None \<Rightarrow> (NO_ERROR, s)
                | Some it \<Rightarrow>
                    (NO_ERROR, s\<lparr>wallpaperEventMap :=
                       std_upsert type (std_erase (wrap32 (CallingTokenID e)) inner)
                         (wallpaperEventMap s)\<rparr>)))"

definition RegisterWallpaperCallback ::
  "env \<Rightarrow> handle option \<Rightarrow> service \<Rightarrow> ErrorCode \<times> bool \<times> service" where
  "RegisterWallpaperCallback e callback s =
     (if \<not> IsSystemApp e then (E_NOT_SYSTEM_APP, False, s)
      else (NO_ERROR, True, s\<lparr>callbackProxy := callback\<rparr>))"

text \<open>One pass over the listeners of an event, in token order; null listeners are skipped.\<close>

fun notify_listeners :: "(handle \<Rightarrow> effect) \<Rightarrow> (int32, handle option) stdmap \<Rightarrow> service \<Rightarrow> service" where
  "notify_listeners call [] s = s"
| "notify_listeners call ((token, l) # rest) s =
     (case l of None \<Rightarrow> notify_listeners call rest s
      | Some h \<Rightarrow> notify_listeners call rest (emit (call h) s))"

definition WallpaperChanged ::
  "WallpaperType \<Rightarrow> WallpaperResourceType \<Rightarrow> string \<Rightarrow> service \<Rightarrow> bool \<times> service" where
  "WallpaperChanged wallpaperType resType uri s =
     (case map_of (wallpaperEventMap s) WALLPAPER_CHANGE of
        None \<Rightarrow> (False, s)
      | Some ls \<Rightarrow>
          (True, notify_listeners (\<lambda>h. ListenerOnWallpaperChange h wallpaperType resType uri) ls s))"

definition NotifyColorChange :: "uint64 list \<Rightarrow> WallpaperType \<Rightarrow> service \<Rightarrow> service" where
  "NotifyColorChange colors wallpaperType s =
     (case map_of (wallpaperEventMap s) COLOR_CHANGE of
        None \<Rightarrow> s
      | Some ls \<Rightarrow> notify_listeners (\<lambda>h. ListenerOnColorsChange h colors wallpaperType) ls s)"

section \<open>Colours\<close>

definition CompareColor :: "uint64 \<Rightarrow> uint64 \<Rightarrow> bool" where
  "CompareColor localColor packed \<longleftrightarrow> localColor = packed"

definition OnColorsChange :: "WallpaperType \<Rightarrow> uint64 \<Rightarrow> service \<Rightarrow> service" where
  "OnColorsChange wallpaperType color s =
     (if wallpaperType = WALLPAPER_SYSTEM \<and> \<not> CompareColor (systemWallpaperColor s) color
      then NotifyColorChange [color] WALLPAPER_SYSTEM (s\<lparr>systemWallpaperColor := color\<rparr>)
      else if wallpaperType = WALLPAPER_LOCKSCREEN \<and> \<not> CompareColor (lockWallpaperColor s) color
      then NotifyColorChange [color] WALLPAPER_LOCKSCREEN (s\<lparr>lockWallpaperColor := color\<rparr>)
      else s)"

text \<open>Integer division of C++ truncates towards zero.\<close>

definition cdiv :: "int \<Rightarrow> int \<Rightarrow> int" where
  "cdiv a b = sgn a * sgn b * (\<bar>a\<bar> div \<bar>b\<bar>)"

definition decode_size :: "int32 \<times> int32 \<Rightarrow> (int32 \<times> int32) option" where
  "decode_size sz =
     (case sz of (width, height) \<Rightarrow>
        if height \<ge> MIN_SIZE \<or> width \<ge> MIN_SIZE
        then Some (cdiv width COMPRESSION_RATIO, cdiv height COMPRESSION_RATIO) else None)"

definition SaveColor :: "env \<Rightarrow> int32 \<Rightarrow> WallpaperType \<Rightarrow> service \<Rightarrow> bool \<times> service" where
  "SaveColor e uid wallpaperType s =
     (case GetPictureFileName e uid wallpaperType s of (found, pathName, s1) \<Rightarrow>
        if \<not> found then (False, s1)
        else (case ImageSourceOf e pathName (bytes_at (files s1) pathName) of
                None \<Rightarrow> (False, s1)
              | Some imageSource \<Rightarrow>
             (case DecodePixelMap e imageSource (decode_size (ImageSizeOf e imageSource)) of
                None \<Rightarrow> (False, s1)
              | Some pixelMap \<Rightarrow>
             (case ColorPickerOf e pixelMap of
                None \<Rightarrow> (False, s1)
              | Some colorPicker \<Rightarrow>
             (case MainColorOf e colorPicker of
                None \<Rightarrow> (False, s1)
              | Some color \<Rightarrow> (True, OnColorsChange wallpaperType color s1))))))"

definition GetColors :: "int32 \<Rightarrow> uint64 list \<Rightarrow> service \<Rightarrow> ErrorCode \<times> uint64 list" where
  "GetColors wallpaperType colors s =
     (if wallpaperType = WallpaperType_value WALLPAPER_SYSTEM
      then (NO_ERROR, colors @ [systemWallpaperColor s])
      else if wallpaperType = WallpaperType_value WALLPAPER_LOCKSCREEN
      then (NO_ERROR, colors @ [lockWallpaperColor s])
      else (NO_ERROR, colors))"

definition GetColorsV9 ::
  "env \<Rightarrow> int32 \<Rightarrow> uint64 list \<Rightarrow> service \<Rightarrow> ErrorCode \<times> uint64 list" where
  "GetColorsV9 e wallpaperType colors s =
     (if \<not> IsSystemApp e then (E_NOT_SYSTEM_APP, colors) else GetColors wallpaperType colors s)"

section \<open>Announcing a change\<close>

definition SendWallpaperChangeEvent ::
  "env \<Rightarrow> int32 \<Rightarrow> WallpaperType \<Rightarrow> service \<Rightarrow> bool \<times> service" where
  "SendWallpaperChangeEvent e uid wallpaperType s =
     (case GetWallpaperSafeLocked e uid wallpaperType s of
        (None, s1) \<Rightarrow> (False, s1)
      | (Some d, s1) \<Rightarrow>
     (let s2 = (case wallpaperType of
                  WALLPAPER_SYSTEM \<Rightarrow> SendWallpaperSystemSettingMessage (resourceType d) s1
                | WALLPAPER_LOCKSCREEN \<Rightarrow> SendWallpaperLockSettingMessage (resourceType d) s1);
          s3 = (case callbackProxy s2 of
                  Some cb \<Rightarrow>
                    if resourceType d = PICTURE \<or> resourceType d = DEFAULT
                    then emit (CallbackOnCall cb wallpaperType) s2 else s2
                | None \<Rightarrow> s2)
      in (True, snd (WallpaperChanged wallpaperType (resourceType d) '''' s3))))"

definition SendEvent :: "env \<Rightarrow> string \<Rightarrow> service \<Rightarrow> ErrorCode \<times> service" where
  "SendEvent e eventType s =
     (if \<not> CheckCallingPermission e PERMISSION_SET_WALLPAPER then (E_NO_PERMISSION, s)
      else let uid = QueryActiveUserId e in
      case (if eventType = SHOW_SYSTEM_SCREEN then Some WALLPAPER_SYSTEM
            else if eventType = SHOW_LOCK_SCREEN then Some WALLPAPER_LOCKSCREEN else None) of
        None \<Rightarrow> (E_PARAMETERS_INVALID, s)
      | Some wallpaperType \<Rightarrow>
     (case GetWallpaperSafeLocked e uid wallpaperType s of
        (None, s1) \<Rightarrow> (E_PARAMETERS_INVALID, s1)
      | (Some d, s1) \<Rightarrow>
          (let uri = snd (GetFileNameFromMap uid WALLPAPER_SYSTEM s1)
           in (NO_ERROR, snd (WallpaperChanged wallpaperType (resourceType d) uri s1)))))"

section \<open>What the operations keep\<close>

text \<open>Sending only appends to the effects.\<close>

lemma notify_listeners_eq:
  "notify_listeners call ls s = s\<lparr>effects := effects s @ map call (List.map_filter snd ls)\<rparr>"
  by (induction call ls s rule: notify_listeners.induct)
    (auto simp: emit_def List.map_filter_def split: option.splits)

lemma safe_effects: "safe res u s0 s \<Longrightarrow> safe res u s0 (s\<lparr>effects := x\<rparr>)"
  by (simp add: safe_def service_ok_def confined_def)

lemma safe_WallpaperChanged [inv_intros]:
  "safe res u s0 s \<Longrightarrow> safe res u s0 (snd (WallpaperChanged w r uri s))"
  by (simp add: WallpaperChanged_def notify_listeners_eq safe_effects split: option.split)

lemma safe_NotifyColorChange [inv_intros]:
  "safe res u s0 s \<Longrightarrow> safe res u s0 (NotifyColorChange cs w s)"
  by (simp add: NotifyColorChange_def notify_listeners_eq safe_effects split: option.split)

lemma safe_OnColorsChange [inv_intros]:
  "safe res u s0 s \<Longrightarrow> safe res u s0 (OnColorsChange w c s)"
  by (simp add: OnColorsChange_def inv_intros safe_colors)

lemma safe_SaveColor [inv_intros]:
  assumes "safe (GetDefaultResDir e) u s0 s"
  shows "safe (GetDefaultResDir e) u s0 (snd (SaveColor e u w s))"
  using assms
  by (auto simp: SaveColor_def split: prod.splits option.splits
      dest: safe_GetPictureFileName intro: inv_intros)

lemma safe_SendWallpaperChangeEvent:
  assumes "SendWallpaperChangeEvent e u w s = (r, s')" "safe (GetDefaultResDir e) u s0 s"
  shows "safe (GetDefaultResDir e) u s0 s'"
proof -
  obtain d s1 where g: "GetWallpaperSafeLocked e u w s = (d, s1)" by fastforce
  note s1 = safe_GetWallpaperSafeLocked [OF g assms(2)]
  then obtain d' where "d = Some d'" by blast
  with g s1(1) assms(1) show ?thesis
    by (auto simp: SendWallpaperChangeEvent_def Let_def SendWallpaperSystemSettingMessage_def
        SendWallpaperLockSettingMessage_def intro!: inv_intros safe_emit
        split: WallpaperType.splits option.splits)
qed

lemma listeners_ok_upsert:
  "listeners_ok m \<Longrightarrow> std_wf inner \<Longrightarrow> listeners_ok (std_upsert k inner m)"
proof -
  assume m: "listeners_ok m" "std_wf inner"
  have "snd ` set (std_upsert k inner m) \<subseteq> insert inner (snd ` set m)"
    by (induction k inner m rule: std_upsert.induct) auto
  with m have "\<forall>x \<in> snd ` set (std_upsert k inner m). std_wf x"
    unfolding listeners_ok_def by blast
  with m show ?thesis by (simp add: listeners_ok_def std_wf_upsert)
qed

lemma listeners_ok_inner: "listeners_ok m \<Longrightarrow> map_of m k = Some inner \<Longrightarrow> std_wf inner"
  by (force simp: listeners_ok_def dest: map_of_SomeD)

lemma service_ok_listeners:
  "service_ok res s \<Longrightarrow> listeners_ok m \<Longrightarrow> service_ok res (s\<lparr>wallpaperEventMap := m\<rparr>)"
  by (simp add: service_ok_def)

lemma service_ok_On:
  assumes "service_ok res s" shows "service_ok res (snd (On e ty l s))"
proof -
  have m: "listeners_ok (wallpaperEventMap s)" using assms by (simp add: service_ok_def)
  then have "std_wf (case map_of (wallpaperEventMap s) ty of None \<Rightarrow> [] | Some i \<Rightarrow> i)"
    by (simp add: listeners_ok_inner split: option.split)
  with m have "listeners_ok (std_upsert ty (std_upsert (wrap32 (CallingTokenID e)) l
      (case map_of (wallpaperEventMap s) ty of None \<Rightarrow> [] | Some i \<Rightarrow> i)) (wallpaperEventMap s))"
    by (intro listeners_ok_upsert std_wf_upsert)
  with assms show ?thesis by (simp add: On_def Let_def service_ok_listeners)
qed

lemma service_ok_Off:
  assumes "service_ok res s" shows "service_ok res (snd (Off e ty l s))"
proof -
  have m: "listeners_ok (wallpaperEventMap s)" using assms by (simp add: service_ok_def)
  with assms show ?thesis
    by (auto simp: Off_def split: option.splits
        intro!: service_ok_listeners listeners_ok_upsert std_wf_erase intro: listeners_ok_inner)
qed

lemma service_ok_RegisterWallpaperCallback:
  "service_ok res s \<Longrightarrow> service_ok res (snd (snd (RegisterWallpaperCallback e cb s)))"
  by (simp add: RegisterWallpaperCallback_def service_ok_def)

section \<open>Exact effects\<close>

definition listeners_of :: "string \<Rightarrow> service \<Rightarrow> handle list" where
  "listeners_of ev s =
     (case map_of (wallpaperEventMap s) ev of None \<Rightarrow> [] | Some ls \<Rightarrow> List.map_filter snd ls)"

text \<open>What a changed wallpaper announces: the common event, the callback, the listeners.\<close>

definition change_effects :: "WallpaperType \<Rightarrow> WallpaperResourceType \<Rightarrow> service \<Rightarrow> effect list" where
  "change_effects w r s =
     (case w of
        WALLPAPER_SYSTEM \<Rightarrow> PublishCommonEvent ''com.ohos.wallpapersystemsettingsuccess'' 21000
          ''WallpaperSystemSettingMessage''
          [(''WallpaperSystemSettingMessage'', 1),
           (''WallpaperSystemResourceType'', WallpaperResourceType_value r)]
      | WALLPAPER_LOCKSCREEN \<Rightarrow> PublishCommonEvent ''com.ohos.wallpaperlocksettingsuccess'' 11000
          ''WallpaperLockSettingMessage''
          [(''WallpaperLockSettingMessage'', 1),
           (''WallpaperLockScreenResourceType'', WallpaperResourceType_value r)])
     # (case callbackProxy s of None \<Rightarrow> []
        | Some cb \<Rightarrow> if r = PICTURE \<or> r = DEFAULT then [CallbackOnCall cb w] else [])
     @ map (\<lambda>h. ListenerOnWallpaperChange h w r '''') (listeners_of WALLPAPER_CHANGE s)"

lemma WallpaperChanged_eq:
  "snd (WallpaperChanged w r uri s) = s\<lparr>effects := effects s
     @ map (\<lambda>h. ListenerOnWallpaperChange h w r uri) (listeners_of WALLPAPER_CHANGE s)\<rparr>"
  by (simp add: WallpaperChanged_def notify_listeners_eq listeners_of_def split: option.split)

lemma listeners_of_effects [simp]: "listeners_of ev (s\<lparr>effects := x\<rparr>) = listeners_of ev s"
  by (simp add: listeners_of_def)

lemma SendWallpaperChangeEvent_eq:
  assumes "entry w u s = Some d"
  shows "SendWallpaperChangeEvent e u w s =
    (True, s\<lparr>effects := effects s @ change_effects w (resourceType d) s\<rparr>)"
  using assms
  by (cases w; cases "callbackProxy s")
    (simp_all add: SendWallpaperChangeEvent_def GetWallpaperSafeLocked_entry Let_def
      SendWallpaperSystemSettingMessage_def SendWallpaperLockSettingMessage_def
      ClearnWallpaperDataFile_def WallpaperChanged_eq change_effects_def emit_def)

lemma NotifyColorChange_eq:
  "NotifyColorChange cs w s =
     s\<lparr>effects := effects s @ map (\<lambda>h. ListenerOnColorsChange h cs w) (listeners_of COLOR_CHANGE s)\<rparr>"
  by (simp add: NotifyColorChange_def notify_listeners_eq listeners_of_def split: option.split)

lemma OnColorsChange_frame:
  "files (OnColorsChange w c s) = files s" "fds (OnColorsChange w c s) = fds s"
  "entry w' v (OnColorsChange w c s) = entry w' v s"
  "wallpaperIdCounter (OnColorsChange w c s) = wallpaperIdCounter s"
  "prefix (effects s) (effects (OnColorsChange w c s))"
  "wallpaperTmpFullPath (OnColorsChange w c s) = wallpaperTmpFullPath s"
  by (auto simp: OnColorsChange_def NotifyColorChange_eq)

lemma GetPictureFileName_entry:
  "entry w u s = Some d \<Longrightarrow>
     GetPictureFileName e u w s = (wallpaperFile d \<noteq> '''', wallpaperFile d, s)"
  by (simp add: GetPictureFileName_def find_wallpaper_entry)

lemma SaveColor_frame:
  assumes "entry w u s = Some d"
  shows "files (snd (SaveColor e u w s)) = files s" "fds (snd (SaveColor e u w s)) = fds s"
    "entry w' v (snd (SaveColor e u w s)) = entry w' v s"
    "wallpaperIdCounter (snd (SaveColor e u w s)) = wallpaperIdCounter s"
    "prefix (effects s) (effects (snd (SaveColor e u w s)))"
    "wallpaperTmpFullPath (snd (SaveColor e u w s)) = wallpaperTmpFullPath s"
  using assms
  by (auto simp: SaveColor_def GetPictureFileName_entry OnColorsChange_frame split: option.split)

text \<open>The main colour of the picture at a path, which holds the bytes \<open>b\<close>, as \<^verbatim>\<open>SaveColor\<close> extracts it, and the last one stored for a type.\<close>

definition main_colour :: "env \<Rightarrow> string \<Rightarrow> string option \<Rightarrow> uint64 option" where
  "main_colour e path b =
     (case ImageSourceOf e path b of None \<Rightarrow> None
      | Some imageSource \<Rightarrow>
     (case DecodePixelMap e imageSource (decode_size (ImageSizeOf e imageSource)) of None \<Rightarrow> None
      | Some pixelMap \<Rightarrow> (case ColorPickerOf e pixelMap of None \<Rightarrow> None | Some colorPicker \<Rightarrow> MainColorOf e colorPicker)))"

definition stored_colour :: "WallpaperType \<Rightarrow> service \<Rightarrow> uint64" where
  "stored_colour w s = (case w of WALLPAPER_SYSTEM \<Rightarrow> systemWallpaperColor s | WALLPAPER_LOCKSCREEN \<Rightarrow> lockWallpaperColor s)"

lemma stored_colour_fields [simp]:
  "stored_colour w (s\<lparr>effects := x\<rparr>) = stored_colour w s" "stored_colour w (s\<lparr>fds := f\<rparr>) = stored_colour w s"
  "stored_colour w (s\<lparr>files := t\<rparr>) = stored_colour w s" "stored_colour w (s\<lparr>wallpaperEventMap := l\<rparr>) = stored_colour w s"
  by (simp_all add: stored_colour_def split: WallpaperType.split)

text \<open>What the listeners of colours hear of a new picture, and the colour stored afterwards.\<close>

definition colour_effects :: "env \<Rightarrow> string \<Rightarrow> string option \<Rightarrow> WallpaperType \<Rightarrow> service \<Rightarrow> effect list" where
  "colour_effects e path b w s =
     (case main_colour e path b of None \<Rightarrow> []
      | Some c \<Rightarrow> if c = stored_colour w s then []
                  else map (\<lambda>h. ListenerOnColorsChange h [c] w) (listeners_of COLOR_CHANGE s))"

definition colour_after :: "env \<Rightarrow> string \<Rightarrow> string option \<Rightarrow> WallpaperType \<Rightarrow> service \<Rightarrow> uint64" where
  "colour_after e path b w s = (case main_colour e path b of None \<Rightarrow> stored_colour w s | Some c \<Rightarrow> c)"

lemma SaveColor_heard:
  assumes "entry w u s = Some d" "wallpaperFile d \<noteq> ''''"
  shows "effects (snd (SaveColor e u w s)) = effects s @ colour_effects e (wallpaperFile d) (bytes_at (files s) (wallpaperFile d)) w s"
    "stored_colour w (snd (SaveColor e u w s)) = colour_after e (wallpaperFile d) (bytes_at (files s) (wallpaperFile d)) w s"
  using assms
  by (cases w; auto simp: SaveColor_def GetPictureFileName_entry main_colour_def colour_effects_def colour_after_def
      stored_colour_def OnColorsChange_def CompareColor_def NotifyColorChange_eq listeners_of_def split: option.split)+

text \<open>States in which the listeners of colours hear the same.\<close>

definition same_hearing :: "service \<Rightarrow> service \<Rightarrow> bool" where
  "same_hearing s s' \<longleftrightarrow> wallpaperEventMap s' = wallpaperEventMap s \<and>
     systemWallpaperColor s' = systemWallpaperColor s \<and> lockWallpaperColor s' = lockWallpaperColor s"

lemma same_hearing_trans: "same_hearing s s' \<Longrightarrow> same_hearing s' s'' \<Longrightarrow> same_hearing s s''"
  by (simp add: same_hearing_def)

lemma same_rest_hearing: "same_rest s s' \<Longrightarrow> same_hearing s s'"
  by (simp add: same_rest_def same_hearing_def)

lemma heard_same:
  assumes "same_hearing s s'"
  shows "colour_effects e p b w s' = colour_effects e p b w s" "colour_after e p b w s' = colour_after e p b w s"
proof -
  have eq: "listeners_of ev s' = listeners_of ev s" "stored_colour w s' = stored_colour w s" for ev
    using assms by (simp_all add: same_hearing_def listeners_of_def stored_colour_def split: WallpaperType.split)
  show "colour_effects e p b w s' = colour_effects e p b w s" "colour_after e p b w s' = colour_after e p b w s"
    unfolding colour_effects_def colour_after_def eq by simp_all
qed

section \<open>Properties\<close>

text \<open>C17: announcing a wallpaper that has a record succeeds and does nothing but append, in this
  order, one common event, one call of the registered callback when the wallpaper is a picture,
  and one notification for each registered listener, in the order of their tokens.\<close>

theorem change_announced_exactly:
  assumes "entry w u s = Some d"
  shows "SendWallpaperChangeEvent e u w s =
    (True, s\<lparr>effects := effects s @ change_effects w (resourceType d) s\<rparr>)"
  using assms by (rule SendWallpaperChangeEvent_eq)

lemma sample_listeners: "listeners_of WALLPAPER_CHANGE sample_service = [11, 13]"
  by (simp add: listeners_of_def sample_service_def List.map_filter_def)

theorem change_announced_exactly_witness:
  "effects (snd (SendWallpaperChangeEvent sample_env 100 WALLPAPER_LOCKSCREEN
     (insert_wallpaper WALLPAPER_LOCKSCREEN 100 (WallpaperData_default\<lparr>resourceType := PICTURE\<rparr>)
       sample_service))) =
   [PublishCommonEvent ''com.ohos.wallpaperlocksettingsuccess'' 11000 ''WallpaperLockSettingMessage''
      [(''WallpaperLockSettingMessage'', 1), (''WallpaperLockScreenResourceType'', 1)],
    CallbackOnCall 9 WALLPAPER_LOCKSCREEN,
    ListenerOnWallpaperChange 11 WALLPAPER_LOCKSCREEN PICTURE '''',
    ListenerOnWallpaperChange 13 WALLPAPER_LOCKSCREEN PICTURE '''']"
proof -
  let ?d = "WallpaperData_default\<lparr>resourceType := PICTURE\<rparr>"
  let ?s = "insert_wallpaper WALLPAPER_LOCKSCREEN 100 ?d sample_service"
  have e: "entry WALLPAPER_LOCKSCREEN 100 ?s = Some ?d" by simp
  have l: "listeners_of WALLPAPER_CHANGE ?s = [11, 13]"
    using sample_listeners by (simp add: listeners_of_def)
  show ?thesis
    unfolding change_announced_exactly [OF e, of sample_env]
    by (simp add: change_effects_def l)
      (simp add: sample_service_def constructed_def WallpaperResourceType_value_def)
qed

text \<open>The listener registered for an event under a token.\<close>

definition listener_at :: "string \<Rightarrow> int32 \<Rightarrow> service \<Rightarrow> handle option option" where
  "listener_at ev token s = Option.bind (map_of (wallpaperEventMap s) ev) (\<lambda>m. map_of m token)"

lemma On_effect:
  "(case On e ty l s of (c, s') \<Rightarrow>
     if l = None then c = E_DEAL_FAILED \<and> s' = s
     else if ty = WALLPAPER_CHANGE \<and> \<not> CallingIsSystemApp e then c = E_NOT_SYSTEM_APP \<and> s' = s
     else c = NO_ERROR \<and> s' = s\<lparr>wallpaperEventMap := wallpaperEventMap s'\<rparr> \<and>
       (\<forall>ev token. listener_at ev token s' =
          (if ev = ty \<and> token = wrap32 (CallingTokenID e) then Some l else listener_at ev token s)))"
  by (auto simp: On_def IsSystemApp_def Let_def listener_at_def split: option.split)

lemma Off_effect:
  "case Off e ty l s of (c, s') \<Rightarrow>
     if ty = WALLPAPER_CHANGE \<and> \<not> CallingIsSystemApp e then c = E_NOT_SYSTEM_APP \<and> s' = s
     else c = NO_ERROR \<and> s' = s\<lparr>wallpaperEventMap := wallpaperEventMap s'\<rparr> \<and>
       (\<forall>ev token. listener_at ev token s' =
          (if ev = ty \<and> token = wrap32 (CallingTokenID e) then None else listener_at ev token s))"
  by (auto simp: Off_def IsSystemApp_def listener_at_def split: option.splits)

text \<open>C19: \<^verbatim>\<open>On\<close> registers exactly one listener: the caller's, for the event it names, in place of an
  earlier one; a null listener is refused, and so is the wallpaper event for an application
  that is not a system application. \<^verbatim>\<open>Off\<close> removes exactly that listener, whatever listener it
  passes, and reports success also when there is none.\<close>

theorem registration_is_per_caller:
  "(case On e ty l s of (c, s') \<Rightarrow>
     if l = None then c = E_DEAL_FAILED \<and> s' = s
     else if ty = WALLPAPER_CHANGE \<and> \<not> CallingIsSystemApp e then c = E_NOT_SYSTEM_APP \<and> s' = s
     else c = NO_ERROR \<and> s' = s\<lparr>wallpaperEventMap := wallpaperEventMap s'\<rparr> \<and>
       (\<forall>ev token. listener_at ev token s' =
          (if ev = ty \<and> token = wrap32 (CallingTokenID e) then Some l else listener_at ev token s))) \<and>
   (case Off e ty l' s of (c, s') \<Rightarrow>
     if ty = WALLPAPER_CHANGE \<and> \<not> CallingIsSystemApp e then c = E_NOT_SYSTEM_APP \<and> s' = s
     else c = NO_ERROR \<and> s' = s\<lparr>wallpaperEventMap := wallpaperEventMap s'\<rparr> \<and>
       (\<forall>ev token. listener_at ev token s' =
          (if ev = ty \<and> token = wrap32 (CallingTokenID e) then None else listener_at ev token s)))"
  by (rule conjI [OF On_effect Off_effect])

text \<open>C18: a colour reaches the listeners of colour changes exactly when it differs from the last
  one stored for the type, so a second report of the same colour has no effect at all.\<close>

theorem colour_reported_once:
  "OnColorsChange w c s =
     (if c = (case w of WALLPAPER_SYSTEM \<Rightarrow> systemWallpaperColor s | WALLPAPER_LOCKSCREEN \<Rightarrow> lockWallpaperColor s)
      then s
      else (case w of WALLPAPER_SYSTEM \<Rightarrow> s\<lparr>systemWallpaperColor := c\<rparr>
            | WALLPAPER_LOCKSCREEN \<Rightarrow> s\<lparr>lockWallpaperColor := c\<rparr>)
        \<lparr>effects := effects s @ map (\<lambda>h. ListenerOnColorsChange h [c] w) (listeners_of COLOR_CHANGE s)\<rparr>)
   \<and> OnColorsChange w c (OnColorsChange w c s) = OnColorsChange w c s"
  by (cases w) (auto simp: OnColorsChange_def CompareColor_def NotifyColorChange_eq listeners_of_def)

end
