(* ===== verification/SetWallpaper.thy ===== *)
theory SetWallpaper
  imports Notify
begin

text \<open>
  The handlers that change a wallpaper: \<^verbatim>\<open>SetWallpaper\<close> and its variants for pixel maps,
  videos, custom packages and several pictures at once, and \<^verbatim>\<open>ResetWallpaper\<close>
  (\<^verbatim>\<open>wallpaper_service.cpp\<close>). A picture goes through a temporary file: the bytes of the
  caller's descriptor are written there, the directory of the user and type is emptied, the
  temporary file is copied into it and deleted, and only then is the record of the user replaced.
\<close>

section \<open>Arguments\<close>

text \<open>\<^verbatim>\<open>static_cast<WallpaperType>\<close>, applied by the code after the integer was compared with
  both enumerators.\<close>

definition as_WallpaperType :: "int32 \<Rightarrow> WallpaperType" where
  "as_WallpaperType i =
     (if i = WallpaperType_value WALLPAPER_SYSTEM then WALLPAPER_SYSTEM else WALLPAPER_LOCKSCREEN)"

definition known_type :: "int32 \<Rightarrow> bool" where
  "known_type i \<longleftrightarrow> \<not> (i \<noteq> WallpaperType_value WALLPAPER_LOCKSCREEN
                     \<and> i \<noteq> WallpaperType_value WALLPAPER_SYSTEM)"

definition CheckValid :: "int32 \<Rightarrow> int32 \<Rightarrow> WallpaperResourceType \<Rightarrow> ErrorCode" where
  "CheckValid wallpaperType len r =
     (if \<not> known_type wallpaperType then E_PARAMETERS_INVALID
      else let maxLength = (if r = VIDEO then MAX_VIDEO_SIZE else FOO_MAX_LEN) in
      if len \<le> 0 then E_PARAMETERS_INVALID
      else if len > maxLength then E_PICTURE_OVERSIZED
      else NO_ERROR)"

section \<open>The temporary file\<close>

text \<open>The buffer is value-initialised: what a read leaves unfilled is zero.\<close>

definition zero_fill :: "nat \<Rightarrow> string \<Rightarrow> string" where
  "zero_fill n got = take n got @ replicate (n - length got) CHR 0x00"

definition write_buffer :: "env \<Rightarrow> string \<Rightarrow> string \<Rightarrow> service \<Rightarrow> ErrorCode \<times> service" where
  "write_buffer e path buf s =
     (case os_open_write e path s of (fdw, s1) \<Rightarrow>
        if fdw < 0 then (E_DEAL_FAILED, s1)
        else (case os_write e fdw buf s1 of (written, s2) \<Rightarrow>
          if written \<le> 0
          then (E_DEAL_FAILED, os_close fdw (ReporterFault SET_WALLPAPER_FAULT RF_DROP_FAILED s2))
          else (NO_ERROR, os_close fdw s2)))"

definition spool_fd :: "env \<Rightarrow> int \<Rightarrow> int32 \<Rightarrow> string \<Rightarrow> service \<Rightarrow> ErrorCode \<times> service" where
  "spool_fd e fd len path s =
     (if \<not> alloc_ok e len then (E_NO_MEMORY, s)
      else (case os_read e fd (nat len) s of (got, bytes, s1) \<Rightarrow>
        if got \<le> 0 then (E_DEAL_FAILED, s1)
        else write_buffer e path (zero_fill (nat len) bytes) s1))"

definition WriteFdToFile ::
  "env \<Rightarrow> WallpaperPictureInfo \<Rightarrow> string \<Rightarrow> service \<Rightarrow> ErrorCode \<times> service" where
  "WriteFdToFile e pinfo path s = spool_fd e (pic_fd pinfo) (pic_length pinfo) path s"

section \<open>Replacing the wallpaper of a user\<close>

definition SetWallpaperBackupData ::
  "env \<Rightarrow> int32 \<Rightarrow> WallpaperResourceType \<Rightarrow> string \<Rightarrow> WallpaperType \<Rightarrow> service
    \<Rightarrow> ErrorCode \<times> service" where
  "SetWallpaperBackupData e uid r uriOrPixelMap wallpaperType s =
     (if \<not> os_access (files s) uriOrPixelMap then (E_DEAL_FAILED, s) else
      case on_files (DeleteDir e (GetWallpaperDir uid wallpaperType) False) s of (emptied, s1) \<Rightarrow>
      if \<not> emptied then (E_DEAL_FAILED, s1) else
      case GetWallpaperSafeLocked e uid wallpaperType s1 of
        (None, s2) \<Rightarrow> (E_DEAL_FAILED, s2)
      | (Some d, s2) \<Rightarrow>
     (let d1 = (if r = PICTURE \<or> r = DEFAULT
                then d\<lparr>wallpaperFile := GetWallpaperDir uid wallpaperType @ ''/''
                       @ (if wallpaperType = WALLPAPER_SYSTEM then WALLPAPER_HOME
                          else WALLPAPER_LOCK)\<rparr>
                else d)
      in case MakeWallpaperIdLocked s2 of (newId, s3) \<Rightarrow>
      let d2 = d1\<lparr>resourceType := r, wallpaperId := newId\<rparr>;
          target = GetWallpaperFile r d2
      in case on_files (CopyFile e uriOrPixelMap target) s3 of (copied, s4) \<Rightarrow>
      if \<not> copied then (E_DEAL_FAILED, snd (on_files (DeleteFile e uriOrPixelMap) s4)) else
      case on_files (DeleteFile e uriOrPixelMap) s4 of (deleted, s5) \<Rightarrow>
      if \<not> deleted then (E_DEAL_FAILED, s5) else
      case SaveWallpaperState e uid wallpaperType r s5 of (saved, s6) \<Rightarrow>
      if \<not> saved then (E_DEAL_FAILED, s6) else
      case SendWallpaperChangeEvent e uid wallpaperType (insert_wallpaper wallpaperType uid d2 s6)
      of (sent, s7) \<Rightarrow>
      if \<not> sent then (E_DEAL_FAILED, s7) else (NO_ERROR, s7)))"

text \<open>The overload with a resource type; the public handlers follow.\<close>

definition SetWallpaper_res ::
  "env \<Rightarrow> int \<Rightarrow> int32 \<Rightarrow> int32 \<Rightarrow> WallpaperResourceType \<Rightarrow> service \<Rightarrow> ErrorCode \<times> service" where
  "SetWallpaper_res e fd wallpaperType len r s =
     (let uid = QueryActiveUserId e in
      if \<not> CheckUserPermissionById e uid then (E_USER_IDENTITY_ERROR, s)
      else let errCode = CheckValid wallpaperType len r in
      if errCode \<noteq> NO_ERROR then (errCode, s)
      else let uri = wallpaperTmpFullPath s in
      case spool_fd e fd len uri s of (spooled, s1) \<Rightarrow>
      if spooled \<noteq> NO_ERROR then (spooled, s1)
      else let w = as_WallpaperType wallpaperType in
      case SetWallpaperBackupData e uid r uri w s1 of (wallpaperErrorCode, s2) \<Rightarrow>
      (wallpaperErrorCode, if r = PICTURE then snd (SaveColor e uid w s2) else s2))"

definition SetWallpaper :: "env \<Rightarrow> int \<Rightarrow> int32 \<Rightarrow> int32 \<Rightarrow> service \<Rightarrow> ErrorCode \<times> service" where
  "SetWallpaper e fd wallpaperType len s =
     (if \<not> CheckCallingPermission e PERMISSION_SET_WALLPAPER then (E_NO_PERMISSION, s)
      else case SetWallpaper_res e fd wallpaperType len PICTURE s of (wallpaperErrorCode, s1) \<Rightarrow>
        (wallpaperErrorCode, os_close fd s1))"

definition SetWallpaperV9 :: "env \<Rightarrow> int \<Rightarrow> int32 \<Rightarrow> int32 \<Rightarrow> service \<Rightarrow> ErrorCode \<times> service" where
  "SetWallpaperV9 e fd wallpaperType len s =
     (if \<not> IsSystemApp e then (E_NOT_SYSTEM_APP, os_close fd s)
      else SetWallpaper e fd wallpaperType len s)"

definition SetVideo :: "env \<Rightarrow> int \<Rightarrow> int32 \<Rightarrow> int32 \<Rightarrow> service \<Rightarrow> ErrorCode \<times> service" where
  "SetVideo e fd wallpaperType len s =
     (if \<not> IsSystemApp e then (E_NOT_SYSTEM_APP, os_close fd s)
      else if \<not> CheckCallingPermission e PERMISSION_SET_WALLPAPER then (E_NO_PERMISSION, s)
      else case SetWallpaper_res e fd wallpaperType len VIDEO s of (wallpaperErrorCode, s1) \<Rightarrow>
        (wallpaperErrorCode, os_close fd s1))"

text \<open>
  The record read before the inner call is the one written after it, whatever that call returned.
\<close>

definition SetCustomWallpaper ::
  "env \<Rightarrow> int \<Rightarrow> int32 \<Rightarrow> int32 \<Rightarrow> service \<Rightarrow> ErrorCode \<times> service" where
  "SetCustomWallpaper e fd type len s =
     (if \<not> IsSystemApp e then (E_NOT_SYSTEM_APP, os_close fd s)
      else if \<not> CheckCallingPermission e PERMISSION_SET_WALLPAPER then (E_NO_PERMISSION, os_close fd s)
      else if \<not> known_type type then (E_PARAMETERS_INVALID, os_close fd s)
      else let uid = QueryActiveUserId e; w = as_WallpaperType type in
      case GetWallpaperSafeLocked e uid w s of
        (None, s1) \<Rightarrow> (E_DEAL_FAILED, os_close fd s1)
      | (Some d, s1) \<Rightarrow>
      if \<not> SceneBoardEnabled e then (E_NO_PERMISSION, os_close fd s1)
      else case SaveWallpaperState e uid w PACKAGE s1 of (saved, s2) \<Rightarrow>
      if \<not> saved then (E_DEAL_FAILED, os_close fd s2)
      else case SetWallpaper_res e fd (WallpaperType_value w) len PACKAGE s2 of
        (wallpaperErrorCode, s3) \<Rightarrow>
      case MakeWallpaperIdLocked s3 of (newId, s4) \<Rightarrow>
      let s5 = insert_wallpaper w uid (d\<lparr>resourceType := PACKAGE, wallpaperId := newId\<rparr>) s4 in
      case SendWallpaperChangeEvent e uid w s5 of (sent, s6) \<Rightarrow>
      if \<not> sent then (E_DEAL_FAILED, os_close fd s6)
      else (wallpaperErrorCode, os_close fd s6))"

section \<open>Pixel maps\<close>

text \<open>What the packer wrote, and the size it reports.\<close>

definition WritePixelMapToStream :: "env \<Rightarrow> handle option \<Rightarrow> string \<times> int" where
  "WritePixelMapToStream e pixelMap =
     (case pixelMap of None \<Rightarrow> ('''', 0) | Some pm \<Rightarrow> PackJpeg e pm)"

definition WritePixelMapToFile ::
  "env \<Rightarrow> handle option \<Rightarrow> string \<Rightarrow> int32 \<Rightarrow> WallpaperResourceType \<Rightarrow> service
    \<Rightarrow> ErrorCode \<times> service" where
  "WritePixelMapToFile e pixelMap tmpFullPath wallpaperType r s =
     (if pixelMap = None then (E_FILE_ERROR, s)
      else case WritePixelMapToStream e pixelMap of (stringBuf, packedSize) \<Rightarrow>
      let mapSize = wrap32 packedSize in
      if mapSize \<le> 0 then (E_WRITE_PARCEL_ERROR, s)
      else let errCode = CheckValid wallpaperType mapSize r in
      if errCode \<noteq> NO_ERROR then (errCode, s)
      else if \<not> alloc_ok e mapSize then (E_NO_MEMORY, s)
      else write_buffer e tmpFullPath (zero_fill (nat mapSize) stringBuf) s)"

definition SetWallpaperByPixelMap_res ::
  "env \<Rightarrow> handle option \<Rightarrow> int32 \<Rightarrow> WallpaperResourceType \<Rightarrow> service \<Rightarrow> ErrorCode \<times> service" where
  "SetWallpaperByPixelMap_res e pixelMap wallpaperType r s =
     (if pixelMap = None then (E_FILE_ERROR, s)
      else let uid = QueryActiveUserId e in
      if \<not> CheckUserPermissionById e uid then (E_USER_IDENTITY_ERROR, s)
      else let uri = wallpaperTmpFullPath s in
      case WritePixelMapToFile e pixelMap uri wallpaperType r s of (errCode, s1) \<Rightarrow>
      if errCode \<noteq> NO_ERROR then (errCode, s1)
      else let w = as_WallpaperType wallpaperType in
      case SetWallpaperBackupData e uid r uri w s1 of (wallpaperErrorCode, s2) \<Rightarrow>
      (wallpaperErrorCode, if r = PICTURE then snd (SaveColor e uid w s2) else s2))"

text \<open>\<^verbatim>\<open>WallpaperRawData\<close>: the bytes behind the pointer, or a null pointer.\<close>

definition SetWallpaperByPixelMap ::
  "env \<Rightarrow> string option \<Rightarrow> int32 \<Rightarrow> service \<Rightarrow> ErrorCode \<times> service" where
  "SetWallpaperByPixelMap e rawData wallpaperType s =
     (if \<not> CheckCallingPermission e PERMISSION_SET_WALLPAPER then (E_NO_PERMISSION, s)
      else case rawData of
        None \<Rightarrow> (E_FILE_ERROR, s)
      | Some bytes \<Rightarrow>
          if bytes = '''' then (E_FILE_ERROR, s)
          else (case DecodeTlv e bytes of
                  None \<Rightarrow> (E_FILE_ERROR, s)
                | Some pixelMap \<Rightarrow>
                    SetWallpaperByPixelMap_res e (Some pixelMap) wallpaperType PICTURE s))"

definition SetWallpaperV9ByPixelMap ::
  "env \<Rightarrow> string option \<Rightarrow> int32 \<Rightarrow> service \<Rightarrow> ErrorCode \<times> service" where
  "SetWallpaperV9ByPixelMap e rawData wallpaperType s =
     (if \<not> IsSystemApp e then (E_NOT_SYSTEM_APP, s)
      else SetWallpaperByPixelMap e rawData wallpaperType s)"

section \<open>Several pictures at once\<close>

fun CloseVectorFd :: "int list \<Rightarrow> service \<Rightarrow> service" where
  "CloseVectorFd [] s = s"
| "CloseVectorFd (fd # rest) s = CloseVectorFd rest (if fd \<ge> 0 then os_close fd s else s)"

fun CloseWallpaperInfoFd :: "WallpaperPictureInfo list \<Rightarrow> service \<Rightarrow> service" where
  "CloseWallpaperInfoFd [] s = s"
| "CloseWallpaperInfoFd (p # rest) s =
     CloseWallpaperInfoFd rest (if pic_fd p \<ge> 0 then os_close (pic_fd p) s else s)"

fun DeleteTempResource :: "env \<Rightarrow> WallpaperPictureInfo list \<Rightarrow> service \<Rightarrow> service" where
  "DeleteTempResource e [] s = s"
| "DeleteTempResource e (p # rest) s =
     DeleteTempResource e rest (snd (on_files (DeleteFile e (tempPath p)) s))"

definition temp_path_of :: "WallpaperPictureInfo \<Rightarrow> string" where
  "temp_path_of p =
     WALLPAPER_USERID_PATH @ GetFoldStateName (foldState p) @ ''_''
       @ GetRotateStateName (rotateState p)"

text \<open>
  The first loop of \<^verbatim>\<open>SetAllWallpapers\<close>: \<open>passed\<close> holds the entries whose temporary file is
  written. The list comes back because the loop fills in the temporary paths.
\<close>

fun stage_wallpapers ::
  "env \<Rightarrow> int32 \<Rightarrow> WallpaperResourceType \<Rightarrow> WallpaperPictureInfo list \<Rightarrow> WallpaperPictureInfo list
    \<Rightarrow> service \<Rightarrow> ErrorCode \<times> WallpaperPictureInfo list \<times> service" where
  "stage_wallpapers e wallpaperType r passed [] s = (NO_ERROR, passed, s)"
| "stage_wallpapers e wallpaperType r passed (p # rest) s =
     (let p' = p\<lparr>tempPath := temp_path_of p\<rparr>;
          errCode = CheckValid wallpaperType (pic_length p') r
      in if errCode \<noteq> NO_ERROR then (errCode, passed @ p' # rest, s)
         else case WriteFdToFile e p' (tempPath p') s of (errCode', s1) \<Rightarrow>
         if errCode' \<noteq> NO_ERROR
         then (errCode', passed @ p' # rest, DeleteTempResource e (passed @ p' # rest) s1)
         else stage_wallpapers e wallpaperType r (passed @ [p']) rest s1)"

fun SetAllWallpaperBackupData ::
  "env \<Rightarrow> WallpaperPictureInfo list \<Rightarrow> int32 \<Rightarrow> WallpaperType \<Rightarrow> WallpaperData \<Rightarrow> service
    \<Rightarrow> ErrorCode \<times> WallpaperData \<times> service" where
  "SetAllWallpaperBackupData e [] uid wallpaperType d s = (NO_ERROR, d, s)"
| "SetAllWallpaperBackupData e (p # rest) uid wallpaperType d s =
     (if \<not> os_access (files s) (tempPath p) then (E_DEAL_FAILED, d, s)
      else let d' = UpdateWallpaperDataFile (foldState p) (rotateState p) uid wallpaperType d;
               target = GetWallpaperDataFile (foldState p) (rotateState p) uid wallpaperType
      in case on_files (CopyFile e (tempPath p) target) s of (copied, s1) \<Rightarrow>
      if \<not> copied then (E_DEAL_FAILED, d', snd (on_files (DeleteFile e (tempPath p)) s1))
      else case on_files (DeleteFile e (tempPath p)) s1 of (deleted, s2) \<Rightarrow>
      if \<not> deleted then (E_DEAL_FAILED, d', s2)
      else SetAllWallpaperBackupData e rest uid wallpaperType d' s2)"

definition UpdateWallpaperData ::
  "env \<Rightarrow> WallpaperPictureInfo list \<Rightarrow> int32 \<Rightarrow> WallpaperType \<Rightarrow> service \<Rightarrow> ErrorCode \<times> service" where
  "UpdateWallpaperData e infos uid wallpaperType s =
     (case GetWallpaperSafeLocked e uid wallpaperType s of
        (None, s1) \<Rightarrow> (E_DEAL_FAILED, s1)
      | (Some d, s1) \<Rightarrow>
     (case SetAllWallpaperBackupData e infos uid wallpaperType (ClearnWallpaperDataFile d) s1 of
        (errCode, d1, s2) \<Rightarrow>
        if errCode \<noteq> NO_ERROR then (errCode, DeleteTempResource e infos s2)
        else case MakeWallpaperIdLocked s2 of (newId, s3) \<Rightarrow>
          (NO_ERROR, insert_wallpaper wallpaperType uid
                       (d1\<lparr>resourceType := PICTURE, wallpaperId := newId\<rparr>) s3)))"

definition SetAllWallpapers_res ::
  "env \<Rightarrow> WallpaperPictureInfo list \<Rightarrow> int32 \<Rightarrow> WallpaperResourceType \<Rightarrow> service
    \<Rightarrow> ErrorCode \<times> service" where
  "SetAllWallpapers_res e infos wallpaperType r s =
     (if \<not> IsSystemApp e \<and> \<not> IsNativeSa e then (E_NOT_SYSTEM_APP, s)
      else if \<not> CheckCallingPermission e PERMISSION_SET_WALLPAPER then (E_NO_PERMISSION, s)
      else let uid = QueryActiveUserId e in
      if \<not> CheckUserPermissionById e uid then (E_USER_IDENTITY_ERROR, s)
      else case stage_wallpapers e wallpaperType r [] infos s of (errCode, infos', s1) \<Rightarrow>
      if errCode \<noteq> NO_ERROR then (errCode, s1)
      else let w = as_WallpaperType wallpaperType;
               s2 = snd (on_files (DeleteDir e (GetWallpaperDir uid w) False) s1)
      in case UpdateWallpaperData e infos' uid w s2 of (errCode', s3) \<Rightarrow>
      if errCode' \<noteq> NO_ERROR then (errCode', s3)
      else let s4 = snd (SaveColor e uid w s3) in
      case SendWallpaperChangeEvent e uid w s4 of (sent, s5) \<Rightarrow>
      if \<not> sent then (E_DEAL_FAILED, s5) else (errCode', s5))"

definition SetAllWallpapers ::
  "env \<Rightarrow> WallpaperPictureInfo list \<Rightarrow> int32 \<Rightarrow> int list \<Rightarrow> service \<Rightarrow> ErrorCode \<times> service" where
  "SetAllWallpapers e infos wallpaperType fdVector s =
     (if length infos \<noteq> length fdVector \<or> length fdVector = 0
      then (E_DEAL_FAILED, CloseVectorFd fdVector s)
      else let infos' = map2 (\<lambda>p fd. p\<lparr>pic_fd := fd\<rparr>) infos fdVector in
      case SetAllWallpapers_res e infos' wallpaperType PICTURE s of (wallpaperErrorCode, s1) \<Rightarrow>
      (wallpaperErrorCode, CloseWallpaperInfoFd infos' s1))"

section \<open>Resetting\<close>

definition SetDefaultDataForWallpaper ::
  "env \<Rightarrow> int32 \<Rightarrow> WallpaperType \<Rightarrow> service \<Rightarrow> ErrorCode \<times> service" where
  "SetDefaultDataForWallpaper e uid wallpaperType s =
     (case GetWallpaperSafeLocked e uid wallpaperType s of
        (None, s1) \<Rightarrow> (E_DEAL_FAILED, s1)
      | (Some d, s1) \<Rightarrow>
      case RestoreUserResources e uid d wallpaperType s1 of (restored, d1, s2) \<Rightarrow>
      if \<not> restored then (E_DEAL_FAILED, s2)
      else case SaveWallpaperState e uid wallpaperType DEFAULT s2 of (saved, s3) \<Rightarrow>
      if \<not> saved then (E_DEAL_FAILED, s3)
      else let d2 = d1\<lparr>wallpaperId := DEFAULT_WALLPAPER_ID, resourceType := DEFAULT,
                       allowBackup := True\<rparr>
      in case SendWallpaperChangeEvent e uid wallpaperType (insert_wallpaper wallpaperType uid d2 s3)
      of (sent, s4) \<Rightarrow>
      if \<not> sent then (E_DEAL_FAILED, s4)
      else (NO_ERROR, snd (SaveColor e uid wallpaperType s4)))"

definition ResetWallpaper :: "env \<Rightarrow> int32 \<Rightarrow> service \<Rightarrow> ErrorCode \<times> service" where
  "ResetWallpaper e wallpaperType s =
     (if \<not> CheckCallingPermission e PERMISSION_SET_WALLPAPER then (E_NO_PERMISSION, s)
      else if \<not> known_type wallpaperType then (E_PARAMETERS_INVALID, s)
      else let w = as_WallpaperType wallpaperType; uid = QueryActiveUserId e in
      if \<not> CheckUserPermissionById e uid then (E_USER_IDENTITY_ERROR, s)
      else SetDefaultDataForWallpaper e uid w s)"

definition ResetWallpaperV9 :: "env \<Rightarrow> int32 \<Rightarrow> service \<Rightarrow> ErrorCode \<times> service" where
  "ResetWallpaperV9 e wallpaperType s =
     (if \<not> IsSystemApp e then (E_NOT_SYSTEM_APP, s) else ResetWallpaper e wallpaperType s)"

section \<open>What the operations keep\<close>

lemma safe_ReporterFault: "safe res u s0 s \<Longrightarrow> safe res u s0 (ReporterFault t c s)"
  by (simp add: ReporterFault_def safe_emit)

lemma safe_write_buffer:
  assumes "write_buffer e p buf s = (r, s')" "scope u (comps p)" "safe res u s0 s"
  shows "safe res u s0 s'"
proof -
  obtain fd s1 where op: "os_open_write e p s = (fd, s1)" by fastforce
  from safe_open_write [OF op assms(2,3)] have s1: "safe res u s0 s1" .
  obtain n s2 where wr: "os_write e fd buf s1 = (n, s2)" by fastforce
  show ?thesis
  proof (cases "fd < 0")
    case False
    with op have "map_of (fds s1) fd = Some (WriteFd (comps p) 0)"
      by (intro open_write_fd) auto
    from safe_write [OF wr this assms(2) s1] False assms(1) op wr show ?thesis
      by (auto simp: write_buffer_def split: if_splits intro: safe_close safe_ReporterFault)
  qed (use assms(1) op s1 in \<open>simp add: write_buffer_def\<close>)
qed

lemma safe_spool_fd:
  assumes "spool_fd e fd n p s = (r, s')" "scope u (comps p)" "safe res u s0 s"
  shows "safe res u s0 s'"
  using assms
  by (auto simp: spool_fd_def split: prod.splits if_splits dest: safe_read safe_write_buffer)

lemma tmp_scope: "temp_path_ok p \<Longrightarrow> p \<noteq> '''' \<Longrightarrow> scope u (comps p)"
  using scope_temp [of WALLPAPER_TMP_DIRNAME u] by (simp add: temp_path_ok_def temp_names_def)

lemma open_write_empty: "os_open_write e '''' s = (- 1, s)"
  by (simp add: os_open_write_def)

lemma safe_write_buffer_tmp:
  assumes "write_buffer e p buf s = (r, s')" "temp_path_ok p" "safe res u s0 s"
  shows "safe res u s0 s'" "r = NO_ERROR \<Longrightarrow> scope u (comps p)"
proof -
  show "safe res u s0 s'"
    using assms safe_write_buffer [OF assms(1) tmp_scope]
    by (cases "p = ''''") (auto simp: write_buffer_def open_write_empty)
  show "scope u (comps p)" if "r = NO_ERROR"
    using assms that by (auto intro!: tmp_scope simp: write_buffer_def open_write_empty)
qed

lemma safe_spool_tmp:
  assumes "spool_fd e fd n p s = (r, s')" "temp_path_ok p" "safe res u s0 s"
  shows "safe res u s0 s'" "r = NO_ERROR \<Longrightarrow> scope u (comps p)"
  using assms
  by (auto simp: spool_fd_def split: prod.splits if_splits dest: safe_read safe_write_buffer_tmp)

lemma safe_tmp: "safe res u s0 s \<Longrightarrow> temp_path_ok (wallpaperTmpFullPath s)"
  by (simp add: safe_def service_ok_def)

text \<open>The path a wallpaper is copied to lies in the directory of its user and type.\<close>

lemma target_own:
  "data_ok res w u d \<Longrightarrow> r = PICTURE \<or> r = DEFAULT \<Longrightarrow>
     own_file w u (GetWallpaperFile r (d\<lparr>wallpaperFile := picture_file u w, resourceType := x,
                                        wallpaperId := i\<rparr>))"
  "data_ok res w u d \<Longrightarrow> r \<noteq> PICTURE \<Longrightarrow> r \<noteq> DEFAULT \<Longrightarrow>
     own_file w u (GetWallpaperFile r (d\<lparr>resourceType := x, wallpaperId := i\<rparr>))"
  by (cases r; auto simp: GetWallpaperFile_def data_ok_def)+

lemma data_ok_update:
  "data_ok res w u d \<Longrightarrow> DEFAULT_WALLPAPER_ID \<le> i \<and> i \<le> INT32_MAX \<Longrightarrow>
     data_ok res w u (d\<lparr>resourceType := x, wallpaperId := i\<rparr>)"
  "data_ok res w u d \<Longrightarrow> DEFAULT_WALLPAPER_ID \<le> i \<and> i \<le> INT32_MAX \<Longrightarrow>
     data_ok res w u (d\<lparr>wallpaperFile := picture_file u w, resourceType := x, wallpaperId := i\<rparr>)"
  by (auto simp: data_ok_def picture_files_def file_ok_def)

lemma safe_CopyFile:
  "on_files (CopyFile e p q) s = (r, s') \<Longrightarrow> scope u (comps q) \<Longrightarrow> safe res u s0 s \<Longrightarrow> safe res u s0 s'"
  by (erule safe_on_files) (simp add: files_in_scope_CopyFile)

lemma safe_DeleteFile:
  "on_files (DeleteFile e p) s = (r, s') \<Longrightarrow> scope u (comps p) \<Longrightarrow> safe res u s0 s \<Longrightarrow> safe res u s0 s'"
  by (erule safe_on_files) (simp add: files_in_scope_DeleteFile)

lemma safe_DeleteFile_snd:
  "scope u (comps p) \<Longrightarrow> safe res u s0 s \<Longrightarrow> safe res u s0 (snd (on_files (DeleteFile e p) s))"
  by (rule safe_DeleteFile [OF prod.collapse [symmetric]])

lemma picture_file_inline:
  "GetWallpaperDir u w @ CHR ''/'' # (if w = WALLPAPER_SYSTEM then WALLPAPER_HOME else WALLPAPER_LOCK)
     = picture_file u w"
  by (simp add: picture_file_def)

text \<open>The record the new wallpaper is stored under, and the file it is copied to.\<close>

definition new_record ::
  "int32 \<Rightarrow> WallpaperType \<Rightarrow> WallpaperResourceType \<Rightarrow> int32 \<Rightarrow> WallpaperData \<Rightarrow> WallpaperData" where
  "new_record u w r i d =
     (if r = PICTURE \<or> r = DEFAULT then d\<lparr>wallpaperFile := picture_file u w\<rparr> else d)
       \<lparr>resourceType := r, wallpaperId := i\<rparr>"

lemma new_record_ok:
  assumes "data_ok res w u d" "DEFAULT_WALLPAPER_ID \<le> i \<and> i \<le> INT32_MAX"
  shows "data_ok res w u (new_record u w r i d)" "own_file w u (GetWallpaperFile r (new_record u w r i d))"
  using assms data_ok_update [OF assms] target_own [OF assms(1)]
  by (auto simp: new_record_def)

text \<open>The same function, with its intermediate values named.\<close>

lemma SetWallpaperBackupData_eq:
  "SetWallpaperBackupData e u r uri w s =
     (if \<not> os_access (files s) uri then (E_DEAL_FAILED, s) else
      case on_files (DeleteDir e (GetWallpaperDir u w) False) s of (emptied, s1) \<Rightarrow>
      if \<not> emptied then (E_DEAL_FAILED, s1) else
      case GetWallpaperSafeLocked e u w s1 of
        (None, s2) \<Rightarrow> (E_DEAL_FAILED, s2)
      | (Some d, s2) \<Rightarrow>
      case MakeWallpaperIdLocked s2 of (i, s3) \<Rightarrow>
      case on_files (CopyFile e uri (GetWallpaperFile r (new_record u w r i d))) s3 of (copied, s4) \<Rightarrow>
      if \<not> copied then (E_DEAL_FAILED, snd (on_files (DeleteFile e uri) s4)) else
      case on_files (DeleteFile e uri) s4 of (deleted, s5) \<Rightarrow>
      if \<not> deleted then (E_DEAL_FAILED, s5) else
      case SaveWallpaperState e u w r s5 of (saved, s6) \<Rightarrow>
      if \<not> saved then (E_DEAL_FAILED, s6) else
      case SendWallpaperChangeEvent e u w (insert_wallpaper w u (new_record u w r i d) s6)
      of (sent, s7) \<Rightarrow> if \<not> sent then (E_DEAL_FAILED, s7) else (NO_ERROR, s7))"
  unfolding SetWallpaperBackupData_def new_record_def Let_def picture_file_def ..

lemma safe_SetWallpaperBackupData:
  assumes "SetWallpaperBackupData e u r uri w s = (c, s')" "scope u (comps uri)"
    "safe (GetDefaultResDir e) u s0 s"
  shows "safe (GetDefaultResDir e) u s0 s'"
proof -
  let ?R = "GetDefaultResDir e"
  obtain em s1 where s1: "on_files (DeleteDir e (GetWallpaperDir u w) False) s = (em, s1)" by fastforce
  note safe1 = safe_DeleteDir_type [OF s1 assms(3)]
  obtain d' s2 where s2: "GetWallpaperSafeLocked e u w s1 = (d', s2)" by fastforce
  note safe2 = safe_GetWallpaperSafeLocked [OF s2 safe1]
  then obtain d where d: "d' = Some d" "data_ok ?R w u d" by blast
  obtain i s3 where s3: "MakeWallpaperIdLocked s2 = (i, s3)" by fastforce
  note safe3 = safe_MakeWallpaperIdLocked [OF s3 safe2(1)]
  let ?d = "new_record u w r i d" and ?q = "GetWallpaperFile r (new_record u w r i d)"
  note ok = new_record_ok [OF d(2) safe3(2)]
  obtain cp s4 where s4: "on_files (CopyFile e uri ?q) s3 = (cp, s4)" by fastforce
  note safe4 = safe_CopyFile [OF s4 scope_own [OF ok(2)] safe3(1)]
  obtain del s5 where s5: "on_files (DeleteFile e uri) s4 = (del, s5)" by fastforce
  note safe5 = safe_DeleteFile [OF s5 assms(2) safe4]
  obtain sv s6 where s6: "SaveWallpaperState e u w r s5 = (sv, s6)" by fastforce
  note safe6 = safe_SaveWallpaperState [OF s6 safe5]
  obtain b s7 where s7: "SendWallpaperChangeEvent e u w (insert_wallpaper w u ?d s6) = (b, s7)" by fastforce
  note safe7 = safe_SendWallpaperChangeEvent [OF s7 safe_insert [OF safe6 ok(1)]]
  show ?thesis
    using assms(1,3) safe1 safe2(1) safe5 safe6 safe7
    by (simp add: SetWallpaperBackupData_eq s1 s2 d(1) s3 s4 s5 s6 s7 split: if_splits)
qed

lemma safe_SetWallpaper_res:
  assumes "SetWallpaper_res e fd wt n r s = (c, s')"
    "safe (GetDefaultResDir e) (QueryActiveUserId e) s0 s"
  shows "safe (GetDefaultResDir e) (QueryActiveUserId e) s0 s'"
proof -
  let ?u = "QueryActiveUserId e" and ?p = "wallpaperTmpFullPath s" and ?w = "as_WallpaperType wt"
  obtain c1 s1 where s1: "spool_fd e fd n ?p s = (c1, s1)" by fastforce
  note safe1 = safe_spool_tmp [OF s1 safe_tmp [OF assms(2)] assms(2)]
  obtain c2 s2 where s2: "SetWallpaperBackupData e ?u r ?p ?w s1 = (c2, s2)" by fastforce
  have safe2: "safe (GetDefaultResDir e) ?u s0 s2" if "c1 = NO_ERROR"
    using safe_SetWallpaperBackupData [OF s2 safe1(2) safe1(1)] that by simp
  from assms safe1(1) safe2 show ?thesis
    by (auto simp: SetWallpaper_res_def Let_def s1 s2 split: if_splits intro: inv_intros)
qed

lemma safe_SetWallpaper [inv_intros]:
  assumes "safe (GetDefaultResDir e) (QueryActiveUserId e) s0 s"
  shows "safe (GetDefaultResDir e) (QueryActiveUserId e) s0 (snd (SetWallpaper e fd wt n s))"
  using assms by (auto simp: SetWallpaper_def split: prod.split intro: safe_close safe_SetWallpaper_res)

lemma safe_SetWallpaperV9 [inv_intros]:
  assumes "safe (GetDefaultResDir e) (QueryActiveUserId e) s0 s"
  shows "safe (GetDefaultResDir e) (QueryActiveUserId e) s0 (snd (SetWallpaperV9 e fd wt n s))"
  using assms by (simp add: SetWallpaperV9_def inv_intros safe_close)

lemma safe_SetVideo [inv_intros]:
  assumes "safe (GetDefaultResDir e) (QueryActiveUserId e) s0 s"
  shows "safe (GetDefaultResDir e) (QueryActiveUserId e) s0 (snd (SetVideo e fd wt n s))"
  using assms by (auto simp: SetVideo_def split: prod.split intro: safe_close safe_SetWallpaper_res)

lemma safe_SetCustomWallpaper [inv_intros]:
  assumes "safe (GetDefaultResDir e) (QueryActiveUserId e) s0 s"
  shows "safe (GetDefaultResDir e) (QueryActiveUserId e) s0 (snd (SetCustomWallpaper e fd ty n s))"
proof -
  let ?u = "QueryActiveUserId e" and ?R = "GetDefaultResDir e" and ?w = "as_WallpaperType ty"
  obtain d' s1 where s1: "GetWallpaperSafeLocked e ?u ?w s = (d', s1)" by fastforce
  note safe1 = safe_GetWallpaperSafeLocked [OF s1 assms]
  then obtain d where d: "d' = Some d" "data_ok ?R ?w ?u d" by blast
  obtain sv s2 where s2: "SaveWallpaperState e ?u ?w PACKAGE s1 = (sv, s2)" by fastforce
  note safe2 = safe_SaveWallpaperState [OF s2 safe1(1)]
  obtain c s3 where s3: "SetWallpaper_res e fd (WallpaperType_value ?w) n PACKAGE s2 = (c, s3)" by fastforce
  note safe3 = safe_SetWallpaper_res [OF s3 safe2]
  obtain i s4 where s4: "MakeWallpaperIdLocked s3 = (i, s4)" by fastforce
  note safe4 = safe_MakeWallpaperIdLocked [OF s4 safe3]
  let ?s5 = "insert_wallpaper ?w ?u (d\<lparr>resourceType := PACKAGE, wallpaperId := i\<rparr>) s4"
  note safe5 = safe_insert [OF safe4(1) data_ok_update(1) [OF d(2) safe4(2)]]
  obtain b s6 where s6: "SendWallpaperChangeEvent e ?u ?w ?s5 = (b, s6)" by fastforce
  note safe6 = safe_SendWallpaperChangeEvent [OF s6 safe5]
  from assms safe1(1) safe2 safe6 show ?thesis
    by (simp add: SetCustomWallpaper_def Let_def s1 d(1) s2 s3 s4 s6 safe_close)
qed

lemma safe_SetWallpaperByPixelMap_res:
  assumes "SetWallpaperByPixelMap_res e pm wt r s = (c, s')"
    "safe (GetDefaultResDir e) (QueryActiveUserId e) s0 s"
  shows "safe (GetDefaultResDir e) (QueryActiveUserId e) s0 s'"
proof -
  let ?u = "QueryActiveUserId e" and ?p = "wallpaperTmpFullPath s" and ?w = "as_WallpaperType wt"
  obtain c1 s1 where s1: "WritePixelMapToFile e pm ?p wt r s = (c1, s1)" by fastforce
  have safe1: "safe (GetDefaultResDir e) ?u s0 s1" "c1 = NO_ERROR \<Longrightarrow> scope ?u (comps ?p)"
    using s1 assms(2) safe_tmp [OF assms(2)]
    by (auto simp: WritePixelMapToFile_def Let_def split: prod.splits if_splits
        dest: safe_write_buffer_tmp)
  obtain c2 s2 where s2: "SetWallpaperBackupData e ?u r ?p ?w s1 = (c2, s2)" by fastforce
  have safe2: "safe (GetDefaultResDir e) ?u s0 s2" if "c1 = NO_ERROR"
    using safe_SetWallpaperBackupData [OF s2 safe1(2) safe1(1)] that by simp
  show ?thesis
  proof (cases pm)
    case (Some y)
    note s1' = s1 [unfolded Some]
    from assms safe1(1) safe2 show ?thesis
      by (simp add: SetWallpaperByPixelMap_res_def Let_def Some s1' s2 split: if_splits)
        (auto intro: inv_intros)
  qed (use assms in \<open>simp add: SetWallpaperByPixelMap_res_def\<close>)
qed

lemma safe_SetWallpaperByPixelMap [inv_intros]:
  assumes "safe (GetDefaultResDir e) (QueryActiveUserId e) s0 s"
  shows "safe (GetDefaultResDir e) (QueryActiveUserId e) s0 (snd (SetWallpaperByPixelMap e raw wt s))"
  using assms safe_SetWallpaperByPixelMap_res [OF prod.collapse [symmetric] assms]
  by (simp add: SetWallpaperByPixelMap_def split: option.split)

lemma safe_SetWallpaperV9ByPixelMap [inv_intros]:
  assumes "safe (GetDefaultResDir e) (QueryActiveUserId e) s0 s"
  shows "safe (GetDefaultResDir e) (QueryActiveUserId e) s0 (snd (SetWallpaperV9ByPixelMap e raw wt s))"
  using assms by (simp add: SetWallpaperV9ByPixelMap_def inv_intros)

text \<open>Several pictures: every temporary path the first loop fills in is in scope.\<close>

definition staged :: "WallpaperPictureInfo list \<Rightarrow> bool" where
  "staged ps \<longleftrightarrow> (\<forall>p \<in> set ps. tempPath p = temp_path_of p)"

lemma temp_path_scope: "scope u (comps (temp_path_of p))"
proof -
  have "GetFoldStateName (foldState p) @ ''_'' @ GetRotateStateName (rotateState p) \<in> set temp_names"
    by (cases "foldState p"; cases "rotateState p") (simp_all add: temp_names_def)
  then show ?thesis using scope_temp unfolding temp_path_of_def by simp
qed

lemma DeleteFile_empty: "DeleteFile e '''' t = (True, t)"
  by (simp add: DeleteFile_def IsFileExist_def os_access_def lookup_path_def)

lemma safe_DeleteTempResource:
  "(\<forall>p \<in> set ps. tempPath p = '''' \<or> tempPath p = temp_path_of p) \<Longrightarrow> safe res u s0 s \<Longrightarrow>
     safe res u s0 (DeleteTempResource e ps s)"
proof (induction ps arbitrary: s)
  case (Cons p ps)
  have "safe res u s0 (snd (on_files (DeleteFile e (tempPath p)) s))"
  proof (cases "tempPath p = ''''")
    case True
    with Cons.prems(2) show ?thesis by (simp add: on_files_def DeleteFile_empty)
  next
    case False
    with Cons.prems have "tempPath p = temp_path_of p" by simp
    with Cons.prems(2) show ?thesis by (simp add: safe_DeleteFile_snd temp_path_scope)
  qed
  with Cons show ?case by simp
qed simp

lemma safe_stage_wallpapers:
  "stage_wallpapers e wt r ps qs s = (c, infos, s') \<Longrightarrow> staged ps \<Longrightarrow>
     (\<forall>p \<in> set qs. tempPath p = '''') \<Longrightarrow> safe res u s0 s \<Longrightarrow>
   safe res u s0 s' \<and> (c = NO_ERROR \<longrightarrow> staged infos)"
proof (induction e wt r ps qs s rule: stage_wallpapers.induct)
  case (2 e wt r ps p qs s)
  let ?p = "p\<lparr>tempPath := temp_path_of p\<rparr>"
  have path: "tempPath ?p = temp_path_of ?p" by (simp add: temp_path_of_def)
  obtain c1 s1 where s1: "WriteFdToFile e ?p (tempPath ?p) s = (c1, s1)" by fastforce
  have safe1: "safe res u s0 s1"
    using safe_spool_fd [OF _ _ "2.prems"(4)] s1 temp_path_scope
    by (simp add: WriteFdToFile_def)
  have cleaned: "safe res u s0 (DeleteTempResource e (ps @ ?p # qs) s1)"
    using "2.prems" path safe1 by (intro safe_DeleteTempResource) (auto simp: staged_def)
  have st: "staged (ps @ [?p])" using "2.prems" path by (simp add: staged_def)
  show ?case
    using "2.IH" [OF refl refl _ s1 [symmetric]] "2.prems" s1 safe1 cleaned st
    by (auto simp: Let_def split: if_splits)
qed simp

lemma safe_CloseVectorFd [inv_intros]: "safe res u s0 s \<Longrightarrow> safe res u s0 (CloseVectorFd xs s)"
  by (induction xs s rule: CloseVectorFd.induct) (simp_all add: safe_close)

lemma safe_CloseWallpaperInfoFd [inv_intros]:
  "safe res u s0 s \<Longrightarrow> safe res u s0 (CloseWallpaperInfoFd ps s)"
  by (induction ps s rule: CloseWallpaperInfoFd.induct) (simp_all add: safe_close)

lemma UpdateWallpaperDataFile_ok:
  "data_ok res w u d \<Longrightarrow> data_ok res w u (UpdateWallpaperDataFile f r u w d)"
  by (cases f; cases r)
    (auto simp: UpdateWallpaperDataFile_def data_ok_def picture_files_def file_ok_def
      GetWallpaperDataFile_own picture_file_inline)

lemma safe_SetAllWallpaperBackupData:
  "SetAllWallpaperBackupData e ps u w d s = (c, d', s') \<Longrightarrow> staged ps \<Longrightarrow> data_ok res w u d \<Longrightarrow>
     safe res u s0 s \<Longrightarrow> safe res u s0 s' \<and> data_ok res w u d'"
proof (induction ps arbitrary: d s)
  case (Cons p ps)
  let ?d = "UpdateWallpaperDataFile (foldState p) (rotateState p) u w d"
  let ?q = "GetWallpaperDataFile (foldState p) (rotateState p) u w"
  have tmp: "scope u (comps (tempPath p))"
    using Cons.prems(2) temp_path_scope by (simp add: staged_def)
  have ok: "data_ok res w u ?d" using Cons.prems(3) by (rule UpdateWallpaperDataFile_ok)
  obtain cp s1 where s1: "on_files (CopyFile e (tempPath p) ?q) s = (cp, s1)" by fastforce
  note safe1 = safe_CopyFile [OF s1 scope_own [OF GetWallpaperDataFile_own] Cons.prems(4)]
  obtain dl s2 where s2: "on_files (DeleteFile e (tempPath p)) s1 = (dl, s2)" by fastforce
  note safe2 = safe_DeleteFile [OF s2 tmp safe1]
  have rest: "staged ps" using Cons.prems(2) by (simp add: staged_def)
  show ?case
    using Cons.IH [OF _ rest ok safe2] Cons.prems ok safe1 safe2 s1 s2
    by (auto simp: Let_def split: if_splits)
qed simp

lemma safe_UpdateWallpaperData:
  assumes "UpdateWallpaperData e ps u w s = (c, s')" "staged ps" "safe (GetDefaultResDir e) u s0 s"
  shows "safe (GetDefaultResDir e) u s0 s'"
proof -
  let ?R = "GetDefaultResDir e"
  obtain d' s1 where s1: "GetWallpaperSafeLocked e u w s = (d', s1)" by fastforce
  note safe1 = safe_GetWallpaperSafeLocked [OF s1 assms(3)]
  then obtain d where d: "d' = Some d" "data_ok ?R w u d" by blast
  obtain c2 d2 s2 where
    s2: "SetAllWallpaperBackupData e ps u w (ClearnWallpaperDataFile d) s1 = (c2, d2, s2)"
    using prod_cases3 by blast
  note safe2 = safe_SetAllWallpaperBackupData [OF s2 assms(2) ClearnWallpaperDataFile_ok [OF d(2)] safe1(1)]
  obtain i s3 where s3: "MakeWallpaperIdLocked s2 = (i, s3)" by fastforce
  note safe3 = safe_MakeWallpaperIdLocked [OF s3 conjunct1 [OF safe2]]
  have "safe ?R u s0 (insert_wallpaper w u (d2\<lparr>resourceType := PICTURE, wallpaperId := i\<rparr>) s3)"
    using safe2 safe3 by (intro safe_insert data_ok_update) auto
  moreover have "safe ?R u s0 (DeleteTempResource e ps s2)"
    using assms(2) safe2 by (intro safe_DeleteTempResource) (auto simp: staged_def)
  ultimately show ?thesis
    using assms(1) by (simp add: UpdateWallpaperData_def s1 d(1) s2 s3 split: if_splits)
qed

lemma safe_SetAllWallpapers_res:
  assumes "SetAllWallpapers_res e ps wt r s = (c, s')" "\<forall>p \<in> set ps. tempPath p = ''''"
    "safe (GetDefaultResDir e) (QueryActiveUserId e) s0 s"
  shows "safe (GetDefaultResDir e) (QueryActiveUserId e) s0 s'"
proof -
  let ?R = "GetDefaultResDir e" and ?u = "QueryActiveUserId e" and ?w = "as_WallpaperType wt"
  obtain c1 qs s1 where s1: "stage_wallpapers e wt r [] ps s = (c1, qs, s1)"
    using prod_cases3 by blast
  have safe1: "safe ?R ?u s0 s1" "c1 = NO_ERROR \<Longrightarrow> staged qs"
    using safe_stage_wallpapers [OF s1 _ assms(2,3)] by (simp_all add: staged_def)
  obtain b s2 where s2: "on_files (DeleteDir e (GetWallpaperDir ?u ?w) False) s1 = (b, s2)" by fastforce
  note safe2 = safe_DeleteDir_type [OF s2 safe1(1)]
  obtain c3 s3 where s3: "UpdateWallpaperData e qs ?u ?w s2 = (c3, s3)" by fastforce
  have safe3: "safe ?R ?u s0 s3" if "c1 = NO_ERROR"
    using safe_UpdateWallpaperData [OF s3 safe1(2) [OF that] safe2] .
  obtain b5 s5 where s5: "SendWallpaperChangeEvent e ?u ?w (snd (SaveColor e ?u ?w s3)) = (b5, s5)" by fastforce
  have safe5: "safe ?R ?u s0 s5" if "c1 = NO_ERROR"
    using safe_SendWallpaperChangeEvent [OF s5 safe_SaveColor [OF safe3 [OF that]]] .
  from assms(1,3) safe1(1) safe3 safe5 show ?thesis
    by (auto simp: SetAllWallpapers_res_def Let_def s1 s2 s3 s5 split: if_splits)
qed

lemma safe_SetAllWallpapers:
  assumes "\<forall>p \<in> set ps. tempPath p = ''''" "safe (GetDefaultResDir e) (QueryActiveUserId e) s0 s"
  shows "safe (GetDefaultResDir e) (QueryActiveUserId e) s0 (snd (SetAllWallpapers e ps wt xs s))"
proof -
  let ?ps = "map2 (\<lambda>p fd. p\<lparr>pic_fd := fd\<rparr>) ps xs"
  have tmp: "\<forall>p \<in> set ?ps. tempPath p = ''''"
    using assms(1) by (auto dest: set_zip_leftD)
  obtain c s1 where s1: "SetAllWallpapers_res e ?ps wt PICTURE s = (c, s1)" by fastforce
  note safe1 = safe_SetAllWallpapers_res [OF s1 tmp assms(2)]
  with assms(2) s1 show ?thesis
    by (simp add: SetAllWallpapers_def Let_def inv_intros)
qed

lemma safe_SetDefaultDataForWallpaper:
  assumes "SetDefaultDataForWallpaper e u w s = (c, s')" "safe (GetDefaultResDir e) u s0 s"
  shows "safe (GetDefaultResDir e) u s0 s'"
proof -
  let ?R = "GetDefaultResDir e"
  obtain d' s1 where s1: "GetWallpaperSafeLocked e u w s = (d', s1)" by fastforce
  note safe1 = safe_GetWallpaperSafeLocked [OF s1 assms(2)]
  then obtain d where d: "d' = Some d" by blast
  obtain b d2 s2 where s2: "RestoreUserResources e u d w s1 = (b, d2, s2)" using prod_cases3 by blast
  note safe2 = safe_RestoreUserResources [OF s2 safe1(1)]
  obtain sv s3 where s3: "SaveWallpaperState e u w DEFAULT s2 = (sv, s3)" by fastforce
  note safe3 = safe_SaveWallpaperState [OF s3 safe2(1)]
  let ?d = "d2\<lparr>wallpaperId := DEFAULT_WALLPAPER_ID, resourceType := DEFAULT, allowBackup := True\<rparr>"
  have "data_ok ?R w u ?d" if b
    using default_data_ok [of e w u "files s2"] safe2(2) [OF that]
    by (simp add: data_ok_def picture_files_def)
  with safe3 have ins: "safe ?R u s0 (insert_wallpaper w u ?d s3)" if b
    using that by (simp add: safe_insert)
  obtain b4 s4 where s4: "SendWallpaperChangeEvent e u w (insert_wallpaper w u ?d s3) = (b4, s4)" by fastforce
  have safe4: "safe ?R u s0 s4" if b
    using safe_SendWallpaperChangeEvent [OF s4 ins [OF that]] .
  from assms safe2(1) safe3 safe4 show ?thesis
    by (auto simp: SetDefaultDataForWallpaper_def Let_def s1 d s2 s3 s4 split: if_splits intro: inv_intros)
qed

lemma safe_ResetWallpaper [inv_intros]:
  assumes "safe (GetDefaultResDir e) (QueryActiveUserId e) s0 s"
  shows "safe (GetDefaultResDir e) (QueryActiveUserId e) s0 (snd (ResetWallpaper e wt s))"
  using assms safe_SetDefaultDataForWallpaper [OF prod.collapse [symmetric] assms]
  by (simp add: ResetWallpaper_def Let_def)

lemma safe_ResetWallpaperV9 [inv_intros]:
  assumes "safe (GetDefaultResDir e) (QueryActiveUserId e) s0 s"
  shows "safe (GetDefaultResDir e) (QueryActiveUserId e) s0 (snd (ResetWallpaperV9 e wt s))"
  using assms by (simp add: ResetWallpaperV9_def inv_intros)

section \<open>A successful change\<close>

text \<open>
  What a request needs to succeed on an undisturbed disk: the directory of the user and type,
  a writable configuration file, and a temporary path where nothing was left behind.
\<close>

definition ready :: "env \<Rightarrow> int32 \<Rightarrow> WallpaperType \<Rightarrow> service \<Rightarrow> bool" where
  "ready e u w s \<longleftrightarrow> disk_ok e \<and> cfg_writable e u s \<and>
     map_of (files s) (type_comps u w) = Some DirNode \<and>
     wallpaperTmpFullPath s = WALLPAPER_USERID_PATH @ WALLPAPER_TMP_DIRNAME"

definition tmp_comps :: "string list" where
  "tmp_comps = temp_comps WALLPAPER_TMP_DIRNAME"

definition tmp_path :: string where
  "tmp_path = WALLPAPER_USERID_PATH @ WALLPAPER_TMP_DIRNAME"

lemma comps_tmp_path: "comps tmp_path = tmp_comps" "tmp_path \<noteq> ''''" "tmp_comps \<noteq> []"
proof -
  have "name_ok WALLPAPER_TMP_DIRNAME" by (simp add: name_ok_def WALLPAPER_TMP_DIRNAME_def)
  then show "comps tmp_path = tmp_comps" by (simp add: tmp_path_def tmp_comps_def comps_temp)
qed (simp_all add: tmp_path_def tmp_comps_def temp_comps_def WALLPAPER_USERID_PATH_def)

lemma tmp_not_user: "\<not> prefix (user_comps u) tmp_comps" "tmp_comps \<noteq> cfg_comps u"
  "\<not> prefix (type_comps u w) tmp_comps"
proof -
  have "CHR ''f'' \<notin> set (to_string u)"
    using nat_to_string_chars [of "CHR ''f''"] by (auto simp: to_string_def)
  moreover have "CHR ''f'' \<in> set WALLPAPER_TMP_DIRNAME" by (simp add: WALLPAPER_TMP_DIRNAME_def)
  ultimately have "WALLPAPER_TMP_DIRNAME \<noteq> to_string u" by metis
  then show a: "\<not> prefix (user_comps u) tmp_comps"
    by (auto simp: user_comps_def tmp_comps_def temp_comps_def)
  then show "tmp_comps \<noteq> cfg_comps u" unfolding cfg_comps_def by (metis prefixI)
  show "\<not> prefix (type_comps u w) tmp_comps"
  proof
    assume "prefix (type_comps u w) tmp_comps"
    then have "prefix (user_comps u) tmp_comps" by (auto simp: type_comps_def dest: append_prefixD)
    with a show False ..
  qed
qed

definition picture_comps :: "int32 \<Rightarrow> WallpaperType \<Rightarrow> string list" where
  "picture_comps u w =
     type_comps u w @ [if w = WALLPAPER_SYSTEM then WALLPAPER_HOME else WALLPAPER_LOCK]"

lemma comps_picture_file: "comps (picture_file u w) = picture_comps u w"
  by (simp add: picture_file_def comps_in_GetWallpaperDir picture_comps_def)
    (simp add: comps_def WALLPAPER_HOME_def WALLPAPER_LOCK_def)

text \<open>The file a wallpaper of each kind is kept in.\<close>

definition target_file :: "WallpaperResourceType \<Rightarrow> int32 \<Rightarrow> WallpaperType \<Rightarrow> string" where
  "target_file r u w = (case r of VIDEO \<Rightarrow> live_file u w | PACKAGE \<Rightarrow> custom_file u w | _ \<Rightarrow> picture_file u w)"

definition target_name :: "WallpaperResourceType \<Rightarrow> WallpaperType \<Rightarrow> string" where
  "target_name r w =
     (case r of
        VIDEO \<Rightarrow> (if w = WALLPAPER_SYSTEM then LIVE_WALLPAPER_SYSTEM_ORIG else LIVE_WALLPAPER_LOCK_ORIG)
      | PACKAGE \<Rightarrow> (if w = WALLPAPER_SYSTEM then CUSTOM_WALLPAPER_SYSTEM else CUSTOM_WALLPAPER_LOCK)
      | _ \<Rightarrow> (if w = WALLPAPER_SYSTEM then WALLPAPER_HOME else WALLPAPER_LOCK))"

definition target_comps :: "WallpaperResourceType \<Rightarrow> int32 \<Rightarrow> WallpaperType \<Rightarrow> string list" where
  "target_comps r u w = type_comps u w @ [target_name r w]"

lemma target_picture [simp]: "target_comps PICTURE u w = picture_comps u w" "target_file PICTURE u w = picture_file u w"
  by (simp_all add: target_comps_def target_name_def picture_comps_def target_file_def)

lemmas wallpaper_names = WALLPAPER_HOME_def WALLPAPER_LOCK_def LIVE_WALLPAPER_SYSTEM_ORIG_def LIVE_WALLPAPER_LOCK_ORIG_def
  CUSTOM_WALLPAPER_SYSTEM_def CUSTOM_WALLPAPER_LOCK_def

lemma comps_target_file: "comps (target_file r u w) = target_comps r u w"
proof -
  have "comps (target_name r w) = [target_name r w]"
    by (cases r) (simp_all add: target_name_def comps_def wallpaper_names)
  then show ?thesis
    by (cases r) (simp_all add: target_file_def target_comps_def target_name_def live_file_def custom_file_def
        picture_file_def comps_in_GetWallpaperDir)
qed

lemma target_file_not_Nil [simp]: "target_file r u w \<noteq> ''''"
  by (cases r) (simp_all add: target_file_def live_file_def custom_file_def)

lemma cfg_not_target: "cfg_comps u \<noteq> target_comps r u w"
  by (cases w) (simp_all add: cfg_comps_def target_comps_def type_comps_def type_dirname_def
      WALLPAPER_SYSTEM_DIRNAME_def WALLPAPER_LOCKSCREEN_DIRNAME_def)

lemma cfg_not_type: "cfg_comps u \<noteq> picture_comps u w" "\<not> prefix (type_comps u w) (cfg_comps u)"
  by (cases w; simp add: cfg_comps_def picture_comps_def type_comps_def type_dirname_def
      WALLPAPER_SYSTEM_DIRNAME_def WALLPAPER_LOCKSCREEN_DIRNAME_def)+

lemma GetWallpaperDir_not_Nil: "GetWallpaperDir u w \<noteq> ''''"
  by (cases w) (simp_all add: GetWallpaperDir_def Let_def)

lemma cfg_not_user: "user_comps u \<noteq> cfg_comps u"
  by (simp add: cfg_comps_def)

text \<open>What a change of one wallpaper leaves alone: every file outside its directory except the
  configuration file and the temporary file, and the records of the other wallpapers.\<close>

definition rest_kept :: "int32 \<Rightarrow> WallpaperType \<Rightarrow> service \<Rightarrow> service \<Rightarrow> bool" where
  "rest_kept u w s s' \<longleftrightarrow> wallpaperTmpFullPath s' = wallpaperTmpFullPath s \<and>
     (\<forall>k. k \<noteq> cfg_comps u \<longrightarrow> k \<noteq> tmp_comps \<longrightarrow> \<not> strict_prefix (type_comps u w) k \<longrightarrow>
        map_of (files s') k = map_of (files s) k) \<and>
     (\<forall>w' v. (w', v) \<noteq> (w, u) \<longrightarrow> entry w' v s \<noteq> None \<longrightarrow> entry w' v s' = entry w' v s)"

lemma SetWallpaperBackupData_succeeds:
  assumes ready: "ready e u w s" and wf: "wf_fs (files s)"
    and live: "\<And>d. entry w u s = Some d \<Longrightarrow> liveWallpaperFile d = live_file u w \<and> customPackageUri d = custom_file u w"
    and tmp: "map_of (files s) tmp_comps = Some (FileNode c)"
  obtains s' d i where "SetWallpaperBackupData e u r tmp_path w s = (NO_ERROR, s')"
    "map_of (files s') (target_comps r u w) = Some (FileNode c)"
    "\<And>k. strict_prefix (type_comps u w) k \<Longrightarrow> k \<noteq> target_comps r u w \<Longrightarrow> map_of (files s') k = None"
    "map_of (files s') tmp_comps = None"
    "entry w u s' = Some (new_record u w r (fst (MakeWallpaperIdLocked s)) d)"
    "fds s' = fds s" "wallpaperIdCounter s' = fst (MakeWallpaperIdLocked s)"
    "effects s' = effects s @ change_effects w r s"
    "d = ClearnWallpaperDataFile d" "rest_kept u w s s'" "cfg_writable e u s'" "same_hearing s s'"
    "GetWallpaperFile r (new_record u w r (fst (MakeWallpaperIdLocked s)) d) = target_file r u w"
proof -
  have disk: "disk_ok e" and cfg: "cfg_writable e u s"
    and dir: "map_of (files s) (type_comps u w) = Some DirNode"
    using ready by (simp_all add: ready_def)
  have ne: "type_comps u w \<noteq> []" by (simp add: type_comps_def user_comps_def)
  have "os_opendir e (files s) (GetWallpaperDir u w)"
    using dir disk ne
    by (simp add: os_opendir_def lookup_path_def node_at_def path_simps disk_okD GetWallpaperDir_not_Nil)
  then obtain t1 where t1: "DeleteDir e (GetWallpaperDir u w) False (files s) = (True, t1)" "wf_fs t1"
    "\<And>k. map_of t1 k = (if strict_prefix (type_comps u w) k then None else map_of (files s) k)"
    using DeleteDir_clears [OF disk wf] ne by (metis comps_GetWallpaperDir)
  let ?s1 = "s\<lparr>files := t1\<rparr>"
  have s1: "on_files (DeleteDir e (GetWallpaperDir u w) False) s = (True, ?s1)"
    by (simp add: on_files_def t1(1))
  obtain d' s2 where s2: "GetWallpaperSafeLocked e u w ?s1 = (d', s2)" by fastforce
  note f2 = GetWallpaperSafeLocked_frame [OF s2]
  from f2(5) obtain d where d: "d' = Some d" "d = ClearnWallpaperDataFile d"
    by (auto simp: ClearnWallpaperDataFile_def)
  have same2: "same_rest s s2" using f2(2) by (simp add: same_rest_def)
  obtain i s3 where s3: "MakeWallpaperIdLocked s2 = (i, s3)" by fastforce
  have i: "i = fst (MakeWallpaperIdLocked s)" "s3 = s2\<lparr>wallpaperIdCounter := i\<rparr>"
    using s3 same2 by (auto simp: MakeWallpaperIdLocked_def Let_def same_rest_def)
  have files3: "files s3 = t1" using i(2) f2(1) by simp
  have target: "GetWallpaperFile r (new_record u w r i d) = target_file r u w"
  proof -
    have "liveWallpaperFile d = live_file u w \<and> customPackageUri d = custom_file u w"
      using f2(5) d(1) live disk_data_ok [of e w u t1]
      by (cases "entry w u s") (auto simp: ClearnWallpaperDataFile_def data_ok_def)
    then show ?thesis by (cases r) (simp_all add: GetWallpaperFile_def new_record_def target_file_def)
  qed
  have sp: "strict_prefix (type_comps u w) (target_comps r u w)"
    by (auto simp: target_comps_def strict_prefix_def)
  have tmp1: "map_of t1 tmp_comps = Some (FileNode c)"
    using t1(3) tmp tmp_not_user(3) by (simp add: strict_prefix_def)
  obtain t4 where t4: "CopyFile e tmp_path (target_file r u w) t1 = (True, t4)"
    "map_of t4 = (map_of t1)(target_comps r u w \<mapsto> FileNode c)"
  proof (rule CopyFile_new [OF disk comps_tmp_path(2)])
    show "map_of t1 (comps tmp_path) = Some (FileNode c)" "comps tmp_path \<noteq> []"
      using tmp1 comps_tmp_path by simp_all
    show "target_file r u w \<noteq> ''''" by simp
    show "map_of t1 (comps (target_file r u w)) = None"
      using t1(3) sp by (simp add: comps_target_file)
    show "parent_ok t1 (comps (target_file r u w))"
      using t1(3) dir ne by (simp add: comps_target_file parent_ok_def target_comps_def node_at_def)
  qed (auto simp: comps_target_file)
  let ?s4 = "s3\<lparr>files := t4\<rparr>"
  have s4: "on_files (CopyFile e tmp_path (target_file r u w)) s3 = (True, ?s4)"
    by (simp add: on_files_def files3 t4(1))
  have pt: "target_comps r u w \<noteq> tmp_comps"
    using sp tmp_not_user(3) by (auto simp: strict_prefix_def)
  have tmp4: "map_of t4 tmp_comps = Some (FileNode c)" using t4(2) tmp1 pt by simp
  obtain t5 where t5: "DeleteFile e tmp_path t4 = (True, t5)" "map_of t5 = (map_of t4)(tmp_comps := None)"
    using DeleteFile_file [OF disk comps_tmp_path(2), unfolded comps_tmp_path(1), OF comps_tmp_path(3) tmp4]
    by blast
  let ?s5 = "?s4\<lparr>files := t5\<rparr>"
  have s5: "on_files (DeleteFile e tmp_path) ?s4 = (True, ?s5)"
    by (simp add: on_files_def t5(1))
  have node5: "map_of t5 k = (if k = tmp_comps then None else if k = target_comps r u w then Some (FileNode c)
      else if strict_prefix (type_comps u w) k then None else map_of (files s) k)" for k
    using t5(2) t4(2) t1(3) by simp
  have uc: "user_comps u \<noteq> tmp_comps" "user_comps u \<noteq> target_comps r u w"
    "\<not> strict_prefix (type_comps u w) (user_comps u)"
    using tmp_not_user(1) [of u] by (auto simp: target_comps_def type_comps_def strict_prefix_def)
  have cc: "cfg_comps u \<noteq> tmp_comps" using tmp_not_user(2) [of u] by simp
  have cfg5: "cfg_writable e u ?s5"
    using cfg same2 i(2) node5 uc cc cfg_not_target [of u r w] cfg_not_type(2) [of u w]
    by (simp add: cfg_writable_def same_rest_def strict_prefix_def)
  obtain s6 where s6: "SaveWallpaperState e u w r ?s5 = (True, s6)" "same_rest ?s5 s6"
    "\<forall>k. k \<noteq> cfg_comps u \<longrightarrow> map_of (files s6) k = map_of (files ?s5) k"
    "\<forall>w' v. entry w' v ?s5 \<noteq> None \<longrightarrow> entry w' v s6 = entry w' v ?s5"
    "map_of (files s6) (cfg_comps u) \<noteq> Some DirNode"
    by (rule SaveWallpaperState_succeeds [OF disk cfg5, where w = w and r = r])
  let ?nd = "new_record u w r i d" and ?s7 = "insert_wallpaper w u (new_record u w r i d) s6"
  have res: "resourceType ?nd = r" by (simp add: new_record_def)
  have s7: "SendWallpaperChangeEvent e u w ?s7 = (True, ?s7\<lparr>effects := effects s6 @ change_effects w r ?s7\<rparr>)"
    using SendWallpaperChangeEvent_eq [of w u ?s7 ?nd e] res by simp
  have eff: "effects s6 = effects s" "change_effects w r ?s7 = change_effects w r s"
    using s6(2) same2 i(2) by (simp_all add: same_rest_def change_effects_def listeners_of_def)
  have acc: "os_access (files s) tmp_path"
    using tmp comps_tmp_path by (simp add: os_access_def lookup_path_def node_at_def)
  show thesis
  proof (rule that)
    show "SetWallpaperBackupData e u r tmp_path w s
        = (NO_ERROR, ?s7\<lparr>effects := effects s @ change_effects w r s\<rparr>)"
      using acc by (simp add: SetWallpaperBackupData_eq s1 s2 d(1) s3 target s4 s5 s6(1) [simplified] s7 eff)
    show "map_of (files (?s7\<lparr>effects := effects s @ change_effects w r s\<rparr>)) (target_comps r u w)
        = Some (FileNode c)"
      using s6(3) node5 cfg_not_target [of u r w] pt by simp
    show "map_of (files (?s7\<lparr>effects := effects s @ change_effects w r s\<rparr>)) k = None"
      if "strict_prefix (type_comps u w) k" "k \<noteq> target_comps r u w" for k
      using s6(3) [rule_format, of k] node5 [of k] cfg_not_type(2) [of u w] that by (auto simp: strict_prefix_def)
    show "map_of (files (?s7\<lparr>effects := effects s @ change_effects w r s\<rparr>)) tmp_comps = None"
      using s6(3) node5 cc by simp
    show "wallpaperIdCounter (?s7\<lparr>effects := effects s @ change_effects w r s\<rparr>)
        = fst (MakeWallpaperIdLocked s)"
      using s6(2) i by (simp add: same_rest_def)
    show "fds (?s7\<lparr>effects := effects s @ change_effects w r s\<rparr>) = fds s"
      using s6(2) same2 i(2) by (simp add: same_rest_def)
    show "cfg_writable e u (?s7\<lparr>effects := effects s @ change_effects w r s\<rparr>)"
      using cfg cfg5 s6(2,3,5) cfg_not_user [of u] by (simp add: cfg_writable_def same_rest_def)
    show "same_hearing s (?s7\<lparr>effects := effects s @ change_effects w r s\<rparr>)"
      using s6(2) same2 i(2) by (simp add: same_hearing_def same_rest_def)
    have "entry w' v ?s5 = entry w' v s" if "entry w' v s \<noteq> None" for w' v
      using f2(3) [of w' v] that i(2) by simp
    then show "rest_kept u w s (?s7\<lparr>effects := effects s @ change_effects w r s\<rparr>)"
      using s6(2-4) same2 i(2) node5 sp by (auto simp: rest_kept_def same_rest_def)
  qed (use i(1) d(2) target in simp_all)
qed

text \<open>The write of the temporary file, when nothing was left at its path.\<close>

lemma zero_fill_length [simp]: "length (zero_fill n xs) = n"
  by (simp add: zero_fill_def)

lemma overwrite_empty [simp]: "overwrite 0 new '''' = new"
  by (simp add: overwrite_def)

lemma write_buffer_succeeds:
  assumes disk: "disk_ok e" and p: "p \<noteq> ''''" "comps p \<noteq> []" and new: "map_of (files s) (comps p) = None"
    "parent_ok (files s) (comps p)" and buf: "buf \<noteq> ''''"
  obtains t where "write_buffer e p buf s = (NO_ERROR, s\<lparr>files := t\<rparr>)"
    "map_of t = (map_of (files s))(comps p \<mapsto> FileNode buf)"
proof -
  have node: "map_of (files s) (comps p) = Some (FileNode '''') \<or>
      (map_of (files s) (comps p) = None \<and> parent_ok (files s) (comps p) \<and> '''' = '''')"
    using new by simp
  obtain s2 s3 t where wr: "os_open_write e p s = (fresh_fd (fds s), s2)"
    "os_write e (fresh_fd (fds s)) buf s2 = (int (length buf), s3)"
    "os_close (fresh_fd (fds s)) s3 = s\<lparr>files := t\<rparr>"
    "map_of t = (map_of (files s))(comps p \<mapsto> FileNode (overwrite 0 buf ''''))"
    by (rule open_write_close [OF disk p buf node])
  have "write_buffer e p buf s = (NO_ERROR, s\<lparr>files := t\<rparr>)"
    using wr(1,2,3) fresh_fd_nonneg [of "fds s"] buf by (simp add: write_buffer_def)
  with wr(4) show thesis by (intro that [of t]) simp_all
qed

lemma spool_fd_succeeds:
  assumes disk: "disk_ok e" and p: "p \<noteq> ''''" "comps p \<noteq> []" and new: "map_of (files s) (comps p) = None"
    "parent_ok (files s) (comps p)" and n: "0 < n"
    and fd: "map_of (fds s) fd = Some (ReadFd c)" "c \<noteq> ''''"
  obtains s' where "spool_fd e fd n p s = (NO_ERROR, s')"
    "map_of (files s') = (map_of (files s))(comps p \<mapsto> FileNode (zero_fill (nat n) (take (nat n) c)))"
    "fds s' = AList.update fd (ReadFd (drop (nat n) c)) (fds s)"
    "\<And>w u. entry w u s' = entry w u s" "wallpaperIdCounter s' = wallpaperIdCounter s"
    "wallpaperTmpFullPath s' = wallpaperTmpFullPath s" "effects s' = effects s"
    "callbackProxy s' = callbackProxy s" "wallpaperEventMap s' = wallpaperEventMap s" "same_hearing s s'"
proof -
  let ?m = "min (nat n) (length c)"
  have m: "nat (read_max e fd (nat n)) \<ge> nat n" "\<not> read_max e fd (nat n) < 0"
    using disk_okD(8) [OF disk, of "nat n" fd] n by auto
  then have min: "min (nat (read_max e fd (nat n))) ?m = ?m" by simp
  let ?s1 = "s\<lparr>fds := AList.update fd (ReadFd (drop ?m c)) (fds s)\<rparr>"
  have rd: "os_read e fd (nat n) s = (int ?m, take ?m c, ?s1)"
    using fd m(2) min by (simp add: os_read_def Let_def)
  have pos: "\<not> int ?m \<le> 0" using n fd(2) by simp
  have bytes: "take ?m c = take (nat n) c" "drop ?m c = drop (nat n) c"
    by (simp_all add: min_def)
  let ?buf = "zero_fill (nat n) (take (nat n) c)"
  have buf: "?buf \<noteq> ''''" using n zero_fill_length [of "nat n" "take (nat n) c"] by (metis list.size(3) nat_0_iff not_le)
  obtain t where wr: "write_buffer e p ?buf ?s1 = (NO_ERROR, ?s1\<lparr>files := t\<rparr>)"
    "map_of t = (map_of (files ?s1))(comps p \<mapsto> FileNode ?buf)"
    by (rule write_buffer_succeeds [OF disk p _ _ buf, of ?s1]) (use new in simp_all)
  have "spool_fd e fd n p s = (NO_ERROR, ?s1\<lparr>files := t\<rparr>)"
    using pos wr(1) disk_okD(10) [OF disk, of n] by (simp add: spool_fd_def rd bytes(1))
  with wr(2) bytes(2) show thesis by (intro that [of "?s1\<lparr>files := t\<rparr>"]) (simp_all add: same_hearing_def)
qed

section \<open>Properties\<close>

lemma tmp_parent_ok:
  assumes "wf_fs t" "map_of t (user_comps u) = Some n"
  shows "parent_ok t tmp_comps"
  using parent_ok_existing [OF assms]
  by (simp add: parent_ok_def user_comps_def tmp_comps_def temp_comps_def)

lemma delete_update_fd: "AList.delete k (AList.update k v xs) = AList.delete k xs"
  by (induction xs) auto

lemma dom_delete: "fst ` set (AList.delete k xs) = fst ` set xs - {k}"
  by (metis AList.delete_keys removeAll_filter_not_eq set_map set_removeAll)

lemma CheckValid_NO_ERROR:
  "CheckValid wt n r = NO_ERROR \<longleftrightarrow>
     known_type wt \<and> 0 < n \<and> n \<le> (if r = VIDEO then MAX_VIDEO_SIZE else FOO_MAX_LEN)"
  by (auto simp: CheckValid_def Let_def)

lemma sample_ready: "ready sample_env 100 w sample_service"
  using sample_nodes sample_disk
  by (simp add: ready_def cfg_writable_def cfg_comps_def sample_env_def c_str_def)

text \<open>
  What a successful change leaves: \<open>c\<close> in the file of its kind and nothing else in the directory, no temporary
  file, the record \<open>d\<close>, the announcement, and the rest as it was.
\<close>

definition installed ::
  "WallpaperResourceType \<Rightarrow> int32 \<Rightarrow> WallpaperType \<Rightarrow> string \<Rightarrow> service \<Rightarrow> service \<Rightarrow> WallpaperData \<Rightarrow> bool" where
  "installed r u w c s s' d \<longleftrightarrow>
     map_of (files s') (target_comps r u w) = Some (FileNode c) \<and>
     (\<forall>k. strict_prefix (type_comps u w) k \<longrightarrow> k = target_comps r u w \<or> map_of (files s') k = None) \<and>
     map_of (files s') tmp_comps = None \<and> entry w u s' = Some d \<and> GetWallpaperFile r d = target_file r u w \<and>
     resourceType d = r \<and> wallpaperId d = fst (MakeWallpaperIdLocked s) \<and>
     tl (picture_files d) = ['''', '''', '''', '''', ''''] \<and>
     prefix (effects s @ change_effects w r s) (effects s') \<and> rest_kept u w s s'"

lemma installed_close: "installed r u w c s s' d \<Longrightarrow> installed r u w c s (os_close fd s') d"
  by (simp add: installed_def os_close_def rest_kept_def)

lemma service_ok_live:
  "service_ok res s \<Longrightarrow> entry w u s = Some d \<Longrightarrow> liveWallpaperFile d = live_file u w \<and> customPackageUri d = custom_file u w"
  using safe_entry [OF safe_refl, of res s w u d] by (auto simp: data_ok_def)

text \<open>The states between the temporary file and the record: only the temporary file and its descriptor differ.\<close>

definition spooled :: "string \<Rightarrow> service \<Rightarrow> service \<Rightarrow> bool" where
  "spooled c s s1 \<longleftrightarrow> map_of (files s1) = (map_of (files s))(tmp_comps \<mapsto> FileNode c) \<and>
     fst ` set (fds s1) = fst ` set (fds s) \<and> wallpaperIdCounter s1 = wallpaperIdCounter s \<and>
     wallpaperTmpFullPath s1 = wallpaperTmpFullPath s \<and> effects s1 = effects s \<and> callbackProxy s1 = callbackProxy s \<and>
     wallpaperEventMap s1 = wallpaperEventMap s \<and> (\<forall>w u. entry w u s1 = entry w u s) \<and> same_hearing s s1"

text \<open>What is heard of a new picture: the announcement, then its colour where that is a new one.\<close>

definition heard :: "env \<Rightarrow> int32 \<Rightarrow> WallpaperType \<Rightarrow> service \<Rightarrow> service \<Rightarrow> bool" where
  "heard e u w s s' \<longleftrightarrow>
     effects s' = effects s @ change_effects w PICTURE s @ colour_effects e (picture_file u w) (bytes_at (files s') (picture_file u w)) w s \<and>
     stored_colour w s' = colour_after e (picture_file u w) (bytes_at (files s') (picture_file u w)) w s"

lemma heard_close [simp]: "heard e u w s (s'\<lparr>fds := x\<rparr>) = heard e u w s s'" "heard e u w s (os_close fd s') = heard e u w s s'"
  by (simp_all add: heard_def os_close_def)

lemma spooled_installs:
  assumes "spooled c s s1" and ready: "ready e u w s" and ok: "service_ok res s" and wf1: "wf_fs (files s1)"
  shows "\<exists>s2 d. SetWallpaperBackupData e u r tmp_path w s1 = (NO_ERROR, s2) \<and>
    (r = PICTURE \<longrightarrow> heard e u w s (snd (SaveColor e u w s2))) \<and>
    installed r u w c s (if r = PICTURE then snd (SaveColor e u w s2) else s2) d \<and>
    fds (if r = PICTURE then snd (SaveColor e u w s2) else s2) = fds s1 \<and>
    cfg_writable e u (if r = PICTURE then snd (SaveColor e u w s2) else s2)"
proof -
  note s1 = assms(1) [unfolded spooled_def]
  have ne: "user_comps u \<noteq> tmp_comps" "type_comps u w \<noteq> tmp_comps" "cfg_comps u \<noteq> tmp_comps"
    using tmp_not_user(1) [of u] tmp_not_user(3) [of u w] tmp_not_user(2) [of u] by auto
  have ready1: "ready e u w s1"
    using ready s1 ne by (simp add: ready_def cfg_writable_def)
  have id: "fst (MakeWallpaperIdLocked s1) = fst (MakeWallpaperIdLocked s)" "change_effects w r s1 = change_effects w r s"
    using s1 by (simp_all add: MakeWallpaperIdLocked_def Let_def change_effects_def listeners_of_def)
  have live: "entry w u s1 = Some d \<Longrightarrow> liveWallpaperFile d = live_file u w \<and> customPackageUri d = custom_file u w" for d
    using s1 service_ok_live [OF ok] by simp
  have tmp1: "map_of (files s1) tmp_comps = Some (FileNode c)" using s1 by simp
  obtain s2 d where s2: "SetWallpaperBackupData e u r tmp_path w s1 = (NO_ERROR, s2)"
    "map_of (files s2) (target_comps r u w) = Some (FileNode c)"
    "\<forall>k. strict_prefix (type_comps u w) k \<longrightarrow> k = target_comps r u w \<or> map_of (files s2) k = None"
    "map_of (files s2) tmp_comps = None" "entry w u s2 = Some (new_record u w r (fst (MakeWallpaperIdLocked s)) d)"
    "fds s2 = fds s1" "effects s2 = effects s @ change_effects w r s" "d = ClearnWallpaperDataFile d"
    "rest_kept u w s1 s2" "cfg_writable e u s2" "same_hearing s1 s2"
    "GetWallpaperFile r (new_record u w r (fst (MakeWallpaperIdLocked s)) d) = target_file r u w"
    using SetWallpaperBackupData_succeeds [OF ready1 wf1 live tmp1, of r] id s1 by metis
  have kept: "rest_kept u w s s2"
    using s2(9) s1 by (simp add: rest_kept_def)
  let ?d = "new_record u w r (fst (MakeWallpaperIdLocked s)) d"
  have pics: "tl (picture_files ?d) = ['''', '''', '''', '''', '''']"
    by (subst s2(8)) (simp add: new_record_def picture_files_def ClearnWallpaperDataFile_def)
  have ins: "installed r u w c s s2 ?d"
    using s2 kept pics by (simp add: installed_def) (simp add: new_record_def)
  note col = SaveColor_frame [OF s2(5), where e = e]
  have hear: "heard e u w s (snd (SaveColor e u w s2))" if "r = PICTURE"
  proof -
    have pic: "wallpaperFile ?d = picture_file u w" using s2(12) that by (simp add: GetWallpaperFile_def)
    note h = SaveColor_heard [OF s2(5), of e, unfolded pic] and same = same_hearing_trans [OF _ s2(11), of s]
    show ?thesis
      using h s2(7) heard_same [OF same] s1 that col(1) by (simp add: heard_def)
  qed
  have "installed r u w c s (snd (SaveColor e u w s2)) ?d" "cfg_writable e u (snd (SaveColor e u w s2))"
    using ins col s2(10) by (auto simp: installed_def rest_kept_def cfg_writable_def elim: prefix_order.trans)
  then show ?thesis
    using s2(1,6,10) ins hear col(2) by (intro exI [of _ s2] exI [of _ ?d]) (cases "r = PICTURE"; simp)
qed

lemma SetWallpaper_res_effect:
  assumes not_guest: "OsAccountIsGuest e (QueryActiveUserId e) = Some False"
    and valid: "CheckValid wt n r = NO_ERROR" and ok: "service_ok res s"
    and ready: "ready e (QueryActiveUserId e) (as_WallpaperType wt) s"
    and no_tmp: "map_of (files s) tmp_comps = None"
    and fd: "map_of (fds s) fd = Some (ReadFd c)" "c \<noteq> ''''"
  shows "\<exists>s' d. SetWallpaper_res e fd wt n r s = (NO_ERROR, s') \<and>
    installed r (QueryActiveUserId e) (as_WallpaperType wt) (zero_fill (nat n) (take (nat n) c)) s s' d \<and>
    fds s' = AList.update fd (ReadFd (drop (nat n) c)) (fds s) \<and> cfg_writable e (QueryActiveUserId e) s' \<and>
    (r = PICTURE \<longrightarrow> heard e (QueryActiveUserId e) (as_WallpaperType wt) s s')"
proof -
  let ?u = "QueryActiveUserId e" and ?w = "as_WallpaperType wt" and ?c = "zero_fill (nat n) (take (nat n) c)"
  have disk: "disk_ok e" and tmp: "wallpaperTmpFullPath s = tmp_path"
    and user: "map_of (files s) (user_comps ?u) = Some DirNode"
    using ready by (simp_all add: ready_def tmp_path_def cfg_writable_def)
  have n: "0 < n" using valid by (simp add: CheckValid_NO_ERROR)
  obtain s1 where s1: "spool_fd e fd n tmp_path s = (NO_ERROR, s1)"
    "map_of (files s1) = (map_of (files s))(tmp_comps \<mapsto> FileNode ?c)"
    "fds s1 = AList.update fd (ReadFd (drop (nat n) c)) (fds s)"
    "wallpaperIdCounter s1 = wallpaperIdCounter s" "wallpaperTmpFullPath s1 = wallpaperTmpFullPath s"
    "effects s1 = effects s" "callbackProxy s1 = callbackProxy s"
    "wallpaperEventMap s1 = wallpaperEventMap s" "\<And>w u. entry w u s1 = entry w u s" "same_hearing s s1"
    using spool_fd_succeeds [OF disk comps_tmp_path(2), unfolded comps_tmp_path(1),
        OF comps_tmp_path(3) no_tmp tmp_parent_ok [OF service_ok_wf_fs [OF ok] user] n fd] by metis
  have "service_ok res s1"
    using safe_spool_tmp(1) [OF s1(1) _ safe_refl [OF ok]] by (simp add: temp_path_ok_def tmp_path_def safe_def)
  moreover have "fst ` set (fds s1) = fst ` set (fds s)"
    using fd(1) s1(3) by (force simp: dom_update dest!: map_of_SomeD)
  then have "spooled ?c s s1"
    using s1 by (simp add: spooled_def)
  ultimately obtain s2 d where s2: "SetWallpaperBackupData e ?u r tmp_path ?w s1 = (NO_ERROR, s2)"
    and s3: "installed r ?u ?w ?c s (if r = PICTURE then snd (SaveColor e ?u ?w s2) else s2) d"
      "fds (if r = PICTURE then snd (SaveColor e ?u ?w s2) else s2) = fds s1"
      "cfg_writable e ?u (if r = PICTURE then snd (SaveColor e ?u ?w s2) else s2)"
      "r = PICTURE \<longrightarrow> heard e ?u ?w s (snd (SaveColor e ?u ?w s2))"
    using spooled_installs [OF _ ready ok service_ok_wf_fs, of ?c s1 res r] by blast
  have "SetWallpaper_res e fd wt n r s = (NO_ERROR, if r = PICTURE then snd (SaveColor e ?u ?w s2) else s2)"
    using not_guest valid tmp by (simp add: SetWallpaper_res_def Let_def CheckUserPermissionById_def s1(1) s2)
  with s3 s1(3) show ?thesis
    by (intro exI [of _ "if r = PICTURE then snd (SaveColor e ?u ?w s2) else s2"] exI [of _ d]) simp
qed

lemma cfg_writable_close: "cfg_writable e u s \<Longrightarrow> fd \<noteq> 0 \<Longrightarrow> cfg_writable e u (os_close fd s)"
  by (simp add: cfg_writable_def os_close_def dom_delete)

lemma SetWallpaper_effect:
  assumes granted: "PermissionGranted e PERMISSION_SET_WALLPAPER"
    and not_guest: "OsAccountIsGuest e (QueryActiveUserId e) = Some False"
    and valid: "CheckValid wt n PICTURE = NO_ERROR"
    and ok: "service_ok res s"
    and ready: "ready e (QueryActiveUserId e) (as_WallpaperType wt) s"
    and no_tmp: "map_of (files s) tmp_comps = None"
    and fd: "map_of (fds s) fd = Some (ReadFd c)" "c \<noteq> ''''"
  shows "\<exists>s' d. SetWallpaper e fd wt n s = (NO_ERROR, s') \<and>
    installed PICTURE (QueryActiveUserId e) (as_WallpaperType wt) (zero_fill (nat n) (take (nat n) c)) s s' d \<and>
    fds s' = AList.delete fd (fds s) \<and> (fd \<noteq> 0 \<longrightarrow> cfg_writable e (QueryActiveUserId e) s') \<and>
    heard e (QueryActiveUserId e) (as_WallpaperType wt) s s'"
proof -
  obtain s1 d where s1: "SetWallpaper_res e fd wt n PICTURE s = (NO_ERROR, s1)"
    "installed PICTURE (QueryActiveUserId e) (as_WallpaperType wt) (zero_fill (nat n) (take (nat n) c)) s s1 d"
    "fds s1 = AList.update fd (ReadFd (drop (nat n) c)) (fds s)" "cfg_writable e (QueryActiveUserId e) s1"
    "heard e (QueryActiveUserId e) (as_WallpaperType wt) s s1"
    using SetWallpaper_res_effect [OF not_guest valid ok ready no_tmp fd] by blast
  have "SetWallpaper e fd wt n s = (NO_ERROR, os_close fd s1)"
    using granted by (simp add: SetWallpaper_def CheckCallingPermission_def s1(1))
  then show ?thesis
    using installed_close [OF s1(2), of fd] cfg_writable_close [OF s1(4), of fd] s1(3,5)
    by (intro exI [of _ "os_close fd s1"] exI [of _ d]) (simp add: os_close_def delete_update_fd)
qed

text \<open>C2: a permitted request for a valid picture, of a user who is no guest and has the directories, succeeds on an undisturbed
  disk without a left-over temporary file. The picture of
  the user and type is exactly the bytes of the descriptor, cut or zero-filled to the declared
  length; every other file of that directory and the temporary file are gone; the record names
  the picture under a fresh identifier with no picture for other screen states; the caller's
  descriptor is closed; the change is announced once, and after it the main colour of the picture is, to each listener
  of colours, exactly when it is not the colour stored for the type, and is stored; and every
  other file and record stays, except the configuration file of the user.\<close>

theorem SetWallpaper_installs:
  assumes granted: "PermissionGranted e PERMISSION_SET_WALLPAPER"
    and not_guest: "OsAccountIsGuest e (QueryActiveUserId e) = Some False"
    and valid: "CheckValid wt n PICTURE = NO_ERROR"
    and ok: "service_ok res s"
    and ready: "ready e (QueryActiveUserId e) (as_WallpaperType wt) s"
    and no_tmp: "map_of (files s) tmp_comps = None"
    and fd: "map_of (fds s) fd = Some (ReadFd c)" "c \<noteq> ''''"
  shows "\<exists>s' d. SetWallpaper e fd wt n s = (NO_ERROR, s') \<and>
    map_of (files s') (picture_comps (QueryActiveUserId e) (as_WallpaperType wt))
      = Some (FileNode (zero_fill (nat n) (take (nat n) c))) \<and>
    (\<forall>k. strict_prefix (type_comps (QueryActiveUserId e) (as_WallpaperType wt)) k \<longrightarrow>
       k = picture_comps (QueryActiveUserId e) (as_WallpaperType wt) \<or> map_of (files s') k = None) \<and>
    map_of (files s') tmp_comps = None \<and>
    entry (as_WallpaperType wt) (QueryActiveUserId e) s' = Some d \<and>
    wallpaperFile d = picture_file (QueryActiveUserId e) (as_WallpaperType wt) \<and>
    resourceType d = PICTURE \<and> wallpaperId d = fst (MakeWallpaperIdLocked s) \<and>
    tl (picture_files d) = ['''', '''', '''', '''', ''''] \<and>
    fds s' = AList.delete fd (fds s) \<and>
    effects s' = effects s @ change_effects (as_WallpaperType wt) PICTURE s @
      colour_effects e (picture_file (QueryActiveUserId e) (as_WallpaperType wt)) (Some (zero_fill (nat n) (take (nat n) c)))
        (as_WallpaperType wt) s \<and>
    stored_colour (as_WallpaperType wt) s' =
      colour_after e (picture_file (QueryActiveUserId e) (as_WallpaperType wt)) (Some (zero_fill (nat n) (take (nat n) c)))
        (as_WallpaperType wt) s \<and>
    rest_kept (QueryActiveUserId e) (as_WallpaperType wt) s s'"
proof -
  let ?u = "QueryActiveUserId e" and ?w = "as_WallpaperType wt" and ?c = "zero_fill (nat n) (take (nat n) c)"
  obtain s' d where s': "SetWallpaper e fd wt n s = (NO_ERROR, s')" "installed PICTURE ?u ?w ?c s s' d"
    "fds s' = AList.delete fd (fds s)" "heard e ?u ?w s s'"
    using SetWallpaper_effect [OF assms] by blast
  then have "bytes_at (files s') (picture_file ?u ?w) = Some ?c"
    by (simp add: installed_def bytes_at_def lookup_path_def node_at_def comps_picture_file picture_comps_def)
  with s' show ?thesis
    by (intro exI [of _ s'] exI [of _ d]) (simp add: installed_def GetWallpaperFile_def heard_def)
qed

theorem SetWallpaper_installs_witness:
  "\<exists>s' d. SetWallpaper sample_env 5 0 9 sample_service = (NO_ERROR, s') \<and>
     map_of (files s') (picture_comps 100 WALLPAPER_SYSTEM)
       = Some (FileNode (''picture'' @ [CHR 0x00, CHR 0x00])) \<and>
     entry WALLPAPER_SYSTEM 100 s' = Some d \<and> wallpaperId d = 5 \<and> fds s' = [(0, ReadFd '''')]"
proof -
  have u: "QueryActiveUserId sample_env = 100" and w: "as_WallpaperType 0 = WALLPAPER_SYSTEM"
    by (simp_all add: QueryActiveUserId_def sample_env_def as_WallpaperType_def WallpaperType_value_def)
  have fill: "zero_fill (nat 9) (take (nat 9) ''picture'') = ''picture'' @ [CHR 0x00, CHR 0x00]"
    by code_simp
  have new: "fst (MakeWallpaperIdLocked sample_service) = 5"
    by (simp add: MakeWallpaperIdLocked_def sample_service_def INT32_MAX_def wrap32_eq Let_def)
  have h1: "PermissionGranted sample_env PERMISSION_SET_WALLPAPER" by (simp add: sample_env_def)
  have h2: "OsAccountIsGuest sample_env (QueryActiveUserId sample_env) = Some False"
    by (simp add: sample_env_def)
  have h3: "CheckValid 0 9 PICTURE = NO_ERROR" by code_simp
  have h5: "ready sample_env (QueryActiveUserId sample_env) (as_WallpaperType 0) sample_service"
    using sample_ready by (simp add: u)
  have h6: "map_of (files sample_service) tmp_comps = None" using sample_nodes by (simp add: tmp_comps_def)
  have h7: "map_of (fds sample_service) 5 = Some (ReadFd ''picture'')" "''picture'' \<noteq> ''''" by simp_all
  from SetWallpaper_installs [OF h1 h2 h3 sample_service_ok h5 h6 h7]
  show ?thesis unfolding u w fill new by auto
qed

lemma ResetWallpaper_effect:
  assumes granted: "PermissionGranted e PERMISSION_SET_WALLPAPER"
    and not_guest: "OsAccountIsGuest e (QueryActiveUserId e) = Some False"
    and known: "known_type wt" and ok: "service_ok res s"
    and ready: "ready e (QueryActiveUserId e) (as_WallpaperType wt) s"
  shows "\<exists>s' d. ResetWallpaper e wt s = (NO_ERROR, s') \<and>
    (\<forall>k. strict_prefix (type_comps (QueryActiveUserId e) (as_WallpaperType wt)) k \<longrightarrow>
       map_of (files s') k = None) \<and>
    map_of (files s') (type_comps (QueryActiveUserId e) (as_WallpaperType wt)) = Some DirNode \<and>
    entry (as_WallpaperType wt) (QueryActiveUserId e) s' = Some d \<and>
    resourceType d = DEFAULT \<and> wallpaperId d = DEFAULT_WALLPAPER_ID \<and>
    d = preset_record e (cleared_fs (QueryActiveUserId e) (as_WallpaperType wt) (files s))
      (QueryActiveUserId e) (as_WallpaperType wt) DEFAULT \<and> fds s' = fds s \<and>
    wallpaperIdCounter s' = wallpaperIdCounter s \<and>
    prefix (effects s @ change_effects (as_WallpaperType wt) DEFAULT s) (effects s') \<and>
    rest_kept (QueryActiveUserId e) (as_WallpaperType wt) s s' \<and>
    cfg_writable e (QueryActiveUserId e) s' \<and>
    map_of (files s') tmp_comps = map_of (files s) tmp_comps"
proof -
  let ?u = "QueryActiveUserId e" and ?w = "as_WallpaperType wt"
  have disk: "disk_ok e" and cfg: "cfg_writable e ?u s"
    and dir: "map_of (files s) (type_comps ?u ?w) = Some DirNode"
    using ready by (simp_all add: ready_def)
  note wf = service_ok_wf_fs [OF ok]
  have ne: "type_comps ?u ?w \<noteq> []" by (simp add: type_comps_def user_comps_def)
  obtain x s1 where s1: "GetWallpaperSafeLocked e ?u ?w s = (x, s1)" by fastforce
  note f1 = GetWallpaperSafeLocked_frame [OF s1]
  then obtain d0 where x: "x = Some d0" by blast
  have "os_opendir e (files s) (GetWallpaperDir ?u ?w)"
    using dir disk ne
    by (simp add: os_opendir_def lookup_path_def node_at_def path_simps disk_okD GetWallpaperDir_not_Nil)
  then obtain t where t: "DeleteDir e (GetWallpaperDir ?u ?w) False (files s) = (True, t)" "wf_fs t"
    "\<And>k. map_of t k = (if strict_prefix (type_comps ?u ?w) k then None else map_of (files s) k)"
    using DeleteDir_clears [OF disk wf] ne by (metis comps_GetWallpaperDir)
  let ?s2 = "s1\<lparr>files := t\<rparr>" and ?d1 = "default_data e t ?u ?w"
  have s2: "RestoreUserResources e ?u d0 ?w s1 = (True, ?d1, ?s2)"
    using t(1) f1(1) by (simp add: RestoreUserResources_def on_files_def Let_def default_path_nonempty)
  have same: "same_rest s ?s2" using f1(2) by (simp add: same_rest_def)
  have npre: "\<not> strict_prefix (type_comps ?u ?w) (user_comps ?u)"
    by (auto simp: type_comps_def strict_prefix_def)
  have cfg2: "cfg_writable e ?u ?s2"
    using cfg t(3) npre cfg_not_type(2) [of ?u ?w] f1(2)
    by (simp add: cfg_writable_def same_rest_def strict_prefix_def)
  obtain s3 where s3: "SaveWallpaperState e ?u ?w DEFAULT ?s2 = (True, s3)" "same_rest ?s2 s3"
    "\<forall>k. k \<noteq> cfg_comps ?u \<longrightarrow> map_of (files s3) k = map_of (files ?s2) k"
    "\<forall>w' v. entry w' v ?s2 \<noteq> None \<longrightarrow> entry w' v s3 = entry w' v ?s2"
    "map_of (files s3) (cfg_comps ?u) \<noteq> Some DirNode"
    by (rule SaveWallpaperState_succeeds [OF disk cfg2, where w = ?w and r = DEFAULT])
  let ?d = "?d1\<lparr>wallpaperId := DEFAULT_WALLPAPER_ID, resourceType := DEFAULT, allowBackup := True\<rparr>"
  let ?s4 = "insert_wallpaper ?w ?u ?d s3"
  have e4: "entry ?w ?u ?s4 = Some ?d" by simp
  let ?s5 = "?s4\<lparr>effects := effects ?s4 @ change_effects ?w DEFAULT ?s4\<rparr>"
  have s5: "SendWallpaperChangeEvent e ?u ?w ?s4 = (True, ?s5)"
    using SendWallpaperChangeEvent_eq [OF e4, of e] by simp
  have e5: "entry ?w ?u ?s5 = Some ?d" by simp
  note col = SaveColor_frame [OF e5, where e = e]
  have eff: "effects ?s5 = effects s @ change_effects ?w DEFAULT s"
    using s3(2) same by (simp add: same_rest_def change_effects_def listeners_of_def)
  have run: "ResetWallpaper e wt s = (NO_ERROR, snd (SaveColor e ?u ?w ?s5))"
    using granted not_guest known
    by (simp add: ResetWallpaper_def CheckCallingPermission_def Let_def CheckUserPermissionById_def
        SetDefaultDataForWallpaper_def s1 x s2 s3(1) s5 [simplified])
  have "map_of t = map_of (cleared_fs ?u ?w (files s))"
    using t(3) by (simp add: map_of_cleared_fs fun_eq_iff)
  then have preset: "?d = preset_record e (cleared_fs ?u ?w (files s)) ?u ?w DEFAULT"
    using preset_record_cong [of t "cleared_fs ?u ?w (files s)" e ?u ?w DEFAULT] by (simp add: default_data_preset preset_record_def)
  have files5: "map_of (files ?s5) k = map_of t k" if "k \<noteq> cfg_comps ?u" for k
    using s3(3) that by simp
  show ?thesis
  proof (intro exI conjI)
    show "ResetWallpaper e wt s = (NO_ERROR, snd (SaveColor e ?u ?w ?s5))" by (rule run)
    show "entry ?w ?u (snd (SaveColor e ?u ?w ?s5)) = Some ?d" using col(3) e5 by simp
    show "prefix (effects s @ change_effects ?w DEFAULT s) (effects (snd (SaveColor e ?u ?w ?s5)))"
      using col(5) eff by simp
    show "fds (snd (SaveColor e ?u ?w ?s5)) = fds s"
      using col(2) s3(2) same by (simp add: same_rest_def)
    show "wallpaperIdCounter (snd (SaveColor e ?u ?w ?s5)) = wallpaperIdCounter s"
      using col(4) s3(2) same by (simp add: same_rest_def)
    show "map_of (files (snd (SaveColor e ?u ?w ?s5))) (type_comps ?u ?w) = Some DirNode"
      using col(1) files5 cfg_not_type(2) [of ?u ?w] t(3) dir by auto
    show "\<forall>k. strict_prefix (type_comps ?u ?w) k \<longrightarrow>
        map_of (files (snd (SaveColor e ?u ?w ?s5))) k = None"
      using col(1) files5 cfg_not_type(2) [of ?u ?w] t(3) by (auto simp: strict_prefix_def)
    show "?d = preset_record e (cleared_fs ?u ?w (files s)) ?u ?w DEFAULT" by (rule preset)
    have "entry w' v ?s2 = entry w' v s" if "entry w' v s \<noteq> None" for w' v
      using f1(3) [of w' v] that by simp
    then show "rest_kept ?u ?w s (snd (SaveColor e ?u ?w ?s5))"
      using col(1,3,6) s3(2,4) same files5 t(3) by (auto simp: rest_kept_def same_rest_def)
    show "cfg_writable e ?u (snd (SaveColor e ?u ?w ?s5))"
      using cfg cfg2 col(1,2) s3(2,3,5) cfg_not_user [of ?u] by (simp add: cfg_writable_def same_rest_def)
    show "map_of (files (snd (SaveColor e ?u ?w ?s5))) tmp_comps = map_of (files s) tmp_comps"
      using col(1) files5 [of tmp_comps] t(3) tmp_not_user(2) [of ?u] tmp_not_user(3) [of ?u ?w]
      by (simp add: strict_prefix_def)
  qed simp_all
qed

end
