(* ===== verification/GetWallpaper.thy ===== *)
theory GetWallpaper
  imports SetWallpaper
begin

text \<open>
  The handlers that answer questions about a wallpaper (\<^verbatim>\<open>wallpaper_service.cpp\<close>): the size
  and a read descriptor of the current picture, the picture for a fold and rotation state, the
  permission queries and the test whether a user still has the preset wallpaper. An
  out-parameter is an option: \<open>None\<close> when the code returns without assigning it.
\<close>

section \<open>The current picture\<close>

definition GetImageFd ::
  "env \<Rightarrow> int32 \<Rightarrow> WallpaperType \<Rightarrow> service \<Rightarrow> ErrorCode \<times> int option \<times> service" where
  "GetImageFd e uid wallpaperType s =
     (case GetFileNameFromMap uid wallpaperType s of (found, filePathName) \<Rightarrow>
        if \<not> found then (E_DEAL_FAILED, None, s)
        else if GetResType uid wallpaperType s = PACKAGE then (NO_ERROR, None, s)
        else (case os_open_read e filePathName s of (fd, s1) \<Rightarrow>
          if fd < 0
          then (E_DEAL_FAILED, Some fd, ReporterFault LOAD_WALLPAPER_FAULT RF_FD_INPUT_FAILED s1)
          else (NO_ERROR, Some fd, s1)))"

text \<open>The stream opened for measuring is a descriptor of the process while it is open.\<close>

definition GetImageSize ::
  "env \<Rightarrow> int32 \<Rightarrow> WallpaperType \<Rightarrow> service \<Rightarrow> ErrorCode \<times> int32 option \<times> service" where
  "GetImageSize e uid wallpaperType s =
     (case GetPictureFileName e uid wallpaperType s of (found, filePathName, s1) \<Rightarrow>
        if \<not> found then (E_DEAL_FAILED, None, s1)
        else if \<not> os_access (files s1) filePathName then (E_NOT_FOUND, None, s1)
        else case os_open_read e filePathName s1 of (stream, s2) \<Rightarrow>
        if stream < 0 then (E_FILE_ERROR, None, s2)
        else let len = int (length (file_content (files s2) (comps filePathName))) in
          if len \<le> 0 \<or> len > INT32_MAX \<or> \<not> seek_ok e filePathName
          then (E_FILE_ERROR, None, os_close stream s2)
          else (NO_ERROR, Some (wrap32 len), os_close stream s2))"

definition GetPixelMap ::
  "env \<Rightarrow> int32 \<Rightarrow> service \<Rightarrow> ErrorCode \<times> int32 option \<times> int option \<times> service" where
  "GetPixelMap e wallpaperType s =
     (if \<not> IsSystemApp e then (E_NOT_SYSTEM_APP, None, None, s)
      else if \<not> CheckCallingPermission e PERMISSION_GET_WALLPAPER then (E_NO_PERMISSION, None, None, s)
      else if \<not> known_type wallpaperType then (E_PARAMETERS_INVALID, None, None, s)
      else let w = as_WallpaperType wallpaperType; uid = QueryActiveUserId e;
               resType = GetResType uid w s
      in if resType \<noteq> PICTURE \<and> resType \<noteq> DEFAULT then (NO_ERROR, Some 0, Some (- 1), s)
      else case GetImageSize e uid w s of (ret, sz, s1) \<Rightarrow>
      if ret \<noteq> NO_ERROR then (ret, sz, None, s1)
      else case GetImageFd e uid w s1 of (ret', fd, s2) \<Rightarrow>
      if ret' \<noteq> NO_ERROR then (ret', sz, fd, s2) else (NO_ERROR, sz, fd, s2))"

definition GetPixelMapV9 ::
  "env \<Rightarrow> int32 \<Rightarrow> service \<Rightarrow> ErrorCode \<times> int32 option \<times> int option \<times> service" where
  "GetPixelMapV9 e wallpaperType s = GetPixelMap e wallpaperType s"

definition GetFile :: "env \<Rightarrow> int32 \<Rightarrow> service \<Rightarrow> ErrorCode \<times> int option \<times> service" where
  "GetFile e wallpaperType s =
     (if \<not> CheckCallingPermission e PERMISSION_GET_WALLPAPER then (E_NO_PERMISSION, None, s)
      else if \<not> known_type wallpaperType then (E_PARAMETERS_INVALID, None, s)
      else let w = as_WallpaperType wallpaperType; uid = QueryActiveUserId e in
      GetImageFd e uid w s)"

section \<open>The picture for a fold and rotation state\<close>

definition GetWallpaperDataPath ::
  "env \<Rightarrow> int32 \<Rightarrow> WallpaperType \<Rightarrow> int32 \<Rightarrow> int32 \<Rightarrow> service \<Rightarrow> bool \<times> string \<times> service" where
  "GetWallpaperDataPath e uid wallpaperType foldSt rotateSt s =
     (case find_wallpaper wallpaperType uid s of (found, d) \<Rightarrow>
        if found
        then (let p = GetWallpaperPath foldSt rotateSt d in (p \<noteq> '''', p, s))
        else let s1 = OnInitUser e uid s in
          case find_wallpaper wallpaperType uid s1 of (found1, d1) \<Rightarrow>
            if \<not> found1 then (False, '''', s1)
            else let p = GetWallpaperPath foldSt rotateSt d1 in (p \<noteq> '''', p, s1))"

text \<open>
  This overload stores the result of \<^verbatim>\<open>ftell\<close> in the 32-bit out-parameter before it checks
  it, and checks the 32-bit value only for being positive.
\<close>

definition GetCorrespondImageSize ::
  "env \<Rightarrow> int32 \<Rightarrow> WallpaperType \<Rightarrow> int32 \<Rightarrow> int32 \<Rightarrow> service
    \<Rightarrow> ErrorCode \<times> int32 option \<times> service" where
  "GetCorrespondImageSize e uid wallpaperType foldSt rotateSt s =
     (case GetWallpaperDataPath e uid wallpaperType foldSt rotateSt s of (found, filePathName, s1) \<Rightarrow>
        if \<not> found then (E_DEAL_FAILED, None, s1)
        else if \<not> os_access (files s1) filePathName then (E_NOT_FOUND, None, s1)
        else case os_open_read e filePathName s1 of (stream, s2) \<Rightarrow>
        if stream < 0 then (E_FILE_ERROR, None, s2)
        else let sz = wrap32 (int (length (file_content (files s2) (comps filePathName)))) in
          if sz \<le> 0 \<or> \<not> seek_ok e filePathName then (E_FILE_ERROR, Some sz, os_close stream s2)
          else (NO_ERROR, Some sz, os_close stream s2))"

definition GetCorrespondImageFd ::
  "env \<Rightarrow> int32 \<Rightarrow> WallpaperType \<Rightarrow> int32 \<Rightarrow> int32 \<Rightarrow> service
    \<Rightarrow> ErrorCode \<times> int option \<times> service" where
  "GetCorrespondImageFd e uid wallpaperType foldSt rotateSt s =
     (case GetWallpaperDataPath e uid wallpaperType foldSt rotateSt s of (found, filePathName, s1) \<Rightarrow>
        if \<not> found then (E_DEAL_FAILED, None, s1)
        else if GetResType uid wallpaperType s1 = PACKAGE then (NO_ERROR, None, s1)
        else (case os_open_read e filePathName s1 of (fd, s2) \<Rightarrow>
          if fd < 0
          then (E_DEAL_FAILED, Some fd, ReporterFault LOAD_WALLPAPER_FAULT RF_FD_INPUT_FAILED s2)
          else (NO_ERROR, Some fd, s2)))"

definition GetCorrespondWallpaper ::
  "env \<Rightarrow> int32 \<Rightarrow> int32 \<Rightarrow> int32 \<Rightarrow> service
    \<Rightarrow> ErrorCode \<times> int32 option \<times> int option \<times> service" where
  "GetCorrespondWallpaper e wallpaperType foldSt rotateSt s =
     (if \<not> IsSystemApp e then (E_NOT_SYSTEM_APP, None, None, s)
      else if \<not> CheckCallingPermission e PERMISSION_GET_WALLPAPER then (E_NO_PERMISSION, None, None, s)
      else if \<not> known_type wallpaperType then (E_PARAMETERS_INVALID, None, None, s)
      else let w = as_WallpaperType wallpaperType; uid = QueryActiveUserId e;
               resType = GetResType uid w s
      in if resType \<noteq> PICTURE \<and> resType \<noteq> DEFAULT then (NO_ERROR, Some 0, Some (- 1), s)
      else case GetCorrespondImageSize e uid w foldSt rotateSt s of (ret, sz, s1) \<Rightarrow>
      if ret \<noteq> NO_ERROR then (ret, sz, None, s1)
      else case GetCorrespondImageFd e uid w foldSt rotateSt s1 of (ret', fd, s2) \<Rightarrow>
      if ret' \<noteq> NO_ERROR then (ret', sz, fd, s2) else (NO_ERROR, sz, fd, s2))"

section \<open>Queries\<close>

definition IsChangePermitted :: "env \<Rightarrow> ErrorCode \<times> bool" where
  "IsChangePermitted e = (NO_ERROR, CheckCallingPermission e PERMISSION_SET_WALLPAPER)"

definition IsOperationAllowed :: "env \<Rightarrow> ErrorCode \<times> bool" where
  "IsOperationAllowed e = (NO_ERROR, CheckCallingPermission e PERMISSION_SET_WALLPAPER)"

definition IsDefaultWallpaperResource :: "env \<Rightarrow> int32 \<Rightarrow> int32 \<Rightarrow> service \<Rightarrow> ErrorCode \<times> bool" where
  "IsDefaultWallpaperResource e uid wallpaperType s =
     (if wallpaperType = WallpaperType_value WALLPAPER_SYSTEM then
        (if \<not> IsFileExistInDir e (files s)
                (WALLPAPER_USERID_PATH @ to_string uid @ ''/'' @ WALLPAPER_SYSTEM_DIRNAME @ ''/'')
         then (NO_ERROR, True) else (NO_ERROR, False))
      else if wallpaperType = WallpaperType_value WALLPAPER_LOCKSCREEN then
        (if \<not> IsFileExistInDir e (files s)
                (WALLPAPER_USERID_PATH @ to_string uid @ ''/'' @ WALLPAPER_LOCKSCREEN_DIRNAME @ ''/'')
         then (NO_ERROR, True) else (NO_ERROR, False))
      else (NO_ERROR, False))"

section \<open>What the operations keep\<close>

text \<open>Measuring closes the stream on every path, so only the answer is left.\<close>

lemma GetImageSize_eq:
  "GetImageSize e uid w s =
     (case GetPictureFileName e uid w s of (found, p, s1) \<Rightarrow>
        if \<not> found then (E_DEAL_FAILED, None, s1)
        else if \<not> os_access (files s1) p then (E_NOT_FOUND, None, s1)
        else if \<not> open_ok e p then (E_FILE_ERROR, None, s1)
        else let len = int (length (file_content (files s1) (comps p))) in
          if len \<le> 0 \<or> len > INT32_MAX \<or> \<not> seek_ok e p then (E_FILE_ERROR, None, s1)
          else (NO_ERROR, Some (wrap32 len), s1))"
proof -
  obtain found p s1 where path: "GetPictureFileName e uid w s = (found, p, s1)" by (metis prod.exhaust)
  obtain fd s2 where "os_open_read e p s1 = (fd, s2)" "fd < 0 \<longleftrightarrow> \<not> (open_ok e p \<and> os_access (files s1) p)"
    "fd < 0 \<longrightarrow> s2 = s1" "\<not> fd < 0 \<longrightarrow> os_close fd s2 = s1" "files s2 = files s1" by (rule os_open_read_cases [of e p s1])
  then show ?thesis by (auto simp: GetImageSize_def path Let_def)
qed

lemma GetCorrespondImageSize_eq:
  "GetCorrespondImageSize e uid w foldSt rotateSt s =
     (case GetWallpaperDataPath e uid w foldSt rotateSt s of (found, p, s1) \<Rightarrow>
        if \<not> found then (E_DEAL_FAILED, None, s1)
        else if \<not> os_access (files s1) p then (E_NOT_FOUND, None, s1)
        else if \<not> open_ok e p then (E_FILE_ERROR, None, s1)
        else let sz = wrap32 (int (length (file_content (files s1) (comps p)))) in
          if sz \<le> 0 \<or> \<not> seek_ok e p then (E_FILE_ERROR, Some sz, s1)
          else (NO_ERROR, Some sz, s1))"
proof -
  obtain found p s1 where path: "GetWallpaperDataPath e uid w foldSt rotateSt s = (found, p, s1)" by (metis prod.exhaust)
  obtain fd s2 where "os_open_read e p s1 = (fd, s2)" "fd < 0 \<longleftrightarrow> \<not> (open_ok e p \<and> os_access (files s1) p)"
    "fd < 0 \<longrightarrow> s2 = s1" "\<not> fd < 0 \<longrightarrow> os_close fd s2 = s1" "files s2 = files s1" by (rule os_open_read_cases [of e p s1])
  then show ?thesis by (auto simp: GetCorrespondImageSize_def path Let_def)
qed

lemma safe_GetImageFd:
  "GetImageFd e u w s = (c, fd, s') \<Longrightarrow> safe res u s0 s \<Longrightarrow> safe res u s0 s'"
  by (auto simp: GetImageFd_def split: prod.splits if_splits
      dest: safe_open_read intro: safe_ReporterFault)

lemma safe_GetImageSize:
  assumes "GetImageSize e u w s = (c, n, s')" "safe (GetDefaultResDir e) u s0 s"
  shows "safe (GetDefaultResDir e) u s0 s'"
  using assms
  by (auto simp: GetImageSize_eq Let_def split: prod.splits if_splits dest: safe_GetPictureFileName)

lemma safe_GetPixelMap [inv_intros]:
  assumes "safe (GetDefaultResDir e) (QueryActiveUserId e) s0 s"
  shows "safe (GetDefaultResDir e) (QueryActiveUserId e) s0 (snd (snd (snd (GetPixelMap e wt s))))"
  using assms
  by (auto simp: GetPixelMap_def Let_def split: prod.splits dest: safe_GetImageSize safe_GetImageFd)

lemma safe_GetPixelMapV9 [inv_intros]:
  assumes "safe (GetDefaultResDir e) (QueryActiveUserId e) s0 s"
  shows "safe (GetDefaultResDir e) (QueryActiveUserId e) s0 (snd (snd (snd (GetPixelMapV9 e wt s))))"
  using assms by (simp add: GetPixelMapV9_def inv_intros)

lemma safe_GetFile [inv_intros]:
  assumes "safe (GetDefaultResDir e) (QueryActiveUserId e) s0 s"
  shows "safe (GetDefaultResDir e) (QueryActiveUserId e) s0 (snd (snd (GetFile e wt s)))"
  using assms safe_GetImageFd
  by (auto simp: GetFile_def Let_def) (metis prod.collapse)

lemma safe_GetWallpaperDataPath:
  assumes "GetWallpaperDataPath e u w f r s = (b, p, s')" "safe (GetDefaultResDir e) u s0 s"
  shows "safe (GetDefaultResDir e) u s0 s'"
  using assms
  by (auto simp: GetWallpaperDataPath_def Let_def split: prod.splits if_splits intro: inv_intros)

lemma safe_GetCorrespondImageSize:
  assumes "GetCorrespondImageSize e u w f r s = (c, n, s')" "safe (GetDefaultResDir e) u s0 s"
  shows "safe (GetDefaultResDir e) u s0 s'"
  using assms
  by (auto simp: GetCorrespondImageSize_eq Let_def split: prod.splits if_splits
      dest: safe_GetWallpaperDataPath)

lemma safe_GetCorrespondImageFd:
  assumes "GetCorrespondImageFd e u w f r s = (c, n, s')" "safe (GetDefaultResDir e) u s0 s"
  shows "safe (GetDefaultResDir e) u s0 s'"
  using assms
  by (auto simp: GetCorrespondImageFd_def Let_def split: prod.splits if_splits
      dest: safe_GetWallpaperDataPath safe_open_read intro: safe_ReporterFault)

lemma safe_GetCorrespondWallpaper [inv_intros]:
  assumes "safe (GetDefaultResDir e) (QueryActiveUserId e) s0 s"
  shows "safe (GetDefaultResDir e) (QueryActiveUserId e) s0
    (snd (snd (snd (GetCorrespondWallpaper e wt f r s))))"
  using assms
  by (auto simp: GetCorrespondWallpaper_def Let_def split: prod.splits
      dest: safe_GetCorrespondImageSize safe_GetCorrespondImageFd)

section \<open>Properties\<close>

lemma type_dir_comps:
  "comps (WALLPAPER_USERID_PATH @ to_string u @ CHR ''/'' # type_dirname w @ ''/'') = type_comps u w"
proof -
  have n: "name_ok (type_dirname w)"
    by (cases w) (simp_all add: type_dirname_def name_ok_def WALLPAPER_SYSTEM_DIRNAME_def
        WALLPAPER_LOCKSCREEN_DIRNAME_def)
  have "comps (type_dirname w @ CHR ''/'' # '''') = comps (type_dirname w) @ comps ''''"
    by (rule comps_append_slash)
  then have "comps (type_dirname w @ ''/'') = [type_dirname w]"
    using n by (simp add: comps_name_ok comps_def [of "''''"])
  then show ?thesis
    by (simp add: comps_USERID_PATH comps_to_string_slash type_comps_def user_comps_def)
qed

lemma IsDefaultWallpaperResource_eq:
  "IsDefaultWallpaperResource e u (WallpaperType_value w) s =
     (NO_ERROR, \<not> (lookup_path (files s) (WALLPAPER_USERID_PATH @ to_string u @ CHR ''/'' # type_dirname w @ ''/'')
          = Some DirNode
        \<and> opendir_ok e (WALLPAPER_USERID_PATH @ to_string u @ CHR ''/'' # type_dirname w @ ''/'')
        \<and> dir_entries (files s) (type_comps u w) \<noteq> []))"
  using type_dir_comps [of u w]
  by (cases w)
    (auto simp: IsDefaultWallpaperResource_def WallpaperType_value_def type_dirname_def IsFileExistInDir_def
      os_opendir_def split: list.split)

text \<open>Whether a user still has the default resource is whether the directory of the type holds
  nothing (or cannot be listed); so it is false after a successful \<^verbatim>\<open>SetWallpaper\<close> and true after a
  successful \<^verbatim>\<open>ResetWallpaper\<close>, for the type of the request.\<close>

theorem default_resource_tells_set_from_reset:
  assumes "disk_ok e" "map_of (files s) (type_comps u w) = Some DirNode"
  shows "IsDefaultWallpaperResource e u (WallpaperType_value w) s =
    (NO_ERROR, \<forall>n. map_of (files s) (type_comps u w @ [n]) = None)"
proof -
  have "lookup_path (files s) (WALLPAPER_USERID_PATH @ to_string u @ CHR ''/'' # type_dirname w @ ''/'')
      = Some DirNode"
    using assms(2) type_dir_comps [of u w]
    by (simp add: lookup_path_def node_at_def WALLPAPER_USERID_PATH_def)
  with assms(1) show ?thesis
    by (simp add: IsDefaultWallpaperResource_eq disk_okD dir_entries_empty_iff)
qed

theorem default_resource_tells_set_from_reset_witness:
  "IsDefaultWallpaperResource sample_env 100 1 sample_service = (NO_ERROR, True) \<and>
   IsDefaultWallpaperResource sample_env 100 0 sample_service = (NO_ERROR, False)"
proof -
  have v: "WallpaperType_value WALLPAPER_LOCKSCREEN = 1" "WallpaperType_value WALLPAPER_SYSTEM = 0"
    by (simp_all add: WallpaperType_value_def)
  have "map_of sample_files (type_comps 100 WALLPAPER_SYSTEM @ [''wallpaper_home'']) \<noteq> None"
    "map_of sample_files (type_comps 100 WALLPAPER_LOCKSCREEN @ [n]) = None" for n
    by (simp_all add: type_comps_100 sample_files_def)
  with default_resource_tells_set_from_reset [OF sample_disk, of sample_service 100 WALLPAPER_SYSTEM]
    default_resource_tells_set_from_reset [OF sample_disk, of sample_service 100 WALLPAPER_LOCKSCREEN]
    sample_nodes(2)
  show ?thesis unfolding v by auto
qed

lemma GetPixelMap_effect:
  assumes "CallingIsSystemApp e" "PermissionGranted e PERMISSION_GET_WALLPAPER" "known_type wt"
    and entry: "entry (as_WallpaperType wt) (QueryActiveUserId e) s = Some d"
    and res: "resourceType d = PICTURE \<or> resourceType d = DEFAULT" and path: "wallpaperFile d \<noteq> ''''"
    and disk: "disk_ok e"
    and pic: "node_at (files s) (comps (wallpaperFile d)) = Some (FileNode c)" "c \<noteq> ''''"
      "int (length c) \<le> INT32_MAX"
  shows "\<exists>fd. fd \<notin> fst ` set (fds s) \<and> 0 \<le> fd \<and>
    GetPixelMap e wt s = (NO_ERROR, Some (int (length c)), Some fd, s\<lparr>fds := (fd, ReadFd c) # fds s\<rparr>)"
proof -
  let ?u = "QueryActiveUserId e" and ?w = "as_WallpaperType wt" and ?fd = "fresh_fd (fds s)"
  have found: "find_wallpaper ?w ?u s = (True, d)" using entry by (simp add: find_wallpaper_entry)
  have len: "0 < length c" "wrap32 (int (length c)) = int (length c)"
    using pic(2,3) by (simp_all add: wrap32_id in_int32_def INT32_MIN_def)
  have acc: "os_access (files s) (wallpaperFile d)" "lookup_path (files s) (wallpaperFile d) = Some (FileNode c)"
    using pic(1) path by (simp_all add: os_access_def lookup_path_def)
  have size: "GetImageSize e ?u ?w s = (NO_ERROR, Some (int (length c)), s)"
    using GetPictureFileName_entry [OF entry, of e] path acc len pic(3)
    by (simp add: GetImageSize_eq Let_def disk_okD [OF disk] file_content_def pic(1))
  have open_it: "os_open_read e (wallpaperFile d) s = (?fd, s\<lparr>fds := (?fd, ReadFd c) # fds s\<rparr>)"
    by (simp add: os_open_read_def acc(2) disk_okD [OF disk] Let_def)
  have fd: "GetImageFd e ?u ?w s = (NO_ERROR, Some ?fd, s\<lparr>fds := (?fd, ReadFd c) # fds s\<rparr>)"
    using res path fresh_fd_nonneg [of "fds s"]
    by (auto simp: GetImageFd_def GetFileNameFromMap_def GetResType_def found open_it Let_def)
  have "GetPixelMap e wt s = (NO_ERROR, Some (int (length c)), Some ?fd, s\<lparr>fds := (?fd, ReadFd c) # fds s\<rparr>)"
    using assms(1-3) res
    by (auto simp: GetPixelMap_def IsSystemApp_def CheckCallingPermission_def Let_def GetResType_def found
        size fd)
  with fresh_fd_fresh [of "fds s"] fresh_fd_nonneg [of "fds s"] show ?thesis by blast
qed

text \<open>For a system application with the permission to read wallpapers, \<^verbatim>\<open>GetPixelMap\<close> returns
  the size of the recorded picture and a new descriptor that reads exactly its bytes, and
  changes no file, record or event.\<close>

theorem GetPixelMap_returns_picture:
  assumes "CallingIsSystemApp e" "PermissionGranted e PERMISSION_GET_WALLPAPER" "known_type wt"
    and entry: "entry (as_WallpaperType wt) (QueryActiveUserId e) s = Some d"
    and res: "resourceType d = PICTURE \<or> resourceType d = DEFAULT" and path: "wallpaperFile d \<noteq> ''''"
    and disk: "disk_ok e"
    and pic: "node_at (files s) (comps (wallpaperFile d)) = Some (FileNode c)" "c \<noteq> ''''"
      "int (length c) \<le> INT32_MAX"
  shows "\<exists>fd. fd \<notin> fst ` set (fds s) \<and> 0 \<le> fd \<and>
    GetPixelMap e wt s = (NO_ERROR, Some (int (length c)), Some fd, s\<lparr>fds := (fd, ReadFd c) # fds s\<rparr>)"
  using assms by (rule GetPixelMap_effect)

theorem GetPixelMap_returns_picture_witness:
  "\<exists>fd s'. GetPixelMap sample_env 0 (UpdataWallpaperMap sample_env 100 WALLPAPER_SYSTEM sample_service)
     = (NO_ERROR, Some 3, Some fd, s') \<and> fd \<notin> {5, 0} \<and> map_of (fds s') fd = Some (ReadFd ''old'')"
proof -
  let ?s = "UpdataWallpaperMap sample_env 100 WALLPAPER_SYSTEM sample_service"
  let ?d = "disk_data sample_env sample_files 100 WALLPAPER_SYSTEM"
  have u: "QueryActiveUserId sample_env = 100" and w: "as_WallpaperType 0 = WALLPAPER_SYSTEM"
    by (simp_all add: QueryActiveUserId_def as_WallpaperType_def WallpaperType_value_def)
  have pic: "map_of sample_files (picture_comps 100 WALLPAPER_SYSTEM) = Some (FileNode ''old'')"
    by (simp add: picture_comps_def type_comps_100 sample_files_def WALLPAPER_HOME_def)
  have d: "wallpaperFile ?d = picture_file 100 WALLPAPER_SYSTEM" "resourceType ?d = PICTURE"
    using pic by (simp_all add: disk_data_def IsFileExist_def os_access_def lookup_path_def node_at_def
        comps_picture_file)
  have fl: "files ?s = sample_files" "fds ?s = fds sample_service"
    by (simp_all add: UpdataWallpaperMap_disk_data)
  have "\<exists>fd. fd \<notin> fst ` set (fds ?s) \<and> 0 \<le> fd \<and> GetPixelMap sample_env 0 ?s =
      (NO_ERROR, Some (int (length ''old'')), Some fd, ?s\<lparr>fds := (fd, ReadFd ''old'') # fds ?s\<rparr>)"
  proof (rule GetPixelMap_returns_picture)
    show "entry (as_WallpaperType 0) (QueryActiveUserId sample_env) ?s = Some ?d" by (simp add: u w)
    show "node_at (files ?s) (comps (wallpaperFile ?d)) = Some (FileNode ''old'')"
      using pic by (simp add: fl d comps_picture_file node_at_def picture_comps_def)
  qed (simp_all add: d sample_disk known_type_def WallpaperType_value_def INT32_MAX_def)
  then show ?thesis by (auto simp: fl)
qed

text \<open>An emptied directory of a user and type is what \<^verbatim>\<open>IsDefaultWallpaperResource\<close> looks for.\<close>

lemma empty_is_default:
  assumes "known_type wt" "\<forall>k. strict_prefix (type_comps u (as_WallpaperType wt)) k \<longrightarrow> map_of (files s) k = None"
  shows "IsDefaultWallpaperResource e u wt s = (NO_ERROR, True)"
proof -
  have v: "WallpaperType_value (as_WallpaperType wt) = wt"
    using assms(1) by (auto simp: known_type_def as_WallpaperType_def WallpaperType_value_def)
  have "dir_entries (files s) (type_comps u (as_WallpaperType wt)) = []"
    using assms(2) by (simp add: dir_entries_empty_iff strict_prefix_def)
  then show ?thesis
    using IsDefaultWallpaperResource_eq [of e u "as_WallpaperType wt" s, unfolded v] by simp
qed

text \<open>C9: resetting a wallpaper, by a permitted caller whose user is no guest and has the directories, on an undisturbed disk succeeds, empties the directory of the user and
  type, so that \<^verbatim>\<open>IsDefaultWallpaperResource\<close> says the user has the default resource again, and leaves exactly the record
  of the presets of the type under the default identifier: for each fold and rotation the preset of that screen
  and type, when the resources name one, and for the normal upright screen else the built-in picture of the type. The
  change is announced as a default one, and every other file and record stays, except the configuration file of the user.\<close>

theorem ResetWallpaper_restores:
  assumes granted: "PermissionGranted e PERMISSION_SET_WALLPAPER"
    and not_guest: "OsAccountIsGuest e (QueryActiveUserId e) = Some False"
    and known: "known_type wt" and ok: "service_ok res s"
    and ready: "ready e (QueryActiveUserId e) (as_WallpaperType wt) s"
  shows "\<exists>s'. ResetWallpaper e wt s = (NO_ERROR, s') \<and>
    (\<forall>k. strict_prefix (type_comps (QueryActiveUserId e) (as_WallpaperType wt)) k \<longrightarrow>
       map_of (files s') k = None) \<and>
    map_of (files s') (type_comps (QueryActiveUserId e) (as_WallpaperType wt)) = Some DirNode \<and>
    IsDefaultWallpaperResource e (QueryActiveUserId e) wt s' = (NO_ERROR, True) \<and>
    entry (as_WallpaperType wt) (QueryActiveUserId e) s' =
      Some (preset_record e (cleared_fs (QueryActiveUserId e) (as_WallpaperType wt) (files s))
        (QueryActiveUserId e) (as_WallpaperType wt) DEFAULT) \<and>
    fds s' = fds s \<and> wallpaperIdCounter s' = wallpaperIdCounter s \<and>
    prefix (effects s @ change_effects (as_WallpaperType wt) DEFAULT s) (effects s') \<and>
    rest_kept (QueryActiveUserId e) (as_WallpaperType wt) s s'"
  using ResetWallpaper_effect [OF assms] empty_is_default [OF known] by blast

theorem ResetWallpaper_restores_witness:
  "\<exists>s' d. ResetWallpaper sample_env 0 sample_service = (NO_ERROR, s') \<and>
     map_of (files s') (picture_comps 100 WALLPAPER_SYSTEM) = None \<and>
     entry WALLPAPER_SYSTEM 100 s' = Some d \<and> resourceType d = DEFAULT \<and> wallpaperFile d = WALLPAPER_DEFAULT_FILEFULLPATH"
proof -
  have u: "QueryActiveUserId sample_env = 100" and w: "as_WallpaperType 0 = WALLPAPER_SYSTEM"
    by (simp_all add: QueryActiveUserId_def as_WallpaperType_def WallpaperType_value_def)
  have k: "known_type 0" by (simp add: known_type_def WallpaperType_value_def)
  have r: "ready sample_env (QueryActiveUserId sample_env) (as_WallpaperType 0) sample_service"
    using sample_ready by (simp add: u)
  have "strict_prefix (type_comps 100 WALLPAPER_SYSTEM) (picture_comps 100 WALLPAPER_SYSTEM)"
    by (simp add: picture_comps_def strict_prefix_def)
  moreover have "GetWallpaperPathInJson sample_env t m f = ''''" for t m f
    by (simp add: GetWallpaperPathInJson_def sample_resources)
  then have "wallpaperFile (preset_record sample_env t u WALLPAPER_SYSTEM x) = WALLPAPER_DEFAULT_FILEFULLPATH" for t u x
    by (simp add: preset_record_def preset_picture_def)
  ultimately show ?thesis
    using ResetWallpaper_restores [OF sample_answers(2,3) k sample_service_ok r] unfolding u w
    by (fastforce simp: preset_record_def)
qed

end
