(* ===== verification/Lifecycle.thy ===== *)
theory Lifecycle
  imports GetWallpaper
begin

text \<open>
  Starting, stopping and the events that arrive from the system (\<^verbatim>\<open>OnStart\<close>, \<^verbatim>\<open>Init\<close>,
  \<^verbatim>\<open>OnStop\<close>, system abilities, user events, the wallpaper extension) with the tasks the service
  posts to itself when an attempt fails. A posted task is an element of the queue of
  \<open>serviceHandler\<close>. Calling \<^verbatim>\<open>PostTask\<close> on a null handler is the effect
  \<open>DereferencedNull\<close>.
\<close>

section \<open>Tasks\<close>

definition INIT_INTERVAL :: int where "INIT_INTERVAL = 10000"
definition DELAY_TIME :: int where "DELAY_TIME = 1000"
definition QUERY_USER_ID_INTERVAL :: int where "QUERY_USER_ID_INTERVAL = 300"
definition CONNECT_EXTENSION_INTERVAL :: int where "CONNECT_EXTENSION_INTERVAL = 100"
definition MAX_RETRY_TIMES :: int32 where "MAX_RETRY_TIMES = 20"
definition QUERY_USER_MAX_RETRY_TIMES :: int32 where "QUERY_USER_MAX_RETRY_TIMES = 100"
definition CONNECT_EXTENSION_MAX_RETRY_TIMES :: int32 where
  "CONNECT_EXTENSION_MAX_RETRY_TIMES = 50"
definition DEATH_RECIPIENT_MAX_RETRY_TIMES :: int32 where "DEATH_RECIPIENT_MAX_RETRY_TIMES = 10"
definition OHOS_WALLPAPER_BUNDLE_NAME :: string where
  "OHOS_WALLPAPER_BUNDLE_NAME = ''com.ohos.launcher''"

definition PostTask :: "task \<Rightarrow> int \<Rightarrow> service \<Rightarrow> service" where
  "PostTask t delay s =
     (case serviceHandler s of
        None \<Rightarrow> emit DereferencedNull s
      | Some q \<Rightarrow> s\<lparr>serviceHandler := Some (q @ [(t, delay)])\<rparr>)"

definition InitServiceHandler :: "service \<Rightarrow> service" where
  "InitServiceHandler s =
     (if serviceHandler s \<noteq> None then s else s\<lparr>serviceHandler := Some []\<rparr>)"

section \<open>The wallpaper extension\<close>

text \<open>The error code of the last call is returned as a \<^verbatim>\<open>bool\<close>: any non-zero code is true.\<close>

definition ConnectExtensionAbility :: "env \<Rightarrow> service \<Rightarrow> bool \<times> service" where
  "ConnectExtensionAbility e s =
     (if AbilityManagerConnect e \<noteq> 0 then (False, s)
      else (ConnectExtension e \<noteq> 0, s\<lparr>connection := True\<rparr>))"

definition StartExtensionAbility :: "env \<Rightarrow> int32 \<Rightarrow> service \<Rightarrow> service" where
  "StartExtensionAbility e tries s =
     (let tries' = tries - 1 in
      case ConnectExtensionAbility e s of (ret, s1) \<Rightarrow>
      if \<not> ret \<and> tries' > 0 \<and> serviceHandler s1 \<noteq> None
      then PostTask (TaskStartExtensionAbility tries') CONNECT_EXTENSION_INTERVAL s1 else s1)"

definition AddWallpaperExtensionDeathRecipient ::
  "env \<Rightarrow> handle option \<Rightarrow> service \<Rightarrow> service" where
  "AddWallpaperExtensionDeathRecipient e remoteObject s =
     (case remoteObject of
        None \<Rightarrow> s
      | Some obj \<Rightarrow>
          (let s1 = s\<lparr>recipient := True\<rparr> in
           if \<not> RemoteObjectDead e obj
           then (emit (AddedDeathRecipient obj) s1)\<lparr>extensionRemoteObject := Some obj\<rparr>
           else s1))"

definition RemoveExtensionDeathRecipient :: "service \<Rightarrow> service" where
  "RemoveExtensionDeathRecipient s =
     (case extensionRemoteObject s of
        None \<Rightarrow> s
      | Some obj \<Rightarrow>
          if recipient s
          then (emit (RemovedDeathRecipient obj) s)\<lparr>recipient := False, extensionRemoteObject := None\<rparr>
          else s)"

definition OnAbilityConnectDone :: "env \<Rightarrow> handle option \<Rightarrow> int32 \<Rightarrow> service \<Rightarrow> service" where
  "OnAbilityConnectDone e remoteObject resultCode s =
     AddWallpaperExtensionDeathRecipient e remoteObject s"

definition OnRemoteDied :: "env \<Rightarrow> service \<Rightarrow> service" where
  "OnRemoteDied e s = StartExtensionAbility e DEATH_RECIPIENT_MAX_RETRY_TIMES s"

section \<open>Starting and stopping\<close>

definition RegisterSubscriber :: "env \<Rightarrow> int32 \<Rightarrow> service \<Rightarrow> service" where
  "RegisterSubscriber e tries s =
     (let tries' = tries + 1;
          s1 = s\<lparr>subscriber := True\<rparr>;
          s2 = (if SubscribeOk e then emit SubscribedCommonEvent s1 else s1)
      in if \<not> SubscribeOk e \<and> tries' \<le> MAX_RETRY_TIMES
         then PostTask (TaskRegisterSubscriber tries') DELAY_TIME s2 else s2)"

definition OnAddSystemAbility :: "env \<Rightarrow> int32 \<Rightarrow> service \<Rightarrow> service" where
  "OnAddSystemAbility e systemAbilityId s =
     (if systemAbilityId = COMMON_EVENT_SERVICE_ID e then RegisterSubscriber e 0 s
      else if systemAbilityId = MEMORY_MANAGER_SA_ID e then emit (NotifiedProcessStatus 1) s
      else s)"

definition InitQueryUserId :: "env \<Rightarrow> int32 \<Rightarrow> service \<Rightarrow> service" where
  "InitQueryUserId e tries s =
     (let tries' = tries - 1 in
      case InitUsersOnBoot e s of (ret, s1) \<Rightarrow>
      if \<not> ret \<and> tries' > 0
      then PostTask (TaskInitQueryUserId tries') QUERY_USER_ID_INTERVAL s1 else s1)"

definition InitData :: "env \<Rightarrow> service \<Rightarrow> service" where
  "InitData e s =
     (let uid = DEFAULT_USER_ID;
          s1 = s\<lparr>wallpaperIdCounter := DEFAULT_WALLPAPER_ID,
                 systemWallpaperMap := Clear (systemWallpaperMap s),
                 lockWallpaperMap := Clear (lockWallpaperMap s),
                 wallpaperTmpFullPath := WALLPAPER_USERID_PATH @ WALLPAPER_TMP_DIRNAME,
                 wallpaperCropPath := WALLPAPER_USERID_PATH @ WALLPAPER_CROP_PICTURE,
                 systemWallpaperColor := 0, lockWallpaperColor := 0,
                 currentUserId := uid, wallpaperEventMap := [],
                 appBundleName := SCENEBOARD_BUNDLE_NAME\<rparr>;
          s2 = snd (InitUserDir e uid s1);
          s3 = UpdataWallpaperMap e uid WALLPAPER_SYSTEM s2;
          s4 = UpdataWallpaperMap e uid WALLPAPER_LOCKSCREEN s3;
          s5 = LoadWallpaperState e s4;
          s6 = ClearRedundantFile e uid WALLPAPER_SYSTEM WALLPAPER_SYSTEM_ORIG s5
      in ClearRedundantFile e uid WALLPAPER_LOCKSCREEN WALLPAPER_LOCK_ORIG s6)"

definition Init :: "env \<Rightarrow> service \<Rightarrow> int32 \<times> service" where
  "Init e s =
     (let s1 = InitQueryUserId e QUERY_USER_MAX_RETRY_TIMES s in
      if \<not> PublishOk e then (- 1, ReporterFault SERVICE_FAULT SF_SERVICE_UNAVAILABLE s1)
      else (0, StartExtensionAbility e CONNECT_EXTENSION_MAX_RETRY_TIMES (s1\<lparr>running := True\<rparr>)))"

definition dump_command :: Command where
  "dump_command =
     \<lparr>cmd_format = [''-all''], cmd_help = ''Show all'',
      cmd_action = (\<lambda>input out. (True, out @ ''WallpaperExtensionAbility'' @ [CHR 0x09]
        @ '': ExtensionInfo{'' @ OHOS_WALLPAPER_BUNDLE_NAME @ ''}'' @ [CHR 0x0A]))\<rparr>"

definition OnStart :: "env \<Rightarrow> service \<Rightarrow> service" where
  "OnStart e s =
     (if running s then s
      else let s1 = InitServiceHandler (InitData e s);
               s2 = s1\<lparr>cmdHandler := RegisterCommand dump_command (cmdHandler s1)\<rparr>
      in case Init e s2 of (ret, s3) \<Rightarrow>
         if ret \<noteq> 0 then PostTask TaskInit INIT_INTERVAL s3 else s3)"

definition OnStop :: "service \<Rightarrow> service" where
  "OnStop s =
     (if \<not> running s then s
      else let s1 = s\<lparr>serviceHandler := None, connection := False, recipient := False,
                     extensionRemoteObject := None\<rparr>;
               s2 = (if subscriber s1
                     then (emit UnsubscribedCommonEvent s1)\<lparr>subscriber := False\<rparr> else s1)
      in emit (NotifiedProcessStatus 0) (s2\<lparr>running := False\<rparr>))"

text \<open>The conversion of the arguments from UTF-16 is a parameter.\<close>

definition Dump :: "('a \<Rightarrow> string) \<Rightarrow> 'a list \<Rightarrow> service \<Rightarrow> int32 \<times> string" where
  "Dump Str16ToStr8 args s =
     (case Dispatch (cmdHandler s) (map Str16ToStr8 args) of (dispatched, out) \<Rightarrow>
        if dispatched then (0, out) else (1, out))"

section \<open>User events\<close>

definition OnSwitchedUser :: "env \<Rightarrow> int32 \<Rightarrow> service \<Rightarrow> service" where
  "OnSwitchedUser e uid s =
     (if uid < 0 then s
      else if uid = currentUserId s then s
      else let s1 = RemoveExtensionDeathRecipient (s\<lparr>currentUserId := uid\<rparr>);
               s2 = snd (ConnectExtensionAbility e s1);
               s3 = (if \<not> IsFileExist (files s2) (GetUserDir uid)
                     then UpdataWallpaperMap e uid WALLPAPER_LOCKSCREEN
                            (UpdataWallpaperMap e uid WALLPAPER_SYSTEM (snd (InitUserDir e uid s2)))
                     else s2);
               s4 = LoadWallpaperState e s3;
               s5 = snd (SendWallpaperChangeEvent e uid WALLPAPER_SYSTEM s4);
               s6 = snd (SendWallpaperChangeEvent e uid WALLPAPER_LOCKSCREEN s5);
               s7 = snd (SaveColor e uid WALLPAPER_SYSTEM s6)
      in snd (SaveColor e uid WALLPAPER_LOCKSCREEN s7))"

definition OnReceiveEvent :: "env \<Rightarrow> string \<Rightarrow> int32 \<Rightarrow> service \<Rightarrow> service" where
  "OnReceiveEvent e action code s =
     (if action = COMMON_EVENT_USER_ADDED e then OnInitUser e code s
      else if action = COMMON_EVENT_USER_REMOVED e then OnRemovedUser e code s
      else if action = COMMON_EVENT_USER_SWITCHED e then OnSwitchedUser e code s
      else s)"

section \<open>Running posted tasks\<close>

definition run_task :: "env \<Rightarrow> task \<Rightarrow> service \<Rightarrow> service" where
  "run_task e t s =
     (case t of
        TaskInit \<Rightarrow> snd (Init e s)
      | TaskRegisterSubscriber tries \<Rightarrow> RegisterSubscriber e tries s
      | TaskInitQueryUserId tries \<Rightarrow> InitQueryUserId e tries s
      | TaskStartExtensionAbility tries \<Rightarrow> StartExtensionAbility e tries s)"

text \<open>The event runner takes any task whose delay has passed: the \<open>n\<close>-th of the queue.\<close>

definition RunPosted :: "env \<Rightarrow> nat \<Rightarrow> service \<Rightarrow> service" where
  "RunPosted e n s =
     (case serviceHandler s of
        None \<Rightarrow> s
      | Some q \<Rightarrow>
          if n < length q
          then run_task e (fst (q ! n))
                 (s\<lparr>serviceHandler := Some (take n q @ drop (Suc n) q)\<rparr>)
          else s)"

section \<open>What the operations keep\<close>

lemma safe_ok: "safe res u s s' \<Longrightarrow> service_ok res s'"
  by (simp add: safe_def)

lemma service_ok_updates [simp]:
  "service_ok res (s\<lparr>serviceHandler := h\<rparr>) = service_ok res s"
  "service_ok res (s\<lparr>running := b\<rparr>) = service_ok res s"
  "service_ok res (s\<lparr>subscriber := b\<rparr>) = service_ok res s"
  "service_ok res (s\<lparr>connection := b\<rparr>) = service_ok res s"
  "service_ok res (s\<lparr>recipient := b\<rparr>) = service_ok res s"
  "service_ok res (s\<lparr>extensionRemoteObject := r\<rparr>) = service_ok res s"
  "service_ok res (s\<lparr>currentUserId := v\<rparr>) = service_ok res s"
  "service_ok res (s\<lparr>effects := x\<rparr>) = service_ok res s"
  by (simp_all add: service_ok_def)

lemma service_ok_emit [simp]: "service_ok res (emit x s) = service_ok res s"
  by (simp add: emit_def)

lemma service_ok_ReporterFault [simp]: "service_ok res (ReporterFault t c s) = service_ok res s"
  by (simp add: ReporterFault_def)

lemma service_ok_PostTask [simp]: "service_ok res (PostTask t d s) = service_ok res s"
  by (simp add: PostTask_def split: option.split)

lemma service_ok_InitServiceHandler [simp]: "service_ok res (InitServiceHandler s) = service_ok res s"
  by (simp add: InitServiceHandler_def)

lemma service_ok_ConnectExtensionAbility [simp]:
  "service_ok res (snd (ConnectExtensionAbility e s)) = service_ok res s"
  by (simp add: ConnectExtensionAbility_def)

lemma service_ok_StartExtensionAbility [simp]:
  "service_ok res (StartExtensionAbility e n s) = service_ok res s"
  by (simp add: StartExtensionAbility_def Let_def split_beta)

lemma service_ok_AddRecipient [simp]:
  "service_ok res (AddWallpaperExtensionDeathRecipient e r s) = service_ok res s"
  by (simp add: AddWallpaperExtensionDeathRecipient_def Let_def split: option.split)

lemma service_ok_RemoveRecipient [simp]:
  "service_ok res (RemoveExtensionDeathRecipient s) = service_ok res s"
  by (simp add: RemoveExtensionDeathRecipient_def split: option.split)

lemma service_ok_RegisterSubscriber [simp]:
  "service_ok res (RegisterSubscriber e n s) = service_ok res s"
  by (simp add: RegisterSubscriber_def Let_def)

lemma service_ok_OnAddSystemAbility [simp]:
  "service_ok res (OnAddSystemAbility e n s) = service_ok res s"
  by (simp add: OnAddSystemAbility_def)

lemma service_ok_OnStop [simp]: "service_ok res (OnStop s) = service_ok res s"
  by (simp add: OnStop_def Let_def)

text \<open>The operations for one user, read as steps that keep the invariant.\<close>

lemma service_ok_user_steps:
  assumes "service_ok (GetDefaultResDir e) s"
  shows "service_ok (GetDefaultResDir e) (snd (InitUserDir e u s))"
    "service_ok (GetDefaultResDir e) (UpdataWallpaperMap e u w s)"
    "service_ok (GetDefaultResDir e) (ClearRedundantFile e u w f s)"
    "service_ok (GetDefaultResDir e) (LoadWallpaperState e s)"
    "service_ok (GetDefaultResDir e) (snd (SendWallpaperChangeEvent e u w s))"
    "service_ok (GetDefaultResDir e) (snd (SaveColor e u w s))"
    "service_ok (GetDefaultResDir e) (OnInitUser e u s)"
    "service_ok (GetDefaultResDir e) (OnRemovedUser e u s)"
  using safe_refl [OF assms] safe_InitUserDir [OF prod.collapse [symmetric]]
    safe_SendWallpaperChangeEvent [OF prod.collapse [symmetric]]
  by (blast intro: safe_ok [of _ u s] safe_ok [of _ "QueryActiveUserId e" s] inv_intros
      safe_LoadWallpaperState)+

lemma service_ok_init_boot_users:
  "service_ok (GetDefaultResDir e) s \<Longrightarrow> service_ok (GetDefaultResDir e) (init_boot_users e us s)"
  by (induction e us s rule: init_boot_users.induct)
    (simp_all add: init_boot_user_def Let_def service_ok_user_steps)

lemma service_ok_InitQueryUserId:
  "service_ok (GetDefaultResDir e) s \<Longrightarrow> service_ok (GetDefaultResDir e) (InitQueryUserId e n s)"
  by (auto simp: InitQueryUserId_def InitUsersOnBoot_def Let_def service_ok_init_boot_users
      split: option.splits prod.splits if_splits)

lemma service_ok_InitData:
  assumes "service_ok (GetDefaultResDir e) s"
  shows "service_ok (GetDefaultResDir e) (InitData e s)"
proof -
  let ?s1 = "s\<lparr>wallpaperIdCounter := DEFAULT_WALLPAPER_ID,
                 systemWallpaperMap := Clear (systemWallpaperMap s),
                 lockWallpaperMap := Clear (lockWallpaperMap s),
                 wallpaperTmpFullPath := WALLPAPER_USERID_PATH @ WALLPAPER_TMP_DIRNAME,
                 wallpaperCropPath := WALLPAPER_USERID_PATH @ WALLPAPER_CROP_PICTURE,
                 systemWallpaperColor := 0, lockWallpaperColor := 0,
                 currentUserId := DEFAULT_USER_ID, wallpaperEventMap := [],
                 appBundleName := SCENEBOARD_BUNDLE_NAME\<rparr>"
  have "service_ok (GetDefaultResDir e) ?s1"
    using assms
    by (simp add: service_ok_def wallpaper_map_def Clear_def entries_ok_def listeners_ok_def
        temp_path_ok_def DEFAULT_WALLPAPER_ID_def INT32_MAX_def)
  then show ?thesis
    unfolding InitData_def Let_def by (intro service_ok_user_steps)
qed

lemma service_ok_Init:
  assumes "service_ok (GetDefaultResDir e) s"
  shows "service_ok (GetDefaultResDir e) (snd (Init e s))"
  using service_ok_InitQueryUserId [OF assms] by (simp add: Init_def Let_def)

lemma service_ok_OnStart:
  assumes "service_ok (GetDefaultResDir e) s"
  shows "service_ok (GetDefaultResDir e) (OnStart e s)"
proof -
  let ?s1 = "InitServiceHandler (InitData e s)"
  let ?s2 = "?s1\<lparr>cmdHandler := RegisterCommand dump_command (cmdHandler ?s1)\<rparr>"
  have "service_ok (GetDefaultResDir e) ?s1"
    using service_ok_InitData [OF assms] by simp
  then have "service_ok (GetDefaultResDir e) ?s2"
    by (simp add: service_ok_def std_wf_RegisterCommand)
  from service_ok_Init [OF this] assms show ?thesis
    by (simp add: OnStart_def Let_def split_beta)
qed

lemma service_ok_OnSwitchedUser:
  assumes "service_ok (GetDefaultResDir e) s"
  shows "service_ok (GetDefaultResDir e) (OnSwitchedUser e u s)"
  using assms by (simp add: OnSwitchedUser_def Let_def service_ok_user_steps)

lemma service_ok_OnReceiveEvent:
  assumes "service_ok (GetDefaultResDir e) s"
  shows "service_ok (GetDefaultResDir e) (OnReceiveEvent e a u s)"
  using assms by (simp add: OnReceiveEvent_def service_ok_user_steps service_ok_OnSwitchedUser)

lemma service_ok_run_task:
  assumes "service_ok (GetDefaultResDir e) s"
  shows "service_ok (GetDefaultResDir e) (run_task e t s)"
  using assms by (cases t) (simp_all add: run_task_def service_ok_Init service_ok_InitQueryUserId)

lemma service_ok_RunPosted:
  assumes "service_ok (GetDefaultResDir e) s"
  shows "service_ok (GetDefaultResDir e) (RunPosted e n s)"
  using assms by (simp add: RunPosted_def service_ok_run_task split: option.split)

section \<open>Retries\<close>

text \<open>A schedule: which posted task runs next (modulo the length of the queue), and with which
  answers of the environment.\<close>

fun run_all :: "('s \<Rightarrow> 't list) \<Rightarrow> ('e \<Rightarrow> nat \<Rightarrow> 's \<Rightarrow> 's) \<Rightarrow> ('e \<times> nat) list \<Rightarrow> 's \<Rightarrow> 's" where
  "run_all q r [] s = s"
| "run_all q r ((e, n) # rest) s =
     run_all q r rest (if q s = [] then s else r e (n mod length (q s)) s)"

text \<open>
  A weight for posted tasks, such that whatever a task posts when it fails weighs less than the
  task itself. The interface is what the argument needs of a runner of tasks.
\<close>

locale draining =
  fixes queue :: "'s \<Rightarrow> 't list"
    and run :: "'e \<Rightarrow> nat \<Rightarrow> 's \<Rightarrow> 's"
    and weight :: "'t \<Rightarrow> nat"
  assumes run_lighter: "n < length (queue s) \<Longrightarrow>
    sum_list (map weight (queue (run e n s))) < sum_list (map weight (queue s))"
begin

lemma run_all_empty: "queue s = [] \<Longrightarrow> queue (run_all queue run xs s) = []"
  by (induction xs) auto

lemma run_all_weight:
  "queue (run_all queue run xs s) = [] \<or>
     sum_list (map weight (queue (run_all queue run xs s))) + length xs \<le> sum_list (map weight (queue s))"
proof (induction xs arbitrary: s)
  case (Cons x rest)
  obtain e n where x: "x = (e, n)" by (cases x)
  show ?case
  proof (cases "queue s = []")
    case True
    then show ?thesis by (simp add: run_all_empty)
  next
    case False
    then have "n mod length (queue s) < length (queue s)" by simp
    from run_lighter [OF this, of e] Cons.IH [of "run e (n mod length (queue s)) s"] False x
    show ?thesis by auto
  qed
qed simp

lemma drains: "sum_list (map weight (queue s)) < length xs \<Longrightarrow> queue (run_all queue run xs s) = []"
  using run_all_weight [of xs s] by auto

end

definition posted :: "service \<Rightarrow> task list" where
  "posted s = (case serviceHandler s of None \<Rightarrow> [] | Some q \<Rightarrow> map fst q)"

definition task_weight :: "task \<Rightarrow> nat" where
  "task_weight t =
     (case t of
        TaskInit \<Rightarrow> 200
      | TaskRegisterSubscriber tries \<Rightarrow> Suc (nat (MAX_RETRY_TIMES - tries))
      | TaskInitQueryUserId tries \<Rightarrow> Suc (nat tries)
      | TaskStartExtensionAbility tries \<Rightarrow> Suc (nat tries))"

lemma posted_PostTask:
  "posted (PostTask t d s) = posted s @ (if serviceHandler s = None then [] else [t])"
  by (simp add: posted_def PostTask_def emit_def split: option.split)

lemma posted_frames [simp]:
  "posted (emit x s) = posted s" "posted (ReporterFault a k s) = posted s"
  "posted (insert_wallpaper w u d s) = posted s" "posted (UpdataWallpaperMap e u w s) = posted s"
  "posted (s\<lparr>files := t\<rparr>) = posted s" "posted (s\<lparr>running := b\<rparr>) = posted s"
  "posted (s\<lparr>subscriber := b\<rparr>) = posted s" "posted (s\<lparr>connection := b\<rparr>) = posted s"
  by (simp_all add: posted_def ReporterFault_def UpdataWallpaperMap_disk_data)

lemma posted_on_files [simp]: "posted (snd (on_files f s)) = posted s"
  by (simp add: on_files_def split_beta)

lemma posted_init_boot_users [simp]: "posted (init_boot_users e us s) = posted s"
  by (induction e us s rule: init_boot_users.induct)
    (simp_all add: init_boot_user_def Let_def ClearRedundantFile_def InitUserDir_def on_files_def split_beta)

lemma posted_InitUsersOnBoot [simp]: "posted (snd (InitUsersOnBoot e s)) = posted s"
  by (simp add: InitUsersOnBoot_def split: option.split)

lemma posted_InitQueryUserId:
  "\<exists>ts. posted (InitQueryUserId e n s) = posted s @ ts \<and>
     sum_list (map task_weight ts) \<le> nat n"
  by (auto simp: InitQueryUserId_def Let_def split_beta posted_PostTask task_weight_def)

lemma posted_StartExtensionAbility:
  "\<exists>ts. posted (StartExtensionAbility e n s) = posted s @ ts \<and>
     sum_list (map task_weight ts) \<le> nat n"
proof -
  have "posted (snd (ConnectExtensionAbility e s)) = posted s"
    by (simp add: ConnectExtensionAbility_def)
  then show ?thesis
    by (auto simp: StartExtensionAbility_def Let_def split_beta posted_PostTask task_weight_def)
qed

lemma posted_RegisterSubscriber:
  "\<exists>ts. posted (RegisterSubscriber e n s) = posted s @ ts \<and>
     sum_list (map task_weight ts) \<le> nat (MAX_RETRY_TIMES - n)"
  by (auto simp: RegisterSubscriber_def Let_def posted_PostTask task_weight_def)

lemma posted_run_task:
  "\<exists>ts. posted (run_task e t s) = posted s @ ts \<and> sum_list (map task_weight ts) < task_weight t"
proof (cases t)
  case TaskInit
  let ?s1 = "InitQueryUserId e QUERY_USER_MAX_RETRY_TIMES s"
  obtain ts1 where 1: "posted ?s1 = posted s @ ts1" "sum_list (map task_weight ts1) \<le> 100"
    using posted_InitQueryUserId [of e QUERY_USER_MAX_RETRY_TIMES s]
    by (auto simp: QUERY_USER_MAX_RETRY_TIMES_def)
  obtain ts2 where 2: "posted (StartExtensionAbility e CONNECT_EXTENSION_MAX_RETRY_TIMES (?s1\<lparr>running := True\<rparr>))
      = posted (?s1\<lparr>running := True\<rparr>) @ ts2" "sum_list (map task_weight ts2) \<le> 50"
    using posted_StartExtensionAbility [of e CONNECT_EXTENSION_MAX_RETRY_TIMES "?s1\<lparr>running := True\<rparr>"]
    by (auto simp: CONNECT_EXTENSION_MAX_RETRY_TIMES_def)
  show ?thesis
  proof (cases "PublishOk e")
    case True
    with 1 2 TaskInit show ?thesis
      by (intro exI [of _ "ts1 @ ts2"]) (simp add: run_task_def Init_def Let_def task_weight_def)
  next
    case False
    with 1 TaskInit show ?thesis
      by (intro exI [of _ ts1]) (simp add: run_task_def Init_def Let_def task_weight_def)
  qed
next
  case (TaskRegisterSubscriber n)
  with posted_RegisterSubscriber [of e n s] show ?thesis
    by (force simp: run_task_def task_weight_def less_Suc_eq_le)
next
  case (TaskInitQueryUserId n)
  with posted_InitQueryUserId [of e n s] show ?thesis
    by (force simp: run_task_def task_weight_def less_Suc_eq_le)
next
  case (TaskStartExtensionAbility n)
  with posted_StartExtensionAbility [of e n s] show ?thesis
    by (force simp: run_task_def task_weight_def less_Suc_eq_le)
qed

lemma RunPosted_lighter:
  assumes "n < length (posted s)"
  shows "sum_list (map task_weight (posted (RunPosted e n s))) < sum_list (map task_weight (posted s))"
proof -
  obtain q where q: "serviceHandler s = Some q" "n < length q"
    using assms by (auto simp: posted_def split: option.splits)
  let ?s1 = "s\<lparr>serviceHandler := Some (take n q @ drop (Suc n) q)\<rparr>"
  obtain ts where ts: "posted (run_task e (fst (q ! n)) ?s1) = posted ?s1 @ ts"
    "sum_list (map task_weight ts) < task_weight (fst (q ! n))"
    using posted_run_task by blast
  have "posted s = take n (map fst q) @ fst (q ! n) # drop (Suc n) (map fst q)"
    using q id_take_nth_drop [of n "map fst q"] by (simp add: posted_def)
  moreover have "posted ?s1 = take n (map fst q) @ drop (Suc n) (map fst q)"
    by (simp add: posted_def take_map drop_map)
  ultimately show ?thesis using q ts by (simp add: RunPosted_def)
qed

interpretation retries: draining posted RunPosted task_weight
  by unfold_locales (rule RunPosted_lighter)

text \<open>C15: the retries end. Whatever the environment answers, running the posted tasks in any
  order empties the queue after at most as many steps as its weight, which bounds the retries of
  each kind by its retry limit.\<close>

theorem retries_end:
  "sum_list (map task_weight (posted s)) < length xs \<Longrightarrow> posted (run_all posted RunPosted xs s) = []"
  by (rule retries.drains)

theorem retries_end_witness:
  "posted (run_all posted RunPosted (replicate 60 (sample_env, 7))
     (sample_service\<lparr>serviceHandler := Some [(TaskRegisterSubscriber 3, 1000), (TaskStartExtensionAbility 40, 100)]\<rparr>))
   = []"
  by (rule retries_end) (simp add: posted_def task_weight_def MAX_RETRY_TIMES_def)

end
