(* ===== verification/Requests.thy ===== *)
theory Requests
  imports Lifecycle
begin

text \<open>
  The service as a state machine: one step is one call that reaches it, from a client, from the
  system or from its own task queue (\<open>call\<close>, \<open>exec\<close>). \<open>reachable\<close> are the states any sequence of
  calls leads to, each call with its own caller and its own answers of the environment; only the
  directory of the preset resources is the same throughout.
\<close>

section \<open>Calls\<close>

datatype call =
  C_SetWallpaper int int32 int32
| C_SetWallpaperV9 int int32 int32
| C_SetWallpaperByPixelMap "string option" int32
| C_SetWallpaperV9ByPixelMap "string option" int32
| C_SetVideo int int32 int32
| C_SetCustomWallpaper int int32 int32
| C_SetAllWallpapers "WallpaperPictureInfo list" int32 "int list"
| C_ResetWallpaper int32
| C_ResetWallpaperV9 int32
| C_SendEvent string
| C_GetPixelMap int32
| C_GetPixelMapV9 int32
| C_GetCorrespondWallpaper int32 int32 int32
| C_GetFile int32
| C_On string "handle option"
| C_Off string "handle option"
| C_RegisterWallpaperCallback "handle option"
| C_OnStart
| C_OnStop
| C_OnAddSystemAbility int32
| C_OnReceiveEvent string int32
| C_OnAbilityConnectDone "handle option" int32
| C_OnRemoteDied
| C_RunPosted nat
| C_ReceiveFd string

text \<open>A descriptor a client sends is installed by the IPC layer before the handler runs.\<close>

definition receive_fd :: "string \<Rightarrow> service \<Rightarrow> service" where
  "receive_fd c s = s\<lparr>fds := (fresh_fd (fds s), ReadFd c) # fds s\<rparr>"

definition exec :: "env \<Rightarrow> call \<Rightarrow> service \<Rightarrow> service" where
  "exec e c s =
     (case c of
        C_SetWallpaper fd w n \<Rightarrow> snd (SetWallpaper e fd w n s)
      | C_SetWallpaperV9 fd w n \<Rightarrow> snd (SetWallpaperV9 e fd w n s)
      | C_SetWallpaperByPixelMap raw w \<Rightarrow> snd (SetWallpaperByPixelMap e raw w s)
      | C_SetWallpaperV9ByPixelMap raw w \<Rightarrow> snd (SetWallpaperV9ByPixelMap e raw w s)
      | C_SetVideo fd w n \<Rightarrow> snd (SetVideo e fd w n s)
      | C_SetCustomWallpaper fd w n \<Rightarrow> snd (SetCustomWallpaper e fd w n s)
      | C_SetAllWallpapers ps w fdv \<Rightarrow> snd (SetAllWallpapers e ps w fdv s)
      | C_ResetWallpaper w \<Rightarrow> snd (ResetWallpaper e w s)
      | C_ResetWallpaperV9 w \<Rightarrow> snd (ResetWallpaperV9 e w s)
      | C_SendEvent ev \<Rightarrow> snd (SendEvent e ev s)
      | C_GetPixelMap w \<Rightarrow> snd (snd (snd (GetPixelMap e w s)))
      | C_GetPixelMapV9 w \<Rightarrow> snd (snd (snd (GetPixelMapV9 e w s)))
      | C_GetCorrespondWallpaper w f r \<Rightarrow> snd (snd (snd (GetCorrespondWallpaper e w f r s)))
      | C_GetFile w \<Rightarrow> snd (snd (GetFile e w s))
      | C_On ty l \<Rightarrow> snd (On e ty l s)
      | C_Off ty l \<Rightarrow> snd (Off e ty l s)
      | C_RegisterWallpaperCallback cb \<Rightarrow> snd (snd (RegisterWallpaperCallback e cb s))
      | C_OnStart \<Rightarrow> OnStart e s
      | C_OnStop \<Rightarrow> OnStop s
      | C_OnAddSystemAbility i \<Rightarrow> OnAddSystemAbility e i s
      | C_OnReceiveEvent a u \<Rightarrow> OnReceiveEvent e a u s
      | C_OnAbilityConnectDone r rc \<Rightarrow> OnAbilityConnectDone e r rc s
      | C_OnRemoteDied \<Rightarrow> OnRemoteDied e s
      | C_RunPosted n \<Rightarrow> RunPosted e n s
      | C_ReceiveFd content \<Rightarrow> receive_fd content s)"

text \<open>The picture list of a request comes out of \<^verbatim>\<open>Unmarshalling\<close>, without temporary paths.\<close>

definition call_ok :: "call \<Rightarrow> bool" where
  "call_ok c = (case c of C_SetAllWallpapers ps w fdv \<Rightarrow> list_all (\<lambda>p. tempPath p = '''') ps | _ \<Rightarrow> True)"

text \<open>The requests of clients about wallpapers: those that run for the active user.\<close>

definition wallpaper_request :: "call \<Rightarrow> bool" where
  "wallpaper_request c =
     (case c of
        C_SetWallpaper fd w n \<Rightarrow> True | C_SetWallpaperV9 fd w n \<Rightarrow> True
      | C_SetWallpaperByPixelMap raw w \<Rightarrow> True | C_SetWallpaperV9ByPixelMap raw w \<Rightarrow> True
      | C_SetVideo fd w n \<Rightarrow> True | C_SetCustomWallpaper fd w n \<Rightarrow> True
      | C_SetAllWallpapers ps w fdv \<Rightarrow> True | C_ResetWallpaper w \<Rightarrow> True
      | C_ResetWallpaperV9 w \<Rightarrow> True | C_SendEvent ev \<Rightarrow> True | C_GetPixelMap w \<Rightarrow> True
      | C_GetPixelMapV9 w \<Rightarrow> True | C_GetCorrespondWallpaper w f r \<Rightarrow> True
      | C_GetFile w \<Rightarrow> True | _ \<Rightarrow> False)"

definition changes_wallpaper :: "call \<Rightarrow> bool" where
  "changes_wallpaper c =
     (case c of
        C_SetWallpaper fd w n \<Rightarrow> True | C_SetWallpaperV9 fd w n \<Rightarrow> True
      | C_SetWallpaperByPixelMap raw w \<Rightarrow> True | C_SetWallpaperV9ByPixelMap raw w \<Rightarrow> True
      | C_SetVideo fd w n \<Rightarrow> True | C_SetCustomWallpaper fd w n \<Rightarrow> True
      | C_SetAllWallpapers ps w fdv \<Rightarrow> True | C_ResetWallpaper w \<Rightarrow> True
      | C_ResetWallpaperV9 w \<Rightarrow> True | C_SendEvent ev \<Rightarrow> True | _ \<Rightarrow> False)"

section \<open>Reachable states\<close>

inductive reachable :: "string \<Rightarrow> service \<Rightarrow> bool" for res where
  start: "wf_fs t \<Longrightarrow> distinct (map fst tab) \<Longrightarrow> reachable res (constructed t tab)"
| step: "reachable res s \<Longrightarrow> GetDefaultResDir e = res \<Longrightarrow> call_ok c \<Longrightarrow> reachable res (exec e c s)"

lemma safe_SendEvent [inv_intros]:
  assumes "safe (GetDefaultResDir e) (QueryActiveUserId e) s0 s"
  shows "safe (GetDefaultResDir e) (QueryActiveUserId e) s0 (snd (SendEvent e ev s))"
  using assms
  by (auto simp: SendEvent_def Let_def split: option.split prod.split
      dest: safe_GetWallpaperSafeLocked(1) intro: inv_intros)

lemma safe_request:
  assumes "wallpaper_request c" "call_ok c" "service_ok (GetDefaultResDir e) s"
  shows "safe (GetDefaultResDir e) (QueryActiveUserId e) s (exec e c s)"
proof -
  note s = safe_refl [OF assms(3), of "QueryActiveUserId e"]
  show ?thesis
  proof (cases c)
    case (C_SetAllWallpapers ps w fdv)
    with assms(2) show ?thesis
      by (simp add: exec_def call_ok_def list_all_iff safe_SetAllWallpapers [OF _ s])
  qed (use assms(1) in \<open>simp_all add: exec_def wallpaper_request_def inv_intros [OF s]\<close>)
qed

lemma service_ok_constructed:
  "wf_fs t \<Longrightarrow> distinct (map fst tab) \<Longrightarrow> service_ok res (constructed t tab)"
  by (simp add: service_ok_def constructed_def wallpaper_map_def entries_ok_def listeners_ok_def
      temp_path_ok_def DEFAULT_WALLPAPER_ID_def INT32_MAX_def)

lemma service_ok_receive_fd: "service_ok res s \<Longrightarrow> service_ok res (receive_fd c s)"
  using fresh_fd_fresh [of "fds s"] by (simp add: receive_fd_def service_ok_def)

lemma service_ok_exec:
  assumes "call_ok c" "service_ok (GetDefaultResDir e) s"
  shows "service_ok (GetDefaultResDir e) (exec e c s)"
proof (cases "wallpaper_request c")
  case True
  with assms show ?thesis by (blast intro: safe_request safe_ok)
next
  case False
  with assms(2) show ?thesis
    by (cases c)
      (simp_all add: exec_def wallpaper_request_def service_ok_On service_ok_Off
        service_ok_RegisterWallpaperCallback service_ok_OnStart service_ok_OnReceiveEvent
        OnAbilityConnectDone_def OnRemoteDied_def service_ok_RunPosted service_ok_receive_fd)
qed

lemma reachable_inv: "reachable res s \<Longrightarrow> service_ok res s"
proof (induction rule: reachable.induct)
  case (start t tab)
  then show ?case by (rule service_ok_constructed)
next
  case (step s e c)
  then show ?case using service_ok_exec [of c e s] by simp
qed

section \<open>Properties\<close>

text \<open>C5: every state the service can reach, whatever clients call it, in whatever order, and
  whatever the environment answers, is well formed: the disk is a tree, descriptors are
  distinct, both maps are ordered and hold, for each user, a record of that user whose paths lie
  in the directory of the user and type or among the presets, and the identifier counter is in
  range.\<close>

theorem reachable_well_formed:
  assumes "reachable res s"
  shows "wf_fs (files s) \<and> distinct (map fst (fds s)) \<and>
    (\<forall>w. std_wf (wallpaper_map w s)) \<and>
    DEFAULT_WALLPAPER_ID \<le> wallpaperIdCounter s \<and> wallpaperIdCounter s \<le> INT32_MAX \<and>
    (\<forall>w u d. entry w u s = Some d \<longrightarrow>
       userId d = u \<and> wallpaperFile d \<noteq> '''' \<and> liveWallpaperFile d = live_file u w \<and>
       customPackageUri d = custom_file u w \<and>
       (\<forall>p \<in> set (picture_files d). p = '''' \<or> own_file w u p \<or> preset_file res p))"
  using reachable_inv [OF assms] service_ok_entry [OF reachable_inv [OF assms]]
  by (auto simp: service_ok_def data_ok_def list_all_iff file_ok_def)

theorem reachable_well_formed_witness:
  "wf_fs (files (exec sample_env (C_SetWallpaper 1 0 9)
     (exec sample_env (C_ReceiveFd ''picture'')
       (exec sample_env C_OnStart (constructed sample_files [])))))"
proof -
  have "reachable '''' (exec sample_env (C_SetWallpaper 1 0 9)
     (exec sample_env (C_ReceiveFd ''picture'')
       (exec sample_env C_OnStart (constructed sample_files []))))"
    by (intro reachable.step reachable.start) (simp_all add: sample_wf sample_resources call_ok_def)
  from reachable_well_formed [OF this] show ?thesis by blast
qed

text \<open>C6: a client's request changes no file outside the directory of the active user and the
  temporary files, no record of another user, and not whether the service runs.\<close>

theorem request_confined:
  assumes "reachable (GetDefaultResDir e) s" "wallpaper_request c" "call_ok c"
  shows "confined (QueryActiveUserId e) s (exec e c s)"
proof -
  from safe_request [OF assms(2,3) reachable_inv [OF assms(1)]] show ?thesis by (simp add: safe_def)
qed

theorem request_confined_witness:
  "confined 100 (exec sample_env C_OnStart (constructed sample_files []))
     (exec sample_env (C_ResetWallpaper 1) (exec sample_env C_OnStart (constructed sample_files [])))"
proof -
  have r: "reachable (GetDefaultResDir sample_env) (exec sample_env C_OnStart (constructed sample_files []))"
    by (intro reachable.step reachable.start) (simp_all add: sample_wf call_ok_def)
  have "QueryActiveUserId sample_env = 100" by (simp add: QueryActiveUserId_def sample_env_def)
  with request_confined [OF r, of "C_ResetWallpaper 1"] show ?thesis
    by (simp add: wallpaper_request_def call_ok_def)
qed

text \<open>The descriptors that are closed.\<close>

definition without_fds :: "int set \<Rightarrow> service \<Rightarrow> service" where
  "without_fds F s = s\<lparr>fds := filter (\<lambda>x. fst x \<notin> F) (fds s)\<rparr>"

lemma without_fds_empty [simp]: "without_fds {} s = s"
  by (simp add: without_fds_def)

lemma without_fds_twice: "without_fds F (without_fds G s) = without_fds (F \<union> G) s"
  by (simp add: without_fds_def conj_commute)

lemma os_close_without: "os_close fd s = without_fds {fd} s"
proof -
  have "AList.delete fd xs = filter (\<lambda>x. fst x \<notin> {fd}) xs" for xs :: "(int \<times> ofd) list"
    by (induction xs) auto
  then show ?thesis by (simp add: os_close_def without_fds_def)
qed

lemma CloseVectorFd_without: "CloseVectorFd xs s = without_fds {fd \<in> set xs. 0 \<le> fd} s"
proof (induction xs s rule: CloseVectorFd.induct)
  case (2 fd rest s)
  have "{x. (x = fd \<or> x \<in> set rest) \<and> 0 \<le> x} = {x \<in> set rest. 0 \<le> x} \<union> (if 0 \<le> fd then {fd} else {})" by auto
  with 2 show ?case by (simp add: os_close_without without_fds_twice)
qed simp

lemma CloseWallpaperInfoFd_vector:
  "length ps = length xs \<Longrightarrow> CloseWallpaperInfoFd (map2 (\<lambda>p fd. p\<lparr>pic_fd := fd\<rparr>) ps xs) s = CloseVectorFd xs s"
  by (induction ps xs arbitrary: s rule: list_induct2) simp_all

text \<open>The descriptors a refused call closes: those it was sent, except that \<^verbatim>\<open>SetWallpaper\<close> and \<^verbatim>\<open>SetVideo\<close> return from the
  test of the permission without closing theirs.\<close>

definition closed_when_refused :: "env \<Rightarrow> call \<Rightarrow> int set" where
  "closed_when_refused e c =
     (case c of
        C_SetWallpaperV9 fd w n \<Rightarrow> if IsSystemApp e then {} else {fd}
      | C_SetVideo fd w n \<Rightarrow> if IsSystemApp e then {} else {fd}
      | C_SetCustomWallpaper fd w n \<Rightarrow> {fd}
      | C_SetAllWallpapers ps w fdv \<Rightarrow> {fd \<in> set fdv. 0 \<le> fd}
      | _ \<Rightarrow> {})"

text \<open>C7: without the permission to set wallpapers, none of the calls that change one has any
  effect but closing descriptors the caller sent: no file, no record, no identifier, no event, and every
  other descriptor stays open. A package, a batch, and a picture or video from an application that is not a
  system application have theirs closed, when the call is one that asks for a system application; a picture or
  video refused at the test of the permission leaves its descriptor open.\<close>

theorem no_permission_no_effect:
  assumes "changes_wallpaper c" "\<not> PermissionGranted e PERMISSION_SET_WALLPAPER"
  shows "exec e c s = s\<lparr>fds := filter (\<lambda>x. fst x \<notin> closed_when_refused e c) (fds s)\<rparr>"
proof -
  have no: "\<not> CheckCallingPermission e PERMISSION_SET_WALLPAPER"
    using assms(2) by (simp add: CheckCallingPermission_def)
  have "exec e c s = without_fds (closed_when_refused e c) s"
  proof (cases c)
    case (C_SetAllWallpapers ps w fdv)
    have "snd (SetAllWallpapers_res e qs w PICTURE s) = s" for qs
      using no by (simp add: SetAllWallpapers_res_def)
    then show ?thesis
      using CloseWallpaperInfoFd_vector [of ps fdv s]
      by (simp add: exec_def C_SetAllWallpapers SetAllWallpapers_def Let_def case_prod_beta closed_when_refused_def
          CloseVectorFd_without)
  qed (use assms(1) no in \<open>simp_all add: exec_def changes_wallpaper_def SetWallpaper_def
    SetWallpaperV9_def SetWallpaperByPixelMap_def SetWallpaperV9ByPixelMap_def SetVideo_def
    SetCustomWallpaper_def ResetWallpaper_def ResetWallpaperV9_def SendEvent_def os_close_without closed_when_refused_def\<close>)
  then show ?thesis by (simp add: without_fds_def)
qed

theorem no_permission_no_effect_witness:
  "exec (sample_env\<lparr>PermissionGranted := \<lambda>_. False\<rparr>) (C_SetAllWallpapers [] 0 [5]) sample_service
     = sample_service\<lparr>fds := [(0, ReadFd '''')]\<rparr> \<and>
   exec (sample_env\<lparr>PermissionGranted := \<lambda>_. False\<rparr>) (C_SetVideo 5 0 9) sample_service = sample_service"
proof -
  let ?e = "sample_env\<lparr>PermissionGranted := \<lambda>_. False\<rparr>"
  have "IsSystemApp ?e" by (simp add: IsSystemApp_def sample_env_def)
  moreover have "filter (\<lambda>x. fst x \<noteq> 5) (fds sample_service) = [(0, ReadFd '''')]" by (simp add: sample_service_def constructed_def)
  ultimately show ?thesis
    using no_permission_no_effect [of "C_SetAllWallpapers [] 0 [5]" ?e sample_service]
      no_permission_no_effect [of "C_SetVideo 5 0 9" ?e sample_service]
    by (simp add: changes_wallpaper_def closed_when_refused_def)
qed

end
