(* ===== verification/Ipc.thy ===== *)
theory Ipc
  imports Requests
begin

text \<open>
  What crosses the process boundary: the parcel of a list of pictures
  (\<^verbatim>\<open>frameworks/native/src/wallpaper_picture_info_by_parcel.cpp\<close>), the handlers that read and
  write parcels themselves (the \<^verbatim>\<open>...Parcel\<close> functions of \<^verbatim>\<open>wallpaper_service.cpp\<close>), the raw data of
  a pixel map (\<^verbatim>\<open>wallpaper_rawdata.cpp\<close>), and both ends of the listener and callback interfaces
  (\<^verbatim>\<open>wallpaper_event_listener_proxy.cpp\<close>, \<^verbatim>\<open>..._stub.cpp\<close>, \<^verbatim>\<open>..._client.cpp\<close>,
  \<^verbatim>\<open>wallpaper_service_cb_proxy.cpp\<close>, \<^verbatim>\<open>..._stub.cpp\<close>).

  \<^verbatim>\<open>MessageParcel\<close> belongs to the IPC framework. It is the record \<open>parcel_ops\<close> of its operations
  on parcels of any type; \<open>parcel_fifo\<close> names what its documentation promises: a value that was
  written successfully is read back, in the order of the writes.
\<close>

section \<open>Parcels\<close>

record 'p parcel_ops =
  WriteInterfaceToken :: "string \<Rightarrow> 'p \<Rightarrow> bool \<times> 'p"
  ReadInterfaceToken :: "'p \<Rightarrow> string \<times> 'p"
  WriteInt32 :: "int32 \<Rightarrow> 'p \<Rightarrow> bool \<times> 'p"
  ReadInt32 :: "'p \<Rightarrow> int32 \<times> 'p"
  ReadUint32 :: "'p \<Rightarrow> int \<times> 'p"
  WriteString :: "string \<Rightarrow> 'p \<Rightarrow> bool \<times> 'p"
  ReadString :: "'p \<Rightarrow> string \<times> 'p"
  WriteUInt64Vector :: "uint64 list \<Rightarrow> 'p \<Rightarrow> bool \<times> 'p"
  ReadUInt64Vector :: "'p \<Rightarrow> uint64 list option \<times> 'p"
  WriteFileDescriptor :: "int \<Rightarrow> 'p \<Rightarrow> bool \<times> 'p"
  ReadRawData :: "int \<Rightarrow> 'p \<Rightarrow> string option \<times> 'p"

text \<open>What a parcel holds.\<close>

datatype parcel_item =
  TokenItem string
| Int32Item int32
| StringItem string
| ColorsItem "uint64 list"
| FdItem int

definition parcel_fifo :: "'p parcel_ops \<Rightarrow> ('p \<Rightarrow> parcel_item list) \<Rightarrow> bool" where
  "parcel_fifo P content \<longleftrightarrow>
     (\<forall>x p p'. WriteInterfaceToken P x p = (True, p') \<longrightarrow> content p' = content p @ [TokenItem x]) \<and>
     (\<forall>x p p'. WriteInt32 P x p = (True, p') \<longrightarrow> content p' = content p @ [Int32Item x]) \<and>
     (\<forall>x p p'. WriteString P x p = (True, p') \<longrightarrow> content p' = content p @ [StringItem x]) \<and>
     (\<forall>x p p'. WriteUInt64Vector P x p = (True, p') \<longrightarrow> content p' = content p @ [ColorsItem x]) \<and>
     (\<forall>x p p'. WriteFileDescriptor P x p = (True, p') \<longrightarrow> content p' = content p @ [FdItem x]) \<and>
     (\<forall>x p rest. content p = TokenItem x # rest \<longrightarrow>
        fst (ReadInterfaceToken P p) = x \<and> content (snd (ReadInterfaceToken P p)) = rest) \<and>
     (\<forall>x p rest. content p = Int32Item x # rest \<longrightarrow>
        fst (ReadInt32 P p) = x \<and> content (snd (ReadInt32 P p)) = rest) \<and>
     (\<forall>x p rest. content p = StringItem x # rest \<longrightarrow>
        fst (ReadString P p) = x \<and> content (snd (ReadString P p)) = rest) \<and>
     (\<forall>x p rest. content p = ColorsItem x # rest \<longrightarrow>
        fst (ReadUInt64Vector P p) = Some x \<and> content (snd (ReadUInt64Vector P p)) = rest)"

text \<open>
  The rest of the IPC framework the handlers use: the base of the error numbers, the service
  descriptor and the command codes the interface compiler generates, and the value an
  uninitialised variable happens to hold.
\<close>

datatype IpcCommand =
  COMMAND_GET_PIXEL_MAP | COMMAND_GET_PIXEL_MAP_V9 | COMMAND_GET_CORRESPOND_WALLPAPER
| COMMAND_GET_FILE | COMMAND_SET_WALLPAPER_BY_PIXEL_MAP | COMMAND_SET_WALLPAPER_V9_BY_PIXEL_MAP

record ipc_env =
  WALLPAPER_ERR_OFFSET :: int
  ServiceDescriptor :: string
  CommandCode :: "IpcCommand \<Rightarrow> int"
  uninitialised :: int32
  nothrow_ok :: bool

text \<open>A result of a handler: one of the service's codes, or one of the framework's.\<close>

datatype ipc_result = Code ErrorCode | ERR_INVALID_VALUE | ERR_INVALID_DATA

section \<open>A list of pictures\<close>

definition VECTOR_MAX_SIZE :: int32 where "VECTOR_MAX_SIZE = 6"
definition VECTOR_MIN_SIZE :: int32 where "VECTOR_MIN_SIZE = 0"

text \<open>\<^verbatim>\<open>status &= parcel.WriteInt32(v)\<close>: later writes are made even after one has failed.\<close>

definition and_WriteInt32 :: "'p parcel_ops \<Rightarrow> int32 \<Rightarrow> bool \<times> 'p \<Rightarrow> bool \<times> 'p" where
  "and_WriteInt32 P v st =
     (case st of (status, p) \<Rightarrow> case WriteInt32 P v p of (written, p') \<Rightarrow> (status \<and> written, p'))"

fun Marshalling_pictures :: "'p parcel_ops \<Rightarrow> WallpaperPictureInfo list \<Rightarrow> bool \<times> 'p \<Rightarrow> bool \<times> 'p" where
  "Marshalling_pictures P [] st = st"
| "Marshalling_pictures P (x # xs) st =
     Marshalling_pictures P xs
       (and_WriteInt32 P (pic_length x)
         (and_WriteInt32 P (pic_fd x)
           (and_WriteInt32 P (RotateState_value (rotateState x))
             (and_WriteInt32 P (FoldState_value (foldState x)) st))))"

definition Marshalling :: "'p parcel_ops \<Rightarrow> WallpaperPictureInfo list \<Rightarrow> 'p \<Rightarrow> bool \<times> 'p" where
  "Marshalling P xs p =
     Marshalling_pictures P xs (and_WriteInt32 P (wrap32 (int (length xs))) (True, p))"

text \<open>The loop of \<^verbatim>\<open>Unmarshalling\<close>; a picture starts with an empty temporary path.\<close>

fun Unmarshalling_loop ::
  "'p parcel_ops \<Rightarrow> nat \<Rightarrow> WallpaperPictureInfo list \<Rightarrow> 'p \<Rightarrow> WallpaperPictureInfo list option \<times> 'p" where
  "Unmarshalling_loop P 0 acc p = (Some acc, p)"
| "Unmarshalling_loop P (Suc n) acc p =
     (case ReadInt32 P p of (foldStateVale, p1) \<Rightarrow>
      case ReadInt32 P p1 of (rotateStateVale, p2) \<Rightarrow>
      case (if foldStateVale = FoldState_value NORMAL then Some NORMAL
            else if foldStateVale = FoldState_value UNFOLD_1 then Some UNFOLD_1
            else if foldStateVale = FoldState_value UNFOLD_2 then Some UNFOLD_2 else None) of
        None \<Rightarrow> (None, p2)
      | Some f \<Rightarrow>
      case (if rotateStateVale = RotateState_value PORT then Some PORT
            else if rotateStateVale = RotateState_value LAND then Some LAND else None) of
        None \<Rightarrow> (None, p2)
      | Some r \<Rightarrow>
      case ReadInt32 P p2 of (fd, p3) \<Rightarrow>
      case ReadInt32 P p3 of (len, p4) \<Rightarrow>
      Unmarshalling_loop P n
        (acc @ [\<lparr>foldState = f, rotateState = r, pic_fd = fd, pic_length = len, tempPath = ''''\<rparr>]) p4)"

definition Unmarshalling ::
  "ipc_env \<Rightarrow> 'p parcel_ops \<Rightarrow> 'p \<Rightarrow> WallpaperPictureInfo list option \<times> 'p" where
  "Unmarshalling i P p =
     (if \<not> nothrow_ok i then (None, p)
      else case ReadInt32 P p of (vectorSize, p1) \<Rightarrow>
      if vectorSize > VECTOR_MAX_SIZE \<or> vectorSize < VECTOR_MIN_SIZE then (None, p1)
      else Unmarshalling_loop P (nat vectorSize) [] p1)"

section \<open>Raw data of a pixel map\<close>

record WallpaperRawData =
  raw_size :: nat
  raw_data :: "string option"

text \<open>\<^verbatim>\<open>RawDataCpy\<close>: \<open>copied\<close> is whether \<^verbatim>\<open>memcpy_s\<close> accepts the copy; the source holds at least
  \<^verbatim>\<open>size\<close> bytes.\<close>

definition RawDataCpy :: "env \<Rightarrow> bool \<Rightarrow> string option \<Rightarrow> WallpaperRawData \<Rightarrow> int32 \<times> WallpaperRawData" where
  "RawDataCpy e copied readData w =
     (case readData of
        None \<Rightarrow> (- 1, w)
      | Some bytes \<Rightarrow>
          if raw_size w = 0 then (- 1, w)
          else if \<not> alloc_ok e (int (raw_size w)) then (- 1, w)
          else if \<not> copied then (- 1, w)
          else (0, w\<lparr>raw_data := Some (take (raw_size w) bytes)\<rparr>))"

section \<open>Handlers that read and write their parcels\<close>

text \<open>\<^verbatim>\<open>if (fd > DEFAULT_WALLPAPER_ID) fdsan_close_with_tag(fd, ...)\<close>\<close>

definition close_valid :: "int \<Rightarrow> service \<Rightarrow> service" where
  "close_valid fd s = (if fd > DEFAULT_WALLPAPER_ID then os_close fd s else s)"

definition handler_result :: "ErrorCode \<Rightarrow> ipc_result" where
  "handler_result errCode = (if errCode = NO_ERROR then Code E_OK else Code errCode)"

text \<open>
  The reply of the two handlers that send a picture: the code, the size, the descriptor. The
  variable of the size is not initialised, so that a handler that did not assign it sends
  whatever it holds.
\<close>

definition reply_picture ::
  "ipc_env \<Rightarrow> 'p parcel_ops \<Rightarrow> ErrorCode \<Rightarrow> int32 option \<Rightarrow> int option \<Rightarrow> 'p \<Rightarrow> service
    \<Rightarrow> ipc_result \<times> 'p \<times> service" where
  "reply_picture i P errCode sizeOut fdOut reply s =
     (let sz = (case sizeOut of Some n \<Rightarrow> n | None \<Rightarrow> uninitialised i);
          fd = (case fdOut of Some n \<Rightarrow> n | None \<Rightarrow> DEFAULT_WALLPAPER_ID) in
      case WriteInt32 P (ErrorCode_value (WALLPAPER_ERR_OFFSET i) errCode) reply of (ok1, r1) \<Rightarrow>
      if \<not> ok1 then (ERR_INVALID_VALUE, r1, close_valid fd s)
      else case WriteInt32 P sz r1 of (ok2, r2) \<Rightarrow>
      if \<not> ok2 then (ERR_INVALID_DATA, r2, close_valid fd s)
      else case WriteFileDescriptor P fd r2 of (ok3, r3) \<Rightarrow>
      if \<not> ok3 then (ERR_INVALID_DATA, r3, close_valid fd s)
      else (handler_result errCode, r3, close_valid fd s))"

definition GetPixleMapParcel ::
  "ipc_env \<Rightarrow> 'p parcel_ops \<Rightarrow> env \<Rightarrow> bool \<Rightarrow> 'p \<Rightarrow> 'p \<Rightarrow> service \<Rightarrow> ipc_result \<times> 'p \<times> service" where
  "GetPixleMapParcel i P e systemApi data reply s =
     (case ReadInterfaceToken P data of (remoteDescriptor, d1) \<Rightarrow>
      if ServiceDescriptor i \<noteq> remoteDescriptor then (Code E_CHECK_DESCRIPTOR_ERROR, reply, s)
      else case ReadInt32 P d1 of (wallpaperType, d2) \<Rightarrow>
      case (if systemApi then GetPixelMapV9 e wallpaperType s else GetPixelMap e wallpaperType s)
      of (errCode, sz, fd, s1) \<Rightarrow>
      reply_picture i P errCode sz fd reply s1)"

definition GetCorrespondWallpaperParcel ::
  "ipc_env \<Rightarrow> 'p parcel_ops \<Rightarrow> env \<Rightarrow> 'p \<Rightarrow> 'p \<Rightarrow> service \<Rightarrow> ipc_result \<times> 'p \<times> service" where
  "GetCorrespondWallpaperParcel i P e data reply s =
     (case ReadInterfaceToken P data of (remoteDescriptor, d1) \<Rightarrow>
      if ServiceDescriptor i \<noteq> remoteDescriptor then (Code E_CHECK_DESCRIPTOR_ERROR, reply, s)
      else case ReadInt32 P d1 of (wallpaperType, d2) \<Rightarrow>
      case ReadInt32 P d2 of (foldSt, d3) \<Rightarrow>
      case ReadInt32 P d3 of (rotateSt, d4) \<Rightarrow>
      case GetCorrespondWallpaper e wallpaperType foldSt rotateSt s of (errCode, sz, fd, s1) \<Rightarrow>
      reply_picture i P errCode sz fd reply s1)"

definition GetFileParcel ::
  "ipc_env \<Rightarrow> 'p parcel_ops \<Rightarrow> env \<Rightarrow> 'p \<Rightarrow> 'p \<Rightarrow> service \<Rightarrow> ipc_result \<times> 'p \<times> service" where
  "GetFileParcel i P e data reply s =
     (case ReadInterfaceToken P data of (remoteDescriptor, d1) \<Rightarrow>
      if ServiceDescriptor i \<noteq> remoteDescriptor then (Code E_CHECK_DESCRIPTOR_ERROR, reply, s)
      else case ReadInt32 P d1 of (wallpaperType, d2) \<Rightarrow>
      case GetFile e wallpaperType s of (errCode, fdOut, s1) \<Rightarrow>
      let wallpaperFd = (case fdOut of Some n \<Rightarrow> n | None \<Rightarrow> DEFAULT_WALLPAPER_ID) in
      case WriteInt32 P (ErrorCode_value (WALLPAPER_ERR_OFFSET i) errCode) reply of (ok1, r1) \<Rightarrow>
      if \<not> ok1 then (ERR_INVALID_VALUE, r1, close_valid wallpaperFd s1)
      else case WriteFileDescriptor P wallpaperFd r1 of (ok2, r2) \<Rightarrow>
      if \<not> ok2 then (ERR_INVALID_DATA, r2, close_valid wallpaperFd s1)
      else (handler_result errCode, r2, close_valid wallpaperFd s1))"

definition SetwallpaperByPixelMapParcel ::
  "ipc_env \<Rightarrow> 'p parcel_ops \<Rightarrow> env \<Rightarrow> bool \<Rightarrow> 'p \<Rightarrow> 'p \<Rightarrow> service \<Rightarrow> ipc_result \<times> 'p \<times> service" where
  "SetwallpaperByPixelMapParcel i P e systemApi data reply s =
     (case ReadInterfaceToken P data of (remoteDescriptor, d1) \<Rightarrow>
      if ServiceDescriptor i \<noteq> remoteDescriptor then (Code E_CHECK_DESCRIPTOR_ERROR, reply, s)
      else case ReadUint32 P d1 of (rawSize, d2) \<Rightarrow>
      if rawSize \<le> 0 then (ERR_INVALID_VALUE, reply, s)
      else case ReadRawData P rawSize d2 of (raw, d3) \<Rightarrow>
      case ReadInt32 P d3 of (wallpaperType, d4) \<Rightarrow>
      case (if systemApi then SetWallpaperV9ByPixelMap e raw wallpaperType s
            else SetWallpaperByPixelMap e raw wallpaperType s) of (errCode, s1) \<Rightarrow>
      (handler_result errCode, reply, s1))"

definition CallbackParcel ::
  "ipc_env \<Rightarrow> 'p parcel_ops \<Rightarrow> env \<Rightarrow> int \<Rightarrow> 'p \<Rightarrow> 'p \<Rightarrow> service \<Rightarrow> ipc_result \<times> 'p \<times> service" where
  "CallbackParcel i P e code data reply s =
     (if code = CommandCode i COMMAND_GET_PIXEL_MAP then GetPixleMapParcel i P e False data reply s
      else if code = CommandCode i COMMAND_GET_PIXEL_MAP_V9 then GetPixleMapParcel i P e True data reply s
      else if code = CommandCode i COMMAND_GET_CORRESPOND_WALLPAPER
      then GetCorrespondWallpaperParcel i P e data reply s
      else if code = CommandCode i COMMAND_GET_FILE then GetFileParcel i P e data reply s
      else if code = CommandCode i COMMAND_SET_WALLPAPER_BY_PIXEL_MAP
      then SetwallpaperByPixelMapParcel i P e False data reply s
      else if code = CommandCode i COMMAND_SET_WALLPAPER_V9_BY_PIXEL_MAP
      then SetwallpaperByPixelMapParcel i P e True data reply s
      else (Code NO_ERROR, reply, s))"

section \<open>Listeners and the callback\<close>

definition LISTENER_DESCRIPTOR :: string where
  "LISTENER_DESCRIPTOR = ''OHOS.WallpaperMgrService.IWallpaperEventListener''"
definition ON_COLORS_CHANGE :: int where "ON_COLORS_CHANGE = 0"
definition ON_WALLPAPER_CHANGE :: int where "ON_WALLPAPER_CHANGE = 1"
definition CALLBACK_DESCRIPTOR :: string where
  "CALLBACK_DESCRIPTOR = ''ohos.Wallpaper.IWallpaperCallback''"
definition ONCALL :: int where "ONCALL = 0"

text \<open>A request a proxy sends: its code and its parcel. \<open>None\<close>: a write failed, nothing is sent.\<close>

definition Proxy_OnColorsChange ::
  "'p parcel_ops \<Rightarrow> 'p \<Rightarrow> uint64 list \<Rightarrow> int32 \<Rightarrow> (int \<times> 'p) option" where
  "Proxy_OnColorsChange P data color wallpaperType =
     (case WriteInterfaceToken P LISTENER_DESCRIPTOR data of (ok1, d1) \<Rightarrow>
      if \<not> ok1 then None
      else case WriteUInt64Vector P color d1 of (ok2, d2) \<Rightarrow>
      if \<not> ok2 then None
      else case WriteInt32 P wallpaperType d2 of (ok3, d3) \<Rightarrow>
      if \<not> ok3 then None else Some (ON_COLORS_CHANGE, d3))"

definition Proxy_OnWallpaperChange ::
  "'p parcel_ops \<Rightarrow> 'p \<Rightarrow> WallpaperType \<Rightarrow> WallpaperResourceType \<Rightarrow> string \<Rightarrow> (int \<times> 'p) option" where
  "Proxy_OnWallpaperChange P data wallpaperType resType uri =
     (case WriteInterfaceToken P LISTENER_DESCRIPTOR data of (ok1, d1) \<Rightarrow>
      if \<not> ok1 then None
      else case WriteInt32 P (WallpaperType_value wallpaperType) d1 of (ok2, d2) \<Rightarrow>
      if \<not> ok2 then None
      else case WriteInt32 P (WallpaperResourceType_value resType) d2 of (ok3, d3) \<Rightarrow>
      if \<not> ok3 then None
      else case WriteString P uri d3 of (ok4, d4) \<Rightarrow>
      if \<not> ok4 then None else Some (ON_WALLPAPER_CHANGE, d4))"

text \<open>
  What the receiving stub calls on the listener of the client. The types of a wallpaper change
  are cast from integers without a test, so the call carries the integers.
\<close>

datatype listener_call =
  OnColorsChange_call "uint64 list" int32
| OnWallpaperChange_call int32 int32 string

text \<open>A stub's answer: a code of the service, or whatever \<^verbatim>\<open>IPCObjectStub\<close> answers.\<close>

datatype stub_result = Answer ErrorCode | FromIPCObjectStub

definition ListenerStub_OnRemoteRequest ::
  "'p parcel_ops \<Rightarrow> int \<Rightarrow> 'p \<Rightarrow> stub_result \<times> listener_call option" where
  "ListenerStub_OnRemoteRequest P code data =
     (case ReadInterfaceToken P data of (remoteDescriptor, d1) \<Rightarrow>
      if LISTENER_DESCRIPTOR \<noteq> remoteDescriptor then (Answer E_CHECK_DESCRIPTOR_ERROR, None)
      else if code = ON_COLORS_CHANGE then
        (case ReadUInt64Vector P d1 of
           (None, d2) \<Rightarrow> (Answer E_READ_PARCEL_ERROR, None)
         | (Some color, d2) \<Rightarrow>
             (case ReadInt32 P d2 of (wallpaperType, d3) \<Rightarrow>
                (Answer NO_ERROR, Some (OnColorsChange_call color wallpaperType))))
      else if code = ON_WALLPAPER_CHANGE then
        (case ReadInt32 P d1 of (wallpaperType, d2) \<Rightarrow>
         case ReadInt32 P d2 of (resouceType, d3) \<Rightarrow>
         case ReadString P d3 of (uri, d4) \<Rightarrow>
           (Answer NO_ERROR, Some (OnWallpaperChange_call wallpaperType resouceType uri)))
      else (FromIPCObjectStub, None))"

text \<open>\<^verbatim>\<open>WallpaperEventListenerClient\<close> forwards a call to the listener it wraps, when there is one.\<close>

definition ListenerClient_forward ::
  "handle option \<Rightarrow> listener_call \<Rightarrow> (handle \<times> listener_call) list" where
  "ListenerClient_forward wrapped c = (case wrapped of None \<Rightarrow> [] | Some l \<Rightarrow> [(l, c)])"

definition CbProxy_OnCall ::
  "'p parcel_ops \<Rightarrow> 'p \<Rightarrow> int32 \<Rightarrow> ErrorCode \<times> (int \<times> 'p) option" where
  "CbProxy_OnCall P data wallpaperType =
     (case WriteInterfaceToken P CALLBACK_DESCRIPTOR data of (ok1, d1) \<Rightarrow>
      if \<not> ok1 then (E_WRITE_PARCEL_ERROR, None)
      else case WriteInt32 P wallpaperType d1 of (ok2, d2) \<Rightarrow>
      if \<not> ok2 then (E_WRITE_PARCEL_ERROR, None) else (E_OK, Some (ONCALL, d2)))"

text \<open>The stub calls the callback registered in the client, when there is one.\<close>

definition CbStub_OnCall :: "handle option \<Rightarrow> int32 \<Rightarrow> (handle \<times> int32) list" where
  "CbStub_OnCall callback num = (case callback of None \<Rightarrow> [] | Some cb \<Rightarrow> [(cb, num)])"

definition HandleOnCall ::
  "'p parcel_ops \<Rightarrow> handle option \<Rightarrow> 'p \<Rightarrow> stub_result \<times> (handle \<times> int32) list" where
  "HandleOnCall P callback data =
     (case ReadInt32 P data of (wallpaperType, d1) \<Rightarrow>
        (Answer NO_ERROR, CbStub_OnCall callback wallpaperType))"

definition CbStub_OnRemoteRequest ::
  "'p parcel_ops \<Rightarrow> handle option \<Rightarrow> int \<Rightarrow> 'p \<Rightarrow> stub_result \<times> (handle \<times> int32) list" where
  "CbStub_OnRemoteRequest P callback code data =
     (case ReadInterfaceToken P data of (remoteDescriptor, d1) \<Rightarrow>
      if CALLBACK_DESCRIPTOR \<noteq> remoteDescriptor then (Answer E_CHECK_DESCRIPTOR_ERROR, [])
      else if code = ONCALL then HandleOnCall P callback d1
      else (FromIPCObjectStub, []))"

section \<open>Pictures survive the parcel\<close>

lemma and_WriteInt32_content:
  assumes "parcel_fifo P content" "fst (and_WriteInt32 P v st)"
  shows "fst st \<and> content (snd (and_WriteInt32 P v st)) = content (snd st) @ [Int32Item v]"
  using assms by (auto simp: and_WriteInt32_def parcel_fifo_def split: prod.splits)

definition picture_items :: "WallpaperPictureInfo \<Rightarrow> parcel_item list" where
  "picture_items x =
     [Int32Item (FoldState_value (foldState x)), Int32Item (RotateState_value (rotateState x)),
      Int32Item (pic_fd x), Int32Item (pic_length x)]"

lemma Marshalling_pictures_content:
  assumes "parcel_fifo P content" "fst (Marshalling_pictures P xs st)"
  shows "fst st \<and> content (snd (Marshalling_pictures P xs st)) = content (snd st) @ concat (map picture_items xs)"
  using assms(2)
proof (induction xs arbitrary: st)
  case (Cons x xs)
  then show ?case
    by (auto simp: picture_items_def dest!: Cons.IH and_WriteInt32_content [OF assms(1)])
qed simp

lemma ReadInt32_item:
  assumes "parcel_fifo P content" "content p = Int32Item v # rest"
  obtains q where "ReadInt32 P p = (v, q)" "content q = rest"
proof -
  have "fst (ReadInt32 P p) = v" "content (snd (ReadInt32 P p)) = rest"
    using assms unfolding parcel_fifo_def by blast+
  then show thesis by (cases "ReadInt32 P p") (auto intro: that)
qed
lemma parcel_writes:
  assumes "parcel_fifo P content"
  shows "WriteInterfaceToken P x q = (True, q') \<Longrightarrow> content q' = content q @ [TokenItem x]"
    and "WriteInt32 P n q = (True, q') \<Longrightarrow> content q' = content q @ [Int32Item n]"
    and "WriteString P x q = (True, q') \<Longrightarrow> content q' = content q @ [StringItem x]"
    and "WriteUInt64Vector P cs q = (True, q') \<Longrightarrow> content q' = content q @ [ColorsItem cs]"
    and "WriteFileDescriptor P n q = (True, q') \<Longrightarrow> content q' = content q @ [FdItem n]"
  using assms by (simp_all add: parcel_fifo_def)

lemma parcel_reads:
  assumes fifo: "parcel_fifo P content"
  shows "content q = TokenItem x # rest \<Longrightarrow> \<exists>q'. ReadInterfaceToken P q = (x, q') \<and> content q' = rest"
    and "content q = Int32Item n # rest \<Longrightarrow> \<exists>q'. ReadInt32 P q = (n, q') \<and> content q' = rest"
    and "content q = StringItem x # rest \<Longrightarrow> \<exists>q'. ReadString P q = (x, q') \<and> content q' = rest"
    and "content q = ColorsItem cs # rest \<Longrightarrow> \<exists>q'. ReadUInt64Vector P q = (Some cs, q') \<and> content q' = rest"
proof -
  show "content q = TokenItem x # rest \<Longrightarrow> \<exists>q'. ReadInterfaceToken P q = (x, q') \<and> content q' = rest"
    using fifo unfolding parcel_fifo_def by (cases "ReadInterfaceToken P q") fastforce
  show "content q = Int32Item n # rest \<Longrightarrow> \<exists>q'. ReadInt32 P q = (n, q') \<and> content q' = rest"
    using ReadInt32_item [OF fifo] by blast
  show "content q = StringItem x # rest \<Longrightarrow> \<exists>q'. ReadString P q = (x, q') \<and> content q' = rest"
    using fifo unfolding parcel_fifo_def by (cases "ReadString P q") fastforce
  show "content q = ColorsItem cs # rest \<Longrightarrow> \<exists>q'. ReadUInt64Vector P q = (Some cs, q') \<and> content q' = rest"
    using fifo unfolding parcel_fifo_def by (cases "ReadUInt64Vector P q") fastforce
qed

lemma Unmarshalling_loop_items:
  assumes fifo: "parcel_fifo P content" and "content p = concat (map picture_items xs) @ rest"
  shows "\<exists>q. Unmarshalling_loop P (length xs) acc p = (Some (acc @ map (tempPath_update (\<lambda>_. '''')) xs), q) \<and>
    content q = rest"
  using assms(2)
proof (induction xs arbitrary: acc p)
  case (Cons x xs)
  obtain f r fd len tp where x: "x = \<lparr>foldState = f, rotateState = r, pic_fd = fd, pic_length = len, tempPath = tp\<rparr>"
    by (cases x)
  have "content p = Int32Item (FoldState_value f) # Int32Item (RotateState_value r) # Int32Item fd
      # Int32Item len # concat (map picture_items xs) @ rest"
    using Cons.prems by (simp add: picture_items_def [of x]) (simp add: x)
  from ReadInt32_item [OF fifo this] obtain p1 where 1: "ReadInt32 P p = (FoldState_value f, p1)"
    "content p1 = Int32Item (RotateState_value r) # Int32Item fd # Int32Item len
      # concat (map picture_items xs) @ rest" .
  from ReadInt32_item [OF fifo 1(2)] obtain p2 where 2: "ReadInt32 P p1 = (RotateState_value r, p2)"
    "content p2 = Int32Item fd # Int32Item len # concat (map picture_items xs) @ rest" .
  from ReadInt32_item [OF fifo 2(2)] obtain p3 where 3: "ReadInt32 P p2 = (fd, p3)"
    "content p3 = Int32Item len # concat (map picture_items xs) @ rest" .
  from ReadInt32_item [OF fifo 3(2)] obtain p4 where 4: "ReadInt32 P p3 = (len, p4)"
    and rest: "content p4 = concat (map picture_items xs) @ rest" .
  note reads = 1(1) 2(1) 3(1) 4(1)
  from Cons.IH [OF rest, of "acc @ [x\<lparr>tempPath := ''''\<rparr>]"] reads show ?case
    by (cases f; cases r) (simp_all add: x FoldState_value_def RotateState_value_def)
qed simp

lemma Unmarshalling_loop_Suc:
  assumes "Unmarshalling_loop P (Suc n) acc p = (Some xs, q)"
  shows "\<exists>x p'. tempPath x = '''' \<and> Unmarshalling_loop P n (acc @ [x]) p' = (Some xs, q)"
  using assms
  by (simp add: Unmarshalling_loop.simps(2) split_beta Let_def split: option.splits if_splits)
    (metis WallpaperPictureInfo.select_convs(5))+

lemma Unmarshalling_loop_bounds:
  "Unmarshalling_loop P n acc p = (Some xs, q) \<Longrightarrow>
     \<exists>ys. xs = acc @ ys \<and> length ys = n \<and> list_all (\<lambda>x. tempPath x = '''') ys"
proof (induction n arbitrary: acc p)
  case (Suc n)
  from Unmarshalling_loop_Suc [OF Suc.prems] obtain x p'
    where x: "tempPath x = ''''" "Unmarshalling_loop P n (acc @ [x]) p' = (Some xs, q)" by blast
  from Suc.IH [OF x(2)] obtain ys where "xs = (acc @ [x]) @ ys" "length ys = n"
    "list_all (\<lambda>x. tempPath x = '''') ys" by blast
  with x(1) show ?case by (intro exI [of _ "x # ys"]) simp
qed simp
lemma Unmarshalling_bounds:
  assumes "Unmarshalling i P p = (Some xs, q)"
  shows "length xs \<le> 6 \<and> list_all (\<lambda>x. tempPath x = '''') xs"
proof -
  obtain n p1 where "Unmarshalling_loop P (nat n) [] p1 = (Some xs, q)" "0 \<le> n" "n \<le> 6"
    using assms
    by (auto simp: Unmarshalling_def VECTOR_MAX_SIZE_def VECTOR_MIN_SIZE_def split: prod.splits if_splits)
  then show ?thesis using Unmarshalling_loop_bounds [of P "nat n" "[]" p1 xs q] by auto
qed

section \<open>Descriptors of the reading handlers\<close>

lemma fds_on_files [frame_simps]: "fds (snd (on_files f s)) = fds s"
  by (simp add: on_files_def split_beta)

lemma fds_ReporterFault [frame_simps]: "fds (ReporterFault a k s) = fds s"
  by (simp add: ReporterFault_def)

lemma fds_UpdataWallpaperMap [frame_simps]: "fds (UpdataWallpaperMap e u w s) = fds s"
  by (simp add: UpdataWallpaperMap_disk_data)

lemma fds_InitUserDir [frame_simps]: "fds (snd (InitUserDir e u s)) = fds s"
  by (simp add: InitUserDir_def Let_def split_beta frame_simps)

lemma fds_OnInitUser [frame_simps]: "fds (OnInitUser e u s) = fds s"
  by (simp add: OnInitUser_def Let_def split_beta frame_simps)

lemma fds_GetPictureFileName [frame_simps]: "fds (snd (snd (GetPictureFileName e u w s))) = fds s"
  by (simp add: GetPictureFileName_def Let_def split_beta frame_simps)

lemma fds_GetImageSize [frame_simps]: "fds (snd (snd (GetImageSize e u w s))) = fds s"
  by (simp add: GetImageSize_eq Let_def split_beta frame_simps)

lemma fds_GetWallpaperDataPath [frame_simps]: "fds (snd (snd (GetWallpaperDataPath e u w f r s))) = fds s"
  by (simp add: GetWallpaperDataPath_def Let_def split_beta frame_simps)

lemma fds_GetCorrespondImageSize [frame_simps]: "fds (snd (snd (GetCorrespondImageSize e u w f r s))) = fds s"
  by (simp add: GetCorrespondImageSize_eq Let_def split_beta frame_simps)

text \<open>What the descriptor result of a reading handler stands for: no descriptor was left open,
  or exactly the one the result names.\<close>

definition opened_fd :: "int option \<Rightarrow> service \<Rightarrow> service \<Rightarrow> bool" where
  "opened_fd fd s s' \<longleftrightarrow>
     (case fd of None \<Rightarrow> fds s' = fds s
      | Some n \<Rightarrow> if n < 0 then fds s' = fds s
                  else n \<notin> fst ` set (fds s) \<and> (\<exists>f. fds s' = (n, f) # fds s))"

lemma opened_fd_trans: "opened_fd fd s1 s2 \<Longrightarrow> fds s1 = fds s \<Longrightarrow> opened_fd fd s s2"
  by (auto simp: opened_fd_def split: option.splits if_splits)

lemma opened_fd_refl [simp]: "opened_fd None s s" "n < 0 \<Longrightarrow> opened_fd (Some n) s s"
  by (simp_all add: opened_fd_def)

lemma opened_fd_same: "fds s' = fds s \<Longrightarrow> opened_fd None s s'"
  by (simp add: opened_fd_def split: option.splits)

lemma opened_fd_open_read:
  "os_open_read e p s = (fd, s') \<Longrightarrow> opened_fd (Some fd) s (if fd < 0 then ReporterFault a k s' else s')"
  using fresh_fd_fresh [of "fds s"] fresh_fd_nonneg [of "fds s"]
  by (auto simp: os_open_read_def opened_fd_def Let_def frame_simps split: option.splits if_splits)

lemma opened_fd_GetImageFd: "GetImageFd e u w s = (c, fd, s') \<Longrightarrow> opened_fd fd s s'"
  by (auto simp: GetImageFd_def split: prod.splits if_splits dest: opened_fd_open_read)

lemma opened_fd_GetCorrespondImageFd: "GetCorrespondImageFd e u w f r s = (c, fd, s') \<Longrightarrow> opened_fd fd s s'"
  using fds_GetWallpaperDataPath [of e u w f r s]
  by (auto simp: GetCorrespondImageFd_def split: prod.splits if_splits
      dest!: opened_fd_open_read intro: opened_fd_trans opened_fd_same)

lemma opened_fd_GetPixelMap: "GetPixelMap e wt s = (c, sz, fd, s') \<Longrightarrow> opened_fd fd s s'"
  using fds_GetImageSize [of e "QueryActiveUserId e" "as_WallpaperType wt" s]
  by (auto simp: GetPixelMap_def Let_def split: prod.splits if_splits
      dest!: opened_fd_GetImageFd intro: opened_fd_trans opened_fd_same)

lemma opened_fd_GetCorrespondWallpaper:
  "GetCorrespondWallpaper e wt f r s = (c, sz, fd, s') \<Longrightarrow> opened_fd fd s s'"
  using fds_GetCorrespondImageSize [of e "QueryActiveUserId e" "as_WallpaperType wt" f r s]
  by (auto simp: GetCorrespondWallpaper_def Let_def split: prod.splits if_splits
      dest!: opened_fd_GetCorrespondImageFd intro: opened_fd_trans opened_fd_same)

lemma opened_fd_GetFile: "GetFile e wt s = (c, fd, s') \<Longrightarrow> opened_fd fd s s'"
  by (auto simp: GetFile_def Let_def split: if_splits dest!: opened_fd_GetImageFd)

lemma close_opened_fd:
  assumes "opened_fd fd s s'"
  shows "fds (close_valid (case fd of Some n \<Rightarrow> n | None \<Rightarrow> DEFAULT_WALLPAPER_ID) s') = fds s"
  using assms
  by (auto simp: opened_fd_def close_valid_def DEFAULT_WALLPAPER_ID_def os_close_def delete_idem
      split: option.splits if_splits)

lemma fds_reply_picture:
  "opened_fd fd s s' \<Longrightarrow> fds (snd (snd (reply_picture i P c sz fd reply s'))) = fds s"
  by (simp add: reply_picture_def Let_def split_beta close_opened_fd)

section \<open>Properties\<close>

text \<open>C24: a list of at most six pictures crosses a parcel unchanged, but for the temporary paths,
  which do not travel, and whatever was written behind it can still be read; a longer list is
  written but refused by the reader.\<close>

theorem pictures_cross_parcel:
  assumes fifo: "parcel_fifo P content" and empty: "content p = []" and "nothrow_ok i"
    and written: "Marshalling P xs p = (True, p1)" and rest: "content p2 = content p1 @ rest"
    and len: "int (length xs) \<le> INT32_MAX"
  shows "if length xs \<le> 6
    then \<exists>q. Unmarshalling i P p2 = (Some (map (tempPath_update (\<lambda>_. '''')) xs), q) \<and> content q = rest
    else fst (Unmarshalling i P p2) = None"
proof -
  have w: "wrap32 (int (length xs)) = int (length xs)"
    using len by (simp add: wrap32_id in_int32_def INT32_MIN_def)
  have "content p1 = Int32Item (int (length xs)) # concat (map picture_items xs)"
    using Marshalling_pictures_content [OF fifo, of xs "and_WriteInt32 P (int (length xs)) (True, p)"]
      and_WriteInt32_content [OF fifo, of "int (length xs)" "(True, p)"] written empty
    by (simp add: Marshalling_def w)
  then have "content p2 = Int32Item (int (length xs)) # concat (map picture_items xs) @ rest"
    using rest by simp
  from ReadInt32_item [OF fifo this] obtain q where q: "ReadInt32 P p2 = (int (length xs), q)"
    "content q = concat (map picture_items xs) @ rest" .
  from Unmarshalling_loop_items [OF fifo q(2), of "[]"] q(1) assms(3) show ?thesis
    by (auto simp: Unmarshalling_def VECTOR_MAX_SIZE_def VECTOR_MIN_SIZE_def)
qed

text \<open>C25: whatever bytes a client sends, a list of pictures that the service accepts has at most six
  pictures and none of them names a temporary path, so that the request it makes is one the
  invariant of the service covers.\<close>

theorem accepted_pictures_are_safe:
  assumes "Unmarshalling i P p = (Some xs, q)"
  shows "length xs \<le> 6 \<and> call_ok (C_SetAllWallpapers xs w fdv)"
  using Unmarshalling_bounds [OF assms] by (simp add: call_ok_def)

text \<open>C26: the handlers that send a descriptor leave none of their own open: whatever the request,
  the environment and the replies that fail, the descriptors of the service are afterwards what
  they were before.\<close>

theorem parcel_handlers_leak_nothing:
  "fds (snd (snd (GetPixleMapParcel i P e sys data reply s))) = fds s \<and>
   fds (snd (snd (GetCorrespondWallpaperParcel i P e data reply s))) = fds s \<and>
   fds (snd (snd (GetFileParcel i P e data reply s))) = fds s"
proof (intro conjI)
  show "fds (snd (snd (GetPixleMapParcel i P e sys data reply s))) = fds s"
    by (auto simp: GetPixleMapParcel_def GetPixelMapV9_def split: prod.splits
        intro: fds_reply_picture opened_fd_GetPixelMap)
  show "fds (snd (snd (GetCorrespondWallpaperParcel i P e data reply s))) = fds s"
    by (auto simp: GetCorrespondWallpaperParcel_def split: prod.splits
        intro: fds_reply_picture opened_fd_GetCorrespondWallpaper)
  show "fds (snd (snd (GetFileParcel i P e data reply s))) = fds s"
    by (auto simp: GetFileParcel_def Let_def split: prod.splits dest!: opened_fd_GetFile close_opened_fd)
qed

text \<open>A request with a wrong interface token is answered with an error and has no effect,
  whichever of the commands it names.\<close>

theorem wrong_token_refused:
  assumes "fst (ReadInterfaceToken P data) \<noteq> ServiceDescriptor i" "code \<in> range (CommandCode i)"
  shows "CallbackParcel i P e code data reply s = (Code E_CHECK_DESCRIPTOR_ERROR, reply, s)"
proof -
  obtain c where "code = CommandCode i c" using assms(2) by blast
  with assms(1) show ?thesis
    by (cases c) (auto simp: CallbackParcel_def GetPixleMapParcel_def GetCorrespondWallpaperParcel_def
        GetFileParcel_def SetwallpaperByPixelMapParcel_def split_beta)
qed

text \<open>When \<^verbatim>\<open>GetPixelMap\<close> fails before it has a size, its handler still replies with a size, and
  that size is whatever the uninitialised variable held.\<close>

theorem uninitialised_size_is_sent:
  assumes "parcel_fifo P content" "fst (ReadInterfaceToken P data) = ServiceDescriptor i"
    and "\<not> CallingIsSystemApp e" and "GetPixleMapParcel i P e sys data reply s = (Code E_NOT_SYSTEM_APP, reply', s')"
  shows "content reply' = content reply @
    [Int32Item (ErrorCode_value (WALLPAPER_ERR_OFFSET i) E_NOT_SYSTEM_APP), Int32Item (uninitialised i),
     FdItem (- 1)]"
proof -
  note w = parcel_writes(2,5) [OF assms(1)]
  from assms(2,3,4) show ?thesis
    by (auto simp: GetPixleMapParcel_def GetPixelMapV9_def GetPixelMap_def IsSystemApp_def reply_picture_def
        Let_def handler_result_def DEFAULT_WALLPAPER_ID_def split: prod.splits if_splits dest!: w)
qed

lemma colors_notification:
  assumes fifo: "parcel_fifo P content" and empty: "content p = []" and "Proxy_OnColorsChange P p colors n = Some (code, p')"
  shows "ListenerStub_OnRemoteRequest P code p' = (Answer NO_ERROR, Some (OnColorsChange_call colors n))"
proof -
  note wt = parcel_writes(1) [OF fifo] and wi = parcel_writes(2) [OF fifo]
    and ws = parcel_writes(3) [OF fifo] and wc = parcel_writes(4) [OF fifo]
  note rt = parcel_reads(1) [OF fifo] and ri = parcel_reads(2) [OF fifo]
    and rs = parcel_reads(3) [OF fifo] and rc = parcel_reads(4) [OF fifo]
  note codes = ON_COLORS_CHANGE_def ON_WALLPAPER_CHANGE_def ONCALL_def
  from assms(3) have c: "code = ON_COLORS_CHANGE" "content p' = [TokenItem LISTENER_DESCRIPTOR, ColorsItem colors, Int32Item n]"
    by (auto simp: Proxy_OnColorsChange_def empty split: prod.splits if_splits dest!: wt wi wc)
  from rt [OF c(2)] obtain q1 where 1: "ReadInterfaceToken P p' = (LISTENER_DESCRIPTOR, q1)"
    "content q1 = [ColorsItem colors, Int32Item n]" by blast
  from rc [OF 1(2)] obtain q2 where 2: "ReadUInt64Vector P q1 = (Some colors, q2)" "content q2 = [Int32Item n]"
    by blast
  from ri [OF 2(2)] 1 2 c(1)
  show ?thesis
    by (auto simp: ListenerStub_OnRemoteRequest_def)
qed

lemma change_notification:
  assumes fifo: "parcel_fifo P content" and empty: "content p = []" and "Proxy_OnWallpaperChange P p w r uri = Some (code, p')"
  shows "ListenerStub_OnRemoteRequest P code p' = (Answer NO_ERROR,
    Some (OnWallpaperChange_call (WallpaperType_value w) (WallpaperResourceType_value r) uri))"
proof -
  note wt = parcel_writes(1) [OF fifo] and wi = parcel_writes(2) [OF fifo]
    and ws = parcel_writes(3) [OF fifo] and wc = parcel_writes(4) [OF fifo]
  note rt = parcel_reads(1) [OF fifo] and ri = parcel_reads(2) [OF fifo]
    and rs = parcel_reads(3) [OF fifo] and rc = parcel_reads(4) [OF fifo]
  note codes = ON_COLORS_CHANGE_def ON_WALLPAPER_CHANGE_def ONCALL_def
  from assms(3) have c: "code = ON_WALLPAPER_CHANGE" "content p' = [TokenItem LISTENER_DESCRIPTOR,
      Int32Item (WallpaperType_value w), Int32Item (WallpaperResourceType_value r), StringItem uri]"
    by (auto simp: Proxy_OnWallpaperChange_def empty split: prod.splits if_splits dest!: wt wi ws)
  from rt [OF c(2)] obtain q1 where 1: "ReadInterfaceToken P p' = (LISTENER_DESCRIPTOR, q1)" "content q1 =
    [Int32Item (WallpaperType_value w), Int32Item (WallpaperResourceType_value r), StringItem uri]" by blast
  from ri [OF 1(2)] obtain q2 where 2: "ReadInt32 P q1 = (WallpaperType_value w, q2)"
    "content q2 = [Int32Item (WallpaperResourceType_value r), StringItem uri]" by blast
  from ri [OF 2(2)] obtain q3 where 3: "ReadInt32 P q2 = (WallpaperResourceType_value r, q3)"
    "content q3 = [StringItem uri]" by blast
  from rs [OF 3(2)] 1 2 3 c(1)
  show ?thesis
    by (auto simp: ListenerStub_OnRemoteRequest_def codes)
qed

lemma callback_notification:
  assumes fifo: "parcel_fifo P content" and empty: "content p = []" and "CbProxy_OnCall P p n = (E_OK, Some (code, p'))"
  shows "CbStub_OnRemoteRequest P (Some cb) code p' = (Answer NO_ERROR, [(cb, n)])"
proof -
  note wt = parcel_writes(1) [OF fifo] and wi = parcel_writes(2) [OF fifo]
    and ws = parcel_writes(3) [OF fifo] and wc = parcel_writes(4) [OF fifo]
  note rt = parcel_reads(1) [OF fifo] and ri = parcel_reads(2) [OF fifo]
    and rs = parcel_reads(3) [OF fifo] and rc = parcel_reads(4) [OF fifo]
  note codes = ON_COLORS_CHANGE_def ON_WALLPAPER_CHANGE_def ONCALL_def
  from assms(3) have c: "code = ONCALL" "content p' = [TokenItem CALLBACK_DESCRIPTOR, Int32Item n]"
    by (auto simp: CbProxy_OnCall_def empty split: prod.splits if_splits dest!: wt wi)
  from rt [OF c(2)] obtain q1 where 1: "ReadInterfaceToken P p' = (CALLBACK_DESCRIPTOR, q1)"
    "content q1 = [Int32Item n]" by blast
  from ri [OF 1(2)] 1 c(1)
  show ?thesis
    by (auto simp: CbStub_OnRemoteRequest_def HandleOnCall_def CbStub_OnCall_def)
qed

text \<open>C27: a notification the service sends arrives: whenever the proxy of a listener sends a request,
  the stub on the other side accepts it and calls the listener of the client with the same
  colours, types and file, as integers; and likewise for the callback.\<close>

theorem notifications_arrive:
  assumes fifo: "parcel_fifo P content" and empty: "content p = []"
  shows "(\<forall>code p'. Proxy_OnColorsChange P p colors n = Some (code, p') \<longrightarrow>
      ListenerStub_OnRemoteRequest P code p' = (Answer NO_ERROR, Some (OnColorsChange_call colors n))) \<and>
    (\<forall>code p'. Proxy_OnWallpaperChange P p w r uri = Some (code, p') \<longrightarrow>
      ListenerStub_OnRemoteRequest P code p' = (Answer NO_ERROR,
        Some (OnWallpaperChange_call (WallpaperType_value w) (WallpaperResourceType_value r) uri))) \<and>
    (\<forall>code p'. CbProxy_OnCall P p n = (E_OK, Some (code, p')) \<longrightarrow>
      CbStub_OnRemoteRequest P (Some cb) code p' = (Answer NO_ERROR, [(cb, n)]))"
  using colors_notification[OF assms] change_notification[OF assms] callback_notification[OF assms] by blast

section \<open>A parcel that keeps the promises\<close>

text \<open>A list of items; a read of the wrong kind gives a default value and consumes nothing.\<close>

definition list_parcel :: "parcel_item list parcel_ops" where
  "list_parcel =
     \<lparr>WriteInterfaceToken = \<lambda>x p. (True, p @ [TokenItem x]),
      ReadInterfaceToken = \<lambda>p. (case p of TokenItem x # q \<Rightarrow> (x, q) | _ \<Rightarrow> ('''', p)),
      WriteInt32 = \<lambda>x p. (True, p @ [Int32Item x]),
      ReadInt32 = \<lambda>p. (case p of Int32Item x # q \<Rightarrow> (x, q) | _ \<Rightarrow> (0, p)),
      ReadUint32 = \<lambda>p. (case p of Int32Item x # q \<Rightarrow> (x, q) | _ \<Rightarrow> (0, p)),
      WriteString = \<lambda>x p. (True, p @ [StringItem x]),
      ReadString = \<lambda>p. (case p of StringItem x # q \<Rightarrow> (x, q) | _ \<Rightarrow> ('''', p)),
      WriteUInt64Vector = \<lambda>x p. (True, p @ [ColorsItem x]),
      ReadUInt64Vector = \<lambda>p. (case p of ColorsItem x # q \<Rightarrow> (Some x, q) | _ \<Rightarrow> (None, p)),
      WriteFileDescriptor = \<lambda>x p. (True, p @ [FdItem x]),
      ReadRawData = \<lambda>n p. (case p of StringItem x # q \<Rightarrow> (Some x, q) | _ \<Rightarrow> (None, p))\<rparr>"

definition sample_ipc :: ipc_env where
  "sample_ipc = \<lparr>WALLPAPER_ERR_OFFSET = 1000, ServiceDescriptor = ''IWallpaperService'',
     CommandCode = (\<lambda>c. case c of COMMAND_GET_PIXEL_MAP \<Rightarrow> 3 | COMMAND_GET_PIXEL_MAP_V9 \<Rightarrow> 16
       | COMMAND_GET_CORRESPOND_WALLPAPER \<Rightarrow> 4 | COMMAND_GET_FILE \<Rightarrow> 6
       | COMMAND_SET_WALLPAPER_BY_PIXEL_MAP \<Rightarrow> 2 | COMMAND_SET_WALLPAPER_V9_BY_PIXEL_MAP \<Rightarrow> 15),
     uninitialised = 77, nothrow_ok = True\<rparr>"

lemma list_parcel_fifo: "parcel_fifo list_parcel id"
  by (simp add: parcel_fifo_def list_parcel_def)

definition two_pictures :: "WallpaperPictureInfo list" where
  "two_pictures =
     [\<lparr>foldState = NORMAL, rotateState = LAND, pic_fd = 5, pic_length = 100, tempPath = ''''\<rparr>,
      \<lparr>foldState = UNFOLD_2, rotateState = PORT, pic_fd = 6, pic_length = 200, tempPath = ''''\<rparr>]"

theorem pictures_cross_parcel_witness:
  "\<exists>q. Unmarshalling sample_ipc list_parcel (snd (Marshalling list_parcel two_pictures []) @ [StringItem ''x''])
     = (Some two_pictures, q) \<and> id q = [StringItem ''x'']"
proof -
  have m: "Marshalling list_parcel two_pictures [] = (True, snd (Marshalling list_parcel two_pictures []))"
    by (simp add: Marshalling_def and_WriteInt32_def list_parcel_def two_pictures_def)
  have "map (tempPath_update (\<lambda>_. '''')) two_pictures = two_pictures" by (simp add: two_pictures_def)
  with pictures_cross_parcel [OF list_parcel_fifo _ _ m, of sample_ipc _ "[StringItem ''x'']"]
  show ?thesis by (simp add: sample_ipc_def two_pictures_def INT32_MAX_def)
qed

theorem accepted_pictures_are_safe_witness:
  "length two_pictures \<le> 6 \<and> call_ok (C_SetAllWallpapers two_pictures 0 [5, 6])"
proof -
  have "Unmarshalling sample_ipc list_parcel (snd (Marshalling list_parcel two_pictures []))
      = (Some two_pictures, [])"
    by (simp add: Marshalling_def and_WriteInt32_def list_parcel_def two_pictures_def Unmarshalling_def
        sample_ipc_def VECTOR_MAX_SIZE_def VECTOR_MIN_SIZE_def FoldState_value_def RotateState_value_def
        wrap32_eq numeral_2_eq_2)
  then show ?thesis by (rule accepted_pictures_are_safe)
qed

theorem wrong_token_refused_witness:
  "CallbackParcel sample_ipc list_parcel sample_env 6 [TokenItem ''other'', Int32Item 0] [] sample_service
     = (Code E_CHECK_DESCRIPTOR_ERROR, [], sample_service)"
proof (rule wrong_token_refused)
  show "6 \<in> range (CommandCode sample_ipc)"
    by (rule image_eqI [of _ _ COMMAND_GET_FILE]) (simp_all add: sample_ipc_def)
qed (simp add: list_parcel_def sample_ipc_def)

theorem uninitialised_size_is_sent_witness:
  "fst (snd (GetPixleMapParcel sample_ipc list_parcel (sample_env\<lparr>CallingIsSystemApp := False\<rparr>) False
     [TokenItem ''IWallpaperService'', Int32Item 0] [] sample_service))
   = [Int32Item 1014, Int32Item 77, FdItem (- 1)]"
proof -
  let ?e = "sample_env\<lparr>CallingIsSystemApp := False\<rparr>"
  let ?r = "GetPixleMapParcel sample_ipc list_parcel ?e False [TokenItem ''IWallpaperService'', Int32Item 0] []
    sample_service"
  have run: "?r = (Code E_NOT_SYSTEM_APP, fst (snd ?r), snd (snd ?r))"
    by (simp add: GetPixleMapParcel_def list_parcel_def sample_ipc_def GetPixelMap_def IsSystemApp_def
        reply_picture_def handler_result_def Let_def)
  have "fst (ReadInterfaceToken list_parcel [TokenItem ''IWallpaperService'', Int32Item 0])
      = ServiceDescriptor sample_ipc" "\<not> CallingIsSystemApp ?e"
    by (simp_all add: list_parcel_def sample_ipc_def)
  from uninitialised_size_is_sent [OF list_parcel_fifo this run] show ?thesis
    by (simp add: sample_ipc_def ErrorCode_value_def)
qed

theorem notifications_arrive_witness:
  "ListenerStub_OnRemoteRequest list_parcel ON_WALLPAPER_CHANGE
     (snd (the (Proxy_OnWallpaperChange list_parcel [] WALLPAPER_LOCKSCREEN VIDEO ''/v.mp4'')))
   = (Answer NO_ERROR, Some (OnWallpaperChange_call 1 2 ''/v.mp4''))"
proof -
  obtain q where q: "Proxy_OnWallpaperChange list_parcel [] WALLPAPER_LOCKSCREEN VIDEO ''/v.mp4''
      = Some (ON_WALLPAPER_CHANGE, q)"
    by (simp add: Proxy_OnWallpaperChange_def list_parcel_def)
  then show ?thesis
    using notifications_arrive [OF list_parcel_fifo, of "[]" "[]" 0 WALLPAPER_LOCKSCREEN VIDEO "''/v.mp4''" 0]
    by (simp add: WallpaperType_value_def WallpaperResourceType_value_def)
qed

end
