(* ===== verification/Manager.thy ===== *)
theory Manager
  imports Ipc
begin

text \<open>
  The client library, \<^verbatim>\<open>frameworks/native/src/wallpaper_manager.cpp\<close>: the singleton of a process
  that opens the files a wallpaper is made of, sends them to the service, remembers the
  descriptor handed out last for each type, and registers its listeners again when the service
  comes back.

  The remote service is the interface the library calls through: \<open>proxy\<close> is the record of its
  methods over a remote state of any type \<open>'r\<close>. A descriptor that crosses is the open file it
  stands for; an out-parameter that a method does not assign is \<open>None\<close>.
\<close>

section \<open>The remote interface, the environment and the state\<close>

record 'r proxy =
  px_SetWallpaper :: "ofd option \<Rightarrow> int32 \<Rightarrow> int32 \<Rightarrow> 'r \<Rightarrow> int32 \<times> 'r"
  px_SetWallpaperV9 :: "ofd option \<Rightarrow> int32 \<Rightarrow> int32 \<Rightarrow> 'r \<Rightarrow> int32 \<times> 'r"
  px_SetWallpaperByPixelMap :: "string \<Rightarrow> int32 \<Rightarrow> 'r \<Rightarrow> int32 \<times> 'r"
  px_SetWallpaperV9ByPixelMap :: "string \<Rightarrow> int32 \<Rightarrow> 'r \<Rightarrow> int32 \<times> 'r"
  px_SetAllWallpapers ::
    "WallpaperPictureInfo list \<Rightarrow> int32 \<Rightarrow> ofd option list \<Rightarrow> 'r \<Rightarrow> int32 \<times> 'r"
  px_GetPixelMap :: "int32 \<Rightarrow> 'r \<Rightarrow> int32 \<times> int32 option \<times> ofd option \<times> 'r"
  px_GetPixelMapV9 :: "int32 \<Rightarrow> 'r \<Rightarrow> int32 \<times> int32 option \<times> ofd option \<times> 'r"
  px_GetCorrespondWallpaper ::
    "int32 \<Rightarrow> int32 \<Rightarrow> int32 \<Rightarrow> 'r \<Rightarrow> int32 \<times> int32 option \<times> ofd option \<times> 'r"
  px_GetColors :: "int32 \<Rightarrow> 'r \<Rightarrow> int32 \<times> uint64 list option \<times> 'r"
  px_GetColorsV9 :: "int32 \<Rightarrow> 'r \<Rightarrow> int32 \<times> uint64 list option \<times> 'r"
  px_GetFile :: "int32 \<Rightarrow> 'r \<Rightarrow> int32 \<times> ofd option \<times> 'r"
  px_GetWallpaperId :: "int32 \<Rightarrow> 'r \<Rightarrow> int32 \<times> 'r"
  px_IsChangePermitted :: "'r \<Rightarrow> bool option \<times> 'r"
  px_IsOperationAllowed :: "'r \<Rightarrow> bool option \<times> 'r"
  px_ResetWallpaper :: "int32 \<Rightarrow> 'r \<Rightarrow> int32 \<times> 'r"
  px_ResetWallpaperV9 :: "int32 \<Rightarrow> 'r \<Rightarrow> int32 \<times> 'r"
  px_On :: "string \<Rightarrow> handle option \<Rightarrow> 'r \<Rightarrow> int32 \<times> 'r"
  px_Off :: "string \<Rightarrow> handle option \<Rightarrow> 'r \<Rightarrow> int32 \<times> 'r"
  px_RegisterWallpaperCallback :: "'r \<Rightarrow> bool option \<times> 'r"
  px_SetVideo :: "ofd option \<Rightarrow> int32 \<Rightarrow> int32 \<Rightarrow> 'r \<Rightarrow> int32 \<times> 'r"
  px_SetCustomWallpaper :: "ofd option \<Rightarrow> int32 \<Rightarrow> int32 \<Rightarrow> 'r \<Rightarrow> int32 \<times> 'r"
  px_SendEvent :: "string \<Rightarrow> 'r \<Rightarrow> int32 \<times> 'r"
  px_IsDefaultWallpaperResource :: "int32 \<Rightarrow> int32 \<Rightarrow> 'r \<Rightarrow> bool option \<times> 'r"

text \<open>
  The libraries the client uses: the system ability manager, the image framework, the video
  metadata helper (\<^verbatim>\<open>None\<close>: the key is missing), the display manager.
\<close>

record mgr_env = fs_env +
  ErrOffset :: int
  LONG_MAX :: int
  SamgrAvailable :: bool
  CheckSystemAbility :: "handle option"
  LoadSystemAbility :: "handle option"
  IsProxyObject :: "handle \<Rightarrow> bool"
  AddDeathRecipientOk :: "handle \<Rightarrow> bool"
  IfaceCast :: "handle \<Rightarrow> handle option"
  NothrowOk :: bool
  EncodeTlv :: "handle \<Rightarrow> string option"
  HeapByte :: "nat \<Rightarrow> char"
  SourceOfBuffer :: "string \<Rightarrow> handle option"
  SourceOfPath :: "string \<Rightarrow> handle option"
  ImageInfoOk :: "handle \<Rightarrow> bool"
  CreatePixelMapOf :: "handle \<Rightarrow> bool \<times> handle option"
  fstat_ok :: "string \<Rightarrow> bool"
  fclose_ok :: "string \<Rightarrow> bool"
  MetadataHelperOk :: bool
  SetSourceOk :: "string \<Rightarrow> int \<Rightarrow> bool"
  MimeTypeOf :: "string \<Rightarrow> string option"
  DurationOf :: "string \<Rightarrow> string option"
  DefaultDisplay :: "(int32 \<times> int32) option"

datatype client_effect =
  AddedServiceDeathRecipient handle
| RemovedServiceDeathRecipient handle
| ReportedRuntimeFault FaultType FaultCode

record 'r client = os_state +
  wallpaperProxy :: "handle option"
  deathRecipient :: bool
  wallpaperFdMap :: "(int32, int) stdmap"
  jsCallback :: "handle option"
  listenerMap :: "(string, handle option) stdmap"
  remote :: 'r
  client_effects :: "client_effect list"

definition client_emit :: "client_effect \<Rightarrow> 'r client \<Rightarrow> 'r client" where
  "client_emit x s = s\<lparr>client_effects := client_effects s @ [x]\<rparr>"

definition MIN_TIME :: int32 where "MIN_TIME = 0"
definition MAX_TIME :: int32 where "MAX_TIME = 5000"
definition CLIENT_MAX_VIDEO_SIZE :: int32 where "CLIENT_MAX_VIDEO_SIZE = 104857600"
definition CLIENT_MAX_RETRY_TIMES :: nat where "CLIENT_MAX_RETRY_TIMES = 10"

text \<open>A descriptor the process receives from the service gets a free number.\<close>

definition install_fd :: "int \<Rightarrow> ofd option \<Rightarrow> 'r client \<Rightarrow> int \<times> 'r client" where
  "install_fd dflt o' s =
     (case o' of
        None \<Rightarrow> (dflt, s)
      | Some f \<Rightarrow> (let fd = fresh_fd (fds s) in (fd, s\<lparr>fds := (fd, f) # fds s\<rparr>)))"

section \<open>Error codes\<close>

definition errorCodeMap :: "int \<Rightarrow> (int32 \<times> ErrorCode) list" where
  "errorCodeMap off =
     (ErrorCode_value off NO_ERROR, E_OK) #
     map (\<lambda>c. (ErrorCode_value off c, c))
       [E_OK, E_SA_DIED, E_READ_PARCEL_ERROR, E_WRITE_PARCEL_ERROR, E_PUBLISH_FAIL,
        E_TRANSACT_ERROR, E_DEAL_FAILED, E_PARAMETERS_INVALID, E_SET_RTC_FAILED, E_NOT_FOUND,
        E_NO_PERMISSION, E_FILE_ERROR, E_IMAGE_ERRCODE, E_NO_MEMORY, E_NOT_SYSTEM_APP,
        E_USER_IDENTITY_ERROR, E_CHECK_DESCRIPTOR_ERROR]"

definition ConvertIntToErrorCode :: "mgr_env \<Rightarrow> int32 \<Rightarrow> ErrorCode" where
  "ConvertIntToErrorCode e errorCode =
     (case map_of (errorCodeMap (ErrOffset e)) errorCode of None \<Rightarrow> E_UNKNOWN | Some c \<Rightarrow> c)"

section \<open>Finding the service\<close>

definition ResetService :: "handle \<Rightarrow> 'r client \<Rightarrow> 'r client" where
  "ResetService dead s =
     (case wallpaperProxy s of
        None \<Rightarrow> s
      | Some object \<Rightarrow>
          if dead = object
          then (client_emit (RemovedServiceDeathRecipient object) s)\<lparr>wallpaperProxy := None\<rparr>
          else s)"

definition GetService :: "mgr_env \<Rightarrow> 'r client \<Rightarrow> handle option \<times> 'r client" where
  "GetService e s =
     (case wallpaperProxy s of
        Some p \<Rightarrow> (Some p, s)
      | None \<Rightarrow>
          if \<not> SamgrAvailable e then (None, s)
          else (case (case CheckSystemAbility e of Some object \<Rightarrow> Some object
                      | None \<Rightarrow> LoadSystemAbility e) of
                  None \<Rightarrow> (None, s)
                | Some object \<Rightarrow>
                    let s1 = s\<lparr>deathRecipient := True\<rparr>;
                        s2 = (if IsProxyObject e object \<and> AddDeathRecipientOk e object
                              then client_emit (AddedServiceDeathRecipient object) s1 else s1);
                        p = IfaceCast e object
                    in (p, s2\<lparr>wallpaperProxy := p\<rparr>)))"

text \<open>Running a remote method on the remote state.\<close>

definition call_remote :: "('r \<Rightarrow> 'a \<times> 'r) \<Rightarrow> 'r client \<Rightarrow> 'a \<times> 'r client" where
  "call_remote m s = (case m (remote s) of (x, r) \<Rightarrow> (x, s\<lparr>remote := r\<rparr>))"

section \<open>Descriptors\<close>

text \<open>\<^verbatim>\<open>fcntl(fd, F_GETFL) != -1\<close>: the number is an open descriptor.\<close>

definition CloseWallpaperFd :: "int32 \<Rightarrow> 'r client \<Rightarrow> 'r client" where
  "CloseWallpaperFd wallpaperType s =
     (case map_of (wallpaperFdMap s) wallpaperType of
        None \<Rightarrow> s
      | Some fd \<Rightarrow>
          if map_of (fds s) fd \<noteq> None
          then (os_close fd s)\<lparr>wallpaperFdMap := snd (Erase wallpaperType (wallpaperFdMap s))\<rparr>
          else s)"

fun close_all :: "(int32, int) stdmap \<Rightarrow> 'r client \<Rightarrow> 'r client" where
  "close_all [] s = s"
| "close_all ((t, fd) # rest) s = close_all rest (os_close fd s)"

definition destroy_manager :: "'r client \<Rightarrow> 'r client" where
  "destroy_manager s = close_all (wallpaperFdMap s) s"

fun Manager_CloseWallpaperInfoFd :: "WallpaperPictureInfo list \<Rightarrow> 'r client \<Rightarrow> 'r client" where
  "Manager_CloseWallpaperInfoFd [] s = s"
| "Manager_CloseWallpaperInfoFd (p # rest) s =
     Manager_CloseWallpaperInfoFd rest (if pic_fd p \<ge> 0 then os_close (pic_fd p) s else s)"

definition Manager_GetFile ::
  "mgr_env \<Rightarrow> 'r proxy \<Rightarrow> int32 \<Rightarrow> int \<Rightarrow> 'r client \<Rightarrow> ErrorCode \<times> int \<times> 'r client" where
  "Manager_GetFile e px wallpaperType wallpaperFd s =
     (case GetService e s of
        (None, s1) \<Rightarrow> (E_DEAL_FAILED, wallpaperFd, s1)
      | (Some p, s1) \<Rightarrow>
          let s2 = CloseWallpaperFd wallpaperType s1 in
          case px_GetFile px wallpaperType (remote s2) of (code, f, r) \<Rightarrow>
          case install_fd wallpaperFd f (s2\<lparr>remote := r\<rparr>) of (fd, s3) \<Rightarrow>
          let err = ConvertIntToErrorCode e code in
          (err, fd,
           if err = E_OK \<and> fd \<noteq> - 1
           then s3\<lparr>wallpaperFdMap := snd (Insert wallpaperType fd (wallpaperFdMap s3))\<rparr> else s3))"

section \<open>Checking files\<close>

definition ConverString2Int :: "mgr_env \<Rightarrow> string \<Rightarrow> int32" where
  "ConverString2Int e value =
     (if value \<noteq> '''' \<and> list_all (\<lambda>c. (48 :: nat) \<le> of_char c \<and> of_char c \<le> (57 :: nat)) value
      then wrap32 (min (LONG_MAX e) (int (digits_value value))) else - 1)"

text \<open>
  A stream is the descriptor it holds: \<^verbatim>\<open>fopen\<close> opens one, \<^verbatim>\<open>fclose\<close> closes it also when it reports a failure.
  \<^verbatim>\<open>OpenFile\<close>: the open stream and the size of the file, when it succeeds; \<^verbatim>\<open>fileno\<close> of an open stream does not fail.
\<close>

definition OpenFile :: "mgr_env \<Rightarrow> string \<Rightarrow> 'r client \<Rightarrow> (int \<times> int) option \<times> 'r client" where
  "OpenFile e fileName s =
     (if \<not> os_access (files s) fileName then (None, s)
      else case os_open_read e fileName s of (stream, s1) \<Rightarrow>
      if stream < 0 then (None, s1)
      else if \<not> fstat_ok e fileName then (None, os_close stream s1)
      else (Some (stream, int (length (file_content (files s1) (comps fileName)))), s1))"

definition CheckVideoFormat :: "mgr_env \<Rightarrow> string \<Rightarrow> 'r client \<Rightarrow> bool \<times> 'r client" where
  "CheckVideoFormat e fileName s =
     (case OpenFile e fileName s of
        (None, s1) \<Rightarrow> (False, s1)
      | (Some (stream, len), s1) \<Rightarrow>
          if \<not> MetadataHelperOk e then (False, os_close stream s1)
          else if \<not> SetSourceOk e fileName len then (False, os_close stream s1)
          else (case MimeTypeOf e fileName of
                  None \<Rightarrow> (False, os_close stream s1)
                | Some mime \<Rightarrow>
                    if mime \<noteq> ''video/mp4'' then (False, os_close stream s1)
                    else (case DurationOf e fileName of
                            None \<Rightarrow> (False, os_close stream s1)
                          | Some d \<Rightarrow>
                              let videoDuration = ConverString2Int e d in
                              if videoDuration < MIN_TIME \<or> videoDuration > MAX_TIME
                              then (False, os_close stream s1)
                              else (True, os_close stream s1))))"

definition CheckWallpaperFormat :: "mgr_env \<Rightarrow> string \<Rightarrow> bool \<Rightarrow> 'r client \<Rightarrow> ErrorCode \<times> 'r client" where
  "CheckWallpaperFormat e realPath isLive s =
     (if \<not> isLive then (E_OK, s)
      else if GetExtension realPath \<noteq> ''.mp4'' then (E_PARAMETERS_INVALID, s)
      else case CheckVideoFormat e realPath s of (ok, s1) \<Rightarrow>
      (if \<not> ok then E_PARAMETERS_INVALID else E_OK, s1))"

text \<open>The code and the out-parameter \<^verbatim>\<open>length\<close>; \<open>None\<close>: not assigned.\<close>

definition GetWallpaperSize ::
  "mgr_env \<Rightarrow> string \<Rightarrow> bool \<Rightarrow> 'r client \<Rightarrow> ErrorCode \<times> int32 option \<times> 'r client" where
  "GetWallpaperSize e realPath isLive s =
     (case os_open_read e realPath s of (stream, s1) \<Rightarrow>
      if stream < 0 then (E_FILE_ERROR, None, s1)
      else let wallpaperSize = int (length (file_content (files s1) (comps realPath))) in
      if wallpaperSize \<le> 0 \<or> wallpaperSize > INT32_MAX \<or> \<not> seek_ok e realPath
      then (E_FILE_ERROR, Some 0, os_close stream s1)
      else if isLive \<and> wallpaperSize > CLIENT_MAX_VIDEO_SIZE
      then (E_PICTURE_OVERSIZED, Some 0, os_close stream s1)
      else if \<not> fclose_ok e realPath then (E_FILE_ERROR, Some 0, os_close stream s1)
      else (E_OK, Some (wrap32 wallpaperSize), os_close stream s1))"

text \<open>What the checks answer. They close every stream they open, so that is all they do.\<close>

definition video_accepted :: "mgr_env \<Rightarrow> fs \<Rightarrow> string \<Rightarrow> bool" where
  "video_accepted e t p \<longleftrightarrow> os_access t p \<and> open_ok e p \<and> fstat_ok e p \<and> MetadataHelperOk e \<and>
     SetSourceOk e p (int (length (file_content t (comps p)))) \<and> MimeTypeOf e p = Some ''video/mp4'' \<and>
     (\<exists>d. DurationOf e p = Some d \<and> MIN_TIME \<le> ConverString2Int e d \<and> ConverString2Int e d \<le> MAX_TIME)"

definition wallpaper_format :: "mgr_env \<Rightarrow> fs \<Rightarrow> string \<Rightarrow> bool \<Rightarrow> ErrorCode" where
  "wallpaper_format e t p live =
     (if live \<and> (GetExtension p \<noteq> ''.mp4'' \<or> \<not> video_accepted e t p) then E_PARAMETERS_INVALID else E_OK)"

definition wallpaper_size :: "mgr_env \<Rightarrow> fs \<Rightarrow> string \<Rightarrow> bool \<Rightarrow> ErrorCode \<times> int32 option" where
  "wallpaper_size e t p live =
     (if \<not> os_access t p \<or> \<not> open_ok e p then (E_FILE_ERROR, None)
      else let n = int (length (file_content t (comps p))) in
      if n \<le> 0 \<or> n > INT32_MAX \<or> \<not> seek_ok e p then (E_FILE_ERROR, Some 0)
      else if live \<and> n > CLIENT_MAX_VIDEO_SIZE then (E_PICTURE_OVERSIZED, Some 0)
      else if \<not> fclose_ok e p then (E_FILE_ERROR, Some 0)
      else (E_OK, Some (wrap32 n)))"

lemma CheckVideoFormat_eq [simp]: "CheckVideoFormat e p s = (video_accepted e (files s) p, s)"
proof -
  obtain fd s1 where "os_open_read e p s = (fd, s1)" "fd < 0 \<longleftrightarrow> \<not> (open_ok e p \<and> os_access (files s) p)"
    "fd < 0 \<longrightarrow> s1 = s" "\<not> fd < 0 \<longrightarrow> os_close fd s1 = s" "files s1 = files s" by (rule os_open_read_cases [of e p s])
  then show ?thesis
    by (auto simp: CheckVideoFormat_def OpenFile_def video_accepted_def Let_def not_less split: option.split)
qed

lemma CheckWallpaperFormat_eq [simp]: "CheckWallpaperFormat e p live s = (wallpaper_format e (files s) p live, s)"
  by (simp add: CheckWallpaperFormat_def wallpaper_format_def)

lemma GetWallpaperSize_eq [simp]:
  "GetWallpaperSize e p live s = (fst (wallpaper_size e (files s) p live), snd (wallpaper_size e (files s) p live), s)"
proof -
  obtain fd s1 where "os_open_read e p s = (fd, s1)" "fd < 0 \<longleftrightarrow> \<not> (open_ok e p \<and> os_access (files s) p)"
    "fd < 0 \<longrightarrow> s1 = s" "\<not> fd < 0 \<longrightarrow> os_close fd s1 = s" "files s1 = files s" by (rule os_open_read_cases [of e p s])
  then show ?thesis by (auto simp: GetWallpaperSize_def wallpaper_size_def Let_def)
qed

section \<open>Setting wallpapers\<close>

definition mgr_fault :: "FaultType \<Rightarrow> FaultCode \<Rightarrow> 'r client \<Rightarrow> 'r client" where
  "mgr_fault t c s = client_emit (ReportedRuntimeFault t c) s"

text \<open>
  The tail the three handlers of files share: open the file, pass the descriptor to the service,
  close it.
\<close>

definition send_file ::
  "mgr_env \<Rightarrow> (ofd option \<Rightarrow> 'r \<Rightarrow> int32 \<times> 'r) \<Rightarrow> string \<Rightarrow> 'r client \<Rightarrow> ErrorCode \<times> 'r client" where
  "send_file e m fileRealPath s =
     (case os_open_read e fileRealPath s of (fd, s1) \<Rightarrow>
      if fd < 0 then (E_FILE_ERROR, mgr_fault SET_WALLPAPER_FAULT RF_FD_INPUT_FAILED s1)
      else case call_remote (m (map_of (fds s1) fd)) s1 of (code, s2) \<Rightarrow>
      (ConvertIntToErrorCode e code, os_close fd s2))"

definition Manager_SetWallpaper ::
  "mgr_env \<Rightarrow> 'r proxy \<Rightarrow> string \<Rightarrow> int32 \<Rightarrow> ApiInfo \<Rightarrow> 'r client \<Rightarrow> ErrorCode \<times> 'r client" where
  "Manager_SetWallpaper e px uri wallpaperType apiInfo s =
     (case GetService e s of
        (None, s1) \<Rightarrow> (E_DEAL_FAILED, s1)
      | (Some p, s1) \<Rightarrow>
      (case GetRealPath e (files s1) uri of
         None \<Rightarrow> (E_PARAMETERS_INVALID, s1)
       | Some fileRealPath \<Rightarrow>
      case CheckWallpaperFormat e fileRealPath False s1 of (format, s2) \<Rightarrow>
      if format \<noteq> E_OK then (format, s2)
      else case GetWallpaperSize e fileRealPath False s2 of (sizeCode, lenOut, s3) \<Rightarrow>
      if sizeCode \<noteq> E_OK then (sizeCode, s3)
      else let len = (case lenOut of Some n \<Rightarrow> n | None \<Rightarrow> 0) in
      case send_file e (\<lambda>f. if isSystemApi apiInfo then px_SetWallpaperV9 px f wallpaperType len
                            else px_SetWallpaper px f wallpaperType len) fileRealPath s3
      of (err, s4) \<Rightarrow>
      (err, if err = E_OK then CloseWallpaperFd wallpaperType s4 else s4)))"

definition Manager_SetWallpaperByPixelMap ::
  "mgr_env \<Rightarrow> 'r proxy \<Rightarrow> handle option \<Rightarrow> int32 \<Rightarrow> ApiInfo \<Rightarrow> 'r client \<Rightarrow> ErrorCode \<times> 'r client" where
  "Manager_SetWallpaperByPixelMap e px pixelMap wallpaperType apiInfo s =
     (case GetService e s of
        (None, s1) \<Rightarrow> (E_DEAL_FAILED, s1)
      | (Some p, s1) \<Rightarrow>
      (case pixelMap of
         None \<Rightarrow> (E_DEAL_FAILED, s1)
       | Some pm \<Rightarrow>
      (case EncodeTlv e pm of
         None \<Rightarrow> (E_DEAL_FAILED, s1)
       | Some bytes \<Rightarrow>
      case call_remote (if isSystemApi apiInfo then px_SetWallpaperV9ByPixelMap px bytes wallpaperType
                        else px_SetWallpaperByPixelMap px bytes wallpaperType) s1 of (code, s2) \<Rightarrow>
      let err = ConvertIntToErrorCode e code in
      (err, if err = E_OK then CloseWallpaperFd wallpaperType s2 else s2))))"

definition Manager_SetVideo ::
  "mgr_env \<Rightarrow> 'r proxy \<Rightarrow> string \<Rightarrow> int32 \<Rightarrow> 'r client \<Rightarrow> ErrorCode \<times> 'r client" where
  "Manager_SetVideo e px uri wallpaperType s =
     (case GetService e s of
        (None, s1) \<Rightarrow> (E_DEAL_FAILED, s1)
      | (Some p, s1) \<Rightarrow>
      (case GetRealPath e (files s1) uri of
         None \<Rightarrow> (E_PARAMETERS_INVALID, s1)
       | Some fileRealPath \<Rightarrow>
      case CheckWallpaperFormat e fileRealPath True s1 of (format, s2) \<Rightarrow>
      if format \<noteq> E_OK then (format, s2)
      else case GetWallpaperSize e fileRealPath True s2 of (sizeCode, lenOut, s3) \<Rightarrow>
      if sizeCode \<noteq> E_OK then (sizeCode, s3)
      else let len = (case lenOut of Some n \<Rightarrow> n | None \<Rightarrow> 0) in
      send_file e (\<lambda>f. px_SetVideo px f wallpaperType len) fileRealPath s3))"

definition Manager_SetCustomWallpaper ::
  "mgr_env \<Rightarrow> 'r proxy \<Rightarrow> string \<Rightarrow> int32 \<Rightarrow> 'r client \<Rightarrow> ErrorCode \<times> 'r client" where
  "Manager_SetCustomWallpaper e px uri wallpaperType s =
     (case GetService e s of
        (None, s1) \<Rightarrow> (E_DEAL_FAILED, s1)
      | (Some p, s1) \<Rightarrow>
      (case GetRealPath e (files s1) uri of
         None \<Rightarrow> (E_PARAMETERS_INVALID, s1)
       | Some fileRealPath \<Rightarrow>
      if \<not> IsZipFile (files s1) uri then (E_FILE_ERROR, s1)
      else case CheckWallpaperFormat e fileRealPath False s1 of (format, s2) \<Rightarrow>
      if format \<noteq> E_OK then (format, s2)
      else case GetWallpaperSize e fileRealPath False s2 of (sizeCode, lenOut, s3) \<Rightarrow>
      if sizeCode \<noteq> E_OK then (sizeCode, s3)
      else let len = (case lenOut of Some n \<Rightarrow> n | None \<Rightarrow> 0) in
      send_file e (\<lambda>f. px_SetCustomWallpaper px f wallpaperType len) fileRealPath s3))"

definition Manager_ResetWallpaper ::
  "mgr_env \<Rightarrow> 'r proxy \<Rightarrow> int32 \<Rightarrow> ApiInfo \<Rightarrow> 'r client \<Rightarrow> ErrorCode \<times> 'r client" where
  "Manager_ResetWallpaper e px wallpaperType apiInfo s =
     (case GetService e s of
        (None, s1) \<Rightarrow> (E_SA_DIED, s1)
      | (Some p, s1) \<Rightarrow>
      case call_remote (if isSystemApi apiInfo then px_ResetWallpaperV9 px wallpaperType
                        else px_ResetWallpaper px wallpaperType) s1 of (code, s2) \<Rightarrow>
      let err = ConvertIntToErrorCode e code in
      (err, if err = E_OK then CloseWallpaperFd wallpaperType s2 else s2))"

definition Manager_SendEvent ::
  "mgr_env \<Rightarrow> 'r proxy \<Rightarrow> string \<Rightarrow> 'r client \<Rightarrow> ErrorCode \<times> 'r client" where
  "Manager_SendEvent e px eventType s =
     (case GetService e s of
        (None, s1) \<Rightarrow> (E_DEAL_FAILED, s1)
      | (Some p, s1) \<Rightarrow>
      case call_remote (px_SendEvent px eventType) s1 of (code, s2) \<Rightarrow>
      (ConvertIntToErrorCode e code, s2))"

section \<open>Several pictures at once\<close>

text \<open>\<^verbatim>\<open>GetFdByPath\<close>: \<open>old\<close> is the picture of the previous iteration, whose fields stay when they
  are not assigned.\<close>

definition GetFdByPath ::
  "mgr_env \<Rightarrow> WallpaperInfo \<Rightarrow> WallpaperPictureInfo \<Rightarrow> string \<Rightarrow> 'r client
    \<Rightarrow> ErrorCode \<times> WallpaperPictureInfo \<times> 'r client" where
  "GetFdByPath e info old fileRealPath s =
     (case os_open_read e fileRealPath s of (fd, s1) \<Rightarrow>
      let pic = old\<lparr>foldState := info_foldState info, rotateState := info_rotateState info, pic_fd := fd\<rparr> in
      if fd < 0 then (E_FILE_ERROR, pic, mgr_fault SET_WALLPAPER_FAULT RF_FD_INPUT_FAILED s1)
      else case CheckWallpaperFormat e fileRealPath False s1 of (format, s2) \<Rightarrow>
      if format \<noteq> E_OK then (format, pic, os_close fd s2)
      else case GetWallpaperSize e fileRealPath False s2 of (sizeCode, lenOut, s3) \<Rightarrow>
      let pic' = (case lenOut of Some n \<Rightarrow> pic\<lparr>pic_length := n\<rparr> | None \<Rightarrow> pic) in
      if sizeCode \<noteq> E_OK then (sizeCode, pic', os_close fd s3)
      else (case SourceOfPath e fileRealPath of
              None \<Rightarrow> (E_PARAMETERS_INVALID, pic', os_close fd s3)
            | Some imageSource \<Rightarrow>
                if \<not> ImageInfoOk e imageSource then (E_PARAMETERS_INVALID, pic', os_close fd s3)
                else (sizeCode, pic', s3)))"

text \<open>The loop of \<^verbatim>\<open>SetAllWallpapers\<close>; it returns from the function at the first failure.\<close>

fun open_pictures ::
  "mgr_env \<Rightarrow> WallpaperInfo list \<Rightarrow> WallpaperPictureInfo \<Rightarrow> WallpaperPictureInfo list \<Rightarrow> 'r client
    \<Rightarrow> ErrorCode \<times> WallpaperPictureInfo list \<times> 'r client" where
  "open_pictures e [] old acc s = (E_OK, acc, s)"
| "open_pictures e (info # rest) old acc s =
     (case GetRealPath e (files s) (source info) of
        None \<Rightarrow> (E_PARAMETERS_INVALID, acc, s)
      | Some fileRealPath \<Rightarrow>
          (case GetFdByPath e info old fileRealPath s of (code, pic, s1) \<Rightarrow>
             if code \<noteq> E_OK then (code, acc, s1)
             else open_pictures e rest pic (acc @ [pic]) s1))"

definition blank_picture :: WallpaperPictureInfo where
  "blank_picture = \<lparr>foldState = NORMAL, rotateState = PORT, pic_fd = 0, pic_length = 0, tempPath = ''''\<rparr>"

definition Manager_SetAllWallpapers ::
  "mgr_env \<Rightarrow> 'r proxy \<Rightarrow> WallpaperInfo list \<Rightarrow> int32 \<Rightarrow> 'r client \<Rightarrow> ErrorCode \<times> 'r client" where
  "Manager_SetAllWallpapers e px infos wallpaperType s =
     (if infos = [] then (E_PARAMETERS_INVALID, s)
      else case GetService e s of
        (None, s1) \<Rightarrow> (E_DEAL_FAILED, s1)
      | (Some p, s1) \<Rightarrow>
      case open_pictures e infos blank_picture [] s1 of (code, pics, s2) \<Rightarrow>
      if code \<noteq> E_OK then (code, s2)
      else case call_remote (px_SetAllWallpapers px pics wallpaperType
                               (map (\<lambda>x. map_of (fds s2) (pic_fd x)) pics)) s2 of (ret, s3) \<Rightarrow>
      let err = ConvertIntToErrorCode e ret;
          s4 = (if err = E_OK then CloseWallpaperFd wallpaperType s3 else s3)
      in (err, Manager_CloseWallpaperInfoFd pics s4))"

section \<open>Reading wallpapers\<close>

text \<open>\<^verbatim>\<open>CreatePixelMapByFd\<close>: the buffer of the declared size comes uninitialised from the heap (\<open>HeapByte\<close>), and after a short
  read its tail goes to the decoder as it is. The code, the pixel map it assigned (\<open>None\<close>: not assigned), the
  process.\<close>

definition CreatePixelMapByFd ::
  "mgr_env \<Rightarrow> int \<Rightarrow> int32 \<Rightarrow> 'r client \<Rightarrow> ErrorCode \<times> handle option option \<times> 'r client" where
  "CreatePixelMapByFd e fd sz s =
     (if sz \<le> 0 \<or> sz > CLIENT_MAX_VIDEO_SIZE \<or> fd < 0 then (E_IMAGE_ERRCODE, None, s)
      else case os_read e fd (nat sz) s of (bytesRead, buf, s1) \<Rightarrow>
      if bytesRead < 0 then (E_IMAGE_ERRCODE, None, os_close fd s1)
      else let buffer = buf @ map (HeapByte e) [length buf ..< nat sz] in
      (case SourceOfBuffer e buffer of
              None \<Rightarrow> (E_IMAGE_ERRCODE, None, os_close fd s1)
            | Some imageSource \<Rightarrow>
                (case CreatePixelMapOf e imageSource of (ok, pm) \<Rightarrow>
                   if \<not> ok then (E_IMAGE_ERRCODE, Some pm, os_close fd s1)
                   else (E_OK, Some pm, os_close fd s1))))"

text \<open>What the two readers of pictures do with the answer of the service. The pixel map of the
  caller is set to null on every path that does not return an error of the service.\<close>

definition picture_of_answer ::
  "mgr_env \<Rightarrow> int32 \<Rightarrow> int32 option \<Rightarrow> ofd option \<Rightarrow> handle option \<Rightarrow> 'r client
    \<Rightarrow> ErrorCode \<times> handle option \<times> 'r client" where
  "picture_of_answer e code szOut f pixelMap s =
     (case install_fd (- 1) f s of (fd, s1) \<Rightarrow>
      let sz = (case szOut of Some n \<Rightarrow> n | None \<Rightarrow> 0);
          err = ConvertIntToErrorCode e code in
      if err \<noteq> E_OK then (err, pixelMap, s1)
      else if sz = 0 \<and> fd = - 1 then (E_OK, None, s1)
      else case CreatePixelMapByFd e fd sz s1 of (err', pm, s2) \<Rightarrow>
      if err' \<noteq> E_OK then (err', None, s2)
      else (err', (case pm of Some q \<Rightarrow> q | None \<Rightarrow> pixelMap), s2))"

definition Manager_GetPixelMap ::
  "mgr_env \<Rightarrow> 'r proxy \<Rightarrow> int32 \<Rightarrow> ApiInfo \<Rightarrow> handle option \<Rightarrow> 'r client
    \<Rightarrow> ErrorCode \<times> handle option \<times> 'r client" where
  "Manager_GetPixelMap e px wallpaperType apiInfo pixelMap s =
     (case GetService e s of
        (None, s1) \<Rightarrow> (E_SA_DIED, pixelMap, s1)
      | (Some p, s1) \<Rightarrow>
      case (if isSystemApi apiInfo then px_GetPixelMapV9 px wallpaperType (remote s1)
            else px_GetPixelMap px wallpaperType (remote s1)) of (code, sz, f, r) \<Rightarrow>
      picture_of_answer e code sz f pixelMap (s1\<lparr>remote := r\<rparr>))"

definition Manager_GetCorrespondWallpaper ::
  "mgr_env \<Rightarrow> 'r proxy \<Rightarrow> int32 \<Rightarrow> int32 \<Rightarrow> int32 \<Rightarrow> handle option \<Rightarrow> 'r client
    \<Rightarrow> ErrorCode \<times> handle option \<times> 'r client" where
  "Manager_GetCorrespondWallpaper e px wallpaperType foldSt rotateSt pixelMap s =
     (case GetService e s of
        (None, s1) \<Rightarrow> (E_SA_DIED, pixelMap, s1)
      | (Some p, s1) \<Rightarrow>
      case px_GetCorrespondWallpaper px wallpaperType foldSt rotateSt (remote s1) of (code, sz, f, r) \<Rightarrow>
      picture_of_answer e code sz f pixelMap (s1\<lparr>remote := r\<rparr>))"

definition Manager_GetColors ::
  "mgr_env \<Rightarrow> 'r proxy \<Rightarrow> int32 \<Rightarrow> ApiInfo \<Rightarrow> uint64 list \<Rightarrow> 'r client
    \<Rightarrow> ErrorCode \<times> uint64 list \<times> 'r client" where
  "Manager_GetColors e px wallpaperType apiInfo colors s =
     (case GetService e s of
        (None, s1) \<Rightarrow> (E_DEAL_FAILED, colors, s1)
      | (Some p, s1) \<Rightarrow>
      case (if isSystemApi apiInfo then px_GetColorsV9 px wallpaperType (remote s1)
            else px_GetColors px wallpaperType (remote s1)) of (code, cs, r) \<Rightarrow>
      (ConvertIntToErrorCode e code, (case cs of Some x \<Rightarrow> x | None \<Rightarrow> colors), s1\<lparr>remote := r\<rparr>))"

definition Manager_GetWallpaperId :: "mgr_env \<Rightarrow> 'r proxy \<Rightarrow> int32 \<Rightarrow> 'r client \<Rightarrow> int32 \<times> 'r client" where
  "Manager_GetWallpaperId e px wallpaperType s =
     (case GetService e s of
        (None, s1) \<Rightarrow> (- 1, s1)
      | (Some p, s1) \<Rightarrow> call_remote (px_GetWallpaperId px wallpaperType) s1)"

definition GetWallpaperMinHeight :: "mgr_env \<Rightarrow> ErrorCode \<times> int32 option" where
  "GetWallpaperMinHeight e =
     (case DefaultDisplay e of None \<Rightarrow> (E_DEAL_FAILED, None) | Some (w, h) \<Rightarrow> (E_OK, Some h))"

definition GetWallpaperMinWidth :: "mgr_env \<Rightarrow> ErrorCode \<times> int32 option" where
  "GetWallpaperMinWidth e =
     (case DefaultDisplay e of None \<Rightarrow> (E_DEAL_FAILED, None) | Some (w, h) \<Rightarrow> (E_OK, Some w))"

text \<open>A boolean question to the service: false when there is no service or it does not answer.\<close>

definition ask_service ::
  "mgr_env \<Rightarrow> ('r \<Rightarrow> bool option \<times> 'r) \<Rightarrow> 'r client \<Rightarrow> bool \<times> 'r client" where
  "ask_service e m s =
     (case GetService e s of
        (None, s1) \<Rightarrow> (False, s1)
      | (Some p, s1) \<Rightarrow> (case call_remote m s1 of (b, s2) \<Rightarrow> (b = Some True, s2)))"

definition Manager_IsChangePermitted :: "mgr_env \<Rightarrow> 'r proxy \<Rightarrow> 'r client \<Rightarrow> bool \<times> 'r client" where
  "Manager_IsChangePermitted e px s = ask_service e (px_IsChangePermitted px) s"

definition Manager_IsOperationAllowed :: "mgr_env \<Rightarrow> 'r proxy \<Rightarrow> 'r client \<Rightarrow> bool \<times> 'r client" where
  "Manager_IsOperationAllowed e px s = ask_service e (px_IsOperationAllowed px) s"

definition Manager_IsDefaultWallpaperResource ::
  "mgr_env \<Rightarrow> 'r proxy \<Rightarrow> int32 \<Rightarrow> int32 \<Rightarrow> 'r client \<Rightarrow> bool \<times> 'r client" where
  "Manager_IsDefaultWallpaperResource e px uid wallpaperType s =
     ask_service e (px_IsDefaultWallpaperResource px uid wallpaperType) s"

section \<open>Listeners\<close>

definition Manager_On ::
  "mgr_env \<Rightarrow> 'r proxy \<Rightarrow> string \<Rightarrow> handle option \<Rightarrow> 'r client \<Rightarrow> ErrorCode \<times> 'r client" where
  "Manager_On e px type listener s =
     (case GetService e s of
        (None, s1) \<Rightarrow> (E_SA_DIED, s1)
      | (Some p, s1) \<Rightarrow>
      if listener = None then (E_DEAL_FAILED, s1)
      else if \<not> NothrowOk e then (E_NO_MEMORY, s1)
      else let s2 = s1\<lparr>listenerMap := snd (InsertOrAssign type listener (listenerMap s1))\<rparr> in
      case call_remote (px_On px type listener) s2 of (code, s3) \<Rightarrow>
      (ConvertIntToErrorCode e code, s3))"

definition Manager_Off ::
  "mgr_env \<Rightarrow> 'r proxy \<Rightarrow> string \<Rightarrow> handle option \<Rightarrow> 'r client \<Rightarrow> ErrorCode \<times> 'r client" where
  "Manager_Off e px type listener s =
     (case GetService e s of
        (None, s1) \<Rightarrow> (E_SA_DIED, s1)
      | (Some p, s1) \<Rightarrow>
      if \<not> NothrowOk e then (E_NO_MEMORY, s1)
      else case call_remote (px_Off px type listener) s1 of (code, s2) \<Rightarrow>
      (ConvertIntToErrorCode e code, s2))"

definition SetCallback :: "handle option \<Rightarrow> 'r client \<Rightarrow> 'r client" where
  "SetCallback cb s = s\<lparr>jsCallback := cb\<rparr>"

definition Manager_RegisterWallpaperCallback ::
  "mgr_env \<Rightarrow> 'r proxy \<Rightarrow> handle option \<Rightarrow> 'r client \<Rightarrow> bool \<times> 'r client" where
  "Manager_RegisterWallpaperCallback e px callback s =
     (case GetService e (SetCallback callback s) of
        (None, s1) \<Rightarrow> (False, s1)
      | (Some p, s1) \<Rightarrow>
      if callback = None then (False, s1)
      else case call_remote (px_RegisterWallpaperCallback px) s1 of (b, s2) \<Rightarrow> (b = Some True, s2))"

fun register_listeners ::
  "mgr_env \<Rightarrow> 'r proxy \<Rightarrow> (string, handle option) stdmap \<Rightarrow> 'r client \<Rightarrow> bool \<times> 'r client" where
  "register_listeners e px [] s = (True, s)"
| "register_listeners e px ((type, l) # rest) s =
     (case call_remote (px_On px type l) s of (code, s1) \<Rightarrow>
        if ConvertIntToErrorCode e code \<noteq> E_OK then (False, s1)
        else register_listeners e px rest s1)"

definition RegisterWallpaperListener :: "mgr_env \<Rightarrow> 'r proxy \<Rightarrow> 'r client \<Rightarrow> bool \<times> 'r client" where
  "RegisterWallpaperListener e px s =
     (case GetService e s of
        (None, s1) \<Rightarrow> (False, s1)
      | (Some p, s1) \<Rightarrow> register_listeners e px (listenerMap s1) s1)"

text \<open>
  The death of the service: the do-while loop tries to register again at most ten times, half a
  second apart; \<open>es n\<close> is how the environment answers at attempt \<open>n\<close>.
\<close>

fun register_again ::
  "(nat \<Rightarrow> mgr_env) \<Rightarrow> 'r proxy \<Rightarrow> nat \<Rightarrow> nat \<Rightarrow> 'r client \<Rightarrow> bool \<times> nat \<times> 'r client" where
  "register_again es px tried 0 s = (False, tried, s)"
| "register_again es px tried (Suc left) s =
     (case RegisterWallpaperListener (es (Suc tried)) px s of (result, s1) \<Rightarrow>
        if result then (True, Suc tried, s1) else register_again es px (Suc tried) left s1)"

definition Manager_OnRemoteDied ::
  "(nat \<Rightarrow> mgr_env) \<Rightarrow> 'r proxy \<Rightarrow> handle \<Rightarrow> 'r client \<Rightarrow> bool \<times> nat \<times> 'r client" where
  "Manager_OnRemoteDied es px dead s =
     register_again es px 0 CLIENT_MAX_RETRY_TIMES (ResetService dead s)"

section \<open>The exported entry points\<close>

text \<open>\<^verbatim>\<open>wallpaper_manager_client.cpp\<close>: what other native components call.\<close>

definition Client_IsDefaultWallpaperResource ::
  "mgr_env \<Rightarrow> 'r proxy \<Rightarrow> int32 \<Rightarrow> int32 \<Rightarrow> 'r client \<Rightarrow> bool \<times> 'r client" where
  "Client_IsDefaultWallpaperResource e px uid wallpaperType s =
     Manager_IsDefaultWallpaperResource e px uid wallpaperType s"

definition Client_SetAllWallpapers ::
  "mgr_env \<Rightarrow> 'r proxy \<Rightarrow> WallpaperInfo list \<Rightarrow> int32 \<Rightarrow> 'r client \<Rightarrow> int32 \<times> 'r client" where
  "Client_SetAllWallpapers e px infos wallpaperType s =
     (case Manager_SetAllWallpapers e px infos wallpaperType s of (code, s1) \<Rightarrow>
        (ErrorCode_value (ErrOffset e) code, s1))"

section \<open>Lemmas\<close>

lemma GetService_frames [frame_simps]:
  "files (snd (GetService e s)) = files s" "fds (snd (GetService e s)) = fds s"
  "remote (snd (GetService e s)) = remote s" "wallpaperFdMap (snd (GetService e s)) = wallpaperFdMap s"
  "listenerMap (snd (GetService e s)) = listenerMap s" "jsCallback (snd (GetService e s)) = jsCallback s"
  by (simp_all add: GetService_def client_emit_def Let_def split: option.split)

lemma GetServiceD:
  assumes "GetService e s = (p, s1)"
  shows "files s1 = files s" "fds s1 = fds s" "remote s1 = remote s" "wallpaperFdMap s1 = wallpaperFdMap s"
    "listenerMap s1 = listenerMap s"
  using GetService_frames [of e s] assms by simp_all

lemma GetService_keeps: "fst (GetService e s) = wallpaperProxy (snd (GetService e s))"
  by (simp add: GetService_def client_emit_def Let_def split: option.split)

lemma mgr_fault_frames [frame_simps]:
  "files (mgr_fault a k s) = files s" "fds (mgr_fault a k s) = fds s"
  "remote (mgr_fault a k s) = remote s" "wallpaperFdMap (mgr_fault a k s) = wallpaperFdMap s"
  by (simp_all add: mgr_fault_def client_emit_def)

lemma call_remoteD:
  assumes "call_remote m s = (x, s1)"
  shows "files s1 = files s" "fds s1 = fds s" "wallpaperFdMap s1 = wallpaperFdMap s" "m (remote s) = (x, remote s1)"
    "listenerMap s1 = listenerMap s"
  using assms by (auto simp: call_remote_def split: prod.splits)

text \<open>Sending a file leaves the descriptors and the cached ones alone.\<close>

lemma os_close_opened:
  "os_open_read e p s = (fd, s1) \<Longrightarrow> fd \<ge> 0 \<Longrightarrow> AList.delete fd (fds s1) = fds s"
  using fresh_fd_fresh [of "fds s"]
  by (auto simp: os_open_read_def Let_def delete_idem split: option.splits if_splits)

lemma os_open_read_neg: "os_open_read e p s = (fd, s1) \<Longrightarrow> fd < 0 \<Longrightarrow> s1 = s"
  using fresh_fd_nonneg [of "fds s"]
  by (auto simp: os_open_read_def Let_def split: option.splits if_splits)

lemma os_open_read_rest:
  assumes "os_open_read e p (s :: 'r client) = (fd, s1)"
  shows "files s1 = files s" "remote s1 = remote s" "wallpaperFdMap s1 = wallpaperFdMap s"
    "wallpaperProxy s1 = wallpaperProxy s" "listenerMap s1 = listenerMap s"
  using assms by (auto simp: os_open_read_def Let_def split: option.splits if_splits)

lemma send_file_keeps:
  assumes "send_file e m p s = (c, s')"
  shows "fds s' = fds s" "files s' = files s" "wallpaperFdMap s' = wallpaperFdMap s"
proof -
  obtain fd s1 where opened: "os_open_read e p s = (fd, s1)" by fastforce
  obtain code s2 where called: "call_remote (m (map_of (fds s1) fd)) s1 = (code, s2)" by fastforce
  have "fds s' = fds s \<and> files s' = files s \<and> wallpaperFdMap s' = wallpaperFdMap s"
  proof (cases "fd < 0")
    case True
    with assms opened os_open_read_neg [OF opened] show ?thesis
      by (auto simp: send_file_def frame_simps)
  next
    case False
    with assms opened called call_remoteD [OF called] os_open_read_rest [OF opened]
      os_close_opened [OF opened]
    show ?thesis by (auto simp: send_file_def os_close_def)
  qed
  then show "fds s' = fds s" "files s' = files s" "wallpaperFdMap s' = wallpaperFdMap s" by simp_all
qed

lemma send_file_frames [frame_simps]:
  "fds (snd (send_file e m p s)) = fds s" "files (snd (send_file e m p s)) = files s"
  "wallpaperFdMap (snd (send_file e m p s)) = wallpaperFdMap s"
  using send_file_keeps [of e m p s] by (metis prod.collapse)+

text \<open>What \<^verbatim>\<open>CloseWallpaperFd\<close> leaves of the descriptors: all but the one cached for the type.\<close>

definition uncached :: "int32 \<Rightarrow> 'r client \<Rightarrow> (int \<times> ofd) list" where
  "uncached wt s =
     (case map_of (wallpaperFdMap s) wt of None \<Rightarrow> fds s | Some fd \<Rightarrow> AList.delete fd (fds s))"

lemma fds_CloseWallpaperFd: "fds (CloseWallpaperFd wt s) = uncached wt s"
proof -
  have "AList.delete fd (fds s) = fds s" if "map_of (fds s) fd = None" for fd
    using that by (intro delete_fresh) (simp add: map_of_eq_None_iff)
  then show ?thesis
    by (simp add: CloseWallpaperFd_def uncached_def os_close_def split: option.split)
qed

lemma files_CloseWallpaperFd [frame_simps]: "files (CloseWallpaperFd wt s) = files s"
  "remote (CloseWallpaperFd wt s) = remote s"
  by (simp_all add: CloseWallpaperFd_def os_close_def split: option.split)

lemma uncached_same: "fds s1 = fds s \<Longrightarrow> wallpaperFdMap s1 = wallpaperFdMap s \<Longrightarrow> uncached wt s1 = uncached wt s"
  by (simp add: uncached_def split: option.split)

lemma uncached_frames [frame_simps]:
  "uncached wt (snd (GetService e s)) = uncached wt s" "uncached wt (snd (send_file e m p s)) = uncached wt s"
  "uncached wt (snd (call_remote f s)) = uncached wt s"
  by (intro uncached_same; simp add: frame_simps call_remote_def split_beta)+

lemma uncached_remote [frame_simps]: "uncached wt (s\<lparr>remote := r\<rparr>) = uncached wt s"
  by (simp add: uncached_def split: option.split)

lemma Manager_SetWallpaper_fds:
  "fds (snd (Manager_SetWallpaper e px uri wt api s)) =
     (if fst (Manager_SetWallpaper e px uri wt api s) = E_OK then uncached wt s else fds s)"
  by (simp add: Manager_SetWallpaper_def Let_def split_beta frame_simps fds_CloseWallpaperFd split: option.split)

lemma Manager_fds:
  "fds (snd (Manager_SetWallpaperByPixelMap e px pm wt api s)) =
     (if fst (Manager_SetWallpaperByPixelMap e px pm wt api s) = E_OK then uncached wt s else fds s)"
  "fds (snd (Manager_ResetWallpaper e px wt api s)) =
     (if fst (Manager_ResetWallpaper e px wt api s) = E_OK then uncached wt s else fds s)"
  "fds (snd (Manager_SetVideo e px uri wt s)) = fds s"
  "fds (snd (Manager_SetCustomWallpaper e px uri wt s)) = fds s"
  "fds (snd (Manager_SendEvent e px ev s)) = fds s"
  by (simp_all add: Manager_SetWallpaperByPixelMap_def Manager_ResetWallpaper_def Manager_SetVideo_def
      Manager_SetCustomWallpaper_def Manager_SendEvent_def Let_def split_beta frame_simps
      fds_CloseWallpaperFd call_remote_def [where s = "snd (GetService e s)"] split: option.split)

lemma GetFdByPath_fds:
  assumes "GetFdByPath e info old p s = (c, pic, s1)"
  shows "if c = E_OK
    then 0 \<le> pic_fd pic \<and> pic_fd pic \<notin> fst ` set (fds s) \<and> (\<exists>f. fds s1 = (pic_fd pic, f) # fds s)
    else fds s1 = fds s"
proof -
  obtain fd s2 where opened: "os_open_read e p s = (fd, s2)" by fastforce
  show ?thesis
  proof (cases "fd < 0")
    case True
    with assms opened os_open_read_neg [OF opened] show ?thesis
      by (auto simp: GetFdByPath_def frame_simps Let_def)
  next
    case False
    obtain f where "fds s2 = (fd, f) # fds s" "fd \<notin> fst ` set (fds s)"
      using opened False fresh_fd_fresh [of "fds s"]
      by (auto simp: os_open_read_def Let_def split: option.splits if_splits)
    with assms opened False os_close_opened [OF opened] show ?thesis
      by (auto simp: GetFdByPath_def Let_def os_close_def delete_fresh
          split: option.splits prod.splits if_splits intro: rev_image_eqI)
  qed
qed

lemma open_pictures_fds:
  "open_pictures e infos old acc s = (c, pics, s') \<Longrightarrow>
     \<exists>opened fs. pics = acc @ opened \<and> fds s' = fs @ fds s \<and> map fst fs = rev (map pic_fd opened) \<and>
       (\<forall>x \<in> set opened. 0 \<le> pic_fd x \<and> pic_fd x \<notin> fst ` set (fds s)) \<and>
       (c = E_OK \<longrightarrow> length opened = length infos)"
proof (induction e infos old acc s rule: open_pictures.induct)
  case (2 e info rest old acc s)
  show ?case
  proof (cases "GetRealPath e (files s) (source info)")
    case (Some path)
    obtain code pic s1 where f: "GetFdByPath e info old path s = (code, pic, s1)"
      by (cases "GetFdByPath e info old path s")
    note g = GetFdByPath_fds [OF f]
    show ?thesis
    proof (cases "code = E_OK")
      case True
      with "2.prems" Some f have "open_pictures e rest pic (acc @ [pic]) s1 = (c, pics, s')" by simp
      from "2.IH" [OF Some f [symmetric] refl _ this] True obtain opened fs where
        o': "pics = (acc @ [pic]) @ opened" "fds s' = fs @ fds s1" "map fst fs = rev (map pic_fd opened)"
        "\<forall>x \<in> set opened. 0 \<le> pic_fd x \<and> pic_fd x \<notin> fst ` set (fds s1)"
        "c = E_OK \<longrightarrow> length opened = length rest" by auto
      from g True obtain g' where "fds s1 = (pic_fd pic, g') # fds s" by auto
      with o' g True show ?thesis
        by (intro exI [of _ "pic # opened"] exI [of _ "fs @ [(pic_fd pic, g')]"]) auto
    next
      case False
      with "2.prems" Some f g show ?thesis by auto
    qed
  qed (use "2.prems" in auto)
qed auto

lemma Manager_CloseWallpaperInfoFd_fds:
  "fds (Manager_CloseWallpaperInfoFd ps s) =
     fold (\<lambda>p tab. if 0 \<le> pic_fd p then AList.delete (pic_fd p) tab else tab) ps (fds s)"
  by (induction ps s rule: Manager_CloseWallpaperInfoFd.induct) (simp_all add: os_close_def)

lemma close_pictures:
  "(\<forall>x \<in> set ps. 0 \<le> pic_fd x) \<Longrightarrow>
     fold (\<lambda>p tab. if 0 \<le> pic_fd p then AList.delete (pic_fd p) tab else tab) ps tab
     = filter (\<lambda>x. fst x \<notin> pic_fd ` set ps) tab"
proof (induction ps arbitrary: tab)
  case (Cons p ps)
  then show ?case by (auto simp: AList.delete_eq intro!: filter_cong split: prod.splits)
qed simp

lemma GetFdByPath_fdMap: "wallpaperFdMap (snd (snd (GetFdByPath e info old p s))) = wallpaperFdMap s"
  using os_open_read_rest(3) [of e p s]
  by (cases "os_open_read e p s")
    (simp add: GetFdByPath_def Let_def split_beta frame_simps os_close_def split: option.split)

lemma open_pictures_fdMap: "open_pictures e infos old acc s = (c, pics, s') \<Longrightarrow> wallpaperFdMap s' = wallpaperFdMap s"
proof (induction e infos old acc s rule: open_pictures.induct)
  case (2 e info rest old acc s)
  show ?case
  proof (cases "GetRealPath e (files s) (source info)")
    case (Some path)
    obtain code pic s1 where f: "GetFdByPath e info old path s = (code, pic, s1)"
      by (cases "GetFdByPath e info old path s")
    with GetFdByPath_fdMap [of e info old path s] "2.prems" "2.IH" [OF Some f [symmetric] refl] Some
    show ?thesis by (auto split: if_splits)
  qed (use "2.prems" in auto)
qed auto

lemma Manager_SetAllWallpapers_run:
  assumes "Manager_SetAllWallpapers e px infos wt s = (c, s')" "infos \<noteq> []" "GetService e s = (Some p, s1)"
    and opened: "open_pictures e infos blank_picture [] s1 = (E_OK, pics, s2)"
  shows "fds s' = (if c = E_OK then uncached wt s else fds s)"
proof -
  note g = GetServiceD [OF assms(3)]
  obtain fs where fs: "fds s2 = fs @ fds s" "map fst fs = rev (map pic_fd pics)"
    "\<forall>x \<in> set pics. 0 \<le> pic_fd x \<and> pic_fd x \<notin> fst ` set (fds s)"
    using open_pictures_fds [OF opened] g(2) by auto
  have gone: "filter (\<lambda>x. fst x \<notin> pic_fd ` set pics) fs = []"
  proof -
    have "set (map fst fs) = pic_fd ` set pics" using fs(2) by simp
    then show ?thesis by (auto simp: filter_empty_conv)
  qed
  have kept: "filter (\<lambda>x. fst x \<notin> pic_fd ` set pics) tab = tab" if "fst ` set tab \<subseteq> fst ` set (fds s)" for tab :: "(int \<times> ofd) list"
  proof (rule filter_True, intro ballI notI)
    fix x
    assume "x \<in> set tab" "fst x \<in> pic_fd ` set pics"
    moreover have "fst x \<in> fst ` set (fds s)" using that \<open>x \<in> set tab\<close> by blast
    ultimately show False using fs(3) by (metis imageE)
  qed
  have sub: "fst ` set (AList.delete fd (fds s)) \<subseteq> fst ` set (fds s)" for fd
    by (auto simp: AList.delete_eq)
  have del: "filter (\<lambda>x. fst x \<notin> pic_fd ` set pics) (AList.delete fd (fds s2)) = AList.delete fd (fds s)" for fd
    using kept [OF sub] gone
    by (auto simp: fs(1) AList.delete_eq filter_empty_conv intro!: filter_cong)
  have close: "\<forall>x \<in> set pics. 0 \<le> pic_fd x" using fs(3) by blast
  have maps: "wallpaperFdMap s2 = wallpaperFdMap s"
    using open_pictures_fdMap [OF opened] g(4) by simp
  obtain ret s3 where called: "call_remote (px_SetAllWallpapers px pics wt
      (map (\<lambda>x. map_of (fds s2) (pic_fd x)) pics)) s2 = (ret, s3)" by fastforce
  note r = call_remoteD [OF called]
  show ?thesis
    using assms(1-3) opened called r gone kept [of "fds s"] del maps
    by (auto simp: Manager_SetAllWallpapers_def Let_def Manager_CloseWallpaperInfoFd_fds close_pictures [OF close]
        fds_CloseWallpaperFd uncached_def fs(1) split: option.splits)
qed

lemma CloseWallpaperFd_drops:
  "fds (CloseWallpaperFd wt s) = uncached wt s" "files (CloseWallpaperFd wt s) = files s"
  "remote (CloseWallpaperFd wt s) = remote s" "wallpaperProxy (CloseWallpaperFd wt s) = wallpaperProxy s"
proof -
  have "map_of (fds s) fd = None \<Longrightarrow> AList.delete fd (fds s) = fds s" for fd
    by (simp add: delete_idem map_of_eq_None_iff)
  then show "fds (CloseWallpaperFd wt s) = uncached wt s"
    by (simp add: CloseWallpaperFd_def uncached_def os_close_def split: option.split)
qed (simp_all add: CloseWallpaperFd_def os_close_def split: option.split)

lemma Convert_NO_ERROR [simp]:
  "ConvertIntToErrorCode m (ErrorCode_value (ErrOffset m) NO_ERROR) = E_OK"
  by (simp add: ConvertIntToErrorCode_def errorCodeMap_def)

section \<open>The service behind the proxy\<close>

text \<open>
  The proxy the interface definition \<^verbatim>\<open>IWallpaperService.idl\<close> stands for, over the model of the
  service: each method runs the handler of its name with the same arguments, a descriptor arrives
  as a new descriptor of the service, and the one a handler returns is duplicated before the
  service closes its own. The generated code that does this is not in the repository; nothing
  but the theorems about client and service together depends on this definition.
\<close>

definition with_fd :: "ofd option \<Rightarrow> (int \<Rightarrow> service \<Rightarrow> 'a \<times> service) \<Rightarrow> service \<Rightarrow> 'a \<times> service" where
  "with_fd f h r =
     (case f of None \<Rightarrow> h (- 1) r
      | Some x \<Rightarrow> (let fd = fresh_fd (fds r) in h fd (r\<lparr>fds := (fd, x) # fds r\<rparr>)))"

fun with_fds :: "ofd option list \<Rightarrow> int list \<Rightarrow> (int list \<Rightarrow> service \<Rightarrow> 'a \<times> service) \<Rightarrow> service \<Rightarrow> 'a \<times> service" where
  "with_fds [] acc h r = h acc r"
| "with_fds (f # fs) acc h r = with_fd f (\<lambda>fd. with_fds fs (acc @ [fd]) h) r"

definition answer :: "int \<Rightarrow> (service \<Rightarrow> ErrorCode \<times> service) \<Rightarrow> service \<Rightarrow> int32 \<times> service" where
  "answer off h r = (case h r of (c, r') \<Rightarrow> (ErrorCode_value off c, r'))"

definition answer_fd ::
  "int \<Rightarrow> (service \<Rightarrow> ErrorCode \<times> int32 option \<times> int option \<times> service) \<Rightarrow> service
    \<Rightarrow> int32 \<times> int32 option \<times> ofd option \<times> service" where
  "answer_fd off h r =
     (case h r of (c, sz, fd, r') \<Rightarrow>
        (ErrorCode_value off c, sz, (case fd of None \<Rightarrow> None | Some n \<Rightarrow> map_of (fds r') n),
         close_valid (case fd of Some n \<Rightarrow> n | None \<Rightarrow> DEFAULT_WALLPAPER_ID) r'))"

definition direct_proxy :: "int \<Rightarrow> env \<Rightarrow> service proxy" where
  "direct_proxy off e =
     \<lparr>px_SetWallpaper = \<lambda>f w n. with_fd f (\<lambda>fd. answer off (SetWallpaper e fd w n)),
      px_SetWallpaperV9 = \<lambda>f w n. with_fd f (\<lambda>fd. answer off (SetWallpaperV9 e fd w n)),
      px_SetWallpaperByPixelMap = \<lambda>b w. answer off (SetWallpaperByPixelMap e (Some b) w),
      px_SetWallpaperV9ByPixelMap = \<lambda>b w. answer off (SetWallpaperV9ByPixelMap e (Some b) w),
      px_SetAllWallpapers = \<lambda>ps w fs. with_fds fs [] (\<lambda>fdv. answer off (SetAllWallpapers e ps w fdv)),
      px_GetPixelMap = \<lambda>w. answer_fd off (GetPixelMap e w),
      px_GetPixelMapV9 = \<lambda>w. answer_fd off (GetPixelMapV9 e w),
      px_GetCorrespondWallpaper = \<lambda>w f r. answer_fd off (GetCorrespondWallpaper e w f r),
      px_GetColors = \<lambda>w r. (case GetColors w [] r of (c, cs) \<Rightarrow> (ErrorCode_value off c, Some cs, r)),
      px_GetColorsV9 = \<lambda>w r. (case GetColorsV9 e w [] r of (c, cs) \<Rightarrow> (ErrorCode_value off c, Some cs, r)),
      px_GetFile = \<lambda>w r. (case answer_fd off (\<lambda>r. case GetFile e w r of (c, fd, r') \<Rightarrow> (c, None, fd, r')) r
                         of (c, sz, f, r') \<Rightarrow> (c, f, r')),
      px_GetWallpaperId = \<lambda>w r. (GetWallpaperId e w r, r),
      px_IsChangePermitted = \<lambda>r. (Some (snd (IsChangePermitted e)), r),
      px_IsOperationAllowed = \<lambda>r. (Some (snd (IsOperationAllowed e)), r),
      px_ResetWallpaper = \<lambda>w. answer off (ResetWallpaper e w),
      px_ResetWallpaperV9 = \<lambda>w. answer off (ResetWallpaperV9 e w),
      px_On = \<lambda>ty l. answer off (On e ty l),
      px_Off = \<lambda>ty l. answer off (Off e ty l),
      px_RegisterWallpaperCallback = \<lambda>r. (case RegisterWallpaperCallback e (Some 1) r of (c, b, r') \<Rightarrow> (Some b, r')),
      px_SetVideo = \<lambda>f w n. with_fd f (\<lambda>fd. answer off (SetVideo e fd w n)),
      px_SetCustomWallpaper = \<lambda>f w n. with_fd f (\<lambda>fd. answer off (SetCustomWallpaper e fd w n)),
      px_SendEvent = \<lambda>ev. answer off (SendEvent e ev),
      px_IsDefaultWallpaperResource = \<lambda>u w r. (Some (snd (IsDefaultWallpaperResource e u w r)), r)\<rparr>"

section \<open>A sample client\<close>

definition sample_mgr :: mgr_env where
  "sample_mgr =
     \<lparr>opendir_ok = (\<lambda>_. True), mkdir_ok = (\<lambda>_. True), remove_ok = (\<lambda>_. True),
      rmdir_ok = (\<lambda>_. True), open_ok = (\<lambda>_. True), seek_ok = (\<lambda>_. True), flush_ok = (\<lambda>_. True),
      sync_ok = (\<lambda>_. True), copy_outcome_of = (\<lambda>_. Copied), read_max = (\<lambda>_ n. int n),
      write_max = (\<lambda>_ n. int n), alloc_ok = (\<lambda>_. True), realpath_of = (\<lambda>p. Some p),
      ErrOffset = 1000, LONG_MAX = 9223372036854775807, SamgrAvailable = True,
      CheckSystemAbility = Some 21, LoadSystemAbility = None, IsProxyObject = (\<lambda>_. True),
      AddDeathRecipientOk = (\<lambda>_. True), IfaceCast = Some, NothrowOk = True,
      EncodeTlv = (\<lambda>_. Some ''tlv''), HeapByte = (\<lambda>_. CHR 0x00), SourceOfBuffer = (\<lambda>b. Some (length b)),
      SourceOfPath = (\<lambda>_. Some 31), ImageInfoOk = (\<lambda>_. True),
      CreatePixelMapOf = (\<lambda>src. (True, Some (100 + src))), fstat_ok = (\<lambda>_. True),
      fclose_ok = (\<lambda>_. True), MetadataHelperOk = True, SetSourceOk = (\<lambda>_ _. True),
      MimeTypeOf = (\<lambda>_. Some ''video/mp4''), DurationOf = (\<lambda>_. Some (to_string 4294970296)),
      DefaultDisplay = Some (1080, 2340)\<rparr>"

definition sample_client :: "service client" where
  "sample_client =
     \<lparr>files = [([''a.jpg''], FileNode ''new picture''), ([''v.mp4''], FileNode ''video'')],
      fds = [(3, ReadFd ''x'')], wallpaperProxy = Some 21, deathRecipient = True,
      wallpaperFdMap = [(0, 3), (1, 8)], jsCallback = None,
      listenerMap = [(COLOR_CHANGE, Some 41), (WALLPAPER_CHANGE, Some 42)],
      remote = sample_service, client_effects = []\<rparr>"

section \<open>Properties\<close>

text \<open>C28: each error code of the service reaches the caller of the client library as itself, and
  success as \<^verbatim>\<open>E_OK\<close>, except that \<^verbatim>\<open>E_PICTURE_OVERSIZED\<close> arrives as \<^verbatim>\<open>E_UNKNOWN\<close>.\<close>

theorem codes_reach_the_caller:
  assumes "0 < ErrOffset e"
  shows "ConvertIntToErrorCode e (ErrorCode_value (ErrOffset e) c) =
    (if c = NO_ERROR then E_OK else if c = E_PICTURE_OVERSIZED then E_UNKNOWN else c)"
  using assms by (cases c) (simp_all add: ConvertIntToErrorCode_def errorCodeMap_def ErrorCode_value_def)

text \<open>C29: the client calls that change a wallpaper, but for the batch (C30), leave none of the descriptors and streams open that they open, on every
  path, also where the file is refused, cannot be measured, or is refused by the service. After a success,
  \<^verbatim>\<open>SetWallpaper\<close> with a path or a pixel map and \<^verbatim>\<open>ResetWallpaper\<close> close the descriptor \<^verbatim>\<open>GetFile\<close> handed out for the type
  before, and no other; \<^verbatim>\<open>SetVideo\<close> and \<^verbatim>\<open>SetCustomWallpaper\<close> leave it open also then. After a failure every
  descriptor is as before.\<close>

theorem senders_close_their_descriptors:
  "fds (snd (Manager_SetWallpaper e px uri wt api s)) =
     (if fst (Manager_SetWallpaper e px uri wt api s) = E_OK then uncached wt s else fds s) \<and>
   fds (snd (Manager_SetWallpaperByPixelMap e px pm wt api s)) =
     (if fst (Manager_SetWallpaperByPixelMap e px pm wt api s) = E_OK then uncached wt s else fds s) \<and>
   fds (snd (Manager_ResetWallpaper e px wt api s)) =
     (if fst (Manager_ResetWallpaper e px wt api s) = E_OK then uncached wt s else fds s) \<and>
   fds (snd (Manager_SetVideo e px uri wt s)) = fds s \<and>
   fds (snd (Manager_SetCustomWallpaper e px uri wt s)) = fds s"
  by (intro conjI Manager_SetWallpaper_fds Manager_fds)

text \<open>C30: a batch of pictures closes all its descriptors when every picture could be opened; when one
  could not, the call fails with its code and the pictures opened before it stay open.\<close>

theorem batch_descriptors:
  assumes "infos \<noteq> []" "GetService e s = (Some p, s1)"
    and "open_pictures e infos blank_picture [] s1 = (code, pics, s2)"
    and "Manager_SetAllWallpapers e px infos wt s = (c, s')"
  shows "if code = E_OK then fds s' = (if c = E_OK then uncached wt s else fds s)
    else c = code \<and> length (fds s') = length (fds s) + length pics"
proof (cases "code = E_OK")
  case True
  with Manager_SetAllWallpapers_run [OF assms(4,1,2)] assms(3) show ?thesis by simp
next
  case False
  obtain fs where "fds s2 = fs @ fds s" "map fst fs = rev (map pic_fd pics)"
    using open_pictures_fds [OF assms(3)] GetServiceD(2) [OF assms(2)] by auto
  then have "length (fds s2) = length (fds s) + length pics"
    by (metis add.commute length_append length_map length_rev)
  moreover have "c = code" "s' = s2"
    using assms False by (auto simp: Manager_SetAllWallpapers_def)
  ultimately show ?thesis using False by simp
qed

text \<open>The duration of a video is compared with five seconds only after it has been cut to 32 bits:
  a duration printed as \<open>n\<close> milliseconds is accepted exactly when \<open>n\<close> modulo \<open>2 ^ 32\<close>, read as
  a signed number, is between 0 and 5000.\<close>

theorem video_duration_is_cut:
  assumes "os_access (files s) p" "open_ok e p" "fstat_ok e p" "MetadataHelperOk e"
    and "SetSourceOk e p (int (length (file_content (files s) (comps p))))"
    and "MimeTypeOf e p = Some ''video/mp4''" "DurationOf e p = Some (to_string n)"
    and "0 \<le> n" "n \<le> LONG_MAX e"
  shows "fst (CheckVideoFormat e p s) \<longleftrightarrow> 0 \<le> wrap32 n \<and> wrap32 n \<le> 5000"
proof -
  have "list_all (\<lambda>c. (48 :: nat) \<le> of_char c \<and> of_char c \<le> (57 :: nat)) (nat_to_string (nat n))"
    using nat_to_string_chars [of _ "nat n"] by (fastforce simp: list_all_iff)
  then have "ConverString2Int e (to_string n) = wrap32 n"
    using assms(8,9) by (simp add: ConverString2Int_def to_string_def digits_value_nat_to_string)
  with assms show ?thesis
    by (auto simp: video_accepted_def MIN_TIME_def MAX_TIME_def)
qed

text \<open>A file descriptor handed out for a type replaces the one handed out before, which is closed;
  but when the earlier one was closed behind the library's back, the library keeps its number and
  does not remember the new one.\<close>

theorem GetFile_replaces_cached:
  assumes "GetService e s = (Some p, s1)" "px_GetFile px wt (remote s) = (code, Some f, r)"
    and "Manager_GetFile e px wt fd0 s = (E_OK, fd, s')"
  shows "case map_of (wallpaperFdMap s) wt of
      None \<Rightarrow> map_of (wallpaperFdMap s') wt = Some fd \<and> fds s' = (fd, f) # fds s
    | Some old \<Rightarrow>
        if map_of (fds s) old \<noteq> None
        then map_of (wallpaperFdMap s') wt = Some fd \<and> fds s' = (fd, f) # AList.delete old (fds s)
        else map_of (wallpaperFdMap s') wt = Some old \<and> fds s' = (fd, f) # fds s"
proof -
  note g = GetServiceD [OF assms(1)]
  have fresh: "fresh_fd tab \<noteq> - 1" for tab :: "(int \<times> ofd) list"
    using fresh_fd_nonneg [of tab] by linarith
  have r: "remote (CloseWallpaperFd wt s1) = remote s" using g by (simp add: frame_simps)
  show ?thesis
    using assms g r fresh
    by (auto simp: Manager_GetFile_def Let_def install_fd_def CloseWallpaperFd_def os_close_def
        Insert_def Erase_def split: option.splits if_splits)
qed

text \<open>The descriptor of a picture received from the service is closed after it was read, exactly
  when the size that came with it is positive and at most 100 MB; otherwise it stays open.\<close>

theorem received_picture_closed:
  "fds (snd (snd (picture_of_answer e code sz (Some f) pm s))) =
     (if ConvertIntToErrorCode e code = E_OK \<and> (\<exists>n. sz = Some n \<and> 0 < n \<and> n \<le> CLIENT_MAX_VIDEO_SIZE)
      then fds s else (fresh_fd (fds s), f) # fds s)"
proof -
  let ?s = "s\<lparr>fds := (fresh_fd (fds s), f) # fds s\<rparr>"
  have nn: "\<not> fresh_fd (fds s) < 0" "fresh_fd (fds s) \<noteq> - 1"
    using fresh_fd_nonneg [of "fds s"] by linarith+
  have closed: "AList.delete (fresh_fd (fds s)) (fds (snd (snd (os_read e (fresh_fd (fds s)) k ?s)))) = fds s" for k
    using delete_fresh [OF fresh_fd_fresh [of "fds s"]]
    by (simp add: os_read_def Let_def split: ofd.split)
  show ?thesis
  proof (cases sz)
    case None
    with nn show ?thesis
      by (simp add: picture_of_answer_def install_fd_def Let_def CreatePixelMapByFd_def)
  next
    case (Some n)
    obtain k buf s1 where rd: "os_read e (fresh_fd (fds s)) (nat n) ?s = (k, buf, s1)"
      by (cases "os_read e (fresh_fd (fds s)) (nat n) ?s")
    with closed [of "nat n"] have "AList.delete (fresh_fd (fds s)) (fds s1) = fds s" by simp
    with nn Some rd show ?thesis
      by (auto simp: picture_of_answer_def install_fd_def Let_def CreatePixelMapByFd_def os_close_def
          CLIENT_MAX_VIDEO_SIZE_def split: option.splits prod.splits)
  qed
qed

lemma register_again_bounds:
  "register_again es px tried left s = (ok, n, s') \<Longrightarrow>
     tried \<le> n \<and> n \<le> tried + left \<and> (\<not> ok \<longrightarrow> n = tried + left) \<and>
     (ok \<longrightarrow> tried < n \<and> (\<exists>s0. RegisterWallpaperListener (es n) px s0 = (True, s')))"
proof (induction es px tried left s rule: register_again.induct)
  case (2 es px tried left s)
  obtain result s1 where one: "RegisterWallpaperListener (es (Suc tried)) px s = (result, s1)" by fastforce
  show ?case
  proof (cases result)
    case True
    with "2.prems" one show ?thesis by auto
  next
    case False
    with "2.prems" one "2.IH" [OF one [symmetric]] show ?thesis by auto
  qed
qed simp

text \<open>After the death of the service the library tries at least once and at most ten times to
  register its listeners, and stops at the first success.\<close>

theorem reregistration_is_bounded:
  assumes "Manager_OnRemoteDied es px dead s = (ok, n, s')"
  shows "1 \<le> n \<and> n \<le> 10 \<and> (\<not> ok \<longrightarrow> n = 10) \<and>
    (ok \<longrightarrow> (\<exists>s0. RegisterWallpaperListener (es n) px s0 = (True, s')))"
  using register_again_bounds [of es px 0 CLIENT_MAX_RETRY_TIMES "ResetService dead s" ok n s'] assms
  by (auto simp: Manager_OnRemoteDied_def CLIENT_MAX_RETRY_TIMES_def)

section \<open>Witnesses\<close>

lemma sample_mgr_simps:
  "open_ok sample_mgr p" "seek_ok sample_mgr p" "fclose_ok sample_mgr p" "realpath_of sample_mgr p = Some p"
  "fstat_ok sample_mgr p" "ErrOffset sample_mgr = 1000" "MetadataHelperOk sample_mgr" "SetSourceOk sample_mgr p n"
  "read_max sample_mgr i k = int k" "SourceOfPath sample_mgr p = Some 31" "ImageInfoOk sample_mgr h"
  by (simp_all add: sample_mgr_def)

lemma sample_client_service: "GetService sample_mgr sample_client = (Some 21, sample_client)"
  by (simp add: GetService_def sample_client_def)

lemma sample_client_paths:
  "comps ''/a.jpg'' = [''a.jpg'']" "comps ''/b.jpg'' = [''b.jpg'']" "comps ''/v.mp4'' = [''v.mp4'']"
  by (simp_all add: comps_def)

theorem codes_reach_the_caller_witness:
  "ConvertIntToErrorCode sample_mgr 1017 = E_UNKNOWN \<and> ConvertIntToErrorCode sample_mgr 1010 = E_NO_PERMISSION"
  using codes_reach_the_caller [of sample_mgr E_PICTURE_OVERSIZED] codes_reach_the_caller [of sample_mgr E_NO_PERMISSION]
  by (simp add: sample_mgr_def ErrorCode_value_def)

text \<open>Two pictures, the second of which does not exist: the first descriptor stays open.\<close>

definition batch :: "WallpaperInfo list" where
  "batch = [\<lparr>info_foldState = NORMAL, info_rotateState = PORT, source = ''/a.jpg''\<rparr>,
            \<lparr>info_foldState = NORMAL, info_rotateState = LAND, source = ''/b.jpg''\<rparr>]"

theorem batch_descriptors_witness:
  "fst (Manager_SetAllWallpapers sample_mgr (direct_proxy 1000 sample_env) batch 0 sample_client)
     = E_PARAMETERS_INVALID \<and>
   length (fds (snd (Manager_SetAllWallpapers sample_mgr (direct_proxy 1000 sample_env) batch 0 sample_client)))
     = Suc (length (fds sample_client))"
proof -
  let ?r = "Manager_SetAllWallpapers sample_mgr (direct_proxy 1000 sample_env) batch 0 sample_client"
  have fresh: "fresh_fd [(3, ReadFd ''x'')] = 0" by (simp add: fresh_fd_def upt_rec)
  obtain pic s2 where "open_pictures sample_mgr batch blank_picture [] sample_client = (E_PARAMETERS_INVALID, [pic], s2)"
    by (simp add: batch_def GetRealPath_def sample_mgr_simps IsFileExist_def os_access_def lookup_path_def
        node_at_def sample_client_paths sample_client_def GetFdByPath_def os_open_read_def Let_def fresh
        wallpaper_format_def wallpaper_size_def file_content_def PATH_MAX_def INT32_MAX_def)
  from batch_descriptors [OF _ sample_client_service this, of "direct_proxy 1000 sample_env" 0 "fst ?r" "snd ?r"]
  show ?thesis by (simp add: batch_def)
qed

text \<open>A video of more than 49 days passes the test for five seconds.\<close>

theorem video_duration_is_cut_witness: "fst (CheckVideoFormat sample_mgr ''/v.mp4'' sample_client)"
proof -
  have "os_access (files sample_client) ''/v.mp4''"
    by (simp add: os_access_def lookup_path_def node_at_def sample_client_paths sample_client_def)
  from video_duration_is_cut [OF this, of sample_mgr 4294970296]
  show ?thesis by (simp add: sample_mgr_def wrap32_eq)
qed

text \<open>The cached descriptor 8 of the lock screen is not open any more.\<close>

theorem GetFile_replaces_cached_witness:
  "let px = (direct_proxy 1000 sample_env)\<lparr>px_GetFile := \<lambda>w r. (1000, Some (ReadFd ''p''), r)\<rparr>;
       s' = snd (snd (Manager_GetFile sample_mgr px 1 (- 1) sample_client))
   in map_of (wallpaperFdMap s') 1 = Some 8 \<and> fds s' = [(0, ReadFd ''p''), (3, ReadFd ''x'')]"
proof -
  let ?px = "(direct_proxy 1000 sample_env)\<lparr>px_GetFile := \<lambda>w r. (1000, Some (ReadFd ''p''), r)\<rparr>"
  have fresh: "fresh_fd [(3, ReadFd ''x'')] = 0" by (simp add: fresh_fd_def upt_rec)
  have ok: "ConvertIntToErrorCode sample_mgr 1000 = E_OK"
    by (simp add: ConvertIntToErrorCode_def errorCodeMap_def ErrorCode_value_def sample_mgr_simps)
  obtain s' where run: "Manager_GetFile sample_mgr ?px 1 (- 1) sample_client = (E_OK, 0, s')"
    by (simp add: Manager_GetFile_def sample_client_service CloseWallpaperFd_def install_fd_def Let_def ok)
      (simp add: sample_client_def fresh)
  have "px_GetFile ?px 1 (remote sample_client) = (1000, Some (ReadFd ''p''), remote sample_client)" by simp
  from GetFile_replaces_cached [OF sample_client_service this run] run show ?thesis
    by (simp add: Let_def) (simp add: sample_client_def)
qed

theorem received_picture_closed_witness:
  "fds (snd (snd (picture_of_answer sample_mgr 1000 (Some 104857601) (Some (ReadFd ''p'')) None sample_client)))
     = [(0, ReadFd ''p''), (3, ReadFd ''x'')]"
proof -
  have fresh: "fresh_fd [(3, ReadFd ''x'')] = 0" by (simp add: fresh_fd_def upt_rec)
  show ?thesis
    by (subst received_picture_closed) (simp add: CLIENT_MAX_VIDEO_SIZE_def sample_client_def fresh)
qed

theorem reregistration_is_bounded_witness:
  "fst (snd (Manager_OnRemoteDied (\<lambda>_. sample_mgr) (direct_proxy 1000 sample_env) 21 sample_client)) \<le> 10"
proof -
  obtain ok n s' where "Manager_OnRemoteDied (\<lambda>_. sample_mgr) (direct_proxy 1000 sample_env) 21 sample_client = (ok, n, s')"
    by (cases "Manager_OnRemoteDied (\<lambda>_. sample_mgr) (direct_proxy 1000 sample_env) 21 sample_client")
  with reregistration_is_bounded [OF this] show ?thesis by simp
qed

end
