(* ===== verification/Napi.thy ===== *)
theory Napi
  imports Manager
begin

text \<open>
  The JavaScript binding, \<^verbatim>\<open>frameworks/js/napi\<close>: reading and checking the arguments
  (\<^verbatim>\<open>napi_wallpaper_ability.cpp\<close>, \<^verbatim>\<open>wallpaper_js_util.cpp\<close>), the life of a call
  (\<^verbatim>\<open>call.cpp\<close>), what JavaScript learns of an error (\<^verbatim>\<open>js_error.cpp\<close>), the listeners and the
  table of the module (\<^verbatim>\<open>native_module.cpp\<close>).
\<close>

section \<open>N-API\<close>

text \<open>
  JavaScript values belong to the engine: \<open>'v\<close> is their type and \<open>napi\<close> the record of the
  engine's answers to the questions the binding asks (\<^verbatim>\<open>napi_typeof\<close>,
  \<^verbatim>\<open>napi_get_value_int32\<close>, ...; \<open>None\<close>: the status is not \<^verbatim>\<open>napi_ok\<close>), with the allocations and
  events that can fail and the colour library. Values the binding creates are \<open>js_out\<close>. The
  engine always hands over a receiver, and nothing cancels queued work.
\<close>

datatype napi_valuetype =
  napi_undefined | napi_null | napi_boolean | napi_number | napi_string | napi_object | napi_function

datatype napi_status =
  napi_ok | napi_invalid_arg | napi_number_expected | napi_generic_failure | napi_pending_exception

record 'v napi =
  n_typeof :: "'v \<Rightarrow> napi_valuetype"
  n_value_int32 :: "'v \<Rightarrow> int32 option"
  n_utf8_length :: "'v \<Rightarrow> nat option"
  n_utf8 :: "'v \<Rightarrow> nat \<Rightarrow> string option"
  n_is_array :: "'v \<Rightarrow> bool"
  n_array_length :: "'v \<Rightarrow> nat option"
  n_element :: "'v \<Rightarrow> nat \<Rightarrow> 'v option"
  n_property :: "'v \<Rightarrow> string \<Rightarrow> 'v option"
  n_pixel_map :: "'v \<Rightarrow> handle option"
  n_listener :: "'v \<Rightarrow> handle"
  n_new_ok :: bool
  n_array_ok :: bool
  n_send_event_ok :: bool
  n_scope_ok :: bool
  n_color :: "uint64 \<Rightarrow> int32 \<times> int32 \<times> int32 \<times> int32"
  n_unmarshal_refused :: ErrorCode

datatype js_out =
  JUndefined
| JInt int32
| JBool bool
| JString string
| JColors "(int32 \<times> int32 \<times> int32 \<times> int32) list"
| JPixelMap handle

section \<open>Errors\<close>

definition PARAMETER_ERROR_MESSAGE :: string where
  "PARAMETER_ERROR_MESSAGE = ''BusinessError 401: Parameter error.''"
definition PERMISSION_DENIED_MESSAGE :: string where
  "PERMISSION_DENIED_MESSAGE = ''BusinessError 201: Permission Denied.''"
definition PERMISSION_FAILED_MESSAGE :: string where
  "PERMISSION_FAILED_MESSAGE = ''BusinessError 202: Permission verification failed,'' @
     ''application which is not a system application uses system API.''"
definition PARAMETER_COUNT :: string where
  "PARAMETER_COUNT = ''Mandatory parameters are left unspecified.''"
definition WALLPAPERTYPE_PARAMETER_TYPE :: string where
  "WALLPAPERTYPE_PARAMETER_TYPE = ''The type must be WallpaperType, parameter range must be '' @
     ''WALLPAPER_LOCKSCREEN or WALLPAPER_SYSTEM.''"
definition FOLDSTATE_PARAMETER_TYPE :: string where
  "FOLDSTATE_PARAMETER_TYPE = ''The type must be FoldState, parameter range must be '' @
     ''NORMAL or UNFOLD_ONCE_STATE or UNFOLD_TWICE_STATE.''"
definition ROTATESTATE_PARAMETER_TYPE :: string where
  "ROTATESTATE_PARAMETER_TYPE = ''The type must be RotateState, parameter range must be '' @
     ''PORTRAIT or LANDSCAPE.''"
definition DYNAMIC_WALLPAPERTYPE_PARAMETER_TYPE :: string where
  "DYNAMIC_WALLPAPERTYPE_PARAMETER_TYPE = ''The dynamic wallpaper must be .mp4 or conform to the '' @
     ''video format requirements.''"

definition PERMISSION_ERROR :: int32 where "PERMISSION_ERROR = 201"
definition SYSTEM_APP_PERMISSION_ERROR :: int32 where "SYSTEM_APP_PERMISSION_ERROR = 202"
definition PARAMETER_ERROR :: int32 where "PARAMETER_ERROR = 401"

text \<open>\<^verbatim>\<open>JsErrorInfo\<close>: a code, 0 for none, and a message.\<close>

definition ConvertErrorCode :: "ErrorCode \<Rightarrow> int32 \<times> string" where
  "ConvertErrorCode wallpaperErrorCode =
     (case wallpaperErrorCode of
        E_PARAMETERS_INVALID \<Rightarrow> (PARAMETER_ERROR, PARAMETER_ERROR_MESSAGE)
      | E_NO_PERMISSION \<Rightarrow> (PERMISSION_ERROR, PERMISSION_DENIED_MESSAGE)
      | E_NOT_SYSTEM_APP \<Rightarrow> (SYSTEM_APP_PERMISSION_ERROR, PERMISSION_FAILED_MESSAGE)
      | _ \<Rightarrow> (0, ''''))"

section \<open>The context of a call\<close>

text \<open>
  The five context structures of \<^verbatim>\<open>napi_wallpaper_ability.h\<close> in one record: every call starts
  from \<open>new_ctx\<close> and uses the fields of its own structure.
\<close>

record ctx =
  ctx_wallpaperType :: int32
  ctx_foldState :: int32
  ctx_rotateState :: int32
  ctx_colors :: "uint64 list"
  ctx_wallpaperId :: int32
  ctx_eventType :: string
  ctx_result :: bool
  ctx_pixelMap :: "handle option"
  ctx_minHeight :: int32
  ctx_minWidth :: int32
  ctx_isChangePermitted :: bool
  ctx_isOperationAllowed :: bool
  ctx_uri :: string
  ctx_isPixelEmp :: bool
  ctx_infos :: "(int32 \<times> int32 \<times> string) list"
  ctx_wallpaperFd :: int
  ctx_status :: napi_status
  errCode :: int32
  errMsg :: string

definition new_ctx :: ctx where
  "new_ctx =
     \<lparr>ctx_wallpaperType = 0, ctx_foldState = 0, ctx_rotateState = 0, ctx_colors = [], ctx_wallpaperId = 0,
      ctx_eventType = '''', ctx_result = False, ctx_pixelMap = None, ctx_minHeight = 0, ctx_minWidth = 0,
      ctx_isChangePermitted = False, ctx_isOperationAllowed = False, ctx_uri = '''', ctx_isPixelEmp = False,
      ctx_infos = [], ctx_wallpaperFd = - 1, ctx_status = napi_generic_failure, errCode = 0, errMsg = ''''\<rparr>"

definition SetErrInfo :: "int32 \<Rightarrow> string \<Rightarrow> ctx \<Rightarrow> ctx" where
  "SetErrInfo code msg c = c\<lparr>errCode := code, errMsg := msg\<rparr>"

text \<open>The three actions of a call; \<^verbatim>\<open>nullptr\<close> is \<open>None\<close>.\<close>

type_synonym 'v input = "'v napi \<Rightarrow> 'v list \<Rightarrow> ctx \<Rightarrow> napi_status \<times> ctx"
type_synonym 'r exec = "ctx \<Rightarrow> 'r client \<Rightarrow> ctx \<times> 'r client"
type_synonym 'v producer = "'v napi \<Rightarrow> ctx \<Rightarrow> napi_status \<times> js_out option"

section \<open>Calls\<close>

text \<open>
  How a call ends: an exception before anything was queued, a settled promise, a call of the
  callback with an error and a result, or the value of a synchronous call (\<open>None\<close>: a null
  pointer, which JavaScript sees as undefined).
\<close>

datatype 'v outcome =
  Threw int32 string
| Resolved js_out
| Rejected "int32 option" string
| CalledBack 'v "(int32 option \<times> string) option" js_out
| Returned "js_out option"

text \<open>
  The constructor \<^verbatim>\<open>Call::Call\<close>: an argument at the position of the callback is taken off when
  it is a function and noted as an error when it is not; then the arguments are read. \<open>Inl\<close>: it
  threw.
\<close>

definition Call_make ::
  "'v napi \<Rightarrow> 'v list \<Rightarrow> 'v input option \<Rightarrow> nat \<Rightarrow> bool \<Rightarrow> (int32 \<times> string) + ('v option \<times> ctx)" where
  "Call_make n argv inp pos needExc =
     (case (if pos < length argv
            then if n_typeof n (argv ! pos) = napi_function
                 then (take pos argv, new_ctx, Some (argv ! pos))
                 else (argv, SetErrInfo PARAMETER_ERROR
                               (PARAMETER_ERROR_MESSAGE @ ''The type of valueType must be function.'') new_ctx, None)
            else (argv, new_ctx, None)) of (args, c, callback) \<Rightarrow>
      case (case inp of None \<Rightarrow> (napi_ok, c) | Some f \<Rightarrow> f n args c) of (st, c1) \<Rightarrow>
      if st \<noteq> napi_ok \<and> errCode c1 \<noteq> 0 \<and> needExc then Inl (errCode c1, errMsg c1)
      else Inr (callback, c1))"

definition ctx_output :: "'v napi \<Rightarrow> 'v producer option \<Rightarrow> ctx \<Rightarrow> napi_status \<times> js_out option" where
  "ctx_output n out c =
     (if ctx_status c \<noteq> napi_ok then (ctx_status c, None)
      else case out of None \<Rightarrow> (napi_ok, None) | Some f \<Rightarrow> f n c)"

definition OnComplete :: "'v napi \<Rightarrow> 'v producer option \<Rightarrow> 'v option \<Rightarrow> ctx \<Rightarrow> 'v outcome" where
  "OnComplete n out callback c =
     (case ctx_output n out c of (runStatus, res) \<Rightarrow>
      if runStatus = napi_ok
      then let data = (case res of Some x \<Rightarrow> x | None \<Rightarrow> JUndefined) in
           (case callback of None \<Rightarrow> Resolved data | Some cb \<Rightarrow> CalledBack cb None data)
      else let code = (if errCode c \<noteq> 0 then Some (errCode c) else None);
               msg = (if errMsg c \<noteq> '''' then errMsg c else ''async call failed'') in
           (case callback of None \<Rightarrow> Rejected code msg
            | Some cb \<Rightarrow> CalledBack cb (Some (code, msg)) JUndefined))"

text \<open>
  The work of an asynchronous call runs on another thread and its completion back on the
  JavaScript thread; the two are one step here, as the context belongs to the call alone.
\<close>

definition AsyncCall ::
  "'v napi \<Rightarrow> 'v list \<Rightarrow> 'v input option \<Rightarrow> 'r exec \<Rightarrow> 'v producer option \<Rightarrow> nat \<Rightarrow> bool \<Rightarrow> 'r client
    \<Rightarrow> 'v outcome \<times> 'r client" where
  "AsyncCall n argv inp ex out pos needExc s =
     (case Call_make n argv inp pos needExc of
        Inl (code, msg) \<Rightarrow> (Threw code msg, s)
      | Inr (callback, c) \<Rightarrow> (case ex c s of (c1, s1) \<Rightarrow> (OnComplete n out callback c1, s1)))"

definition SyncCall ::
  "'v napi \<Rightarrow> 'v list \<Rightarrow> 'v input option \<Rightarrow> 'r exec \<Rightarrow> 'v producer option \<Rightarrow> nat \<Rightarrow> bool \<Rightarrow> 'r client
    \<Rightarrow> 'v outcome \<times> 'r client" where
  "SyncCall n argv inp ex out pos needExc s =
     (case Call_make n argv inp pos needExc of
        Inl (code, msg) \<Rightarrow> (Threw code msg, s)
      | Inr (callback, c) \<Rightarrow>
          (case ex c s of (c1, s1) \<Rightarrow>
           case ctx_output n out c1 of (runStatus, res) \<Rightarrow>
           (if runStatus \<noteq> napi_ok \<and> errCode c1 \<noteq> 0 then Threw (errCode c1) (errMsg c1) else Returned res, s1)))"

section \<open>Converting values\<close>

definition MAX_LEN :: nat where "MAX_LEN = 4096"

definition Convert2String :: "'v napi \<Rightarrow> 'v \<Rightarrow> string" where
  "Convert2String n v =
     (let maxLen = (case n_utf8_length n v of None \<Rightarrow> MAX_LEN | Some l \<Rightarrow> l) in
      if maxLen = 0 then ''''
      else if \<not> n_new_ok n then ''''
      else (case n_utf8 n v (maxLen + 1) of None \<Rightarrow> '''' | Some buf \<Rightarrow> c_str buf))"

definition Convert2JSRgbaArray :: "'v napi \<Rightarrow> uint64 list \<Rightarrow> js_out option" where
  "Convert2JSRgbaArray n color = (if n_array_ok n then Some (JColors (map (n_color n) color)) else None)"

text \<open>The states are cast to their enumerations without a test; they stay integers here.\<close>

definition Convert2WallpaperInfo :: "'v napi \<Rightarrow> 'v \<Rightarrow> (int32 \<times> int32 \<times> string) option" where
  "Convert2WallpaperInfo n jsWallpaper =
     (case Option.bind (n_property n jsWallpaper ''foldState'') (n_value_int32 n) of
        None \<Rightarrow> None
      | Some foldSt \<Rightarrow>
     (case Option.bind (n_property n jsWallpaper ''rotateState'') (n_value_int32 n) of
        None \<Rightarrow> None
      | Some rotateSt \<Rightarrow>
     (case n_property n jsWallpaper ''source'' of
        None \<Rightarrow> None
      | Some v \<Rightarrow> Some (foldSt, rotateSt, Convert2String n v))))"

text \<open>The loop of \<^verbatim>\<open>Convert2WallpaperInfos\<close> over the indices; it appends to \<open>acc\<close>, also when a later
  element fails.\<close>

fun convert_infos ::
  "'v napi \<Rightarrow> 'v \<Rightarrow> nat list \<Rightarrow> (int32 \<times> int32 \<times> string) list \<Rightarrow> bool \<times> (int32 \<times> int32 \<times> string) list" where
  "convert_infos n v [] acc = (True, acc)"
| "convert_infos n v (i # is) acc =
     (case Option.bind (n_element n v i) (Convert2WallpaperInfo n) of
        None \<Rightarrow> (False, acc)
      | Some info \<Rightarrow> convert_infos n v is (acc @ [info]))"

definition Convert2WallpaperInfos ::
  "'v napi \<Rightarrow> 'v \<Rightarrow> (int32 \<times> int32 \<times> string) list \<Rightarrow> bool \<times> (int32 \<times> int32 \<times> string) list" where
  "Convert2WallpaperInfos n v acc =
     (case n_array_length n v of None \<Rightarrow> (False, acc) | Some l \<Rightarrow> convert_infos n v [0 ..< l] acc)"

section \<open>Checking arguments\<close>

definition IsValidArgCount :: "nat \<Rightarrow> nat \<Rightarrow> bool" where
  "IsValidArgCount argc expectationSize \<longleftrightarrow> argc \<ge> expectationSize"

definition IsValidArgType :: "'v napi \<Rightarrow> 'v \<Rightarrow> napi_valuetype \<Rightarrow> bool" where
  "IsValidArgType n v expectationType \<longleftrightarrow> n_typeof n v = expectationType"

definition IsValidArgRange :: "'v napi \<Rightarrow> 'v \<Rightarrow> bool" where
  "IsValidArgRange n v \<longleftrightarrow>
     (case n_value_int32 n v of
        None \<Rightarrow> False
      | Some t \<Rightarrow> \<not> (t \<noteq> WallpaperType_value WALLPAPER_LOCKSCREEN \<and> t \<noteq> WallpaperType_value WALLPAPER_SYSTEM))"

definition IsValidFoldStateRange :: "'v napi \<Rightarrow> 'v \<Rightarrow> bool" where
  "IsValidFoldStateRange n v \<longleftrightarrow>
     (case n_value_int32 n v of
        None \<Rightarrow> False
      | Some f \<Rightarrow> f = FoldState_value NORMAL \<or> f = FoldState_value UNFOLD_1 \<or> f = FoldState_value UNFOLD_2)"

definition IsValidRotateStateRange :: "'v napi \<Rightarrow> 'v \<Rightarrow> bool" where
  "IsValidRotateStateRange n v \<longleftrightarrow>
     (case n_value_int32 n v of
        None \<Rightarrow> False
      | Some r \<Rightarrow> r = RotateState_value PORT \<or> r = RotateState_value LAND)"

definition IsValidWallpaperInfos :: "'v napi \<Rightarrow> 'v \<Rightarrow> bool" where
  "IsValidWallpaperInfos n v \<longleftrightarrow>
     (case Convert2WallpaperInfos n v [] of (converted, infos) \<Rightarrow>
        converted \<and>
        list_ex (\<lambda>(f, r, src). f = FoldState_value NORMAL \<and> r = RotateState_value PORT) infos)"

text \<open>Refusing the arguments: error 401 with an explanation.\<close>

definition refuse :: "string \<Rightarrow> ctx \<Rightarrow> napi_status \<times> ctx" where
  "refuse why c = (napi_invalid_arg, SetErrInfo PARAMETER_ERROR (PARAMETER_ERROR_MESSAGE @ why) c)"

definition CheckValidArgWallpaperType :: "'v napi \<Rightarrow> 'v list \<Rightarrow> ctx \<Rightarrow> bool \<times> ctx" where
  "CheckValidArgWallpaperType n argv c =
     (if \<not> IsValidArgCount (length argv) 1 then (False, snd (refuse PARAMETER_COUNT c))
      else if \<not> IsValidArgType n (argv ! 0) napi_number \<or> \<not> IsValidArgRange n (argv ! 0)
      then (False, snd (refuse WALLPAPERTYPE_PARAMETER_TYPE c))
      else (True, c))"

text \<open>\<^verbatim>\<open>napi_get_value_int32(env, v, &context->wallpaperType)\<close> and returning its status.\<close>

definition read_type :: "'v napi \<Rightarrow> 'v \<Rightarrow> napi_status \<Rightarrow> ctx \<Rightarrow> napi_status \<times> ctx" where
  "read_type n v done_status c =
     (case n_value_int32 n v of
        None \<Rightarrow> (napi_number_expected, c)
      | Some t \<Rightarrow> (done_status, c\<lparr>ctx_wallpaperType := t\<rparr>))"

text \<open>The input action of \<^verbatim>\<open>GetColorsInner\<close>, \<^verbatim>\<open>GetIdInner\<close> and \<^verbatim>\<open>GetFileInner\<close>.\<close>

definition type_input :: "'v input" where
  "type_input n argv c =
     (case CheckValidArgWallpaperType n argv c of (valid, c1) \<Rightarrow>
      if \<not> valid then (napi_invalid_arg, c1) else read_type n (argv ! 0) napi_ok c1)"

definition RestoreInner_input :: "'v input" where
  "RestoreInner_input n argv c =
     (if \<not> IsValidArgCount (length argv) 1 then refuse PARAMETER_COUNT c
      else if \<not> IsValidArgType n (argv ! 0) napi_number then refuse WALLPAPERTYPE_PARAMETER_TYPE c
      else read_type n (argv ! 0) napi_pending_exception c)"

definition GetImageInner_input :: "'v input" where
  "GetImageInner_input n argv c =
     (if \<not> IsValidArgCount (length argv) 1 then refuse PARAMETER_COUNT c
      else if \<not> IsValidArgType n (argv ! 0) napi_number \<or> \<not> IsValidArgRange n (argv ! 0)
      then refuse WALLPAPERTYPE_PARAMETER_TYPE c
      else read_type n (argv ! 0) napi_ok c)"

definition GetCorrespondWallpaperInner_input :: "'v input" where
  "GetCorrespondWallpaperInner_input n argv c =
     (if \<not> IsValidArgCount (length argv) 3 then refuse PARAMETER_COUNT c
      else if \<not> IsValidArgType n (argv ! 0) napi_number \<or> \<not> IsValidArgRange n (argv ! 0)
      then refuse WALLPAPERTYPE_PARAMETER_TYPE c
      else if \<not> IsValidArgType n (argv ! 1) napi_number \<or> \<not> IsValidFoldStateRange n (argv ! 1)
      then refuse FOLDSTATE_PARAMETER_TYPE c
      else if \<not> IsValidArgType n (argv ! 2) napi_number \<or> \<not> IsValidRotateStateRange n (argv ! 2)
      then refuse ROTATESTATE_PARAMETER_TYPE c
      else let keep = (\<lambda>old v. case n_value_int32 n v of None \<Rightarrow> old | Some i \<Rightarrow> i) in
        (napi_ok, c\<lparr>ctx_wallpaperType := keep (ctx_wallpaperType c) (argv ! 0),
                   ctx_foldState := keep (ctx_foldState c) (argv ! 1),
                   ctx_rotateState := keep (ctx_rotateState c) (argv ! 2)\<rparr>))"

definition EVENTTYPESIZE :: nat where "EVENTTYPESIZE = 64"

definition SendEventInner_input :: "'v input" where
  "SendEventInner_input n argv c =
     (if \<not> IsValidArgCount (length argv) 2 then refuse PARAMETER_COUNT c
      else if \<not> IsValidArgType n (argv ! 0) napi_string \<or> \<not> IsValidArgType n (argv ! 1) napi_string
      then refuse ''The type must be string.'' c
      else (napi_ok, c\<lparr>ctx_eventType :=
              (case n_utf8 n (argv ! 0) EVENTTYPESIZE of None \<Rightarrow> '''' | Some buf \<Rightarrow> c_str buf)\<rparr>))"

definition SetVideoInner_input :: "'v input" where
  "SetVideoInner_input n argv c =
     (if \<not> IsValidArgCount (length argv) 2 then refuse PARAMETER_COUNT c
      else if \<not> IsValidArgType n (argv ! 0) napi_string \<or> \<not> IsValidArgType n (argv ! 1) napi_number
        \<or> \<not> IsValidArgRange n (argv ! 1)
      then refuse (''The first parameter type must be string, the second type must be WallpaperType''
             @ ''and parameter range must be WALLPAPER_LOCKSCREEN or WALLPAPER_SYSTEM.'') c
      else read_type n (argv ! 1) napi_ok (c\<lparr>ctx_uri := Convert2String n (argv ! 0)\<rparr>))"

definition SetImageInput :: "'v input" where
  "SetImageInput n argv c =
     (if \<not> IsValidArgCount (length argv) 2 then refuse PARAMETER_COUNT c
      else if (\<not> IsValidArgType n (argv ! 0) napi_string \<and> \<not> IsValidArgType n (argv ! 0) napi_object)
        \<or> \<not> IsValidArgType n (argv ! 1) napi_number
      then refuse (''The first parameter type must be string or image.PixelMap, the second type must be ''
             @ ''WallpaperTypeand parameter range must be WALLPAPER_LOCKSCREEN or WALLPAPER_SYSTEM.'') c
      else if n_typeof n (argv ! 0) = napi_string
      then read_type n (argv ! 1) napi_ok (c\<lparr>ctx_uri := Convert2String n (argv ! 0)\<rparr>)
      else (case n_pixel_map n (argv ! 0) of
              None \<Rightarrow> (napi_generic_failure, c\<lparr>ctx_isPixelEmp := True\<rparr>)
            | Some pm \<Rightarrow>
                read_type n (argv ! 1) napi_ok (c\<lparr>ctx_isPixelEmp := False, ctx_pixelMap := Some pm\<rparr>)))"

definition SetCustomWallpaper_input :: "'v input" where
  "SetCustomWallpaper_input n argv c =
     (if length argv < 2 then refuse PARAMETER_COUNT c
      else if \<not> IsValidArgType n (argv ! 0) napi_string \<or> \<not> IsValidArgType n (argv ! 1) napi_number
      then refuse (''The first parameter type must be string. the second type must be WallpaperType and''
             @ ''parameter range must be WALLPAPER_LOCKSCREEN or WALLPAPER_SYSTEM.'') c
      else read_type n (argv ! 1) napi_ok (c\<lparr>ctx_uri := Convert2String n (argv ! 0)\<rparr>))"

definition SetAllWallpapers_input :: "'v input" where
  "SetAllWallpapers_input n argv c =
     (if length argv < 2 then refuse PARAMETER_COUNT c
      else if \<not> IsValidArgType n (argv ! 0) napi_object \<or> \<not> IsValidArgType n (argv ! 1) napi_number
        \<or> \<not> IsValidArgRange n (argv ! 1) \<or> \<not> n_is_array n (argv ! 0)
      then refuse (''The first parameter type must be Array<WallpaperInfo>.''
             @ ''The second type must be WallpaperType.'') c
      else if \<not> IsValidWallpaperInfos n (argv ! 0)
      then refuse (''The first parameter type must be Array<WallpaperInfo>,''
             @ ''must include wallpaper with FoldState NORMAL and RotateState PORTRAIT.'') c
      else read_type n (argv ! 1) napi_ok
             (c\<lparr>ctx_infos := snd (Convert2WallpaperInfos n (argv ! 0) (ctx_infos c))\<rparr>))"

section \<open>Running a call\<close>

text \<open>What most execution actions do with an error code: a message is appended to that of error 401.\<close>

definition report :: "ErrorCode \<Rightarrow> string \<Rightarrow> ctx \<Rightarrow> ctx" where
  "report code hint c =
     (case ConvertErrorCode code of (k, msg) \<Rightarrow>
      if k = PARAMETER_ERROR then SetErrInfo k (msg @ hint) c else SetErrInfo k msg c)"

text \<open>The variant that records an error only when there is a code for it.\<close>

definition report_known :: "ErrorCode \<Rightarrow> ctx \<Rightarrow> ctx" where
  "report_known code c =
     (case ConvertErrorCode code of (k, msg) \<Rightarrow> if k \<noteq> 0 then SetErrInfo k msg c else c)"

definition GetColorsInner_exec :: "mgr_env \<Rightarrow> 'r proxy \<Rightarrow> ApiInfo \<Rightarrow> 'r exec" where
  "GetColorsInner_exec m px api c s =
     (case Manager_GetColors m px (ctx_wallpaperType c) api (ctx_colors c) s of (code, cols, s1) \<Rightarrow>
      let c1 = c\<lparr>ctx_colors := cols\<rparr> in
      if code = E_OK \<and> cols \<noteq> [] then (c1\<lparr>ctx_status := napi_ok\<rparr>, s1)
      else (if needException api then report_known code c1 else c1, s1))"

definition GetColorsInner_output :: "'v producer" where
  "GetColorsInner_output n c = (napi_ok, Convert2JSRgbaArray n (ctx_colors c))"

definition GetIdInner_exec :: "mgr_env \<Rightarrow> 'r proxy \<Rightarrow> 'r exec" where
  "GetIdInner_exec m px c s =
     (case Manager_GetWallpaperId m px (ctx_wallpaperType c) s of (i, s1) \<Rightarrow>
      (c\<lparr>ctx_wallpaperId := i, ctx_status := napi_ok\<rparr>, s1))"

definition GetIdInner_output :: "'v producer" where
  "GetIdInner_output n c = (napi_ok, Some (JInt (ctx_wallpaperId c)))"

definition GetFileInner_exec :: "mgr_env \<Rightarrow> 'r proxy \<Rightarrow> ApiInfo \<Rightarrow> 'r exec" where
  "GetFileInner_exec m px api c s =
     (case Manager_GetFile m px (ctx_wallpaperType c) (ctx_wallpaperFd c) s of (code, fd, s1) \<Rightarrow>
      let c1 = c\<lparr>ctx_wallpaperFd := fd\<rparr> in
      if code = E_OK \<and> fd \<ge> 0 then (c1\<lparr>ctx_status := napi_ok\<rparr>, s1)
      else (if needException api then report code WALLPAPERTYPE_PARAMETER_TYPE c1 else c1, s1))"

definition GetFileInner_output :: "'v producer" where
  "GetFileInner_output n c = (napi_ok, Some (JInt (ctx_wallpaperFd c)))"

definition GetMinHeightInner_exec :: "mgr_env \<Rightarrow> ApiInfo \<Rightarrow> 'r exec" where
  "GetMinHeightInner_exec m api c s =
     (case GetWallpaperMinHeight m of (code, h) \<Rightarrow>
      let c1 = (case h of Some x \<Rightarrow> c\<lparr>ctx_minHeight := x\<rparr> | None \<Rightarrow> c) in
      if code = E_OK \<and> ctx_minHeight c1 \<ge> 0 then (c1\<lparr>ctx_status := napi_ok\<rparr>, s)
      else (if needException api then report_known code c1 else c1, s))"

definition GetMinHeightInner_output :: "'v producer" where
  "GetMinHeightInner_output n c = (napi_ok, Some (JInt (ctx_minHeight c)))"

text \<open>Unlike its twin, this action goes on to the error code after a success.\<close>

definition GetMinWidthInner_exec :: "mgr_env \<Rightarrow> ApiInfo \<Rightarrow> 'r exec" where
  "GetMinWidthInner_exec m api c s =
     (case GetWallpaperMinWidth m of (code, w) \<Rightarrow>
      let c1 = (case w of Some x \<Rightarrow> c\<lparr>ctx_minWidth := x\<rparr> | None \<Rightarrow> c);
          c2 = (if code = E_OK \<and> ctx_minWidth c1 \<ge> 0 then c1\<lparr>ctx_status := napi_ok\<rparr> else c1) in
      (if needException api then report_known code c2 else c2, s))"

definition GetMinWidthInner_output :: "'v producer" where
  "GetMinWidthInner_output n c = (napi_ok, Some (JInt (ctx_minWidth c)))"

definition IsChangeAllowedInner_exec :: "mgr_env \<Rightarrow> 'r proxy \<Rightarrow> 'r exec" where
  "IsChangeAllowedInner_exec m px c s =
     (case Manager_IsChangePermitted m px s of (b, s1) \<Rightarrow>
      (c\<lparr>ctx_isChangePermitted := b, ctx_status := napi_ok\<rparr>, s1))"

definition IsChangeAllowedInner_output :: "'v producer" where
  "IsChangeAllowedInner_output n c = (napi_ok, Some (JBool (ctx_isChangePermitted c)))"

definition IsUserChangeAllowedInner_exec :: "mgr_env \<Rightarrow> 'r proxy \<Rightarrow> 'r exec" where
  "IsUserChangeAllowedInner_exec m px c s =
     (case Manager_IsOperationAllowed m px s of (b, s1) \<Rightarrow>
      (c\<lparr>ctx_isOperationAllowed := b, ctx_status := napi_ok\<rparr>, s1))"

definition IsUserChangeAllowedInner_output :: "'v producer" where
  "IsUserChangeAllowedInner_output n c = (napi_ok, Some (JBool (ctx_isOperationAllowed c)))"

definition RestoreInner_exec :: "mgr_env \<Rightarrow> 'r proxy \<Rightarrow> ApiInfo \<Rightarrow> 'r exec" where
  "RestoreInner_exec m px api c s =
     (case Manager_ResetWallpaper m px (ctx_wallpaperType c) api s of (code, s1) \<Rightarrow>
      let c1 = (if code = E_OK then c\<lparr>ctx_status := napi_ok\<rparr> else c) in
      (if needException api then report code WALLPAPERTYPE_PARAMETER_TYPE c1 else c1, s1))"

definition SendEventInner_exec :: "mgr_env \<Rightarrow> 'r proxy \<Rightarrow> 'r exec" where
  "SendEventInner_exec m px c s =
     (case Manager_SendEvent m px (ctx_eventType c) s of (code, s1) \<Rightarrow>
      if code = E_OK then (c\<lparr>ctx_status := napi_ok, ctx_result := True\<rparr>, s1)
      else (report code ''The eventType must be SHOW_SYSTEM_SCREEN or SHOW_LOCK_SCREEN.'' c, s1))"

definition SendEventInner_output :: "'v producer" where
  "SendEventInner_output n c = (napi_ok, Some (JBool (ctx_result c)))"

definition SetVideoInner_exec :: "mgr_env \<Rightarrow> 'r proxy \<Rightarrow> 'r exec" where
  "SetVideoInner_exec m px c s =
     (case Manager_SetVideo m px (ctx_uri c) (ctx_wallpaperType c) s of (code, s1) \<Rightarrow>
      if code = E_OK then (c\<lparr>ctx_status := napi_ok\<rparr>, s1)
      else (report code DYNAMIC_WALLPAPERTYPE_PARAMETER_TYPE c, s1))"

definition SetImageExec :: "mgr_env \<Rightarrow> 'r proxy \<Rightarrow> ApiInfo \<Rightarrow> 'r exec" where
  "SetImageExec m px api c s =
     (case (if ctx_uri c = ''''
            then (if \<not> ctx_isPixelEmp c
                  then Manager_SetWallpaperByPixelMap m px (ctx_pixelMap c) (ctx_wallpaperType c) api s
                  else (E_UNKNOWN, s))
            else Manager_SetWallpaper m px (ctx_uri c) (ctx_wallpaperType c) api s) of (code, s1) \<Rightarrow>
      let c1 = (if code = E_OK then c\<lparr>ctx_status := napi_ok\<rparr> else c) in
      (if needException api then report code DYNAMIC_WALLPAPERTYPE_PARAMETER_TYPE c1 else c1, s1))"

definition GetImageInner_exec :: "mgr_env \<Rightarrow> 'r proxy \<Rightarrow> ApiInfo \<Rightarrow> 'r exec" where
  "GetImageInner_exec m px api c s =
     (case Manager_GetPixelMap m px (ctx_wallpaperType c) api None s of (code, pm, s1) \<Rightarrow>
      if code = E_OK then (c\<lparr>ctx_status := napi_ok, ctx_pixelMap := pm\<rparr>, s1)
      else (if needException api then report code WALLPAPERTYPE_PARAMETER_TYPE c else c, s1))"

text \<open>\<^verbatim>\<open>PixelMapNapi::CreatePixelMap\<close> wraps the pixel map, null when there is none.\<close>

definition GetImageInner_output :: "'v producer" where
  "GetImageInner_output n c =
     (napi_ok, (case ctx_pixelMap c of None \<Rightarrow> None | Some pm \<Rightarrow> Some (JPixelMap pm)))"

definition GetCorrespondWallpaperInner_exec :: "mgr_env \<Rightarrow> 'r proxy \<Rightarrow> ApiInfo \<Rightarrow> 'r exec" where
  "GetCorrespondWallpaperInner_exec m px api c s =
     (case Manager_GetCorrespondWallpaper m px (ctx_wallpaperType c) (ctx_foldState c) (ctx_rotateState c) None s
      of (code, pm, s1) \<Rightarrow>
      if code = E_OK then (c\<lparr>ctx_status := napi_ok, ctx_pixelMap := pm\<rparr>, s1)
      else (if needException api
            then (case ConvertErrorCode code of (k, msg) \<Rightarrow> SetErrInfo k msg c) else c, s1))"

definition SetCustomWallpaper_exec :: "mgr_env \<Rightarrow> 'r proxy \<Rightarrow> 'r exec" where
  "SetCustomWallpaper_exec m px c s =
     (case Manager_SetCustomWallpaper m px (ctx_uri c) (ctx_wallpaperType c) s of (code, s1) \<Rightarrow>
      if code = E_OK then (c\<lparr>ctx_status := napi_ok\<rparr>, s1)
      else (report code WALLPAPERTYPE_PARAMETER_TYPE c, s1))"

text \<open>
  The pictures of a batch. A state outside its enumeration travels as an integer through the
  client library, which does not look at it, to the service, whose \<^verbatim>\<open>Unmarshalling\<close> refuses the
  list; the generated stub then answers \<open>n_unmarshal_refused\<close> without calling the handler.
\<close>

definition to_FoldState :: "int32 \<Rightarrow> FoldState option" where
  "to_FoldState f =
     (if f = 0 then Some NORMAL else if f = 1 then Some UNFOLD_1 else if f = 2 then Some UNFOLD_2 else None)"

definition to_RotateState :: "int32 \<Rightarrow> RotateState option" where
  "to_RotateState r = (if r = 0 then Some PORT else if r = 1 then Some LAND else None)"

definition to_info :: "int32 \<times> int32 \<times> string \<Rightarrow> WallpaperInfo" where
  "to_info i =
     (case i of (f, r, src) \<Rightarrow>
        \<lparr>info_foldState = (case to_FoldState f of Some x \<Rightarrow> x | None \<Rightarrow> NORMAL),
         info_rotateState = (case to_RotateState r of Some x \<Rightarrow> x | None \<Rightarrow> PORT), source = src\<rparr>)"

definition states_known :: "int32 \<times> int32 \<times> string \<Rightarrow> bool" where
  "states_known i = (case i of (f, r, src) \<Rightarrow> to_FoldState f \<noteq> None \<and> to_RotateState r \<noteq> None)"

definition SetAllWallpapers_exec :: "'v napi \<Rightarrow> mgr_env \<Rightarrow> 'r proxy \<Rightarrow> 'r exec" where
  "SetAllWallpapers_exec n m px c s =
     (let px' = (if list_all states_known (ctx_infos c) then px
                 else px\<lparr>px_SetAllWallpapers :=
                        (\<lambda>ps w fs r. (ErrorCode_value (ErrOffset m) (n_unmarshal_refused n), r))\<rparr>) in
      case Manager_SetAllWallpapers m px' (map to_info (ctx_infos c)) (ctx_wallpaperType c) s of (code, s1) \<Rightarrow>
      if code = E_OK then (c\<lparr>ctx_status := napi_ok\<rparr>, s1)
      else (case ConvertErrorCode code of (k, msg) \<Rightarrow> (SetErrInfo k msg c, s1)))"

section \<open>The functions of the module\<close>

definition legacy :: ApiInfo where "legacy = \<lparr>needException = False, isSystemApi = False\<rparr>"
definition system_api :: ApiInfo where "system_api = \<lparr>needException = True, isSystemApi = True\<rparr>"

type_synonym ('v, 'r) entry_point = "'v napi \<Rightarrow> mgr_env \<Rightarrow> 'r proxy \<Rightarrow> 'v list \<Rightarrow> 'r client \<Rightarrow> 'v outcome \<times> 'r client"

definition NAPI_GetColors :: "('v, 'r) entry_point" where
  "NAPI_GetColors n m px argv =
     AsyncCall n argv (Some type_input) (GetColorsInner_exec m px legacy) (Some GetColorsInner_output) 1 False"

definition NAPI_GetColorsSync :: "('v, 'r) entry_point" where
  "NAPI_GetColorsSync n m px argv =
     SyncCall n argv (Some type_input) (GetColorsInner_exec m px system_api) (Some GetColorsInner_output) 1 True"

definition NAPI_GetId :: "('v, 'r) entry_point" where
  "NAPI_GetId n m px argv =
     AsyncCall n argv (Some type_input) (GetIdInner_exec m px) (Some GetIdInner_output) 1 False"

definition NAPI_GetFile :: "('v, 'r) entry_point" where
  "NAPI_GetFile n m px argv =
     AsyncCall n argv (Some type_input) (GetFileInner_exec m px legacy) (Some GetFileInner_output) 1 False"

definition NAPI_GetMinHeight :: "('v, 'r) entry_point" where
  "NAPI_GetMinHeight n m px argv =
     AsyncCall n argv None (GetMinHeightInner_exec m legacy) (Some GetMinHeightInner_output) 0 False"

definition NAPI_GetMinHeightSync :: "('v, 'r) entry_point" where
  "NAPI_GetMinHeightSync n m px argv =
     SyncCall n argv None (GetMinHeightInner_exec m system_api) (Some GetMinHeightInner_output) 0 True"

definition NAPI_GetMinWidth :: "('v, 'r) entry_point" where
  "NAPI_GetMinWidth n m px argv =
     AsyncCall n argv None (GetMinWidthInner_exec m legacy) (Some GetMinWidthInner_output) 0 False"

definition NAPI_GetMinWidthSync :: "('v, 'r) entry_point" where
  "NAPI_GetMinWidthSync n m px argv =
     SyncCall n argv None (GetMinWidthInner_exec m system_api) (Some GetMinWidthInner_output) 0 True"

definition NAPI_IsChangePermitted :: "('v, 'r) entry_point" where
  "NAPI_IsChangePermitted n m px argv =
     AsyncCall n argv None (IsChangeAllowedInner_exec m px) (Some IsChangeAllowedInner_output) 0 False"

definition NAPI_IsOperationAllowed :: "('v, 'r) entry_point" where
  "NAPI_IsOperationAllowed n m px argv =
     AsyncCall n argv None (IsUserChangeAllowedInner_exec m px) (Some IsUserChangeAllowedInner_output) 0 False"

definition NAPI_Reset :: "('v, 'r) entry_point" where
  "NAPI_Reset n m px argv =
     AsyncCall n argv (Some RestoreInner_input) (RestoreInner_exec m px legacy) None 1 False"

definition NAPI_Restore :: "('v, 'r) entry_point" where
  "NAPI_Restore n m px argv =
     AsyncCall n argv (Some RestoreInner_input) (RestoreInner_exec m px system_api) None 1 True"

definition NAPI_SetWallpaper :: "('v, 'r) entry_point" where
  "NAPI_SetWallpaper n m px argv =
     AsyncCall n argv (Some SetImageInput) (SetImageExec m px legacy) None 2 False"

definition NAPI_SetImage :: "('v, 'r) entry_point" where
  "NAPI_SetImage n m px argv =
     AsyncCall n argv (Some SetImageInput) (SetImageExec m px system_api) None 2 True"

definition NAPI_SendEvent :: "('v, 'r) entry_point" where
  "NAPI_SendEvent n m px argv =
     AsyncCall n argv (Some SendEventInner_input) (SendEventInner_exec m px) (Some SendEventInner_output) 2 True"

definition NAPI_SetVideo :: "('v, 'r) entry_point" where
  "NAPI_SetVideo n m px argv =
     AsyncCall n argv (Some SetVideoInner_input) (SetVideoInner_exec m px) None 2 True"

definition NAPI_GetPixelMap :: "('v, 'r) entry_point" where
  "NAPI_GetPixelMap n m px argv =
     AsyncCall n argv (Some GetImageInner_input) (GetImageInner_exec m px legacy) (Some GetImageInner_output) 1 False"

definition NAPI_GetImage :: "('v, 'r) entry_point" where
  "NAPI_GetImage n m px argv =
     AsyncCall n argv (Some GetImageInner_input) (GetImageInner_exec m px system_api) (Some GetImageInner_output) 1 True"

definition NAPI_GetCorrespondWallpaper :: "('v, 'r) entry_point" where
  "NAPI_GetCorrespondWallpaper n m px argv =
     AsyncCall n argv (Some GetCorrespondWallpaperInner_input) (GetCorrespondWallpaperInner_exec m px system_api)
       (Some GetImageInner_output) 2 True"

definition NAPI_SetCustomWallpaper :: "('v, 'r) entry_point" where
  "NAPI_SetCustomWallpaper n m px argv =
     AsyncCall n argv (Some SetCustomWallpaper_input) (SetCustomWallpaper_exec m px) None 2 True"

definition NAPI_SetAllWallpapers :: "('v, 'r) entry_point" where
  "NAPI_SetAllWallpapers n m px argv =
     AsyncCall n argv (Some SetAllWallpapers_input) (SetAllWallpapers_exec n m px) None 2 True"

section \<open>Listeners\<close>

definition COLOR_CHANGE_EVENT :: string where "COLOR_CHANGE_EVENT = ''colorChange''"
definition WALLPAPER_CHANGE_EVENT :: string where "WALLPAPER_CHANGE_EVENT = ''wallpaperChange''"

text \<open>\<^verbatim>\<open>JsError::ThrowError\<close> with the message of an error code and an explanation.\<close>

definition throw_error :: "ErrorCode \<Rightarrow> string \<Rightarrow> 'v outcome" where
  "throw_error code why = (case ConvertErrorCode code of (k, msg) \<Rightarrow> Threw k (msg @ why))"

definition NAPI_On :: "('v, 'r) entry_point" where
  "NAPI_On n m px argv s =
     (if \<not> IsValidArgCount (length argv) 2 \<or> \<not> IsValidArgType n (argv ! 0) napi_string
        \<or> \<not> IsValidArgType n (argv ! 1) napi_function
      then (if IsValidArgCount (length argv) 1 \<and> IsValidArgType n (argv ! 0) napi_string
               \<and> Convert2String n (argv ! 0) = COLOR_CHANGE_EVENT
            then (Returned None, s)
            else (throw_error E_PARAMETERS_INVALID
                    (''The parameters must be two, the first parameters must be string, second parameter must be ''
                     @ ''function.''), s))
      else let type = Convert2String n (argv ! 0) in
      if type \<noteq> COLOR_CHANGE_EVENT \<and> type \<noteq> WALLPAPER_CHANGE_EVENT
      then (throw_error E_PARAMETERS_INVALID
              ''The first parameter type must be COLOR_CHANGE_EVENT and WALLPAPER_CHANGE_EVENT.'', s)
      else case Manager_On m px type (Some (n_listener n (argv ! 1))) s of (errorCode, s1) \<Rightarrow>
      if errorCode \<noteq> E_OK
      then (if type = COLOR_CHANGE_EVENT then (Returned None, s1) else (throw_error errorCode '''', s1))
      else (Returned (Some JUndefined), s1))"

definition NAPI_Off :: "('v, 'r) entry_point" where
  "NAPI_Off n m px argv s =
     (if \<not> IsValidArgCount (length argv) 1 \<or> \<not> IsValidArgType n (argv ! 0) napi_string
      then (throw_error E_PARAMETERS_INVALID ''Only one parameter and the type must be string.'', s)
      else let type = Convert2String n (argv ! 0) in
      if type \<noteq> COLOR_CHANGE_EVENT \<and> type \<noteq> WALLPAPER_CHANGE_EVENT
      then (throw_error E_PARAMETERS_INVALID
              ''The first parameter type must be COLOR_CHANGE_EVENT and WALLPAPER_CHANGE_EVENT.'', s)
      else if length argv \<ge> 2 \<and> \<not> IsValidArgType n (argv ! 1) napi_function
        \<and> \<not> IsValidArgType n (argv ! 1) napi_undefined \<and> \<not> IsValidArgType n (argv ! 1) napi_null
      then (throw_error E_PARAMETERS_INVALID
              ''The second parameter is neither a valid function type nor undefined or null.'', s)
      else let listener = (if length argv \<ge> 2 \<and> IsValidArgType n (argv ! 1) napi_function
                           then Some (n_listener n (argv ! 1)) else None) in
      case Manager_Off m px type listener s of (errorCode, s1) \<Rightarrow>
      if errorCode \<noteq> E_OK
      then (if type = COLOR_CHANGE_EVENT then (Returned None, s1) else (throw_error errorCode '''', s1))
      else (Returned (Some JUndefined), s1))"

text \<open>A notification: the calls of the JavaScript callback it leads to, with their arguments.\<close>

definition Napi_OnColorsChange ::
  "'v napi \<Rightarrow> handle \<Rightarrow> uint64 list \<Rightarrow> int32 \<Rightarrow> (handle \<times> js_out option list) list" where
  "Napi_OnColorsChange n listener color wallpaperType =
     (if \<not> n_new_ok n \<or> \<not> n_send_event_ok n \<or> \<not> n_scope_ok n then []
      else [(listener, [Convert2JSRgbaArray n color, Some (JInt wallpaperType)])])"

definition Napi_OnWallpaperChange ::
  "'v napi \<Rightarrow> handle \<Rightarrow> int32 \<Rightarrow> int32 \<Rightarrow> string \<Rightarrow> (handle \<times> js_out option list) list" where
  "Napi_OnWallpaperChange n listener wallpaperType resType uri =
     (if \<not> n_new_ok n \<or> \<not> n_send_event_ok n \<or> \<not> n_scope_ok n then []
      else [(listener, [Some (JInt wallpaperType), Some (JInt resType), Some (JString uri)])])"

section \<open>The module\<close>

text \<open>\<^verbatim>\<open>native_module.cpp\<close>: the enumerations and functions the module exports.\<close>

definition InitWallpaperType :: "(string \<times> int32) list" where
  "InitWallpaperType =
     [(''WALLPAPER_SYSTEM'', WallpaperType_value WALLPAPER_SYSTEM),
      (''WALLPAPER_LOCKSCREEN'', WallpaperType_value WALLPAPER_LOCKSCREEN)]"

definition InitWallpaperResourceType :: "(string \<times> int32) list" where
  "InitWallpaperResourceType =
     [(''DEFAULT'', WallpaperResourceType_value DEFAULT), (''PICTURE'', WallpaperResourceType_value PICTURE),
      (''VIDEO'', WallpaperResourceType_value VIDEO), (''PACKAGE'', WallpaperResourceType_value PACKAGE)]"

definition InitRotateState :: "(string \<times> int32) list" where
  "InitRotateState =
     [(''PORT'', RotateState_value PORT), (''PORTRAIT'', RotateState_value PORT),
      (''LAND'', RotateState_value LAND), (''LANDSCAPE'', RotateState_value LAND)]"

definition InitFoldState :: "(string \<times> int32) list" where
  "InitFoldState =
     [(''NORMAL'', FoldState_value NORMAL), (''UNFOLD_1'', FoldState_value UNFOLD_1),
      (''UNFOLD_ONCE_STATE'', FoldState_value UNFOLD_1), (''UNFOLD_2'', FoldState_value UNFOLD_2),
      (''UNFOLD_TWICE_STATE'', FoldState_value UNFOLD_2)]"

definition module_functions :: "(string \<times> ('v, 'r) entry_point) list" where
  "module_functions =
     [(''getColors'', NAPI_GetColors), (''getColorsSync'', NAPI_GetColorsSync), (''getId'', NAPI_GetId),
      (''getFile'', NAPI_GetFile), (''getMinHeight'', NAPI_GetMinHeight),
      (''getMinHeightSync'', NAPI_GetMinHeightSync), (''getMinWidth'', NAPI_GetMinWidth),
      (''getMinWidthSync'', NAPI_GetMinWidthSync), (''isChangePermitted'', NAPI_IsChangePermitted),
      (''isOperationAllowed'', NAPI_IsOperationAllowed), (''reset'', NAPI_Reset), (''restore'', NAPI_Restore),
      (''setWallpaper'', NAPI_SetWallpaper), (''setImage'', NAPI_SetImage), (''getPixelMap'', NAPI_GetPixelMap),
      (''getImage'', NAPI_GetImage), (''getCorrespondWallpaper'', NAPI_GetCorrespondWallpaper),
      (''getWallpaperByState'', NAPI_GetCorrespondWallpaper), (''on'', NAPI_On), (''off'', NAPI_Off),
      (''setVideo'', NAPI_SetVideo), (''sendEvent'', NAPI_SendEvent),
      (''setCustomWallpaper'', NAPI_SetCustomWallpaper), (''setAllWallpapers'', NAPI_SetAllWallpapers)]"

section \<open>Lemmas\<close>

text \<open>The position of the callback takes nothing from the arguments before it.\<close>

definition own_args :: "'v napi \<Rightarrow> nat \<Rightarrow> 'v list \<Rightarrow> 'v list" where
  "own_args n pos argv = (if pos < length argv \<and> n_typeof n (argv ! pos) = napi_function then take pos argv else argv)"

definition start_ctx :: "'v napi \<Rightarrow> nat \<Rightarrow> 'v list \<Rightarrow> ctx" where
  "start_ctx n pos argv =
     (if pos < length argv \<and> n_typeof n (argv ! pos) \<noteq> napi_function
      then SetErrInfo PARAMETER_ERROR (PARAMETER_ERROR_MESSAGE @ ''The type of valueType must be function.'') new_ctx
      else new_ctx)"

definition given_callback :: "'v napi \<Rightarrow> nat \<Rightarrow> 'v list \<Rightarrow> 'v option" where
  "given_callback n pos argv =
     (if pos < length argv \<and> n_typeof n (argv ! pos) = napi_function then Some (argv ! pos) else None)"

lemma Call_make_eq:
  "Call_make n argv inp pos needExc =
     (case (case inp of None \<Rightarrow> (napi_ok, start_ctx n pos argv)
            | Some f \<Rightarrow> f n (own_args n pos argv) (start_ctx n pos argv)) of (st, c) \<Rightarrow>
      if st \<noteq> napi_ok \<and> errCode c \<noteq> 0 \<and> needExc then Inl (errCode c, errMsg c)
      else Inr (given_callback n pos argv, c))"
  by (cases "pos < length argv"; cases "n_typeof n (argv ! pos) = napi_function")
    (simp_all add: Call_make_def own_args_def start_ctx_def given_callback_def split: option.split prod.split)

lemma own_args_nth: "i < pos \<Longrightarrow> i < length (own_args n pos argv) \<longleftrightarrow> i < length argv"
  "i < pos \<Longrightarrow> i < length argv \<Longrightarrow> own_args n pos argv ! i = argv ! i"
  by (simp_all add: own_args_def)

lemma refusal_throws:
  assumes "inp n (own_args n pos argv) (start_ctx n pos argv) = refuse why c"
  shows "AsyncCall n argv (Some inp) ex out pos True s = (Threw 401 (PARAMETER_ERROR_MESSAGE @ why), s)"
    "SyncCall n argv (Some inp) ex out pos True s = (Threw 401 (PARAMETER_ERROR_MESSAGE @ why), s)"
  using assms
  by (simp_all add: AsyncCall_def SyncCall_def Call_make_eq refuse_def SetErrInfo_def PARAMETER_ERROR_def)

text \<open>An argument that is a \<^verbatim>\<open>WallpaperType\<close>.\<close>

definition type_arg :: "'v napi \<Rightarrow> 'v list \<Rightarrow> nat \<Rightarrow> bool" where
  "type_arg n argv i \<longleftrightarrow> i < length argv \<and> n_typeof n (argv ! i) = napi_number \<and>
     (n_value_int32 n (argv ! i) = Some 0 \<or> n_value_int32 n (argv ! i) = Some 1)"

lemma IsValidArgRange_eq: "IsValidArgRange n v \<longleftrightarrow> n_value_int32 n v = Some 0 \<or> n_value_int32 n v = Some 1"
  by (auto simp: IsValidArgRange_def WallpaperType_value_def split: option.splits)

lemma type_arg_own: "i < pos \<Longrightarrow> type_arg n (own_args n pos argv) i \<longleftrightarrow> type_arg n argv i"
  using own_args_nth [where i = i and pos = pos and n = n and argv = argv] by (auto simp: type_arg_def)

lemma type_inputs_refuse:
  "\<not> type_arg n args 0 \<Longrightarrow> \<exists>why c'. type_input n args c = refuse why c'"
  "\<not> type_arg n args 0 \<Longrightarrow> \<exists>why c'. GetImageInner_input n args c = refuse why c'"
  "\<not> type_arg n args 0 \<Longrightarrow> \<exists>why c'. GetCorrespondWallpaperInner_input n args c = refuse why c'"
  "\<not> type_arg n args 1 \<Longrightarrow> \<exists>why c'. SetVideoInner_input n args c = refuse why c'"
  "\<not> type_arg n args 1 \<Longrightarrow> \<exists>why c'. SetAllWallpapers_input n args c = refuse why c'"
  by (auto simp: type_arg_def type_input_def CheckValidArgWallpaperType_def GetImageInner_input_def
      GetCorrespondWallpaperInner_input_def SetVideoInner_input_def SetAllWallpapers_input_def IsValidArgCount_def
      IsValidArgType_def IsValidArgRange_eq refuse_def)

lemma refused_type_throws:
  assumes refuses: "\<And>args c. \<not> type_arg n args i \<Longrightarrow> \<exists>why c'. inp n args c = refuse why c'"
    and "i < pos" "\<not> type_arg n argv i"
  shows "\<exists>why. AsyncCall n argv (Some inp) ex out pos True s = (Threw 401 (PARAMETER_ERROR_MESSAGE @ why), s)"
    "\<exists>why. SyncCall n argv (Some inp) ex out pos True s = (Threw 401 (PARAMETER_ERROR_MESSAGE @ why), s)"
proof -
  have "\<not> type_arg n (own_args n pos argv) i" using assms(2,3) type_arg_own by blast
  then obtain why c' where r: "inp n (own_args n pos argv) (start_ctx n pos argv) = refuse why c'"
    using refuses by blast
  show "\<exists>why. AsyncCall n argv (Some inp) ex out pos True s = (Threw 401 (PARAMETER_ERROR_MESSAGE @ why), s)"
    using refusal_throws(1) [where inp = inp, OF r] by blast
  show "\<exists>why. SyncCall n argv (Some inp) ex out pos True s = (Threw 401 (PARAMETER_ERROR_MESSAGE @ why), s)"
    using refusal_throws(2) [where inp = inp, OF r] by blast
qed

text \<open>How a promise of a setter is settled.\<close>

definition settled :: "ErrorCode \<Rightarrow> string \<Rightarrow> 'v outcome" where
  "settled code hint =
     (case code of
        E_OK \<Rightarrow> Resolved JUndefined
      | E_PARAMETERS_INVALID \<Rightarrow> Rejected (Some 401) (PARAMETER_ERROR_MESSAGE @ hint)
      | E_NO_PERMISSION \<Rightarrow> Rejected (Some 201) PERMISSION_DENIED_MESSAGE
      | E_NOT_SYSTEM_APP \<Rightarrow> Rejected (Some 202) PERMISSION_FAILED_MESSAGE
      | _ \<Rightarrow> Rejected None ''async call failed'')"

lemmas call_defs = AsyncCall_def Call_make_def new_ctx_def IsValidArgCount_def IsValidArgType_def IsValidArgRange_eq
  read_type_def SetErrInfo_def OnComplete_def ctx_output_def report_def ConvertErrorCode_def
  PARAMETER_ERROR_def PERMISSION_ERROR_def SYSTEM_APP_PERMISSION_ERROR_def PERMISSION_DENIED_MESSAGE_def
  PERMISSION_FAILED_MESSAGE_def PARAMETER_ERROR_MESSAGE_def system_api_def Let_def

lemma setImage_call:
  assumes "n_typeof n u = napi_string" "Convert2String n u \<noteq> ''''"
    and "n_typeof n t = napi_number" "n_value_int32 n t = Some w" "w = 0 \<or> w = 1"
  shows "NAPI_SetImage n m px [u, t] s =
      (settled (fst (Manager_SetWallpaper m px (Convert2String n u) w system_api s)) DYNAMIC_WALLPAPERTYPE_PARAMETER_TYPE,
       snd (Manager_SetWallpaper m px (Convert2String n u) w system_api s))"
  using assms
  by (simp add: NAPI_SetImage_def SetImageInput_def SetImageExec_def call_defs settled_def split_beta
      split: ErrorCode.split)

lemma setVideo_call:
  assumes "n_typeof n u = napi_string"
    and "n_typeof n t = napi_number" "n_value_int32 n t = Some w" "w = 0 \<or> w = 1"
  shows "NAPI_SetVideo n m px [u, t] s =
      (settled (fst (Manager_SetVideo m px (Convert2String n u) w s)) DYNAMIC_WALLPAPERTYPE_PARAMETER_TYPE,
       snd (Manager_SetVideo m px (Convert2String n u) w s))"
  using assms
  by (simp add: NAPI_SetVideo_def SetVideoInner_input_def SetVideoInner_exec_def call_defs settled_def split_beta
      split: ErrorCode.split)

lemma setCustomWallpaper_call:
  assumes "n_typeof n u = napi_string" "n_typeof n t = napi_number" "n_value_int32 n t = Some w"
  shows "NAPI_SetCustomWallpaper n m px [u, t] s =
      (settled (fst (Manager_SetCustomWallpaper m px (Convert2String n u) w s)) WALLPAPERTYPE_PARAMETER_TYPE,
       snd (Manager_SetCustomWallpaper m px (Convert2String n u) w s))"
  using assms
  by (simp add: NAPI_SetCustomWallpaper_def SetCustomWallpaper_input_def SetCustomWallpaper_exec_def call_defs settled_def
      split_beta split: ErrorCode.split)

lemma restore_call:
  assumes "n_typeof n t = napi_number" "n_value_int32 n t = Some w"
  shows "NAPI_Restore n m px [t] s =
      (settled (fst (Manager_ResetWallpaper m px w system_api s)) WALLPAPERTYPE_PARAMETER_TYPE,
       snd (Manager_ResetWallpaper m px w system_api s))"
  using assms
  by (simp add: NAPI_Restore_def RestoreInner_input_def RestoreInner_exec_def call_defs settled_def split_beta
      split: ErrorCode.split)

text \<open>With an object: its pixel map is sent, and an object without one is refused without asking the service.\<close>

lemma setImage_object_call:
  assumes "n_typeof n u = napi_object" and "n_typeof n t = napi_number" "n_value_int32 n t = Some w"
  shows "NAPI_SetImage n m px [u, t] s =
      (case n_pixel_map n u of
         None \<Rightarrow> (settled E_UNKNOWN DYNAMIC_WALLPAPERTYPE_PARAMETER_TYPE, s)
       | Some pm \<Rightarrow>
           (settled (fst (Manager_SetWallpaperByPixelMap m px (Some pm) w system_api s)) DYNAMIC_WALLPAPERTYPE_PARAMETER_TYPE,
            snd (Manager_SetWallpaperByPixelMap m px (Some pm) w system_api s)))"
proof (cases "n_pixel_map n u")
  case None
  then show ?thesis
    using assms by (simp add: NAPI_SetImage_def SetImageInput_def SetImageExec_def call_defs settled_def)
next
  case (Some pm)
  obtain code s1 where run: "Manager_SetWallpaperByPixelMap m px (Some pm) w system_api s = (code, s1)" by fastforce
  then show ?thesis
    using assms Some
    by (cases code) (simp_all add: NAPI_SetImage_def SetImageInput_def SetImageExec_def call_defs settled_def)
qed

text \<open>A batch as the JavaScript engine holds it.\<close>

definition js_infos :: "(FoldState \<times> RotateState \<times> string) list \<Rightarrow> (int32 \<times> int32 \<times> string) list" where
  "js_infos l = map (\<lambda>(f, r, src). (FoldState_value f, RotateState_value r, src)) l"

lemma js_infos_simps:
  "list_all states_known (js_infos l)"
  "map to_info (js_infos l) = map (\<lambda>(f, r, src). \<lparr>info_foldState = f, info_rotateState = r, source = src\<rparr>) l"
  "list_ex (\<lambda>(f, r, src). f = FoldState_value NORMAL \<and> r = RotateState_value PORT) (js_infos l)
    \<longleftrightarrow> (\<exists>src. (NORMAL, PORT, src) \<in> set l)"
proof -
  have known: "to_FoldState (FoldState_value f) = Some f" "to_RotateState (RotateState_value r) = Some r" for f r
    by (cases f; simp add: to_FoldState_def FoldState_value_def) (cases r; simp add: to_RotateState_def RotateState_value_def)
  then show "list_all states_known (js_infos l)"
    "map to_info (js_infos l) = map (\<lambda>(f, r, src). \<lparr>info_foldState = f, info_rotateState = r, source = src\<rparr>) l"
    by (auto simp: js_infos_def list_all_iff states_known_def to_info_def)
  have "FoldState_value f = FoldState_value NORMAL \<longleftrightarrow> f = NORMAL" "RotateState_value r = RotateState_value PORT \<longleftrightarrow> r = PORT" for f r
    by (metis known(1) option.inject, metis known(2) option.inject)
  then show "list_ex (\<lambda>(f, r, src). f = FoldState_value NORMAL \<and> r = RotateState_value PORT) (js_infos l)
    \<longleftrightarrow> (\<exists>src. (NORMAL, PORT, src) \<in> set l)"
    by (auto simp: js_infos_def list_ex_iff split: prod.splits)
qed

lemma setAllWallpapers_call:
  assumes "n_typeof n u = napi_object" "n_is_array n u" "Convert2WallpaperInfos n u [] = (True, js_infos l)"
    and "n_typeof n t = napi_number" "n_value_int32 n t = Some w" "w = 0 \<or> w = 1"
  shows "\<exists>src. (NORMAL, PORT, src) \<in> set l \<Longrightarrow> NAPI_SetAllWallpapers n m px [u, t] s =
      (settled (fst (Manager_SetAllWallpapers m px (map to_info (js_infos l)) w s)) '''',
       snd (Manager_SetAllWallpapers m px (map to_info (js_infos l)) w s))"
    "\<nexists>src. (NORMAL, PORT, src) \<in> set l \<Longrightarrow> \<exists>why. NAPI_SetAllWallpapers n m px [u, t] s =
      (Threw 401 (PARAMETER_ERROR_MESSAGE @ why), s)"
  using assms js_infos_simps(1) [of l] js_infos_simps(3) [of l]
  by (simp_all add: NAPI_SetAllWallpapers_def SetAllWallpapers_input_def SetAllWallpapers_exec_def IsValidWallpaperInfos_def
      refuse_def call_defs settled_def split_beta split: ErrorCode.split)

lemma getImage_call:
  assumes "n_typeof n t = napi_number" "n_value_int32 n t = Some w" "w = 0 \<or> w = 1"
    and "Manager_GetPixelMap m px w system_api None s = (E_OK, pm, s')"
  shows "NAPI_GetImage n m px [t] s
    = (Resolved (case pm of None \<Rightarrow> JUndefined | Some h \<Rightarrow> JPixelMap h), s')"
  using assms
  by (simp add: NAPI_GetImage_def GetImageInner_input_def GetImageInner_exec_def GetImageInner_output_def call_defs
      split: option.split)

section \<open>Properties\<close>

text \<open>C31: a function of the newer interface that checks the wallpaper type throws error 401 when it is
  missing, not a number or not one of the two types, whatever the other arguments are, and
  then asks neither the client library nor the service for anything.\<close>

theorem bad_type_throws:
  assumes "(f, i) \<in> {(NAPI_GetColorsSync, 0), (NAPI_GetImage, 0), (NAPI_GetCorrespondWallpaper, 0),
      (NAPI_SetVideo, 1), (NAPI_SetAllWallpapers, 1)}"
    and bad: "\<not> type_arg n argv i"
  shows "\<exists>why. f n m px argv s = (Threw 401 (PARAMETER_ERROR_MESSAGE @ why), s)"
  using assms(1)
  by (auto simp: NAPI_GetColorsSync_def NAPI_GetImage_def NAPI_GetCorrespondWallpaper_def NAPI_SetVideo_def
      NAPI_SetAllWallpapers_def intro!: refused_type_throws [OF _ _ bad] type_inputs_refuse)


text \<open>What a setter of the newer interface tells its caller is decided by the code of the client
  library alone: the promise is resolved exactly for success; a refused parameter, a missing
  permission and a missing system privilege are rejected with 401, 201 and 202; every other
  failure is rejected without a code.\<close>

theorem setters_report:
  assumes u: "n_typeof n u = napi_string" "Convert2String n u \<noteq> ''''"
    and t: "n_typeof n t = napi_number" "n_value_int32 n t = Some w" "w = 0 \<or> w = 1"
  shows "fst (NAPI_SetImage n m px [u, t] s) =
      settled (fst (Manager_SetWallpaper m px (Convert2String n u) w system_api s)) DYNAMIC_WALLPAPERTYPE_PARAMETER_TYPE \<and>
    fst (NAPI_SetVideo n m px [u, t] s) =
      settled (fst (Manager_SetVideo m px (Convert2String n u) w s)) DYNAMIC_WALLPAPERTYPE_PARAMETER_TYPE \<and>
    fst (NAPI_SetCustomWallpaper n m px [u, t] s) =
      settled (fst (Manager_SetCustomWallpaper m px (Convert2String n u) w s)) WALLPAPERTYPE_PARAMETER_TYPE \<and>
    fst (NAPI_Restore n m px [t] s) =
      settled (fst (Manager_ResetWallpaper m px w system_api s)) WALLPAPERTYPE_PARAMETER_TYPE"
  by (simp add: setImage_call [OF assms] setVideo_call [OF u(1) t] setCustomWallpaper_call [OF u(1) t(1,2)]
      restore_call [OF t(1,2)])

text \<open>\<^verbatim>\<open>getColorsSync\<close> returns the colours when the client library has some; it throws for a
  missing permission, a missing system privilege and a refused parameter, and returns undefined
  without an exception for every other failure and for an empty list.\<close>

theorem getColorsSync_outcome:
  assumes t: "n_typeof n t = napi_number" "n_value_int32 n t = Some w" "w = 0 \<or> w = 1"
    and colours: "Manager_GetColors m px w system_api [] s = (code, cols, s1)"
  shows "NAPI_GetColorsSync n m px [t] s =
    (if code = E_OK \<and> cols \<noteq> [] then Returned (Convert2JSRgbaArray n cols)
     else if code \<in> {E_PARAMETERS_INVALID, E_NO_PERMISSION, E_NOT_SYSTEM_APP}
     then Threw (fst (ConvertErrorCode code)) (snd (ConvertErrorCode code))
     else Returned None, s1)"
  using assms
  by (cases code)
    (auto simp: NAPI_GetColorsSync_def SyncCall_def Call_make_def type_input_def CheckValidArgWallpaperType_def
      IsValidArgCount_def IsValidArgType_def IsValidArgRange_eq read_type_def new_ctx_def GetColorsInner_exec_def
      GetColorsInner_output_def ctx_output_def report_known_def ConvertErrorCode_def SetErrInfo_def system_api_def
      PARAMETER_ERROR_def PERMISSION_ERROR_def SYSTEM_APP_PERMISSION_ERROR_def Let_def)

text \<open>The older \<^verbatim>\<open>reset\<close> does not act on its own refusal of the arguments: called without a type,
  or with one that is not a number, it asks for the system wallpaper to be reset and reports
  success when that succeeded.\<close>

theorem legacy_reset_ignores_arguments:
  assumes bad: "argv = [] \<or> n_typeof n (argv ! 0) \<noteq> napi_number"
    and reset: "Manager_ResetWallpaper m px (WallpaperType_value WALLPAPER_SYSTEM) legacy s = (E_OK, s')"
  shows "NAPI_Reset n m px argv s =
    (case given_callback n 1 argv of None \<Rightarrow> Resolved JUndefined | Some cb \<Rightarrow> CalledBack cb None JUndefined, s')"
proof -
  have "own_args n 1 argv = [] \<or> n_typeof n (own_args n 1 argv ! 0) \<noteq> napi_number"
    using bad by (cases argv) (auto simp: own_args_def)
  moreover have "ctx_wallpaperType (start_ctx n 1 argv) = 0"
    by (simp add: start_ctx_def new_ctx_def SetErrInfo_def)
  ultimately show ?thesis
    using reset
    by (auto simp: NAPI_Reset_def AsyncCall_def Call_make_eq RestoreInner_input_def IsValidArgCount_def IsValidArgType_def
        refuse_def RestoreInner_exec_def legacy_def OnComplete_def ctx_output_def SetErrInfo_def
        WallpaperType_value_def Let_def split: option.split)
qed

section \<open>Witnesses\<close>

text \<open>An engine whose values are numbers, strings, functions and arrays of records.\<close>

datatype js = Num int32 | Str string | Fun nat | Undef

definition sample_napi :: "js napi" where
  "sample_napi =
     \<lparr>n_typeof = (\<lambda>v. case v of Num _ \<Rightarrow> napi_number | Str _ \<Rightarrow> napi_string | Fun _ \<Rightarrow> napi_function
                          | Undef \<Rightarrow> napi_undefined),
      n_value_int32 = (\<lambda>v. case v of Num i \<Rightarrow> Some i | _ \<Rightarrow> None),
      n_utf8_length = (\<lambda>v. case v of Str x \<Rightarrow> Some (length x) | _ \<Rightarrow> None),
      n_utf8 = (\<lambda>v k. case v of Str x \<Rightarrow> Some (take (k - 1) x) | _ \<Rightarrow> None),
      n_is_array = (\<lambda>_. False), n_array_length = (\<lambda>_. None), n_element = (\<lambda>_ _. None),
      n_property = (\<lambda>_ _. None), n_pixel_map = (\<lambda>_. None),
      n_listener = (\<lambda>v. case v of Fun k \<Rightarrow> k | _ \<Rightarrow> 0), n_new_ok = True, n_array_ok = True,
      n_send_event_ok = True, n_scope_ok = True, n_color = (\<lambda>_. (0, 0, 0, 0)),
      n_unmarshal_refused = E_UNKNOWN\<rparr>"

theorem bad_type_throws_witness:
  "\<exists>why. NAPI_SetVideo sample_napi sample_mgr (direct_proxy 1000 sample_env) [Str ''/v.mp4'', Num 2] sample_client
     = (Threw 401 (PARAMETER_ERROR_MESSAGE @ why), sample_client)"
proof -
  have "\<not> type_arg sample_napi [Str ''/v.mp4'', Num 2] 1" by (simp add: type_arg_def sample_napi_def)
  from bad_type_throws [OF _ this, of NAPI_SetVideo] show ?thesis by blast
qed

theorem setters_report_witness:
  "fst (NAPI_SetImage sample_napi sample_mgr (direct_proxy 1000 (sample_env\<lparr>PermissionGranted := \<lambda>_. False\<rparr>))
      [Str ''/a.jpg'', Num 0] sample_client) = Rejected (Some 201) PERMISSION_DENIED_MESSAGE"
proof -
  have "c_str ''/a.jpg'' = ''/a.jpg''" by code_simp
  then have u: "n_typeof sample_napi (Str ''/a.jpg'') = napi_string" "Convert2String sample_napi (Str ''/a.jpg'') = ''/a.jpg''"
    "n_typeof sample_napi (Num 0) = napi_number" "n_value_int32 sample_napi (Num 0) = Some 0"
    by (simp_all add: sample_napi_def Convert2String_def Let_def)
  let ?px = "direct_proxy 1000 (sample_env\<lparr>PermissionGranted := \<lambda>_. False\<rparr>)"
  have size: "wallpaper_size sample_mgr (files sample_client) ''/a.jpg'' False = (E_OK, Some 11)"
    by (simp add: wallpaper_size_def sample_mgr_simps os_access_def lookup_path_def sample_client_paths Let_def
        file_content_def node_at_def) (simp add: sample_client_def INT32_MAX_def wrap32_eq)
  have path: "GetRealPath sample_mgr (files sample_client) ''/a.jpg'' = Some ''/a.jpg''"
    by (simp add: GetRealPath_def IsFileExist_def os_access_def lookup_path_def sample_client_paths sample_mgr_simps
        PATH_MAX_def node_at_def) (simp add: sample_client_def)
  have code: "ConvertIntToErrorCode sample_mgr (ErrorCode_value 1000 E_NO_PERMISSION) = E_NO_PERMISSION"
    by (simp add: ConvertIntToErrorCode_def errorCodeMap_def ErrorCode_value_def sample_mgr_simps)
  have "lookup_path (files sample_client) ''/a.jpg'' = Some (FileNode ''new picture'')"
    by (simp add: lookup_path_def node_at_def sample_client_paths) (simp add: sample_client_def)
  then have open_it: "\<not> fst (os_open_read sample_mgr ''/a.jpg'' sample_client) < 0"
    using fresh_fd_nonneg [of "fds sample_client"] by (simp add: os_open_read_def sample_mgr_simps Let_def)
  have "fst (Manager_SetWallpaper sample_mgr ?px ''/a.jpg'' 0 system_api sample_client) = E_NO_PERMISSION"
    using open_it
    by (simp add: Manager_SetWallpaper_def sample_client_service path wallpaper_format_def size Let_def send_file_def
        split_beta call_remote_def system_api_def direct_proxy_def with_fd_def answer_def SetWallpaperV9_def
        IsSystemApp_def SetWallpaper_def CheckCallingPermission_def code split: option.split)
  with setters_report [OF u(1) _ u(3,4), of sample_mgr ?px sample_client] show ?thesis by (simp add: u(2) settled_def)
qed

theorem getColorsSync_outcome_witness:
  "NAPI_GetColorsSync sample_napi (sample_mgr\<lparr>SamgrAvailable := False\<rparr>) (direct_proxy 1000 sample_env) [Num 0]
     (sample_client\<lparr>wallpaperProxy := None\<rparr>) = (Returned None, sample_client\<lparr>wallpaperProxy := None\<rparr>)"
proof -
  let ?m = "sample_mgr\<lparr>SamgrAvailable := False\<rparr>" and ?s = "sample_client\<lparr>wallpaperProxy := None\<rparr>"
  have t: "n_typeof sample_napi (Num 0) = napi_number" "n_value_int32 sample_napi (Num 0) = Some 0"
    by (simp_all add: sample_napi_def)
  have "Manager_GetColors ?m (direct_proxy 1000 sample_env) 0 system_api [] ?s = (E_DEAL_FAILED, [], ?s)"
    by (simp add: Manager_GetColors_def GetService_def)
  from getColorsSync_outcome [OF t _ this] show ?thesis by simp
qed

theorem legacy_reset_ignores_arguments_witness:
  "\<exists>s'. NAPI_Reset sample_napi sample_mgr (direct_proxy 1000 sample_env) [Str ''lockscreen''] sample_client
      = (Resolved JUndefined, s') \<and>
     map_of (files (remote s')) (picture_comps 100 WALLPAPER_SYSTEM) = None"
proof -
  let ?px = "direct_proxy 1000 sample_env"
  have u: "QueryActiveUserId sample_env = 100" and w: "as_WallpaperType 0 = WALLPAPER_SYSTEM" and k: "known_type 0"
    by (simp_all add: QueryActiveUserId_def as_WallpaperType_def WallpaperType_value_def known_type_def)
  have rdy: "ready sample_env (QueryActiveUserId sample_env) (as_WallpaperType 0) sample_service"
    using sample_ready by (simp add: u)
  have "strict_prefix (type_comps 100 WALLPAPER_SYSTEM) (picture_comps 100 WALLPAPER_SYSTEM)"
    by (simp add: picture_comps_def strict_prefix_def)
  then obtain r where r: "ResetWallpaper sample_env 0 sample_service = (NO_ERROR, r)"
    "map_of (files r) (picture_comps 100 WALLPAPER_SYSTEM) = None"
    using ResetWallpaper_effect [OF sample_answers(2,3) k sample_service_ok rdy] unfolding u w by blast
  have code: "ConvertIntToErrorCode sample_mgr (ErrorCode_value 1000 NO_ERROR) = E_OK"
    using Convert_NO_ERROR [of sample_mgr] by (simp add: sample_mgr_simps)
  have rem: "remote sample_client = sample_service" by (simp add: sample_client_def)
  have run: "Manager_ResetWallpaper sample_mgr ?px (WallpaperType_value WALLPAPER_SYSTEM) legacy sample_client
      = (E_OK, CloseWallpaperFd 0 (sample_client\<lparr>remote := r\<rparr>))"
    using r(1) code
    by (simp add: Manager_ResetWallpaper_def sample_client_service call_remote_def legacy_def direct_proxy_def answer_def
        WallpaperType_value_def rem Let_def)
  have bad: "[Str ''lockscreen''] = [] \<or> n_typeof sample_napi ([Str ''lockscreen''] ! 0) \<noteq> napi_number"
    by (simp add: sample_napi_def)
  have "files (remote (CloseWallpaperFd 0 (sample_client\<lparr>remote := r\<rparr>))) = files r"
    by (simp add: CloseWallpaperFd_drops)
  with legacy_reset_ignores_arguments [OF bad run] r(2) show ?thesis by (simp add: given_callback_def)
qed

end
