(* ===== verification/Ets.thy ===== *)
theory Ets
  imports Napi
begin

text \<open>
  The ETS binding, \<^verbatim>\<open>frameworks/ets/taihe/wallpapermgr\<close>: the functions of
  \<^verbatim>\<open>ohos.wallpaper.impl.cpp\<close> over the client library, and the observers of wallpaper changes with
  their references and the main thread (\<^verbatim>\<open>ani_wallpaper.cpp\<close>, \<^verbatim>\<open>ani_wallpaper.h\<close>).

  The code around them is generated by the taihe compiler from \<^verbatim>\<open>ohos.wallpaper.taihe\<close>. An object
  of the language is a value of type \<open>'o\<close>; \<open>ani\<close> is what the engine answers: whether there is an
  environment, whether a global reference can be created, the native pixel map of an object, the
  object of a native pixel map, whether the main thread has an event runner. The enumerations
  arrive as their 32-bit values.
\<close>

section \<open>The engine, errors and colours\<close>

record 'o ani =
  ani_get_env :: bool
  ani_reference_ok :: "'o \<Rightarrow> bool"
  ani_native_pixel_map :: "'o \<Rightarrow> handle option"
  ani_ets_pixel_map :: "handle option \<Rightarrow> nat"
  ani_main_runner :: bool

text \<open>\<^verbatim>\<open>taihe::set_business_error\<close> leaves a pending error; here it is the first component of a result.\<close>

type_synonym business_error = "(int32 \<times> string) option"

definition ETS_PERMISSION_ERROR :: int32 where "ETS_PERMISSION_ERROR = 201"
definition ETS_NOT_SYSTEM_API :: int32 where "ETS_NOT_SYSTEM_API = 202"
definition ETS_PARAMETERS_ERROR :: int32 where "ETS_PARAMETERS_ERROR = 401"

definition setErrorCode :: "ErrorCode \<Rightarrow> business_error" where
  "setErrorCode wallpaperErrorCode =
     Some (case wallpaperErrorCode of
       E_NOT_SYSTEM_APP \<Rightarrow>
         (ETS_NOT_SYSTEM_API, ''Permission verification failed,'' @
            ''application which is not a system application uses system API!'')
     | E_NO_PERMISSION \<Rightarrow> (ETS_PERMISSION_ERROR, ''Permission Denied!'')
     | _ \<Rightarrow> (ETS_PARAMETERS_ERROR, ''Invalid parameter''))"

definition error_unless_ok :: "ErrorCode \<Rightarrow> business_error" where
  "error_unless_ok code = (if code \<noteq> E_OK then setErrorCode code else None)"

definition wrong_type :: "int32 \<Rightarrow> bool" where
  "wrong_type wallpaperType \<longleftrightarrow>
     wallpaperType \<noteq> WallpaperType_value WALLPAPER_SYSTEM \<and> wallpaperType \<noteq> WallpaperType_value WALLPAPER_LOCKSCREEN"

text \<open>
  A channel of a colour: a byte over the float \<^verbatim>\<open>255.0f\<close>, a number between 0 and 1, which the
  assignment to a field of \<^verbatim>\<open>RgbaColor\<close>, a \<^verbatim>\<open>u64\<close> in \<^verbatim>\<open>ohos.wallpaper.taihe\<close>, cuts to an integer. The
  quotient of a byte and 255 rounds to 1 for 255 alone, so that the cut value is the integer quotient.
\<close>

definition channel :: "nat \<Rightarrow> uint64 \<Rightarrow> nat" where
  "channel k color = unat (and (drop_bit k color) 0xff) div 255"

definition Alpha :: "uint64 \<Rightarrow> nat" where "Alpha color = channel 56 color"
definition Red :: "uint64 \<Rightarrow> nat" where "Red color = channel 48 color"
definition Green :: "uint64 \<Rightarrow> nat" where "Green color = channel 40 color"
definition Blue :: "uint64 \<Rightarrow> nat" where "Blue color = channel 32 color"

record RgbaColor =
  red :: nat
  green :: nat
  blue :: nat
  alpha :: nat

definition to_rgba :: "uint64 \<Rightarrow> RgbaColor" where
  "to_rgba color = \<lparr>red = Red color, green = Green color, blue = Blue color, alpha = Alpha color\<rparr>"

section \<open>Functions over the client library\<close>

text \<open>Every function returns the pending error, its value where it has one, and the client.\<close>

datatype 'o SourceType = source_ref string | pixelMap_ref 'o

definition SetImageAsync ::
  "'o ani \<Rightarrow> mgr_env \<Rightarrow> 'r proxy \<Rightarrow> 'o SourceType \<Rightarrow> int32 \<Rightarrow> 'r client \<Rightarrow> business_error \<times> 'r client" where
  "SetImageAsync a m px sourceType wallpaperType s =
     (if wrong_type wallpaperType then (Some (ETS_PARAMETERS_ERROR, ''Invalid wallpaperType parameter''), s)
      else let apiInfo = \<lparr>needException = True, isSystemApi = True\<rparr> in
      case sourceType of
        pixelMap_ref object \<Rightarrow>
          (case ani_native_pixel_map a object of
             None \<Rightarrow> (Some (ETS_PARAMETERS_ERROR, ''Invalid sourceType parameter''), s)
           | Some newPixelMap \<Rightarrow>
               (case Manager_SetWallpaperByPixelMap m px (Some newPixelMap) wallpaperType apiInfo s of
                  (code, s1) \<Rightarrow> (error_unless_ok code, s1)))
      | source_ref str \<Rightarrow>
          if str \<noteq> ''''
          then (case Manager_SetWallpaper m px str wallpaperType apiInfo s of (code, s1) \<Rightarrow> (error_unless_ok code, s1))
          else (error_unless_ok E_UNKNOWN, s))"

definition RestoreAsync ::
  "mgr_env \<Rightarrow> 'r proxy \<Rightarrow> int32 \<Rightarrow> 'r client \<Rightarrow> business_error \<times> 'r client" where
  "RestoreAsync m px wallpaperType s =
     (if wrong_type wallpaperType then (Some (ETS_PARAMETERS_ERROR, ''Invalid wallpaperType parameter''), s)
      else case Manager_ResetWallpaper m px wallpaperType \<lparr>needException = True, isSystemApi = True\<rparr> s of (code, s1) \<Rightarrow>
      (error_unless_ok code, s1))"

definition GetColorsSync ::
  "mgr_env \<Rightarrow> 'r proxy \<Rightarrow> int32 \<Rightarrow> 'r client \<Rightarrow> business_error \<times> RgbaColor list \<times> 'r client" where
  "GetColorsSync m px wallpaperType s =
     (if wrong_type wallpaperType
      then (Some (ETS_PARAMETERS_ERROR, ''Invalid wallpaperType parameter''), [], s)
      else case Manager_GetColors m px wallpaperType \<lparr>needException = True, isSystemApi = True\<rparr> [] s of (code, colors, s1) \<Rightarrow>
      (error_unless_ok code, map to_rgba colors, s1))"

definition GetMinHeightSync :: "mgr_env \<Rightarrow> business_error \<times> int32" where
  "GetMinHeightSync m =
     (case GetWallpaperMinHeight m of (code, h) \<Rightarrow>
      let minHeight = (case h of None \<Rightarrow> 0 | Some x \<Rightarrow> x) in
      (if code \<noteq> E_OK \<or> minHeight \<le> 0 then setErrorCode code else None, minHeight))"

definition GetMinWidthSync :: "mgr_env \<Rightarrow> business_error \<times> int32" where
  "GetMinWidthSync m =
     (case GetWallpaperMinWidth m of (code, w) \<Rightarrow>
      let minWidth = (case w of None \<Rightarrow> 0 | Some x \<Rightarrow> x) in
      (if code \<noteq> E_OK \<or> minWidth \<le> 0 then setErrorCode code else None, minWidth))"

definition TYPE_RANGE :: string where
  "TYPE_RANGE = ''Invalid wallpaperType, must be WALLPAPER_SYSTEM or WALLPAPER_LOCKSCREEN''"

definition SetCustomWallpaperAsync ::
  "mgr_env \<Rightarrow> 'r proxy \<Rightarrow> string \<Rightarrow> int32 \<Rightarrow> 'r client \<Rightarrow> business_error \<times> 'r client" where
  "SetCustomWallpaperAsync m px str wallpaperType s =
     (if str = '''' then (Some (ETS_PARAMETERS_ERROR, ''Source cannot be empty''), s)
      else if wrong_type wallpaperType then (Some (ETS_PARAMETERS_ERROR, TYPE_RANGE), s)
      else case Manager_SetCustomWallpaper m px str wallpaperType s of (code, s1) \<Rightarrow> (error_unless_ok code, s1))"

definition SetVideoAsync ::
  "mgr_env \<Rightarrow> 'r proxy \<Rightarrow> string \<Rightarrow> int32 \<Rightarrow> 'r client \<Rightarrow> business_error \<times> 'r client" where
  "SetVideoAsync m px str wallpaperType s =
     (if str = '''' then (Some (ETS_PARAMETERS_ERROR, ''Source cannot be empty''), s)
      else if wrong_type wallpaperType then (Some (ETS_PARAMETERS_ERROR, TYPE_RANGE), s)
      else case Manager_SetVideo m px str wallpaperType s of (code, s1) \<Rightarrow> (error_unless_ok code, s1))"

definition GetImageAsync ::
  "'o ani \<Rightarrow> mgr_env \<Rightarrow> 'r proxy \<Rightarrow> int32 \<Rightarrow> 'r client \<Rightarrow> business_error \<times> nat \<times> 'r client" where
  "GetImageAsync a m px wallpaperType s =
     (if wrong_type wallpaperType then (Some (ETS_PARAMETERS_ERROR, TYPE_RANGE), 0, s)
      else case Manager_GetPixelMap m px wallpaperType \<lparr>needException = True, isSystemApi = True\<rparr> None s of (code, pixelMap, s1) \<Rightarrow>
      if code \<noteq> E_OK then (setErrorCode code, 0, s1)
      else (None, ani_ets_pixel_map a pixelMap, s1))"

definition GetWallpaperByStateSync ::
  "'o ani \<Rightarrow> mgr_env \<Rightarrow> 'r proxy \<Rightarrow> int32 \<Rightarrow> int32 \<Rightarrow> int32 \<Rightarrow> 'r client \<Rightarrow> business_error \<times> nat \<times> 'r client" where
  "GetWallpaperByStateSync a m px wallpaperType foldSt rotateSt s =
     (if wrong_type wallpaperType then (Some (ETS_PARAMETERS_ERROR, TYPE_RANGE), 0, s)
      else if foldSt \<noteq> FoldState_value NORMAL \<and> foldSt \<noteq> FoldState_value UNFOLD_1 \<and> foldSt \<noteq> FoldState_value UNFOLD_2
      then (Some (ETS_PARAMETERS_ERROR,
              ''Invalid wallpaperType, must be NORMAL or UNFOLD_ONCE_STATE or UNFOLD_TWICE_STATE''), 0, s)
      else if rotateSt \<noteq> RotateState_value PORT \<and> rotateSt \<noteq> RotateState_value LAND
      then (Some (ETS_PARAMETERS_ERROR, ''Invalid wallpaperType, must be PORTRAIT or LANDSCAPE''), 0, s)
      else case Manager_GetCorrespondWallpaper m px wallpaperType foldSt rotateSt None s of (code, pixelMap, s1) \<Rightarrow>
      if code \<noteq> E_OK then (setErrorCode code, 0, s1)
      else (None, ani_ets_pixel_map a pixelMap, s1))"

definition SetAllWallpapersSync ::
  "mgr_env \<Rightarrow> 'r proxy \<Rightarrow> (FoldState \<times> RotateState \<times> string) list \<Rightarrow> int32 \<Rightarrow> 'r client
    \<Rightarrow> business_error \<times> 'r client" where
  "SetAllWallpapersSync m px wallpaperInfos wallpaperType s =
     (if wallpaperInfos = [] then (Some (ETS_PARAMETERS_ERROR, ''wallpaperInfos cannot be empty''), s)
      else if wrong_type wallpaperType then (Some (ETS_PARAMETERS_ERROR, TYPE_RANGE), s)
      else let infos = map (\<lambda>(f, r, src). \<lparr>info_foldState = f, info_rotateState = r, source = src\<rparr>) wallpaperInfos in
      case Manager_SetAllWallpapers m px infos wallpaperType s of (code, s1) \<Rightarrow> (error_unless_ok code, s1))"

section \<open>Observers\<close>

text \<open>
  The state of the process: the client library, the list \<^verbatim>\<open>jsWallpaperChangeCbList_\<close>, the observers
  made so far (the function to call and \<^verbatim>\<open>jsCallbackRef_\<close>), the global references of the engine, the
  handler of the main thread with its tasks, and the calls the main thread has made. An observer and
  a reference get the next free number; \<^verbatim>\<open>std::make_shared\<close> does not fail.
\<close>

type_synonym 'o call = "'o \<times> int32 \<times> int32 \<times> string option"

record ('o, 'r) ets =
  ets_client :: "'r client"
  jsWallpaperChangeCbList :: "handle list"
  observers :: "handle \<Rightarrow> ('o \<times> nat option) option"
  next_observer :: handle
  global_refs :: "nat \<Rightarrow> 'o option"
  next_ref :: nat
  mainHandler :: bool
  main_tasks :: "(handle \<times> int32 \<times> int32 \<times> string) list"
  js_calls :: "'o call list"

definition callback_ref :: "('o, 'r) ets \<Rightarrow> handle \<Rightarrow> nat option" where
  "callback_ref s obs = Option.bind (observers s obs) snd"

definition GlobalReference_Create :: "'o ani \<Rightarrow> 'o \<Rightarrow> ('o, 'r) ets \<Rightarrow> nat option \<times> ('o, 'r) ets" where
  "GlobalReference_Create a object s =
     (if \<not> ani_reference_ok a object then (None, s)
      else (Some (next_ref s), s\<lparr>global_refs := (global_refs s)(next_ref s \<mapsto> object), next_ref := Suc (next_ref s)\<rparr>))"

definition GlobalReference_Delete :: "nat \<Rightarrow> ('o, 'r) ets \<Rightarrow> ('o, 'r) ets" where
  "GlobalReference_Delete ref s = s\<lparr>global_refs := (global_refs s)(ref := None)\<rparr>"

text \<open>Two references are strictly equal when both are alive and stand for the same object.\<close>

definition Reference_StrictEquals :: "nat \<Rightarrow> nat option \<Rightarrow> ('o, 'r) ets \<Rightarrow> bool" where
  "Reference_StrictEquals ref1 ref2 s \<longleftrightarrow>
     (case ref2 of None \<Rightarrow> False
      | Some r2 \<Rightarrow> global_refs s ref1 \<noteq> None \<and> global_refs s ref1 = global_refs s r2)"

definition CreateCallbackRefIfNotDuplicate ::
  "'o ani \<Rightarrow> handle list \<Rightarrow> 'o \<Rightarrow> ('o, 'r) ets \<Rightarrow> nat option \<times> ('o, 'r) ets" where
  "CreateCallbackRefIfNotDuplicate a cbVec callbackObj s =
     (if \<not> ani_get_env a then (None, s)
      else case GlobalReference_Create a callbackObj s of
        (None, s1) \<Rightarrow> (None, s1)
      | (Some callbackRef, s1) \<Rightarrow>
          if list_ex (\<lambda>obs. Reference_StrictEquals callbackRef (callback_ref s1 obs) s1) cbVec
          then (None, GlobalReference_Delete callbackRef s1)
          else (Some callbackRef, s1))"

definition Release :: "'o ani \<Rightarrow> handle \<Rightarrow> ('o, 'r) ets \<Rightarrow> ('o, 'r) ets" where
  "Release a obs s =
     (if \<not> ani_get_env a then s
      else let s1 = (case callback_ref s obs of None \<Rightarrow> s | Some ref \<Rightarrow> GlobalReference_Delete ref s) in
      s1\<lparr>observers := (observers s1)(obs := map_option (\<lambda>(f, _). (f, None)) (observers s1 obs))\<rparr>)"

definition on_client :: "('r client \<Rightarrow> 'a \<times> 'r client) \<Rightarrow> ('o, 'r) ets \<Rightarrow> 'a \<times> ('o, 'r) ets" where
  "on_client f s = (case f (ets_client s) of (x, c) \<Rightarrow> (x, s\<lparr>ets_client := c\<rparr>))"

text \<open>\<open>func\<close> is the function to call, \<open>callbackObj\<close> the object it is identified by.\<close>

definition Ets_OnWallpaperChange ::
  "'o ani \<Rightarrow> mgr_env \<Rightarrow> 'r proxy \<Rightarrow> 'o \<Rightarrow> 'o \<Rightarrow> ('o, 'r) ets \<Rightarrow> business_error \<times> ('o, 'r) ets" where
  "Ets_OnWallpaperChange a m px func callbackObj s =
     (case CreateCallbackRefIfNotDuplicate a (jsWallpaperChangeCbList s) callbackObj s of
        (None, s1) \<Rightarrow> (None, s1)
      | (Some callbackRef, s1) \<Rightarrow>
      let obs = next_observer s1;
          s2 = s1\<lparr>observers := (observers s1)(obs \<mapsto> (func, Some callbackRef)), next_observer := Suc obs\<rparr> in
      case on_client (Manager_On m px ''wallpaperChange'' (Some obs)) s2 of (code, s3) \<Rightarrow>
      if code \<noteq> E_OK then (setErrorCode code, s3)
      else (None, s3\<lparr>jsWallpaperChangeCbList := jsWallpaperChangeCbList s3 @ [obs]\<rparr>))"

text \<open>The loop of \<^verbatim>\<open>OffWallpaperChange\<close>: \<open>kept\<close> are the observers it has passed, in order.\<close>

fun off_loop ::
  "'o ani \<Rightarrow> mgr_env \<Rightarrow> 'r proxy \<Rightarrow> nat option \<Rightarrow> handle list \<Rightarrow> handle list \<Rightarrow> ('o, 'r) ets
    \<Rightarrow> business_error \<times> ('o, 'r) ets" where
  "off_loop a m px jsCallbackRef kept [] s = (None, s\<lparr>jsWallpaperChangeCbList := kept\<rparr>)"
| "off_loop a m px jsCallbackRef kept (obs # rest) s =
     (if (case jsCallbackRef of None \<Rightarrow> True | Some ref \<Rightarrow> Reference_StrictEquals ref (callback_ref s obs) s)
      then (case on_client (Manager_Off m px ''wallpaperChange'' (Some obs)) (Release a obs s) of (code, s1) \<Rightarrow>
            if code \<noteq> E_OK then (setErrorCode code, s1\<lparr>jsWallpaperChangeCbList := kept @ obs # rest\<rparr>)
            else off_loop a m px jsCallbackRef kept rest s1)
      else off_loop a m px jsCallbackRef (kept @ [obs]) rest s)"

text \<open>The guard of the reference is destroyed when the function returns.\<close>

definition Ets_OffWallpaperChange ::
  "'o ani \<Rightarrow> mgr_env \<Rightarrow> 'r proxy \<Rightarrow> 'o option \<Rightarrow> ('o, 'r) ets \<Rightarrow> business_error \<times> ('o, 'r) ets" where
  "Ets_OffWallpaperChange a m px opaque s =
     (if \<not> ani_get_env a then (None, s)
      else case opaque of
        None \<Rightarrow> off_loop a m px None [] (jsWallpaperChangeCbList s) s
      | Some callbackObj \<Rightarrow>
          (case GlobalReference_Create a callbackObj s of
             (None, s1) \<Rightarrow> (None, s1)
           | (Some ref, s1) \<Rightarrow>
               (case off_loop a m px (Some ref) [] (jsWallpaperChangeCbList s1) s1 of (err, s2) \<Rightarrow>
                (err, GlobalReference_Delete ref s2))))"

text \<open>A notification of the client library reaches the observer on another thread, which posts a task
  for the main thread.\<close>

definition SendEventToMainThread ::
  "'o ani \<Rightarrow> handle \<times> int32 \<times> int32 \<times> string \<Rightarrow> ('o, 'r) ets \<Rightarrow> bool \<times> ('o, 'r) ets" where
  "SendEventToMainThread a task s =
     (if \<not> mainHandler s \<and> \<not> ani_main_runner a then (False, s)
      else (True, s\<lparr>mainHandler := True, main_tasks := main_tasks s @ [task]\<rparr>))"

definition Observer_OnWallpaperChange ::
  "'o ani \<Rightarrow> handle \<Rightarrow> int32 \<Rightarrow> int32 \<Rightarrow> string \<Rightarrow> ('o, 'r) ets \<Rightarrow> ('o, 'r) ets" where
  "Observer_OnWallpaperChange a obs wallpaperType resType uri s =
     snd (SendEventToMainThread a (obs, wallpaperType, resType, uri) s)"

definition OnWallpaperChangeInMainThread ::
  "handle \<Rightarrow> int32 \<Rightarrow> int32 \<Rightarrow> string \<Rightarrow> ('o, 'r) ets \<Rightarrow> ('o, 'r) ets" where
  "OnWallpaperChangeInMainThread obs wallpaperType resType uri s =
     (case observers s obs of
        Some (jsFunc, Some ref) \<Rightarrow> s\<lparr>js_calls := js_calls s @ [(jsFunc, wallpaperType, resType, Some uri)]\<rparr>
      | _ \<Rightarrow> s)"

definition RunMain :: "('o, 'r) ets \<Rightarrow> ('o, 'r) ets" where
  "RunMain s =
     (case main_tasks s of
        [] \<Rightarrow> s
      | (obs, w, rt, uri) # rest \<Rightarrow> OnWallpaperChangeInMainThread obs w rt uri (s\<lparr>main_tasks := rest\<rparr>))"

section \<open>Errors and colours as the language sees them\<close>

lemma low_byte: "and (x :: uint64) 0xff = take_bit 8 x"
  by (simp add: take_bit_eq_mask mask_eq_decr_exp)

lemma channel_of_bool: "channel k c = of_bool (and (drop_bit k c) 0xff = 0xff)"
proof -
  let ?x = "and (drop_bit k c) 0xff"
  have "unat (take_bit 8 (drop_bit k c)) < 2 ^ 8" unfolding unsigned_take_bit_eq by (rule take_bit_nat_less_exp)
  then have le: "unat ?x \<le> 255" unfolding low_byte by simp
  have eq: "unat ?x = 255 \<longleftrightarrow> ?x = 0xff" using word_unat_eq_iff [of ?x "0xff"] by simp
  have "unat ?x div 255 = of_bool (unat ?x = 255)"
  proof (cases "unat ?x = 255")
    case False
    with le have "unat ?x < 255" by linarith
    then show ?thesis by simp
  qed simp
  then show ?thesis by (simp only: channel_def eq)
qed

text \<open>The colours \<^verbatim>\<open>getColorsSync\<close> returns in ETS say of each channel only whether its byte is 255: the
  quotient by 255 is cut to 1 then and to 0 otherwise.\<close>

theorem colours_are_cut:
  assumes "Manager_GetColors m px w \<lparr>needException = True, isSystemApi = True\<rparr> [] s = (code, cols, s1)"
    and "w = 0 \<or> w = 1"
  shows "GetColorsSync m px w s =
    (if code = E_OK then None else setErrorCode code,
     map (\<lambda>c. \<lparr>red = of_bool (and (drop_bit 48 c) 0xff = 0xff), green = of_bool (and (drop_bit 40 c) 0xff = 0xff),
               blue = of_bool (and (drop_bit 32 c) 0xff = 0xff), alpha = of_bool (and (drop_bit 56 c) 0xff = 0xff)\<rparr>) cols,
     s1)"
  using assms
  by (auto simp: GetColorsSync_def error_unless_ok_def wrong_type_def WallpaperType_value_def to_rgba_def [abs_def]
      Red_def Green_def Blue_def Alpha_def channel_of_bool)

definition ets_number :: "business_error \<Rightarrow> int32 option" where
  "ets_number err = map_option fst err"

text \<open>The number of a rejection or an exception; one without a number counts as 401.\<close>

definition js_number :: "'v outcome \<Rightarrow> int32 option" where
  "js_number out =
     (case out of
        Rejected k _ \<Rightarrow> Some (case k of Some i \<Rightarrow> i | None \<Rightarrow> PARAMETER_ERROR)
      | Threw k _ \<Rightarrow> Some k
      | _ \<Rightarrow> None)"

lemma ets_number_settled: "ets_number (error_unless_ok code) = js_number (settled code hint)"
  by (cases code) (simp_all add: ets_number_def js_number_def settled_def error_unless_ok_def setErrorCode_def ConvertErrorCode_def
      PARAMETER_ERROR_def PERMISSION_ERROR_def SYSTEM_APP_PERMISSION_ERROR_def ETS_PERMISSION_ERROR_def
      ETS_NOT_SYSTEM_API_def ETS_PARAMETERS_ERROR_def)

text \<open>C32: where the two bindings agree on changing a wallpaper, and where they do not. Called with promises, with a
  path that is not empty and with one of the two types, \<^verbatim>\<open>setImage\<close>, \<^verbatim>\<open>setVideo\<close>, \<^verbatim>\<open>setCustomWallpaper\<close> and \<^verbatim>\<open>restore\<close> leave the
  same client and service behind in both, succeed in one exactly when they do in the other, and report the same
  error number, where a failure without a number in JavaScript is error 401 in ETS. So does \<^verbatim>\<open>setImage\<close> with an
  object that both engines take for the same pixel map, or both for none. A batch with a picture for the normal
  state of the screen held upright is treated alike too, and so is the empty one; any other batch is refused by JavaScript with error
  401 before the client library is asked, while ETS sends it on.\<close>

theorem bindings_agree:
  assumes u: "n_typeof n u = napi_string" "Convert2String n u = uri" "uri \<noteq> ''''"
    and t: "n_typeof n t = napi_number" "n_value_int32 n t = Some w" "w = 0 \<or> w = 1"
    and p: "n_typeof n pic = napi_object" "n_pixel_map n pic = ani_native_pixel_map a object"
    and b: "n_typeof n arr = napi_object" "n_is_array n arr" "Convert2WallpaperInfos n arr [] = (True, js_infos l)"
  shows "(ets_number (fst (SetImageAsync a m px (source_ref uri) w s)), snd (SetImageAsync a m px (source_ref uri) w s))
      = (js_number (fst (NAPI_SetImage n m px [u, t] s)), snd (NAPI_SetImage n m px [u, t] s)) \<and>
    (ets_number (fst (SetImageAsync a m px (pixelMap_ref object) w s)), snd (SetImageAsync a m px (pixelMap_ref object) w s))
      = (js_number (fst (NAPI_SetImage n m px [pic, t] s)), snd (NAPI_SetImage n m px [pic, t] s)) \<and>
    (ets_number (fst (SetVideoAsync m px uri w s)), snd (SetVideoAsync m px uri w s))
      = (js_number (fst (NAPI_SetVideo n m px [u, t] s)), snd (NAPI_SetVideo n m px [u, t] s)) \<and>
    (ets_number (fst (SetCustomWallpaperAsync m px uri w s)), snd (SetCustomWallpaperAsync m px uri w s))
      = (js_number (fst (NAPI_SetCustomWallpaper n m px [u, t] s)), snd (NAPI_SetCustomWallpaper n m px [u, t] s)) \<and>
    (ets_number (fst (RestoreAsync m px w s)), snd (RestoreAsync m px w s))
      = (js_number (fst (NAPI_Restore n m px [t] s)), snd (NAPI_Restore n m px [t] s)) \<and>
    (if l = [] \<or> (\<exists>src. (NORMAL, PORT, src) \<in> set l)
     then (ets_number (fst (SetAllWallpapersSync m px l w s)), snd (SetAllWallpapersSync m px l w s))
       = (js_number (fst (NAPI_SetAllWallpapers n m px [arr, t] s)), snd (NAPI_SetAllWallpapers n m px [arr, t] s))
     else (\<exists>why. NAPI_SetAllWallpapers n m px [arr, t] s = (Threw 401 (PARAMETER_ERROR_MESSAGE @ why), s)) \<and>
       SetAllWallpapersSync m px l w s = (case Manager_SetAllWallpapers m px (map to_info (js_infos l)) w s of
         (code, s1) \<Rightarrow> (error_unless_ok code, s1)))"
proof -
  have w: "\<not> wrong_type w" using t(3) by (auto simp: wrong_type_def WallpaperType_value_def)
  note setters = setImage_call [OF u(1) _ t] setVideo_call [OF u(1) t] setCustomWallpaper_call [OF u(1) t(1,2)] restore_call [OF t(1,2)]
  have object: "ets_number (fst (SetImageAsync a m px (pixelMap_ref object) w s)) = js_number (fst (NAPI_SetImage n m px [pic, t] s)) \<and>
      snd (SetImageAsync a m px (pixelMap_ref object) w s) = snd (NAPI_SetImage n m px [pic, t] s)"
  proof (cases "ani_native_pixel_map a object")
    case None
    then show ?thesis
      using p w by (simp add: setImage_object_call [OF p(1) t(1,2)] SetImageAsync_def settled_def js_number_def ets_number_def
          ETS_PARAMETERS_ERROR_def PARAMETER_ERROR_def)
  next
    case (Some pm)
    then show ?thesis
      using p w by (simp add: setImage_object_call [OF p(1) t(1,2)] SetImageAsync_def split_beta Let_def
          ets_number_settled [symmetric] system_api_def)
  qed
  have empty: "ets_number (Some (ETS_PARAMETERS_ERROR, x)) = Some 401" "js_number (Threw 401 y) = Some 401" for x y
    by (simp_all add: ets_number_def js_number_def ETS_PARAMETERS_ERROR_def)
  have batch: "if l = [] \<or> (\<exists>src. (NORMAL, PORT, src) \<in> set l)
     then (ets_number (fst (SetAllWallpapersSync m px l w s)), snd (SetAllWallpapersSync m px l w s))
       = (js_number (fst (NAPI_SetAllWallpapers n m px [arr, t] s)), snd (NAPI_SetAllWallpapers n m px [arr, t] s))
     else (\<exists>why. NAPI_SetAllWallpapers n m px [arr, t] s = (Threw 401 (PARAMETER_ERROR_MESSAGE @ why), s)) \<and>
       SetAllWallpapersSync m px l w s = (case Manager_SetAllWallpapers m px (map to_info (js_infos l)) w s of
         (code, s1) \<Rightarrow> (error_unless_ok code, s1))"
  proof (cases "\<exists>src. (NORMAL, PORT, src) \<in> set l")
    case True
    then have "l \<noteq> []" by auto
    with True w show ?thesis
      by (simp add: setAllWallpapers_call(1) [OF b t True] SetAllWallpapersSync_def js_infos_simps(2) split_beta Let_def
          ets_number_settled [symmetric])
  next
    case False
    from setAllWallpapers_call(2) [OF b t this, of m px s]
    obtain why where js: "NAPI_SetAllWallpapers n m px [arr, t] s = (Threw 401 (PARAMETER_ERROR_MESSAGE @ why), s)" by blast
    show ?thesis
      using False w by (cases l) (simp_all add: js empty SetAllWallpapersSync_def js_infos_simps(2))
  qed
  have "Convert2String n u \<noteq> ''''" using u by simp
  then show ?thesis
    using u(3) w object batch
    by (simp add: setters u(2) SetImageAsync_def SetVideoAsync_def SetCustomWallpaperAsync_def RestoreAsync_def
        split_beta Let_def ets_number_settled [symmetric] system_api_def)
qed

section \<open>Observers over time\<close>

text \<open>
  A process starts without observers. A step is one of the functions that touch them, a task of
  the main thread, or anything else that happens to the client library; every step has its own
  answers of the engine, the environment and the service.
\<close>

inductive ets_step :: "('o, 'r) ets \<Rightarrow> ('o, 'r) ets \<Rightarrow> bool" where
  on: "ets_step s (snd (Ets_OnWallpaperChange a m px func callbackObj s))"
| off: "ets_step s (snd (Ets_OffWallpaperChange a m px opaque s))"
| notified: "ets_step s (Observer_OnWallpaperChange a obs w rt uri s)"
| main: "ets_step s (RunMain s)"
| other: "ets_step s (s\<lparr>ets_client := c\<rparr>)"

inductive ets_later :: "('o, 'r) ets \<Rightarrow> ('o, 'r) ets \<Rightarrow> bool" where
  here: "ets_later s s"
| later: "ets_later s s1 \<Longrightarrow> ets_step s1 s2 \<Longrightarrow> ets_later s s2"

definition ets_started :: "('o, 'r) ets \<Rightarrow> bool" where
  "ets_started s \<longleftrightarrow> jsWallpaperChangeCbList s = [] \<and> observers s = Map.empty \<and> global_refs s = Map.empty"

definition ets_reachable :: "('o, 'r) ets \<Rightarrow> bool" where
  "ets_reachable s \<longleftrightarrow> (\<exists>s0. ets_started s0 \<and> ets_later s0 s)"

text \<open>The function an observer is registered for, while it is registered.\<close>

definition callback_object :: "('o, 'r) ets \<Rightarrow> handle \<Rightarrow> 'o option" where
  "callback_object s obs = Option.bind (callback_ref s obs) (global_refs s)"

text \<open>
  The invariant: listed observers exist and are listed once, numbers are below the next free ones,
  a reference an observer holds is alive and its own, and no function has two listed observers.
\<close>

definition refs_ok :: "('o, 'r) ets \<Rightarrow> bool" where
  "refs_ok s \<longleftrightarrow>
     (\<forall>obs. observers s obs \<noteq> None \<longrightarrow> obs < next_observer s) \<and>
     (\<forall>ref. global_refs s ref \<noteq> None \<longrightarrow> ref < next_ref s) \<and>
     (\<forall>obs ref. callback_ref s obs = Some ref \<longrightarrow> global_refs s ref \<noteq> None) \<and>
     (\<forall>obs obs' ref. callback_ref s obs = Some ref \<longrightarrow> callback_ref s obs' = Some ref \<longrightarrow> obs = obs')"

definition list_ok :: "('o, 'r) ets \<Rightarrow> handle list \<Rightarrow> bool" where
  "list_ok s l \<longleftrightarrow>
     distinct l \<and> (\<forall>obs \<in> set l. observers s obs \<noteq> None) \<and>
     (\<forall>obs \<in> set l. \<forall>obs' \<in> set l. callback_object s obs \<noteq> None \<longrightarrow>
        callback_object s obs = callback_object s obs' \<longrightarrow> obs = obs')"

definition ets_ok :: "('o, 'r) ets \<Rightarrow> bool" where
  "ets_ok s \<longleftrightarrow> refs_ok s \<and> list_ok s (jsWallpaperChangeCbList s)"

text \<open>What the operations change of an observer.\<close>

lemma callback_ref_simps [simp]:
  "callback_ref (s\<lparr>jsWallpaperChangeCbList := l\<rparr>) = callback_ref s"
  "callback_ref (s\<lparr>ets_client := c\<rparr>) = callback_ref s"
  "callback_ref (s\<lparr>global_refs := g\<rparr>) = callback_ref s"
  "callback_ref (s\<lparr>next_ref := k\<rparr>) = callback_ref s"
  "callback_ref (s\<lparr>main_tasks := ts\<rparr>) = callback_ref s"
  "callback_ref (s\<lparr>js_calls := cs\<rparr>) = callback_ref s"
  by (simp_all add: callback_ref_def fun_eq_iff)

lemma on_client_keeps [simp]:
  "observers (snd (on_client f s)) = observers s" "global_refs (snd (on_client f s)) = global_refs s"
  "next_ref (snd (on_client f s)) = next_ref s" "next_observer (snd (on_client f s)) = next_observer s"
  "jsWallpaperChangeCbList (snd (on_client f s)) = jsWallpaperChangeCbList s"
  "callback_ref (snd (on_client f s)) = callback_ref s"
  by (simp_all add: on_client_def split_beta)

lemma Release_effect:
  assumes "ani_get_env a" "refs_ok s"
  shows "callback_ref (Release a obs s) obs' = (if obs' = obs then None else callback_ref s obs')"
    "observers (Release a obs s) obs' = None \<longleftrightarrow> observers s obs' = None"
    "jsWallpaperChangeCbList (Release a obs s) = jsWallpaperChangeCbList s"
    "refs_ok (Release a obs s)"
  using assms
  by (auto simp: Release_def callback_ref_def GlobalReference_Delete_def refs_ok_def Let_def
      map_option_case split: option.splits if_splits prod.splits)

lemma Release_rest:
  "next_observer (Release a obs s) = next_observer s" "next_ref (Release a obs s) = next_ref s"
  "callback_ref s obs \<noteq> Some ref \<Longrightarrow> global_refs (Release a obs s) ref = global_refs s ref"
  by (auto simp: Release_def GlobalReference_Delete_def Let_def split: option.split)

lemma Release_callback_object:
  assumes "ani_get_env a" "refs_ok s"
  shows "callback_object (Release a obs s) obs' = (if obs' = obs then None else callback_object s obs')"
proof (cases "obs' = obs \<or> callback_ref s obs' = None")
  case True
  then show ?thesis using Release_effect(1) [OF assms, of obs obs'] by (auto simp: callback_object_def)
next
  case False
  then obtain ref' where ref': "callback_ref s obs' = Some ref'" by auto
  have "callback_ref s obs \<noteq> Some ref'" using assms(2) False ref' by (auto simp: refs_ok_def)
  then have "global_refs (Release a obs s) ref' = global_refs s ref'" by (rule Release_rest(3))
  then show ?thesis using Release_effect(1) [OF assms, of obs obs'] False ref' by (simp add: callback_object_def)
qed

lemma callback_object_simps [simp]:
  "callback_object (s\<lparr>jsWallpaperChangeCbList := l\<rparr>) = callback_object s"
  "callback_object (s\<lparr>ets_client := c\<rparr>) = callback_object s"
  "callback_object (s\<lparr>main_tasks := ts\<rparr>) = callback_object s"
  "callback_object (s\<lparr>js_calls := cs\<rparr>) = callback_object s"
  "callback_object (snd (on_client f s)) = callback_object s"
  by (simp_all add: callback_object_def fun_eq_iff)

lemma refs_ok_cong:
  assumes "observers s' = observers s" "global_refs s' = global_refs s" "next_ref s' = next_ref s"
    "next_observer s' = next_observer s"
  shows "refs_ok s' = refs_ok s" "list_ok s' l = list_ok s l"
  using assms by (simp_all add: refs_ok_def list_ok_def callback_ref_def callback_object_def)

lemma list_ok_subset: "list_ok s l \<Longrightarrow> distinct l' \<Longrightarrow> set l' \<subseteq> set l \<Longrightarrow> list_ok s l'"
  by (auto simp: list_ok_def subset_iff)

lemma list_ok_weaken:
  assumes "list_ok s l" "distinct l'" "set l' \<subseteq> set l" "\<forall>obs. observers s' obs = None \<longleftrightarrow> observers s obs = None"
    and "\<forall>obs. callback_ref s' obs \<noteq> None \<longrightarrow>
       callback_ref s' obs = callback_ref s obs \<and> callback_object s' obs = callback_object s obs"
  shows "list_ok s' l'"
proof -
  have "callback_object s' obs = callback_object s obs" if "callback_object s' obs \<noteq> None" for obs
    using that assms(5) by (cases "callback_ref s' obs") (auto simp: callback_object_def)
  then have "obs = obs'" if "obs \<in> set l'" "obs' \<in> set l'" "callback_object s' obs \<noteq> None"
      "callback_object s' obs = callback_object s' obs'" for obs obs'
    using assms(1,3) that unfolding list_ok_def by (metis subsetD)
  then show ?thesis using assms(1-4) by (auto simp: list_ok_def)
qed

lemma list_ok_Release:
  assumes "ani_get_env a" "refs_ok s" "list_ok s l"
  shows "list_ok (Release a obs s) l"
  using assms(3) by (auto simp: list_ok_def Release_effect [OF assms(1,2)] Release_callback_object [OF assms(1,2)])

text \<open>What the loop of \<^verbatim>\<open>OffWallpaperChange\<close> does to the observers: those it passes keep their
  callbacks, those it reaches lose them, and the list keeps the ones that are not meant.\<close>

definition meant :: "('o, 'r) ets \<Rightarrow> 'o option \<Rightarrow> handle \<Rightarrow> bool" where
  "meant s opaque obs \<longleftrightarrow> (case opaque of None \<Rightarrow> True | Some f \<Rightarrow> callback_object s obs = Some f)"

lemma off_loop_effect:
  assumes "ani_get_env a" "refs_ok s" "distinct (kept @ l)"
    and "case jsRef of None \<Rightarrow> opaque = None
         | Some ref \<Rightarrow> opaque \<noteq> None \<and> global_refs s ref = opaque \<and> (\<forall>obs. callback_ref s obs \<noteq> Some ref)"
    and "off_loop a m px jsRef kept l s = (err, s')"
  shows "refs_ok s' \<and> distinct (jsWallpaperChangeCbList s') \<and> set (jsWallpaperChangeCbList s') \<subseteq> set (kept @ l) \<and>
    (\<forall>obs. observers s' obs = None \<longleftrightarrow> observers s obs = None) \<and>
    (\<forall>obs. callback_ref s' obs \<noteq> None \<longrightarrow>
       callback_ref s' obs = callback_ref s obs \<and> callback_object s' obs = callback_object s obs) \<and>
    next_observer s' = next_observer s \<and> next_ref s' = next_ref s \<and>
    (\<forall>ref. jsRef = Some ref \<longrightarrow> global_refs s' ref = opaque) \<and>
    (err = None \<longrightarrow> jsWallpaperChangeCbList s' = kept @ filter (\<lambda>obs. \<not> meant s opaque obs) l \<and>
       (\<forall>obs \<in> set l. meant s opaque obs \<longrightarrow> callback_ref s' obs = None))"
  using assms(2-)
proof (induction l arbitrary: kept s)
  case Nil
  then show ?case by (auto simp: refs_ok_def)
next
  case (Cons obs rest)
  let ?s1 = "Release a obs s"
  have hit: "(case jsRef of None \<Rightarrow> True | Some ref \<Rightarrow> Reference_StrictEquals ref (callback_ref s obs) s) \<longleftrightarrow> meant s opaque obs"
    using Cons.prems(3) by (auto simp: meant_def Reference_StrictEquals_def callback_object_def split: option.splits)
  show ?case
  proof (cases "meant s opaque obs")
    case False
    with Cons.prems(4) hit have "off_loop a m px jsRef (kept @ [obs]) rest s = (err, s')" by simp
    from Cons.IH [OF Cons.prems(1) _ Cons.prems(3) this] Cons.prems(2) False show ?thesis by auto
  next
    case True
    note rel = Release_effect [OF assms(1) Cons.prems(1)] Release_callback_object [OF assms(1) Cons.prems(1)]
    obtain code s2 where off: "on_client (Manager_Off m px ''wallpaperChange'' (Some obs)) ?s1 = (code, s2)" by fastforce
    have same: "observers s2 = observers ?s1" "global_refs s2 = global_refs ?s1" "next_ref s2 = next_ref s"
      "next_observer s2 = next_observer s" "callback_ref s2 = callback_ref ?s1" "callback_object s2 = callback_object ?s1"
      using on_client_keeps [of "Manager_Off m px ''wallpaperChange'' (Some obs)" ?s1] callback_object_simps(5) [of "Manager_Off m px ''wallpaperChange'' (Some obs)" ?s1] off
      by (simp_all add: Release_rest)
    have ok2: "refs_ok s2" using refs_ok_cong(1) [of s2 ?s1] same rel(4) by (simp add: Release_rest)
    have guard: "case jsRef of None \<Rightarrow> opaque = None
       | Some ref \<Rightarrow> opaque \<noteq> None \<and> global_refs s2 ref = opaque \<and> (\<forall>obs'. callback_ref s2 obs' \<noteq> Some ref)"
      using Cons.prems(3) by (auto simp: same rel(1) Release_rest(3) split: option.splits)
    show ?thesis
    proof (cases "code = E_OK")
      case False
      then have s': "s' = s2\<lparr>jsWallpaperChangeCbList := kept @ obs # rest\<rparr>" and "err \<noteq> None"
        using Cons.prems(4) hit True off by (auto simp: setErrorCode_def)
      moreover have "\<forall>ref. jsRef = Some ref \<longrightarrow> global_refs s2 ref = opaque" using guard by auto
      ultimately show ?thesis using Cons.prems(2) ok2 by (auto simp: same rel(1,2,5) refs_ok_cong(1) [of "s2\<lparr>jsWallpaperChangeCbList := kept @ obs # rest\<rparr>" s2] split: if_splits)
    next
      case ok: True
      have run: "off_loop a m px jsRef kept rest s2 = (err, s')" using Cons.prems(4) hit True off ok by simp
      have others: "meant s2 opaque obs' = meant s opaque obs'" if "obs' \<in> set rest" for obs'
        using that Cons.prems(2) by (auto simp: meant_def same rel(5) split: option.split)
      then have kept: "filter (\<lambda>obs. \<not> meant s2 opaque obs) rest = filter (\<lambda>obs. \<not> meant s opaque obs) rest"
        by (auto intro!: filter_cong)
      show ?thesis
        using Cons.IH [OF ok2 _ guard run] Cons.prems(2) True others
        by (auto simp: same rel(1,2,5) kept Release_rest split: if_splits)
    qed
  qed
qed

lemma Create_effect:
  assumes "refs_ok s" "GlobalReference_Create a object s = (Some ref, s1)"
  shows "refs_ok s1" "callback_ref s1 = callback_ref s" "callback_object s1 = callback_object s"
    "global_refs s1 ref = Some object" "\<forall>obs. callback_ref s obs \<noteq> Some ref" "observers s1 = observers s"
    "jsWallpaperChangeCbList s1 = jsWallpaperChangeCbList s" "next_observer s1 = next_observer s"
proof -
  have s1: "ref = next_ref s" "s1 = s\<lparr>global_refs := (global_refs s)(next_ref s \<mapsto> object), next_ref := Suc (next_ref s)\<rparr>"
    using assms(2) by (auto simp: GlobalReference_Create_def split: if_splits)
  have free: "\<forall>obs. callback_ref s obs \<noteq> Some (next_ref s)" using assms(1) unfolding refs_ok_def by blast
  then show "\<forall>obs. callback_ref s obs \<noteq> Some ref" by (simp add: s1)
  have "Option.bind (callback_ref s obs) ((global_refs s)(next_ref s \<mapsto> object)) = Option.bind (callback_ref s obs) (global_refs s)" for obs
    using free by (cases "callback_ref s obs") auto
  then show "callback_object s1 = callback_object s" by (simp add: s1 callback_object_def fun_eq_iff)
  show "refs_ok s1" using assms(1) by (auto simp: s1 refs_ok_def)
qed (use assms(2) in \<open>auto simp: GlobalReference_Create_def split: if_splits\<close>)

lemma Delete_effect:
  assumes "refs_ok s" "\<forall>obs. callback_ref s obs \<noteq> Some ref"
  shows "refs_ok (GlobalReference_Delete ref s)" "callback_ref (GlobalReference_Delete ref s) = callback_ref s"
    "callback_object (GlobalReference_Delete ref s) = callback_object s"
    "observers (GlobalReference_Delete ref s) = observers s"
    "jsWallpaperChangeCbList (GlobalReference_Delete ref s) = jsWallpaperChangeCbList s"
    "next_observer (GlobalReference_Delete ref s) = next_observer s"
proof -
  have "Option.bind (callback_ref s obs) ((global_refs s)(ref := None)) = Option.bind (callback_ref s obs) (global_refs s)" for obs
    using assms(2) by (cases "callback_ref s obs") auto
  then show "callback_object (GlobalReference_Delete ref s) = callback_object s"
    by (simp add: GlobalReference_Delete_def callback_object_def fun_eq_iff)
  show "refs_ok (GlobalReference_Delete ref s)" using assms by (auto simp: GlobalReference_Delete_def refs_ok_def)
qed (simp_all add: GlobalReference_Delete_def)

lemma Create_refused: "GlobalReference_Create a object s = (None, s1) \<longleftrightarrow> \<not> ani_reference_ok a object \<and> s1 = s"
  by (auto simp: GlobalReference_Create_def split: if_splits)

text \<open>\<^verbatim>\<open>offWallpaperChange\<close> in the terms of the loop.\<close>

definition calm :: "'o ani \<Rightarrow> 'o option \<Rightarrow> bool" where
  "calm a opaque \<longleftrightarrow> ani_get_env a \<and> (case opaque of None \<Rightarrow> True | Some f \<Rightarrow> ani_reference_ok a f)"

lemma Off_effect_ets:
  assumes ok: "refs_ok s" "distinct (jsWallpaperChangeCbList s)" and off: "Ets_OffWallpaperChange a m px opaque s = (err, s')"
  shows "refs_ok s' \<and> distinct (jsWallpaperChangeCbList s') \<and>
    set (jsWallpaperChangeCbList s') \<subseteq> set (jsWallpaperChangeCbList s) \<and>
    (\<forall>obs. observers s' obs = None \<longleftrightarrow> observers s obs = None) \<and>
    (\<forall>obs. callback_ref s' obs \<noteq> None \<longrightarrow>
       callback_ref s' obs = callback_ref s obs \<and> callback_object s' obs = callback_object s obs) \<and>
    next_observer s' = next_observer s \<and>
    (calm a opaque \<longrightarrow> err = None \<longrightarrow>
       jsWallpaperChangeCbList s' = filter (\<lambda>obs. \<not> meant s opaque obs) (jsWallpaperChangeCbList s) \<and>
       (\<forall>obs \<in> set (jsWallpaperChangeCbList s). meant s opaque obs \<longrightarrow> callback_ref s' obs = None))"
proof (cases "ani_get_env a")
  case False
  then show ?thesis using off ok by (auto simp: Ets_OffWallpaperChange_def calm_def)
next
  case env: True
  show ?thesis
  proof (cases opaque)
    case None
    with off env have "off_loop a m px None [] (jsWallpaperChangeCbList s) s = (err, s')"
      by (simp add: Ets_OffWallpaperChange_def)
    from off_loop_effect [OF env ok(1) _ _ this, of None] ok None show ?thesis by simp
  next
    case (Some f)
    obtain g s1 where cr: "GlobalReference_Create a f s = (g, s1)" by fastforce
    show ?thesis
    proof (cases g)
      case None
      with cr have refused: "\<not> ani_reference_ok a f" "s1 = s" by (simp_all add: Create_refused)
      then have "s' = s" "\<not> calm a opaque"
        using off env Some by (simp_all add: Ets_OffWallpaperChange_def GlobalReference_Create_def calm_def)
      then show ?thesis using ok by auto
    next
      case g: (Some ref)
      note c = Create_effect [OF ok(1) cr [unfolded g]]
      obtain e2 s2 where loop: "off_loop a m px (Some ref) [] (jsWallpaperChangeCbList s1) s1 = (e2, s2)" by fastforce
      have "e2 = err" and s': "s' = GlobalReference_Delete ref s2"
        using off env Some cr g loop by (auto simp: Ets_OffWallpaperChange_def)
      with loop have "off_loop a m px (Some ref) [] (jsWallpaperChangeCbList s) s1 = (err, s2)" by (simp add: c(7))
      note l = off_loop_effect [OF env c(1) _ _ this, of opaque]
      have meant: "meant s1 x = meant s x" for x unfolding meant_def c(3) ..
      have l: "refs_ok s2 \<and> distinct (jsWallpaperChangeCbList s2) \<and>
        set (jsWallpaperChangeCbList s2) \<subseteq> set (jsWallpaperChangeCbList s) \<and>
        (\<forall>obs. observers s2 obs = None \<longleftrightarrow> observers s obs = None) \<and>
        (\<forall>obs. callback_ref s2 obs \<noteq> None \<longrightarrow>
           callback_ref s2 obs = callback_ref s obs \<and> callback_object s2 obs = callback_object s obs) \<and>
        next_observer s2 = next_observer s \<and>
        (err = None \<longrightarrow>
           jsWallpaperChangeCbList s2 = filter (\<lambda>obs. \<not> meant s opaque obs) (jsWallpaperChangeCbList s) \<and>
           (\<forall>obs \<in> set (jsWallpaperChangeCbList s). meant s opaque obs \<longrightarrow> callback_ref s2 obs = None))"
        using l ok(2) by (simp add: Some c meant)
      have "\<forall>obs. callback_ref s2 obs \<noteq> Some ref" using l c(5) by (metis option.distinct(1))
      from l Delete_effect [OF _ this] show ?thesis by (simp add: s')
    qed
  qed
qed

text \<open>A new observer is listed under a fresh number, for a function no listed observer has.\<close>

lemma On_effect_ets:
  assumes ok: "ets_ok s" and on: "Ets_OnWallpaperChange a m px func f s = (err, s')"
  shows "ets_ok s' \<and> (\<forall>obs. observers s obs \<noteq> None \<longrightarrow>
    observers s' obs \<noteq> None \<and> callback_ref s' obs = callback_ref s obs \<and>
    (obs \<in> set (jsWallpaperChangeCbList s') \<longleftrightarrow> obs \<in> set (jsWallpaperChangeCbList s)))"
proof -
  have rs: "refs_ok s" "list_ok s (jsWallpaperChangeCbList s)" using ok by (simp_all add: ets_ok_def)
  obtain g s1 where cr: "GlobalReference_Create a f s = (g, s1)" by fastforce
  show ?thesis
  proof (cases "ani_get_env a \<and> g \<noteq> None")
    case False
    then have "s' = s"
      using on cr by (auto simp: Ets_OnWallpaperChange_def CreateCallbackRefIfNotDuplicate_def GlobalReference_Create_def split: if_splits)
    then show ?thesis using ok by simp
  next
    case True
    then obtain ref where g: "g = Some ref" and env: "ani_get_env a" by auto
    note c = Create_effect [OF rs(1) cr [unfolded g]]
    note d = Delete_effect [OF c(1), of ref, unfolded c(2), OF c(5)]
    have dup: "Reference_StrictEquals ref (callback_ref s1 obs) s1 \<longleftrightarrow> callback_object s obs = Some f" for obs
      using c(3,4) by (auto simp: Reference_StrictEquals_def callback_object_def fun_eq_iff c(2) split: option.split)
        (metis bind.bind_lunit)+
    show ?thesis
    proof (cases "list_ex (\<lambda>obs. callback_object s obs = Some f) (jsWallpaperChangeCbList s)")
      case True
      then have "s' = GlobalReference_Delete ref s1"
        using on cr g env dup by (simp add: Ets_OnWallpaperChange_def CreateCallbackRefIfNotDuplicate_def)
      moreover have "ets_ok (GlobalReference_Delete ref s1)"
        using rs d(1) unfolding ets_ok_def list_ok_def c d(2-) by blast
      ultimately show ?thesis by (simp add: c d)
    next
      case False
      let ?obs = "next_observer s"
      let ?s2 = "s1\<lparr>observers := (observers s)(?obs \<mapsto> (func, Some ref)), next_observer := Suc ?obs\<rparr>"
      have new: "observers s ?obs = None" using rs(1) unfolding refs_ok_def by (metis less_irrefl)
      have cb2: "callback_ref ?s2 obs = (if obs = ?obs then Some ref else callback_ref s obs)" for obs
        by (simp add: callback_ref_def)
      have co2: "callback_object ?s2 obs = (if obs = ?obs then Some f else callback_object s obs)" for obs
        using c(2-4) by (simp add: callback_object_def [abs_def] cb2 fun_eq_iff)
      have rs2: "refs_ok ?s2" using c(1,4,5) c(6) rs(1) by (auto simp: refs_ok_def cb2 c(2,8) less_Suc_eq)
      obtain code s3 where mon: "on_client (Manager_On m px ''wallpaperChange'' (Some ?obs)) ?s2 = (code, s3)" by fastforce
      have same: "observers s3 = observers ?s2" "callback_ref s3 = callback_ref ?s2" "callback_object s3 = callback_object ?s2"
        "jsWallpaperChangeCbList s3 = jsWallpaperChangeCbList s" "refs_ok s3"
        using on_client_keeps [of "Manager_On m px ''wallpaperChange'' (Some ?obs)" ?s2] refs_ok_cong(1) [of s3 ?s2] rs2
          callback_object_simps(5) [of "Manager_On m px ''wallpaperChange'' (Some ?obs)" ?s2] mon c(7)
        by simp_all
      have list3: "list_ok s3 (jsWallpaperChangeCbList s @ [?obs])" "list_ok s3 (jsWallpaperChangeCbList s)"
        using rs(2) new False by (auto simp: list_ok_def same co2 c(6) list_ex_iff)
      have s': "s' = (if code = E_OK then s3\<lparr>jsWallpaperChangeCbList := jsWallpaperChangeCbList s @ [?obs]\<rparr> else s3)"
        using on env cr g dup False mon same(4) c(6-8)
        by (simp add: Ets_OnWallpaperChange_def CreateCallbackRefIfNotDuplicate_def Let_def split: if_splits)
      have "ets_ok s'"
        using same(4,5) list3 refs_ok_cong [of "s3\<lparr>jsWallpaperChangeCbList := jsWallpaperChangeCbList s @ [?obs]\<rparr>" s3]
        by (simp add: s' ets_ok_def)
      then show ?thesis using new by (auto simp: s' same cb2 c(6))
    qed
  qed
qed

lemma ets_step_keeps:
  assumes "ets_step s s'" "ets_ok s"
  shows "ets_ok s' \<and> (\<forall>obs. observers s obs \<noteq> None \<longrightarrow> callback_ref s obs = None \<longrightarrow>
    observers s' obs \<noteq> None \<and> callback_ref s' obs = None)"
  using assms
proof cases
  case (on a m px func f)
  obtain err where "Ets_OnWallpaperChange a m px func f s = (err, s')" using on by (metis prod.collapse)
  from On_effect_ets [OF assms(2) this] show ?thesis by simp
next
  case (off a m px opaque)
  obtain err where "Ets_OffWallpaperChange a m px opaque s = (err, s')" using off by (metis prod.collapse)
  note o = Off_effect_ets [OF _ _ this]
  have ok: "refs_ok s" "distinct (jsWallpaperChangeCbList s)" using assms(2) by (simp_all add: ets_ok_def list_ok_def)
  have "list_ok s' (jsWallpaperChangeCbList s')"
    using assms(2) o [OF ok] by (auto simp: ets_ok_def intro: list_ok_weaken)
  then show ?thesis using o [OF ok] by (auto simp: ets_ok_def)
next
  case (notified a obs w rt uri)
  then show ?thesis
    using assms(2) by (auto simp: Observer_OnWallpaperChange_def SendEventToMainThread_def ets_ok_def refs_ok_def list_ok_def
        callback_object_def callback_ref_def)
next
  case main
  then show ?thesis
    using assms(2) by (auto simp: RunMain_def OnWallpaperChangeInMainThread_def ets_ok_def refs_ok_def list_ok_def
        callback_object_def callback_ref_def split: list.split option.split)
next
  case (other c)
  then show ?thesis using assms(2) refs_ok_cong [of "s\<lparr>ets_client := c\<rparr>" s] by (simp add: ets_ok_def)
qed

lemma ets_later_keeps:
  "ets_later s s' \<Longrightarrow> ets_ok s \<Longrightarrow> ets_ok s' \<and> (\<forall>obs. observers s obs \<noteq> None \<longrightarrow> callback_ref s obs = None \<longrightarrow>
    observers s' obs \<noteq> None \<and> callback_ref s' obs = None)"
  by (induction rule: ets_later.induct) (auto dest: ets_step_keeps)

lemma ets_reachable_ok: "ets_reachable s \<Longrightarrow> ets_ok s"
proof -
  assume "ets_reachable s"
  then obtain s0 where s0: "ets_started s0" "ets_later s0 s" by (auto simp: ets_reachable_def)
  then have "ets_ok s0" by (auto simp: ets_started_def ets_ok_def refs_ok_def list_ok_def callback_ref_def)
  with s0(2) show ?thesis using ets_later_keeps by blast
qed

text \<open>C34: no function is listed for wallpaper changes twice: in every state a process reaches, two listed
  observers that still have a callback have different functions.\<close>

theorem one_observer_per_function:
  assumes "ets_reachable s"
  shows "distinct (jsWallpaperChangeCbList s) \<and>
    inj_on (callback_object s) {obs \<in> set (jsWallpaperChangeCbList s). callback_object s obs \<noteq> None}"
  using ets_reachable_ok [OF assms] by (auto simp: ets_ok_def list_ok_def inj_on_def)


end
