(* ===== verification/UserLifetime.thy ===== *)
theory UserLifetime
  imports SetWallpaper
begin

text \<open>
  The beginning and the end of a user (\<^verbatim>\<open>OnInitUser\<close>, \<^verbatim>\<open>OnRemovedUser\<close>, defined in
  \<open>UserStore\<close>) on an undisturbed disk: what is left of the directory of the user and of the
  records of both wallpapers.
\<close>

lemma user_dir_path: "comps (GetUserDir u) = user_comps u" "GetUserDir u \<noteq> ''''" "user_comps u \<noteq> []"
  by (rule comps_GetUserDir) (simp_all add: user_comps_def GetUserDir_def)

text \<open>C13: removing a user, whose directory exists, on an undisturbed disk leaves no record of the user in either map and no
  file under the user's directory, and touches nothing else.\<close>

theorem OnRemovedUser_erases:
  assumes u: "0 \<le> u" and ok: "service_ok res s" and disk: "disk_ok e"
    and dir: "map_of (files s) (user_comps u) = Some DirNode"
  shows "(\<forall>w. entry w u (OnRemovedUser e u s) = None) \<and>
    (\<forall>k. prefix (user_comps u) k \<longrightarrow> map_of (files (OnRemovedUser e u s)) k = None) \<and>
    (\<forall>k. \<not> prefix (user_comps u) k \<longrightarrow> map_of (files (OnRemovedUser e u s)) k = map_of (files s) k) \<and>
    (\<forall>w v. v \<noteq> u \<longrightarrow> entry w v (OnRemovedUser e u s) = entry w v s)"
proof -
  have clear: "entry w' v (ClearWallpaperLocked u w x) =
      (if w' = w \<and> v = u then None else entry w' v x)" if "service_ok res x" for w' v w x
    using that service_ok_entry [OF that, of w u]
    by (auto simp: ClearWallpaperLocked_def find_wallpaper_entry data_ok_def split: option.splits)
  let ?s1 = "ClearWallpaperLocked u WALLPAPER_SYSTEM s"
  let ?s2 = "ClearWallpaperLocked u WALLPAPER_LOCKSCREEN ?s1"
  have ok1: "service_ok res ?s1" using safe_ClearWallpaperLocked [OF safe_refl [OF ok]] by (simp add: safe_def)
  have files2: "files ?s2 = files s"
    by (simp add: ClearWallpaperLocked_def split: prod.split)
  have ent: "entry w v ?s2 = (if v = u then None else entry w v s)" for w v
    using clear [OF ok1] clear [OF ok] by (cases w) auto
  let ?p = "GetUserDir u"
  note p = user_dir_path [of u]
  note wf = service_ok_wf_fs [OF ok]
  have "os_opendir e (files s) ?p"
    using dir disk p by (simp add: os_opendir_def lookup_path_def node_at_def disk_okD)
  then obtain t where t: "DeleteDir e ?p True (files s) = (True, t)"
    "\<forall>k. map_of t k = (if prefix (user_comps u) k then None else map_of (files s) k)"
    using DeleteDir_root [OF disk wf] p by metis
  have run: "OnRemovedUser e u s = ?s2\<lparr>files := t\<rparr>"
    using u by (simp add: OnRemovedUser_def Let_def on_files_def files2 t(1))
  show ?thesis by (simp add: run ent t(2))
qed

theorem OnRemovedUser_erases_witness:
  "map_of (files (OnRemovedUser sample_env 100 sample_service)) (type_comps 100 WALLPAPER_SYSTEM) = None"
proof -
  have "prefix (user_comps 100) (type_comps 100 WALLPAPER_SYSTEM)" by (simp add: type_comps_def)
  with OnRemovedUser_erases [OF _ sample_service_ok sample_disk, of 100] sample_nodes(1)
  show ?thesis by simp
qed

lemma clear_user_dir:
  assumes disk: "disk_ok e" and wf: "wf_fs (files s)"
    and dir: "map_of (files s) (user_comps u) \<in> {None, Some DirNode}"
  obtains t where "(if IsFileExist (files s) (GetUserDir u) then on_files (DeleteDir e (GetUserDir u) True) s
      else (True, s)) = (True, s\<lparr>files := t\<rparr>)"
    "\<forall>k. map_of t k = (if prefix (user_comps u) k then None else map_of (files s) k)"
proof (cases "map_of (files s) (user_comps u)")
  case None
  have "(if IsFileExist (files s) (GetUserDir u) then on_files (DeleteDir e (GetUserDir u) True) s
      else (True, s)) = (True, s\<lparr>files := files s\<rparr>)"
    using None user_dir_path [of u] by (simp add: IsFileExist_def os_access_def lookup_path_def node_at_def)
  then show thesis
    by (rule that) (use wf_fs_absent [OF wf None user_dir_path(3)] in simp)
next
  case (Some n)
  with dir have d: "map_of (files s) (user_comps u) = Some DirNode" by simp
  have "os_opendir e (files s) (GetUserDir u)"
    using d disk user_dir_path [of u] by (simp add: os_opendir_def lookup_path_def node_at_def disk_okD)
  then obtain t where t: "DeleteDir e (GetUserDir u) True (files s) = (True, t)"
    "\<forall>k. map_of t k = (if prefix (user_comps u) k then None else map_of (files s) k)"
    using DeleteDir_root [OF disk wf] user_dir_path [of u] by metis
  show thesis
  proof (rule that [OF _ t(2)])
    show "(if IsFileExist (files s) (GetUserDir u) then on_files (DeleteDir e (GetUserDir u) True) s
      else (True, s)) = (True, s\<lparr>files := t\<rparr>)"
      using d user_dir_path [of u] t(1)
      by (simp add: IsFileExist_def os_access_def lookup_path_def node_at_def on_files_def)
  qed
qed


text \<open>The tree after the three directories of a user have been made.\<close>

definition user_dirs :: "int32 \<Rightarrow> fs \<Rightarrow> fs" where
  "user_dirs u t = AList.update (type_comps u WALLPAPER_LOCKSCREEN) DirNode
     (AList.update (type_comps u WALLPAPER_SYSTEM) DirNode (AList.update (user_comps u) DirNode t))"

lemma user_dirs_node:
  "map_of (user_dirs u t) k = (if k = user_comps u \<or> (\<exists>w. k = type_comps u w) then Some DirNode else map_of t k)"
  by (auto simp: user_dirs_def map_of_AList_update) (metis WallpaperType.exhaust)+

lemma user_dirs_below:
  assumes "\<forall>k. prefix (user_comps u) k \<longrightarrow> map_of t k = None" "strict_prefix (type_comps u w) k"
  shows "map_of (user_dirs u t) k = None"
proof -
  have "prefix (user_comps u) k" "k \<noteq> user_comps u"
    using assms(2) by (auto simp: type_comps_def strict_prefix_def dest: append_prefixD)
  moreover have "k \<noteq> type_comps u w'" for w'
    using assms(2) by (auto simp: type_comps_def strict_prefix_def)
  ultimately show ?thesis using user_dirs_node [of u t k] assms(1) by simp
qed

lemma Mkdir_makes:
  assumes "disk_ok e" "q \<noteq> ''''" "comps q \<noteq> []" "map_of x (comps q) = None" "node_at x (butlast (comps q)) = Some DirNode"
  shows "Mkdir e q x = (True, AList.update (comps q) DirNode x)"
  using assms by (simp add: Mkdir_def IsDirExist_def os_opendir_def os_mkdir_def lookup_path_def
      node_at_def [of x "comps q"] parent_ok_def disk_okD)

lemma InitUserDir_makes_dirs:
  assumes disk: "disk_ok e" and t: "\<forall>k. prefix (user_comps u) k \<longrightarrow> map_of t k = None"
    and base: "map_of t (butlast (user_comps u)) = Some DirNode"
  shows "InitUserDir e u (s\<lparr>files := t\<rparr>) = (True, s\<lparr>files := user_dirs u t\<rparr>)"
proof -
  let ?p = "GetUserDir u"
  note p = user_dir_path [of u]
  have bl: "butlast (type_comps u w) = user_comps u" for w by (simp add: type_comps_def)
  have tn: "type_comps u w \<noteq> []" "comps (GetWallpaperDir u w) = type_comps u w" "GetWallpaperDir u w \<noteq> []"
    "type_comps u w \<noteq> user_comps u" for w
    by (simp_all add: type_comps_def path_simps GetWallpaperDir_not_Nil)
  have dirs: "?p @ ''/'' @ WALLPAPER_SYSTEM_DIRNAME = GetWallpaperDir u WALLPAPER_SYSTEM"
    "?p @ ''/'' @ WALLPAPER_LOCKSCREEN_DIRNAME = GetWallpaperDir u WALLPAPER_LOCKSCREEN"
    by (simp_all add: GetWallpaperDir_def Let_def)
  let ?t1 = "AList.update (user_comps u) DirNode t"
  let ?t2 = "AList.update (type_comps u WALLPAPER_SYSTEM) DirNode ?t1"
  have inj: "type_comps u WALLPAPER_SYSTEM \<noteq> type_comps u WALLPAPER_LOCKSCREEN"
    by (simp add: type_comps_inj)
  have none: "map_of t (user_comps u) = None" "map_of t (type_comps u w) = None" for w
    using t by (simp_all add: type_comps_def)
  have m1: "Mkdir e ?p t = (True, ?t1)"
    using Mkdir_makes [OF disk p(2), of t] p none(1) base by (simp add: node_at_def)
  have m2: "Mkdir e (GetWallpaperDir u WALLPAPER_SYSTEM) ?t1 = (True, ?t2)"
    using Mkdir_makes [OF disk tn(3), of WALLPAPER_SYSTEM ?t1] tn none p(3) by (simp add: map_of_AList_update bl node_at_def)
  have m3: "Mkdir e (GetWallpaperDir u WALLPAPER_LOCKSCREEN) ?t2 = (True, user_dirs u t)"
    using Mkdir_makes [OF disk tn(3), of WALLPAPER_LOCKSCREEN ?t2] tn none p(3) inj
    by (simp add: map_of_AList_update bl node_at_def user_dirs_def)
  show ?thesis unfolding InitUserDir_def Let_def dirs by (simp add: on_files_def m1 m2 m3)
qed

text \<open>C14: initialising a user on an undisturbed disk, in a well formed service whose base directory is there and when
  the user's path is absent or a directory, leaves two empty wallpaper directories and, for
  both types, exactly the record of the presets of that type, whatever the user's directory held before: for each
  fold and rotation the preset of that screen and type, when the resources name one, and for the normal upright screen
  else the built-in picture of the type. Nothing outside the user's directory and no record of another user changes.\<close>

theorem OnInitUser_starts_fresh:
  assumes u: "0 \<le> u" and ok: "service_ok (GetDefaultResDir e) s" and disk: "disk_ok e"
    and base: "map_of (files s) (butlast (user_comps u)) = Some DirNode"
    and dir: "map_of (files s) (user_comps u) \<in> {None, Some DirNode}"
  shows "\<forall>w. map_of (files (OnInitUser e u s)) (type_comps u w) = Some DirNode \<and>
    (\<forall>k. strict_prefix (type_comps u w) k \<longrightarrow> map_of (files (OnInitUser e u s)) k = None) \<and>
    entry w u (OnInitUser e u s) = Some (preset_record e (files (OnInitUser e u s)) u w PICTURE) \<and>
    (\<forall>k. \<not> prefix (user_comps u) k \<longrightarrow> map_of (files (OnInitUser e u s)) k = map_of (files s) k) \<and>
    (\<forall>v. v \<noteq> u \<longrightarrow> entry w v (OnInitUser e u s) = entry w v s)"
proof -
  let ?p = "GetUserDir u"
  obtain t where t: "(if IsFileExist (files s) ?p then on_files (DeleteDir e ?p True) s else (True, s))
      = (True, s\<lparr>files := t\<rparr>)"
    "\<forall>k. map_of t k = (if prefix (user_comps u) k then None else map_of (files s) k)"
    by (rule clear_user_dir [OF disk service_ok_wf_fs [OF ok] dir])
  have gone: "\<forall>k. prefix (user_comps u) k \<longrightarrow> map_of t k = None" using t(2) by simp
  have "\<not> prefix (user_comps u) (butlast (user_comps u))" by (simp add: user_comps_def)
  then have "map_of t (butlast (user_comps u)) = Some DirNode" using t(2) base by simp
  note init = InitUserDir_makes_dirs [OF disk gone this]
  let ?t3 = "user_dirs u t"
  have run: "OnInitUser e u s = UpdataWallpaperMap e u WALLPAPER_LOCKSCREEN
      (UpdataWallpaperMap e u WALLPAPER_SYSTEM (s\<lparr>files := ?t3\<rparr>))"
    using u by (simp add: OnInitUser_def Let_def t(1) init)
  have "map_of ?t3 (comps (picture_file u w)) = None \<and> comps (picture_file u w) \<noteq> []" for w
    using user_dirs_below [OF gone, of w "comps (picture_file u w)"] GetWallpaperDataFile_eq [of NORMAL PORT u w]
      comps_GetWallpaperDataFile [of NORMAL PORT u w]
    by (simp add: screen_name_def picture_file_def strict_prefix_def)
  then have "\<not> IsFileExist ?t3 (picture_file u w)" for w
    by (simp add: IsFileExist_def os_access_def lookup_path_def node_at_def)
  then have "disk_data e ?t3 u w = default_data e ?t3 u w" for w by (simp add: disk_data_def)
  then have ent: "entry w u (OnInitUser e u s) = Some (default_data e ?t3 u w)" for w
    by (cases w) (simp_all add: run UpdataWallpaperMap_disk_data)
  have fl: "files (OnInitUser e u s) = ?t3" by (simp add: run UpdataWallpaperMap_disk_data)
  have "map_of ?t3 k = map_of (files s) k" if "\<not> prefix (user_comps u) k" for k
    using that t(2) by (auto simp: user_dirs_node type_comps_def)
  moreover have "entry w v (OnInitUser e u s) = entry w v s" if "v \<noteq> u" for w v
    using that by (cases w) (simp_all add: run UpdataWallpaperMap_disk_data)
  ultimately show ?thesis
    using user_dirs_node user_dirs_below [OF gone] by (auto simp: fl ent default_data_preset)
qed

theorem OnInitUser_starts_fresh_witness:
  "map_of (files (OnInitUser sample_env 100 sample_service)) (picture_comps 100 WALLPAPER_SYSTEM) = None \<and>
   (\<exists>d. entry WALLPAPER_SYSTEM 100 (OnInitUser sample_env 100 sample_service) = Some d \<and>
      wallpaperFile d = WALLPAPER_DEFAULT_FILEFULLPATH \<and> normalLandFile d = '''') \<and>
   (\<exists>d. entry WALLPAPER_LOCKSCREEN 100 (OnInitUser sample_env 100 sample_service) = Some d \<and>
      wallpaperFile d = WALLPAPER_DEFAULT_LOCK_FILEFULLPATH)"
proof -
  have ok: "service_ok (GetDefaultResDir sample_env) sample_service" by (simp add: sample_resources sample_service_ok)
  have base: "map_of (files sample_service) (butlast (user_comps 100)) = Some DirNode"
    by (simp add: user_comps_def sample_files_def)
  have dir: "map_of (files sample_service) (user_comps 100) \<in> {None, Some DirNode}"
    using sample_nodes by simp
  have below: "strict_prefix (type_comps 100 WALLPAPER_SYSTEM) (picture_comps 100 WALLPAPER_SYSTEM)"
    by (simp add: picture_comps_def strict_prefix_def)
  have "GetWallpaperPathInJson sample_env t m f = ''''" for t m f
    by (simp add: GetWallpaperPathInJson_def sample_resources)
  then have "wallpaperFile (preset_record sample_env t u WALLPAPER_SYSTEM r) = WALLPAPER_DEFAULT_FILEFULLPATH"
    "wallpaperFile (preset_record sample_env t u WALLPAPER_LOCKSCREEN r) = WALLPAPER_DEFAULT_LOCK_FILEFULLPATH"
    "normalLandFile (preset_record sample_env t u WALLPAPER_SYSTEM r) = ''''" for t u r
    by (simp_all add: preset_record_def preset_picture_def)
  with OnInitUser_starts_fresh [OF _ ok sample_disk base dir] below show ?thesis by auto
qed

end
