(* ===== verification/Changes.thy ===== *)
theory Changes
  imports SetWallpaper
begin

text \<open>
  What the other handlers that change a wallpaper leave behind on an undisturbed disk: \<^verbatim>\<open>SetVideo\<close>, the
  pixel maps of \<^verbatim>\<open>SetWallpaperByPixelMap\<close> and the packages of \<^verbatim>\<open>SetCustomWallpaper\<close>, each as \<open>installed\<close> of \<open>SetWallpaper\<close>.
\<close>

section \<open>Videos\<close>

lemma SetVideo_effect:
  assumes app: "IsSystemApp e" and granted: "PermissionGranted e PERMISSION_SET_WALLPAPER"
    and not_guest: "OsAccountIsGuest e (QueryActiveUserId e) = Some False"
    and valid: "CheckValid wt n VIDEO = NO_ERROR" and ok: "service_ok res s"
    and ready: "ready e (QueryActiveUserId e) (as_WallpaperType wt) s"
    and no_tmp: "map_of (files s) tmp_comps = None"
    and fd: "map_of (fds s) fd = Some (ReadFd c)" "c \<noteq> ''''"
  shows "\<exists>s' d. SetVideo e fd wt n s = (NO_ERROR, s') \<and>
    installed VIDEO (QueryActiveUserId e) (as_WallpaperType wt) (zero_fill (nat n) (take (nat n) c)) s s' d \<and>
    fds s' = AList.delete fd (fds s) \<and> (fd \<noteq> 0 \<longrightarrow> cfg_writable e (QueryActiveUserId e) s')"
proof -
  obtain s1 d where s1: "SetWallpaper_res e fd wt n VIDEO s = (NO_ERROR, s1)"
    "installed VIDEO (QueryActiveUserId e) (as_WallpaperType wt) (zero_fill (nat n) (take (nat n) c)) s s1 d"
    "fds s1 = AList.update fd (ReadFd (drop (nat n) c)) (fds s)" "cfg_writable e (QueryActiveUserId e) s1"
    using SetWallpaper_res_effect [OF not_guest valid ok ready no_tmp fd] by blast
  have "SetVideo e fd wt n s = (NO_ERROR, os_close fd s1)"
    using app granted by (simp add: SetVideo_def CheckCallingPermission_def s1(1))
  then show ?thesis
    using installed_close [OF s1(2), of fd] cfg_writable_close [OF s1(4), of fd] s1(3)
    by (intro exI [of _ "os_close fd s1"] exI [of _ d]) (simp add: os_close_def delete_update_fd)
qed

section \<open>Pixel maps\<close>

text \<open>The picture a received pixel map is packed into, as far as the service accepts it.\<close>

definition packed :: "env \<Rightarrow> int32 \<Rightarrow> string \<Rightarrow> string option" where
  "packed e wt raw =
     (if raw = '''' then None
      else case DecodeTlv e raw of
        None \<Rightarrow> None
      | Some pm \<Rightarrow>
          (case PackJpeg e pm of (buf, sz) \<Rightarrow>
             if CheckValid wt (wrap32 sz) PICTURE \<noteq> NO_ERROR then None else Some (zero_fill (nat (wrap32 sz)) buf)))"

lemma WritePixelMapToFile_effect:
  assumes disk: "disk_ok e" and raw: "DecodeTlv e raw = Some pm" "packed e wt raw = Some c"
    and user: "map_of (files s) (user_comps u) = Some DirNode" and ok: "service_ok res s"
    and no_tmp: "map_of (files s) tmp_comps = None"
  obtains t where "WritePixelMapToFile e (Some pm) tmp_path wt PICTURE s = (NO_ERROR, s\<lparr>files := t\<rparr>)"
    "map_of t = (map_of (files s))(tmp_comps \<mapsto> FileNode c)" "wf_fs t"
proof -
  obtain buf sz where p: "PackJpeg e pm = (buf, sz)" by fastforce
  then have v: "CheckValid wt (wrap32 sz) PICTURE = NO_ERROR" and c: "c = zero_fill (nat (wrap32 sz)) buf"
    using raw by (auto simp: packed_def split: if_splits)
  then have n: "0 < wrap32 sz" by (simp add: CheckValid_NO_ERROR)
  have "c \<noteq> ''''"
    using zero_fill_length [of "nat (wrap32 sz)" buf] n unfolding c by (metis list.size(3) nat_0_iff not_le)
  then obtain t where t: "write_buffer e tmp_path c s = (NO_ERROR, s\<lparr>files := t\<rparr>)"
    "map_of t = (map_of (files s))(comps tmp_path \<mapsto> FileNode c)"
    using write_buffer_succeeds [OF disk comps_tmp_path(2), unfolded comps_tmp_path(1),
        OF comps_tmp_path(3) no_tmp tmp_parent_ok [OF service_ok_wf_fs [OF ok] user]] by (metis comps_tmp_path(1))
  have "safe res u s (s\<lparr>files := t\<rparr>)"
    by (rule safe_write_buffer_tmp(1) [OF t(1) _ safe_refl [OF ok]]) (simp add: temp_path_ok_def tmp_path_def)
  then have "wf_fs t" by (simp add: safe_def service_ok_def)
  then show thesis
    using t v n disk_okD(10) [OF disk, of "wrap32 sz"]
    by (intro that [of t]) (simp_all add: WritePixelMapToFile_def WritePixelMapToStream_def p Let_def c comps_tmp_path(1))
qed

lemma SetWallpaperByPixelMap_effect:
  assumes granted: "PermissionGranted e PERMISSION_SET_WALLPAPER"
    and not_guest: "OsAccountIsGuest e (QueryActiveUserId e) = Some False"
    and raw: "packed e wt raw = Some c" and ok: "service_ok res s"
    and ready: "ready e (QueryActiveUserId e) (as_WallpaperType wt) s"
    and no_tmp: "map_of (files s) tmp_comps = None"
  shows "\<exists>s' d. SetWallpaperByPixelMap e (Some raw) wt s = (NO_ERROR, s') \<and>
    installed PICTURE (QueryActiveUserId e) (as_WallpaperType wt) c s s' d \<and>
    fds s' = fds s \<and> cfg_writable e (QueryActiveUserId e) s'"
proof -
  let ?u = "QueryActiveUserId e" and ?w = "as_WallpaperType wt"
  have disk: "disk_ok e" and tmp: "wallpaperTmpFullPath s = tmp_path"
    and user: "map_of (files s) (user_comps ?u) = Some DirNode"
    using ready by (simp_all add: ready_def tmp_path_def cfg_writable_def)
  obtain pm where pm: "DecodeTlv e raw = Some pm" "raw \<noteq> ''''"
    using raw by (auto simp: packed_def split: if_splits option.splits)
  obtain t where t: "WritePixelMapToFile e (Some pm) tmp_path wt PICTURE s = (NO_ERROR, s\<lparr>files := t\<rparr>)"
    "map_of t = (map_of (files s))(tmp_comps \<mapsto> FileNode c)" "wf_fs t"
    by (rule WritePixelMapToFile_effect [OF disk pm(1) raw user ok no_tmp])
  have sp: "spooled c s (s\<lparr>files := t\<rparr>)"
    using t(2) by (simp add: spooled_def same_hearing_def)
  have "wf_fs (files (s\<lparr>files := t\<rparr>))"
    using t(3) by simp
  then obtain s2 d where s2: "SetWallpaperBackupData e ?u PICTURE tmp_path ?w (s\<lparr>files := t\<rparr>) = (NO_ERROR, s2)"
    "installed PICTURE ?u ?w c s (snd (SaveColor e ?u ?w s2)) d" "fds (snd (SaveColor e ?u ?w s2)) = fds s"
    "cfg_writable e ?u (snd (SaveColor e ?u ?w s2))"
    using spooled_installs [OF sp ready ok, of PICTURE] by auto
  have "SetWallpaperByPixelMap e (Some raw) wt s = (NO_ERROR, snd (SaveColor e ?u ?w s2))"
    using granted not_guest pm tmp
    by (simp add: SetWallpaperByPixelMap_def SetWallpaperByPixelMap_res_def Let_def CheckCallingPermission_def
        CheckUserPermissionById_def t(1) s2(1))
  with s2 show ?thesis by blast
qed

section \<open>Packages\<close>

lemma as_WallpaperType_value [simp]: "as_WallpaperType (WallpaperType_value w) = w"
  by (cases w) (simp_all add: as_WallpaperType_def WallpaperType_value_def)

lemma known_type_value [simp]: "known_type (WallpaperType_value w)"
  by (cases w) (simp_all add: known_type_def)

text \<open>The first half of \<^verbatim>\<open>SetCustomWallpaper\<close>: the configuration file is written, nothing else changes.\<close>

lemma SaveWallpaperState_ready:
  assumes "ready e u w s" "service_ok (GetDefaultResDir e) s" "map_of (files s) tmp_comps = None" "entry w u s = Some d0"
  obtains s2 where "SaveWallpaperState e u w r s = (True, s2)" "same_rest s s2" "ready e u w s2"
    "service_ok (GetDefaultResDir e) s2" "map_of (files s2) tmp_comps = None" "entry w u s2 = Some d0" "rest_kept u w s s2"
proof -
  have disk: "disk_ok e" and cfg: "cfg_writable e u s" using assms(1) by (simp_all add: ready_def)
  obtain s2 where s2: "SaveWallpaperState e u w r s = (True, s2)" "same_rest s s2"
    "\<forall>k. k \<noteq> cfg_comps u \<longrightarrow> map_of (files s2) k = map_of (files s) k"
    "\<forall>w' v. entry w' v s \<noteq> None \<longrightarrow> entry w' v s2 = entry w' v s"
    "map_of (files s2) (cfg_comps u) \<noteq> Some DirNode"
    by (rule SaveWallpaperState_succeeds [OF disk cfg])
  have "safe (GetDefaultResDir e) u s s2"
    by (rule safe_SaveWallpaperState [OF s2(1) safe_refl [OF assms(2)]])
  moreover have "ready e u w s2"
    using assms(1) s2(2,3,5) cfg_not_user [of u] cfg_not_type(2) [of u w]
    by (auto simp: ready_def cfg_writable_def same_rest_def)
  moreover have "map_of (files s2) tmp_comps = None"
    using s2(3) assms(3) tmp_not_user(2) [of u] by simp
  moreover have "rest_kept u w s s2"
    using s2(2-4) by (simp add: rest_kept_def same_rest_def)
  ultimately show thesis
    using that s2(1,2,4) assms(4) by (simp add: safe_def)
qed

lemma rest_kept_trans: "rest_kept u w s s' \<Longrightarrow> rest_kept u w s' s'' \<Longrightarrow> rest_kept u w s s''"
  by (simp add: rest_kept_def)

lemma SetCustomWallpaper_effect:
  assumes app: "IsSystemApp e" "SceneBoardEnabled e" and granted: "PermissionGranted e PERMISSION_SET_WALLPAPER"
    and not_guest: "OsAccountIsGuest e (QueryActiveUserId e) = Some False"
    and valid: "CheckValid (WallpaperType_value w) n PACKAGE = NO_ERROR" and ok: "service_ok (GetDefaultResDir e) s"
    and ready: "ready e (QueryActiveUserId e) w s" and no_tmp: "map_of (files s) tmp_comps = None"
    and fd: "map_of (fds s) fd = Some (ReadFd c)" "c \<noteq> ''''" and known: "entry w (QueryActiveUserId e) s = Some d0"
  shows "\<exists>s' d. SetCustomWallpaper e fd (WallpaperType_value w) n s = (NO_ERROR, s') \<and>
    map_of (files s') (target_comps PACKAGE (QueryActiveUserId e) w) = Some (FileNode (zero_fill (nat n) (take (nat n) c))) \<and>
    map_of (files s') tmp_comps = None \<and> entry w (QueryActiveUserId e) s' = Some d \<and>
    customPackageUri d = custom_file (QueryActiveUserId e) w \<and> resourceType d = PACKAGE \<and>
    rest_kept (QueryActiveUserId e) w s s' \<and> fds s' = AList.delete fd (fds s) \<and>
    (fd \<noteq> 0 \<longrightarrow> cfg_writable e (QueryActiveUserId e) s')"
proof -
  let ?u = "QueryActiveUserId e" and ?c = "zero_fill (nat n) (take (nat n) c)"
  obtain s2 where s2: "SaveWallpaperState e ?u w PACKAGE s = (True, s2)" "same_rest s s2" "ready e ?u w s2"
    "service_ok (GetDefaultResDir e) s2" "map_of (files s2) tmp_comps = None" "entry w ?u s2 = Some d0" "rest_kept ?u w s s2"
    by (rule SaveWallpaperState_ready [OF ready ok no_tmp known])
  obtain s3 d3 where s3: "SetWallpaper_res e fd (WallpaperType_value w) n PACKAGE s2 = (NO_ERROR, s3)"
    "installed PACKAGE ?u w ?c s2 s3 d3" "fds s3 = AList.update fd (ReadFd (drop (nat n) c)) (fds s2)"
    "cfg_writable e ?u s3"
    using SetWallpaper_res_effect [OF not_guest valid s2(4) _ s2(5) _ fd(2), of fd] s2(2,3) fd(1)
    by (auto simp: same_rest_def)
  obtain i s4 where s4: "MakeWallpaperIdLocked s3 = (i, s4)" by fastforce
  then have i: "s4 = s3\<lparr>wallpaperIdCounter := i\<rparr>" by (auto simp: MakeWallpaperIdLocked_def Let_def)
  let ?d = "(ClearnWallpaperDataFile d0)\<lparr>resourceType := PACKAGE, wallpaperId := i\<rparr>"
  let ?s5 = "insert_wallpaper w ?u ?d s4"
  let ?s6 = "?s5\<lparr>effects := effects ?s5 @ change_effects w PACKAGE ?s5\<rparr>"
  have send: "SendWallpaperChangeEvent e ?u w ?s5 = (True, ?s6)"
    using SendWallpaperChangeEvent_eq [of w ?u ?s5 ?d e] by simp
  have run: "SetCustomWallpaper e fd (WallpaperType_value w) n s = (NO_ERROR, os_close fd ?s6)"
    using app granted
    by (simp add: SetCustomWallpaper_def CheckCallingPermission_def Let_def GetWallpaperSafeLocked_entry [OF known]
        s2(1) s3(1) s4 send)
  have fields: "files ?s6 = files s3" "fds ?s6 = fds s3" "entry w ?u ?s6 = Some ?d"
    "wallpaperTmpFullPath ?s6 = wallpaperTmpFullPath s3" "(w', v) \<noteq> (w, ?u) \<Longrightarrow> entry w' v ?s6 = entry w' v s3" for w' v
    by (auto simp: i)
  have "rest_kept ?u w s2 ?s6"
    using s3(2) fields by (simp add: installed_def rest_kept_def)
  then have kept: "rest_kept ?u w s ?s6" by (rule rest_kept_trans [OF s2(7)])
  have cfg: "cfg_writable e ?u ?s6"
    using s3(4) fields by (simp add: cfg_writable_def)
  show ?thesis
  proof (intro exI conjI impI)
    show "SetCustomWallpaper e fd (WallpaperType_value w) n s = (NO_ERROR, os_close fd ?s6)" by (rule run)
    show "fds (os_close fd ?s6) = AList.delete fd (fds s)"
      using s2(2) s3(3) fields(2) by (simp add: os_close_def delete_update_fd same_rest_def)
    show "customPackageUri ?d = custom_file ?u w"
      using service_ok_live [OF ok known] by (simp add: ClearnWallpaperDataFile_def)
    show "rest_kept ?u w s (os_close fd ?s6)" using kept by (simp add: rest_kept_def os_close_def)
    show "cfg_writable e ?u (os_close fd ?s6)" if "fd \<noteq> 0" using cfg_writable_close [OF cfg that] .
  qed (use s3(2) fields in \<open>simp_all add: installed_def os_close_def\<close>)
qed

text \<open>C10: a package that a permitted system application sets and whose size is refused is recorded all the same, when the user has a record: the caller gets the error code, the file of the package
  stays what it was, but the record says that the user has a package, and the change is announced.\<close>

theorem refused_package_is_recorded:
  assumes app: "IsSystemApp e" "SceneBoardEnabled e" and granted: "PermissionGranted e PERMISSION_SET_WALLPAPER"
    and not_guest: "OsAccountIsGuest e (QueryActiveUserId e) = Some False"
    and invalid: "CheckValid (WallpaperType_value w) n PACKAGE \<noteq> NO_ERROR" and ok: "service_ok (GetDefaultResDir e) s"
    and ready: "ready e (QueryActiveUserId e) w s" and no_tmp: "map_of (files s) tmp_comps = None"
    and known: "entry w (QueryActiveUserId e) s = Some d0"
  shows "\<exists>s' d. SetCustomWallpaper e fd (WallpaperType_value w) n s = (CheckValid (WallpaperType_value w) n PACKAGE, s') \<and>
    map_of (files s') (target_comps PACKAGE (QueryActiveUserId e) w) = map_of (files s) (target_comps PACKAGE (QueryActiveUserId e) w) \<and>
    entry w (QueryActiveUserId e) s' = Some d \<and> resourceType d = PACKAGE \<and>
    effects s' = effects s @ change_effects w PACKAGE s"
proof -
  let ?u = "QueryActiveUserId e"
  have disk: "disk_ok e" and cfg: "cfg_writable e ?u s" using ready by (simp_all add: ready_def)
  obtain s2 where s2: "SaveWallpaperState e ?u w PACKAGE s = (True, s2)" "same_rest s s2"
    "\<forall>k. k \<noteq> cfg_comps ?u \<longrightarrow> map_of (files s2) k = map_of (files s) k"
    by (rule SaveWallpaperState_succeeds [OF disk cfg])
  have s3: "SetWallpaper_res e fd (WallpaperType_value w) n PACKAGE s2 = (CheckValid (WallpaperType_value w) n PACKAGE, s2)"
    using not_guest invalid by (simp add: SetWallpaper_res_def Let_def CheckUserPermissionById_def)
  obtain i s4 where s4: "MakeWallpaperIdLocked s2 = (i, s4)" by fastforce
  then have i: "s4 = s2\<lparr>wallpaperIdCounter := i\<rparr>" by (auto simp: MakeWallpaperIdLocked_def Let_def)
  let ?d = "(ClearnWallpaperDataFile d0)\<lparr>resourceType := PACKAGE, wallpaperId := i\<rparr>"
  let ?s5 = "insert_wallpaper w ?u ?d s4"
  let ?s6 = "?s5\<lparr>effects := effects ?s5 @ change_effects w PACKAGE ?s5\<rparr>"
  have send: "SendWallpaperChangeEvent e ?u w ?s5 = (True, ?s6)"
    using SendWallpaperChangeEvent_eq [of w ?u ?s5 ?d e] by simp
  have "SetCustomWallpaper e fd (WallpaperType_value w) n s = (CheckValid (WallpaperType_value w) n PACKAGE, os_close fd ?s6)"
    using app granted
    by (simp add: SetCustomWallpaper_def CheckCallingPermission_def Let_def GetWallpaperSafeLocked_entry [OF known]
        s2(1) s3 s4 send)
  moreover have "effects ?s6 = effects s @ change_effects w PACKAGE s"
    using s2(2) by (simp add: i same_rest_def change_effects_def listeners_of_def)
  ultimately show ?thesis
    using s2(3) cfg_not_target [of ?u PACKAGE w]
    by (intro exI [of _ "os_close fd ?s6"] exI [of _ ?d]) (simp add: i os_close_def)
qed

end
