(* ===== verification/Batches.thy ===== *)
theory Batches
  imports Changes GetWallpaper
begin

text \<open>
  A batch of pictures, one for each fold and rotation state (\<^verbatim>\<open>SetAllWallpapers\<close>): what its three loops do on an
  undisturbed disk (put aside, copy, record), and what each state of the device is shown afterwards.
\<close>

section \<open>The screens of a batch\<close>

definition screen :: "WallpaperPictureInfo \<Rightarrow> FoldState \<times> RotateState" where
  "screen p = (foldState p, rotateState p)"

text \<open>Where the picture of a screen is put aside, and where it ends up.\<close>

definition screen_temp :: "FoldState \<times> RotateState \<Rightarrow> string list" where
  "screen_temp x = temp_comps (GetFoldStateName (fst x) @ ''_'' @ GetRotateStateName (snd x))"

definition screen_comps :: "int32 \<Rightarrow> WallpaperType \<Rightarrow> FoldState \<times> RotateState \<Rightarrow> string list" where
  "screen_comps u w x = type_comps u w @ [screen_name (fst x) (snd x) w]"

lemma screen_temp_name: "GetFoldStateName f @ ''_'' @ GetRotateStateName r \<in> set temp_names"
  by (cases f; cases r) (simp_all add: temp_names_def)

lemma comps_temp_path_of: "comps (temp_path_of p) = screen_temp (screen p)" "temp_path_of p \<noteq> ''''"
  using comps_temp [OF temp_names_ok [OF screen_temp_name]]
  by (simp_all add: temp_path_of_def screen_temp_def screen_def WALLPAPER_USERID_PATH_def)

lemma screen_temp_inj: "screen_temp x = screen_temp y \<longleftrightarrow> x = y"
  by (cases x; cases "fst x"; cases "snd x"; cases y; cases "fst y"; cases "snd y")
    (simp_all add: screen_temp_def temp_comps_def GetFoldStateName_def GetRotateStateName_def)

lemma screen_temp_simps: "screen_temp x \<noteq> []" "length (screen_temp x) = 6" "butlast (screen_temp x) = butlast tmp_comps"
  "butlast tmp_comps \<noteq> screen_temp x"
  by (simp_all add: screen_temp_def tmp_comps_def temp_comps_def)

lemma screen_comps_inj: "screen_comps u w x = screen_comps u w y \<longleftrightarrow> x = y"
  by (simp add: screen_comps_def screen_name_inj prod_eq_iff)

lemma screen_temp_not_user: "\<not> prefix (user_comps u) (screen_temp x)" "screen_temp x \<noteq> user_comps u"
  "\<not> prefix (type_comps u w) (screen_temp x)" "screen_temp x \<noteq> cfg_comps u" "screen_temp x \<noteq> screen_comps u w y"
proof -
  have "CHR ''_'' \<notin> set (to_string u)"
    using nat_to_string_chars [of "CHR ''_''"] by (auto simp: to_string_def)
  then have "GetFoldStateName (fst x) @ ''_'' @ GetRotateStateName (snd x) \<noteq> to_string u"
    by (metis Un_iff append_Cons list.set_intros(1) set_append)
  then show user: "\<not> prefix (user_comps u) (screen_temp x)"
    by (auto simp: user_comps_def screen_temp_def temp_comps_def)
  then show "screen_temp x \<noteq> user_comps u" by auto
  show type: "\<not> prefix (type_comps u w) (screen_temp x)"
    using user by (auto simp: type_comps_def dest: append_prefixD)
  show "screen_temp x \<noteq> cfg_comps u" using user unfolding cfg_comps_def by (metis prefixI)
  show "screen_temp x \<noteq> screen_comps u w y" using type unfolding screen_comps_def by (metis prefixI)
qed

lemma screen_paths_mem: "screen_temp x \<in> screen_temp ` A \<longleftrightarrow> x \<in> A" "screen_comps u w x \<in> screen_comps u w ` A \<longleftrightarrow> x \<in> A"
  "screen_temp x \<notin> screen_comps u w ` A" "screen_comps u w x \<notin> screen_temp ` A"
  using screen_temp_not_user(5) [of _ u w] by (auto simp: screen_temp_inj screen_comps_inj) (metis screen_temp_not_user(5))+

section \<open>Putting the pictures aside\<close>

text \<open>What the service reads from a descriptor, and the picture it makes of it.\<close>

definition received :: "service \<Rightarrow> int \<Rightarrow> string" where
  "received s fd = (case map_of (fds s) fd of Some (ReadFd c) \<Rightarrow> c | _ \<Rightarrow> '''')"

definition picture_bytes :: "service \<Rightarrow> WallpaperPictureInfo \<Rightarrow> string" where
  "picture_bytes s p = zero_fill (nat (pic_length p)) (take (nat (pic_length p)) (received s (pic_fd p)))"

lemma received_ReadFd: "received s fd \<noteq> '''' \<Longrightarrow> map_of (fds s) fd = Some (ReadFd (received s fd))"
  by (auto simp: received_def split: option.splits ofd.splits)

text \<open>Only files and the positions of descriptors differ.\<close>

definition only_files :: "service \<Rightarrow> service \<Rightarrow> bool" where
  "only_files s s' \<longleftrightarrow> fst ` set (fds s') = fst ` set (fds s) \<and> wallpaperIdCounter s' = wallpaperIdCounter s \<and>
     wallpaperTmpFullPath s' = wallpaperTmpFullPath s \<and> effects s' = effects s \<and> callbackProxy s' = callbackProxy s \<and>
     wallpaperEventMap s' = wallpaperEventMap s \<and> (\<forall>w u. entry w u s' = entry w u s) \<and> same_hearing s s'"

lemma only_files_trans: "only_files s s' \<Longrightarrow> only_files s' s'' \<Longrightarrow> only_files s s''"
  by (auto simp: only_files_def dest: same_hearing_trans)

lemma WriteFdToFile_succeeds:
  assumes disk: "disk_ok e" and new: "map_of (files s) (screen_temp (screen p)) = None"
    and dir: "node_at (files s) (butlast tmp_comps) = Some DirNode" and n: "0 < pic_length p"
    and fd: "received s (pic_fd p) \<noteq> ''''"
  obtains s' where "WriteFdToFile e p (temp_path_of p) s = (NO_ERROR, s')"
    "map_of (files s') = (map_of (files s))(screen_temp (screen p) \<mapsto> FileNode (picture_bytes s p))" "only_files s s'"
    "\<And>k. k \<noteq> pic_fd p \<Longrightarrow> map_of (fds s') k = map_of (fds s) k"
proof -
  have parent: "parent_ok (files s) (comps (temp_path_of p))"
    using dir by (simp add: parent_ok_def comps_temp_path_of screen_temp_simps)
  have ne: "comps (temp_path_of p) \<noteq> []" "map_of (files s) (comps (temp_path_of p)) = None"
    using new by (simp_all add: comps_temp_path_of screen_temp_simps)
  obtain s' where s': "spool_fd e (pic_fd p) (pic_length p) (temp_path_of p) s = (NO_ERROR, s')"
    "map_of (files s') = (map_of (files s))(comps (temp_path_of p) \<mapsto> FileNode (picture_bytes s p))"
    "fds s' = AList.update (pic_fd p) (ReadFd (drop (nat (pic_length p)) (received s (pic_fd p)))) (fds s)"
    "\<forall>w u. entry w u s' = entry w u s" "wallpaperIdCounter s' = wallpaperIdCounter s"
    "wallpaperTmpFullPath s' = wallpaperTmpFullPath s" "effects s' = effects s"
    "callbackProxy s' = callbackProxy s" "wallpaperEventMap s' = wallpaperEventMap s" "same_hearing s s'"
    unfolding picture_bytes_def
    by (rule spool_fd_succeeds [OF disk comps_temp_path_of(2) ne parent n received_ReadFd [OF fd] fd]) auto
  have "fst ` set (fds s') = fst ` set (fds s)"
    using received_ReadFd [OF fd] s'(3) by (force simp: dom_update dest!: map_of_SomeD)
  then show thesis
    using s' by (intro that [of s']) (simp_all add: WriteFdToFile_def comps_temp_path_of only_files_def update_conv')
qed

abbreviation put_aside :: "WallpaperPictureInfo \<Rightarrow> WallpaperPictureInfo" where
  "put_aside p \<equiv> p\<lparr>tempPath := temp_path_of p\<rparr>"

lemma put_aside_simps [simp]: "temp_path_of (p\<lparr>tempPath := t\<rparr>) = temp_path_of p" "screen (p\<lparr>tempPath := t\<rparr>) = screen p"
  "picture_bytes s (p\<lparr>tempPath := t\<rparr>) = picture_bytes s p"
  "WriteFdToFile e (p\<lparr>tempPath := t\<rparr>) = WriteFdToFile e p"
  by (simp_all add: temp_path_of_def screen_def picture_bytes_def WriteFdToFile_def fun_eq_iff)

lemma picture_bytes_cong: "map_of (fds s') (pic_fd p) = map_of (fds s) (pic_fd p) \<Longrightarrow> picture_bytes s' p = picture_bytes s p"
  by (simp add: picture_bytes_def received_def)

lemma stage_wallpapers_succeeds:
  assumes "disk_ok e" "\<forall>p \<in> set ps. CheckValid wt (pic_length p) PICTURE = NO_ERROR"
    "distinct (map screen ps)" "distinct (map pic_fd ps)"
    "\<forall>p \<in> set ps. map_of (files s) (screen_temp (screen p)) = None \<and> received s (pic_fd p) \<noteq> ''''"
    "node_at (files s) (butlast tmp_comps) = Some DirNode"
  shows "\<exists>s'. stage_wallpapers e wt PICTURE passed ps s = (NO_ERROR, passed @ map put_aside ps, s') \<and> only_files s s' \<and>
    (\<forall>p \<in> set ps. map_of (files s') (screen_temp (screen p)) = Some (FileNode (picture_bytes s p))) \<and>
    (\<forall>k. k \<notin> screen_temp ` screen ` set ps \<longrightarrow> map_of (files s') k = map_of (files s) k) \<and>
    (\<forall>fd. fd \<notin> pic_fd ` set ps \<longrightarrow> map_of (fds s') fd = map_of (fds s) fd)"
  using assms(2-)
proof (induction ps arbitrary: passed s)
  case Nil
  show ?case by (simp add: only_files_def same_hearing_def)
next
  case (Cons p ps)
  have n: "0 < pic_length p" using Cons.prems(1) by (simp add: CheckValid_NO_ERROR)
  have here: "map_of (files s) (screen_temp (screen p)) = None" "received s (pic_fd p) \<noteq> ''''"
    using Cons.prems(4) by simp_all
  obtain s1 where s1: "WriteFdToFile e p (temp_path_of p) s = (NO_ERROR, s1)"
    "map_of (files s1) = (map_of (files s))(screen_temp (screen p) \<mapsto> FileNode (picture_bytes s p))" "only_files s s1"
    "\<forall>k. k \<noteq> pic_fd p \<longrightarrow> map_of (fds s1) k = map_of (fds s) k"
    by (rule WriteFdToFile_succeeds [OF assms(1) here(1) Cons.prems(5) n here(2)]) blast
  have other: "screen q \<noteq> screen p" "pic_fd q \<noteq> pic_fd p" if "q \<in> set ps" for q
    using Cons.prems(2,3) that by (metis distinct.simps(2) image_eqI list.set_map list.simps(9))+
  have rec: "received s1 (pic_fd q) = received s (pic_fd q)" "picture_bytes s1 q = picture_bytes s q" if "q \<in> set ps" for q
    using s1(4) other(2) [OF that] by (simp_all add: received_def picture_bytes_def)
  have dir: "node_at (files s1) (butlast tmp_comps) = Some DirNode"
    using Cons.prems(5) s1(2) screen_temp_simps(4) [of "screen p"] by (simp add: node_at_def split: if_splits)
  have aside: "\<forall>q \<in> set ps. map_of (files s1) (screen_temp (screen q)) = None \<and> received s1 (pic_fd q) \<noteq> ''''"
    using Cons.prems(4) other s1(2) rec by (simp add: screen_temp_inj)
  obtain s' where s': "stage_wallpapers e wt PICTURE (passed @ [put_aside p]) ps s1
      = (NO_ERROR, (passed @ [put_aside p]) @ map put_aside ps, s')" "only_files s1 s'"
    "\<forall>q \<in> set ps. map_of (files s') (screen_temp (screen q)) = Some (FileNode (picture_bytes s1 q))"
    "\<forall>k. k \<notin> screen_temp ` screen ` set ps \<longrightarrow> map_of (files s') k = map_of (files s1) k"
    "\<forall>fd. fd \<notin> pic_fd ` set ps \<longrightarrow> map_of (fds s') fd = map_of (fds s1) fd"
    using Cons.IH [OF _ _ _ aside dir, of "passed @ [put_aside p]"] Cons.prems(1-3) by auto
  have "stage_wallpapers e wt PICTURE passed (p # ps) s = (NO_ERROR, passed @ map put_aside (p # ps), s')"
    using Cons.prems(1) s1(1) s'(1) by (simp add: Let_def)
  moreover have "map_of (files s') (screen_temp (screen p)) = Some (FileNode (picture_bytes s p))"
    using s'(4) Cons.prems(2) by (simp add: s1(2) screen_paths_mem)
  ultimately show ?case
    using s'(2-5) s1(2-4) rec(2) only_files_trans [OF s1(3) s'(2)] by (intro exI [of _ s']) auto
qed

section \<open>Copying them to the directory of the user\<close>

text \<open>The field of a record that belongs to a screen.\<close>

definition screen_file :: "FoldState \<times> RotateState \<Rightarrow> WallpaperData \<Rightarrow> string" where
  "screen_file x d =
     (case x of
        (NORMAL, PORT) \<Rightarrow> wallpaperFile d | (NORMAL, LAND) \<Rightarrow> normalLandFile d
      | (UNFOLD_1, PORT) \<Rightarrow> unfoldedOnePortFile d | (UNFOLD_1, LAND) \<Rightarrow> unfoldedOneLandFile d
      | (UNFOLD_2, PORT) \<Rightarrow> unfoldedTwoPortFile d | (UNFOLD_2, LAND) \<Rightarrow> unfoldedTwoLandFile d)"

definition record_screens :: "int32 \<Rightarrow> WallpaperType \<Rightarrow> WallpaperPictureInfo list \<Rightarrow> WallpaperData \<Rightarrow> WallpaperData" where
  "record_screens u w ps d = fold (\<lambda>p. UpdateWallpaperDataFile (foldState p) (rotateState p) u w) ps d"

lemma screen_file_update:
  "screen_file x (UpdateWallpaperDataFile f r u w d) =
     (if x = (f, r) then GetWallpaperDataFile f r u w else screen_file x d)"
proof -
  have "GetWallpaperDir u w @ ''/'' @ (if w = WALLPAPER_SYSTEM then WALLPAPER_HOME else WALLPAPER_LOCK)
      = GetWallpaperDataFile NORMAL PORT u w"
    by (simp add: GetWallpaperDataFile_eq screen_name_def)
  then show ?thesis
    unfolding UpdateWallpaperDataFile_def
    by (cases x; cases "fst x"; cases "snd x"; cases f; cases r) (simp_all add: screen_file_def)
qed

lemma screen_file_record:
  "screen_file x (record_screens u w ps d) =
     (if x \<in> screen ` set ps then GetWallpaperDataFile (fst x) (snd x) u w else screen_file x d)"
  unfolding record_screens_def
  by (induction ps arbitrary: d) (auto simp: screen_file_update screen_def)

lemma record_screens_rest:
  "liveWallpaperFile (record_screens u w ps d) = liveWallpaperFile d \<and>
   customPackageUri (record_screens u w ps d) = customPackageUri d"
proof -
  have "liveWallpaperFile (UpdateWallpaperDataFile f r u w d) = liveWallpaperFile d \<and>
      customPackageUri (UpdateWallpaperDataFile f r u w d) = customPackageUri d" for f r d
    by (cases f; cases r) (simp_all add: UpdateWallpaperDataFile_def)
  then show ?thesis unfolding record_screens_def by (induction ps arbitrary: d) auto
qed

lemma comps_screen: "comps (GetWallpaperDataFile (foldState p) (rotateState p) u w) = screen_comps u w (screen p)"
  by (simp add: comps_GetWallpaperDataFile screen_comps_def screen_def)

lemma SetAllWallpaperBackupData_succeeds:
  assumes disk: "disk_ok e" and "staged ps" "distinct (map screen ps)"
    "\<forall>p \<in> set ps. map_of (files s) (screen_temp (screen p)) = Some (FileNode (b p)) \<and>
       map_of (files s) (screen_comps u w (screen p)) = None"
    "map_of (files s) (type_comps u w) = Some DirNode"
  shows "\<exists>t. SetAllWallpaperBackupData e ps u w d s = (NO_ERROR, record_screens u w ps d, s\<lparr>files := t\<rparr>) \<and>
    (\<forall>p \<in> set ps. map_of t (screen_temp (screen p)) = None \<and>
       map_of t (screen_comps u w (screen p)) = Some (FileNode (b p))) \<and>
    (\<forall>k. k \<notin> screen_temp ` screen ` set ps \<longrightarrow> k \<notin> screen_comps u w ` screen ` set ps \<longrightarrow> map_of t k = map_of (files s) k)"
  using assms(2-)
proof (induction ps arbitrary: d s)
  case Nil
  show ?case by (intro exI [of _ "files s"]) (simp add: record_screens_def)
next
  case (Cons p ps)
  let ?q = "GetWallpaperDataFile (foldState p) (rotateState p) u w"
  let ?d = "UpdateWallpaperDataFile (foldState p) (rotateState p) u w d"
  have path: "tempPath p = temp_path_of p" "staged ps" using Cons.prems(1) by (simp_all add: staged_def)
  have tmp: "map_of (files s) (comps (temp_path_of p)) = Some (FileNode (b p))" "comps (temp_path_of p) \<noteq> []"
    and new: "map_of (files s) (comps ?q) = None"
    using Cons.prems(3) by (simp_all add: comps_temp_path_of comps_screen screen_temp_simps)
  have parent: "parent_ok (files s) (comps ?q)"
    using Cons.prems(4) by (simp add: parent_ok_def comps_screen screen_comps_def node_at_def)
  obtain t1 where t1: "CopyFile e (temp_path_of p) ?q (files s) = (True, t1)"
    "map_of t1 = (map_of (files s))(screen_comps u w (screen p) \<mapsto> FileNode (b p))"
    using CopyFile_new [OF disk comps_temp_path_of(2) tmp GetWallpaperDataFile_not_Nil new parent] by (metis comps_screen)
  have tmp1: "map_of t1 (comps (temp_path_of p)) = Some (FileNode (b p))"
    using tmp(1) by (simp add: t1(2) comps_temp_path_of screen_temp_not_user(5))
  obtain t2 where t2: "DeleteFile e (temp_path_of p) t1 = (True, t2)"
    "map_of t2 = (map_of t1)(screen_temp (screen p) := None)"
    using DeleteFile_file [OF disk comps_temp_path_of(2) tmp(2) tmp1] by (metis comps_temp_path_of(1))
  have node2: "map_of t2 k = (if k = screen_temp (screen p) then None
      else if k = screen_comps u w (screen p) then Some (FileNode (b p)) else map_of (files s) k)" for k
    using t1(2) t2(2) by simp
  have other: "screen q \<noteq> screen p" if "q \<in> set ps" for q
    using Cons.prems(2) that by (metis distinct.simps(2) image_eqI list.set_map list.simps(9))
  have st: "screen_comps u w y \<noteq> screen_temp x" "type_comps u w \<noteq> screen_temp x" "type_comps u w \<noteq> screen_comps u w y" for x y
    using screen_temp_not_user(5) [of x u w y] screen_temp_not_user(3) [of u w x] by (auto simp: screen_comps_def)
  have rest: "\<forall>q \<in> set ps. map_of t2 (screen_temp (screen q)) = Some (FileNode (b q)) \<and>
      map_of t2 (screen_comps u w (screen q)) = None"
    using Cons.prems(3) other st screen_temp_not_user(5) by (simp add: node2 screen_temp_inj screen_comps_inj)
  have dir: "map_of t2 (type_comps u w) = Some DirNode"
    using Cons.prems(4) st by (simp add: node2)
  obtain t where t: "SetAllWallpaperBackupData e ps u w ?d (s\<lparr>files := t2\<rparr>) = (NO_ERROR, record_screens u w ps ?d, s\<lparr>files := t\<rparr>)"
    "\<forall>q \<in> set ps. map_of t (screen_temp (screen q)) = None \<and> map_of t (screen_comps u w (screen q)) = Some (FileNode (b q))"
    "\<forall>k. k \<notin> screen_temp ` screen ` set ps \<longrightarrow> k \<notin> screen_comps u w ` screen ` set ps \<longrightarrow> map_of t k = map_of t2 k"
    using Cons.IH [of "s\<lparr>files := t2\<rparr>" ?d] path(2) Cons.prems(2) rest dir by auto
  have acc: "os_access (files s) (temp_path_of p)"
    using tmp comps_temp_path_of(2) by (simp add: os_access_def lookup_path_def node_at_def)
  have "SetAllWallpaperBackupData e (p # ps) u w d s = (NO_ERROR, record_screens u w (p # ps) d, s\<lparr>files := t\<rparr>)"
    using t(1) by (simp add: acc path(1) Let_def on_files_def t1(1) t2(1) record_screens_def)
  moreover have "map_of t (screen_temp (screen p)) = None" "map_of t (screen_comps u w (screen p)) = Some (FileNode (b p))"
    using t(3) Cons.prems(2) st by (simp_all add: node2 screen_paths_mem)
  ultimately show ?case
    using t(2,3) node2 by (intro exI [of _ t]) auto
qed

section \<open>The whole request\<close>

text \<open>A batch the service can take: each screen once, each picture within bounds with bytes to read, nothing left over.\<close>

definition batch_ok :: "int32 \<Rightarrow> WallpaperPictureInfo list \<Rightarrow> service \<Rightarrow> bool" where
  "batch_ok wt ps s \<longleftrightarrow> distinct (map screen ps) \<and> distinct (map pic_fd ps) \<and>
     (\<forall>p \<in> set ps. CheckValid wt (pic_length p) PICTURE = NO_ERROR \<and> tempPath p = '''' \<and> 0 \<le> pic_fd p \<and>
        received s (pic_fd p) \<noteq> '''' \<and> map_of (files s) (screen_temp (screen p)) = None)"

text \<open>What it leaves: the pictures \<open>b\<close> of the screens and the record \<open>d\<close> that names them.\<close>

definition batch_installed ::
  "int32 \<Rightarrow> WallpaperType \<Rightarrow> WallpaperPictureInfo list \<Rightarrow> service \<Rightarrow> service \<Rightarrow> WallpaperData \<Rightarrow> bool" where
  "batch_installed u w ps s s' d \<longleftrightarrow>
     (\<forall>p \<in> set ps. map_of (files s') (screen_comps u w (screen p)) = Some (FileNode (picture_bytes s p)) \<and>
        map_of (files s') (screen_temp (screen p)) = None) \<and>
     (\<forall>k. strict_prefix (type_comps u w) k \<longrightarrow> k \<in> screen_comps u w ` screen ` set ps \<or> map_of (files s') k = None) \<and>
     (\<forall>k. \<not> strict_prefix (type_comps u w) k \<longrightarrow> k \<notin> screen_temp ` screen ` set ps \<longrightarrow>
        map_of (files s') k = map_of (files s) k) \<and>
     (\<forall>x. x \<in> screen ` set ps \<longrightarrow> screen_file x d = GetWallpaperDataFile (fst x) (snd x) u w) \<and>
     (\<forall>x. x \<notin> screen ` set ps \<longrightarrow> x \<noteq> (NORMAL, PORT) \<longrightarrow> screen_file x d = '''') \<and>
     ((NORMAL, PORT) \<notin> screen ` set ps \<longrightarrow> (\<forall>d0. entry w u s = Some d0 \<longrightarrow> wallpaperFile d = wallpaperFile d0)) \<and>
     entry w u s' = Some d \<and> resourceType d = PICTURE \<and> wallpaperId d = fst (MakeWallpaperIdLocked s) \<and>
     wallpaperTmpFullPath s' = wallpaperTmpFullPath s \<and>
     prefix (effects s) (effects s') \<and> suffix (change_effects w PICTURE s) (effects s') \<and>
     (\<forall>w' v. (w', v) \<noteq> (w, u) \<longrightarrow> entry w' v s \<noteq> None \<longrightarrow> entry w' v s' = entry w' v s)"

lemma screen_file_data: "screen_file x (d\<lparr>resourceType := r, wallpaperId := i\<rparr>) = screen_file x d"
  "x \<noteq> (NORMAL, PORT) \<Longrightarrow> screen_file x (ClearnWallpaperDataFile d) = ''''"
  by (cases x; cases "fst x"; cases "snd x"; simp add: screen_file_def ClearnWallpaperDataFile_def)+

text \<open>Only files, records and the identifier differ.\<close>

definition same_service :: "service \<Rightarrow> service \<Rightarrow> bool" where
  "same_service s s' \<longleftrightarrow> fds s' = fds s \<and> effects s' = effects s \<and> callbackProxy s' = callbackProxy s \<and>
     wallpaperEventMap s' = wallpaperEventMap s \<and> wallpaperTmpFullPath s' = wallpaperTmpFullPath s \<and> same_hearing s s'"

lemma wallpaperFile_Clearn: "wallpaperFile (ClearnWallpaperDataFile d) = wallpaperFile d"
  by (simp add: ClearnWallpaperDataFile_def)

lemma UpdateWallpaperData_succeeds:
  assumes disk: "disk_ok e" and st: "staged ps" "distinct (map screen ps)"
    and nodes: "\<forall>p \<in> set ps. map_of (files s) (screen_temp (screen p)) = Some (FileNode (b p)) \<and>
       map_of (files s) (screen_comps u w (screen p)) = None"
    and dir: "map_of (files s) (type_comps u w) = Some DirNode"
  shows "\<exists>s' d t. UpdateWallpaperData e ps u w s = (NO_ERROR, s') \<and> entry w u s' = Some d \<and>
    resourceType d = PICTURE \<and> wallpaperId d = fst (MakeWallpaperIdLocked s) \<and> files s' = t \<and>
    (\<forall>x. x \<in> screen ` set ps \<longrightarrow> screen_file x d = GetWallpaperDataFile (fst x) (snd x) u w) \<and>
    (\<forall>x. x \<notin> screen ` set ps \<longrightarrow> x \<noteq> (NORMAL, PORT) \<longrightarrow> screen_file x d = '''') \<and>
    ((NORMAL, PORT) \<notin> screen ` set ps \<longrightarrow> (\<forall>d0. entry w u s = Some d0 \<longrightarrow> wallpaperFile d = wallpaperFile d0)) \<and>
    (\<forall>p \<in> set ps. map_of t (screen_temp (screen p)) = None \<and>
       map_of t (screen_comps u w (screen p)) = Some (FileNode (b p))) \<and>
    (\<forall>k. k \<notin> screen_temp ` screen ` set ps \<longrightarrow> k \<notin> screen_comps u w ` screen ` set ps \<longrightarrow> map_of t k = map_of (files s) k) \<and>
    (\<forall>w' v. (w', v) \<noteq> (w, u) \<longrightarrow> entry w' v s \<noteq> None \<longrightarrow> entry w' v s' = entry w' v s) \<and>
    same_service s s'"
proof -
  obtain d' s1 where s1: "GetWallpaperSafeLocked e u w s = (d', s1)" by fastforce
  note f1 = GetWallpaperSafeLocked_frame [OF s1]
  from f1(5) obtain d where d: "d' = Some d" "d = ClearnWallpaperDataFile d"
    by (auto simp: ClearnWallpaperDataFile_def)
  obtain t where t: "SetAllWallpaperBackupData e ps u w (ClearnWallpaperDataFile d) s1
      = (NO_ERROR, record_screens u w ps (ClearnWallpaperDataFile d), s1\<lparr>files := t\<rparr>)"
    "\<forall>p \<in> set ps. map_of t (screen_temp (screen p)) = None \<and> map_of t (screen_comps u w (screen p)) = Some (FileNode (b p))"
    "\<forall>k. k \<notin> screen_temp ` screen ` set ps \<longrightarrow> k \<notin> screen_comps u w ` screen ` set ps \<longrightarrow> map_of t k = map_of (files s) k"
    using SetAllWallpaperBackupData_succeeds [OF disk st nodes [folded f1(1)] dir [folded f1(1)], of "ClearnWallpaperDataFile d"]
    unfolding f1(1) by blast
  obtain i s3 where s3: "MakeWallpaperIdLocked (s1\<lparr>files := t\<rparr>) = (i, s3)" by fastforce
  have i: "i = fst (MakeWallpaperIdLocked s)" "s3 = s1\<lparr>files := t, wallpaperIdCounter := i\<rparr>"
    using s3 f1(2) by (auto simp: MakeWallpaperIdLocked_def Let_def same_rest_def)
  let ?d = "(record_screens u w ps (ClearnWallpaperDataFile d))\<lparr>resourceType := PICTURE, wallpaperId := i\<rparr>"
  have "UpdateWallpaperData e ps u w s = (NO_ERROR, insert_wallpaper w u ?d s3)"
    by (simp add: UpdateWallpaperData_def s1 d(1) t(1) s3)
  moreover have "wallpaperFile ?d = wallpaperFile d0" if "(NORMAL, PORT) \<notin> screen ` set ps" "entry w u s = Some d0" for d0
  proof -
    have "wallpaperFile ?d = wallpaperFile d"
      using that(1) screen_file_record [of "(NORMAL, PORT)" u w ps "ClearnWallpaperDataFile d"]
      by (simp add: screen_file_def ClearnWallpaperDataFile_def)
    moreover have "d = ClearnWallpaperDataFile d0" using d(1) f1(5) that(2) by simp
    ultimately show ?thesis by (metis wallpaperFile_Clearn)
  qed
  ultimately show ?thesis
    using t(2,3) f1(2,3) i
    by (intro exI [of _ "insert_wallpaper w u ?d s3"] exI [of _ ?d] exI [of _ t])
      (auto simp: screen_file_data screen_file_record same_rest_def same_service_def same_hearing_def)
qed

lemma SaveColor_listeners:
  assumes "entry w u s = Some d"
  shows "callbackProxy (snd (SaveColor e u w s)) = callbackProxy s"
    "wallpaperEventMap (snd (SaveColor e u w s)) = wallpaperEventMap s"
  using assms
  by (auto simp: SaveColor_def GetPictureFileName_entry OnColorsChange_def NotifyColorChange_eq split: option.split)

lemma DeleteDir_type:
  assumes ready: "ready e u w s" and wf: "wf_fs (files s)"
  obtains t where "on_files (DeleteDir e (GetWallpaperDir u w) False) s = (True, s\<lparr>files := t\<rparr>)"
    "\<And>k. map_of t k = (if strict_prefix (type_comps u w) k then None else map_of (files s) k)"
proof -
  have disk: "disk_ok e" and dir: "map_of (files s) (type_comps u w) = Some DirNode"
    using ready by (simp_all add: ready_def)
  have ne: "type_comps u w \<noteq> []" by (simp add: type_comps_def user_comps_def)
  have "os_opendir e (files s) (GetWallpaperDir u w)"
    using dir disk ne
    by (simp add: os_opendir_def lookup_path_def node_at_def path_simps disk_okD GetWallpaperDir_not_Nil)
  then obtain t where "DeleteDir e (GetWallpaperDir u w) False (files s) = (True, t)"
    "\<And>k. map_of t k = (if strict_prefix (type_comps u w) k then None else map_of (files s) k)"
    using DeleteDir_clears [OF disk wf] ne by (metis comps_GetWallpaperDir)
  then show thesis by (intro that [of t]) (simp_all add: on_files_def)
qed

text \<open>The colour of a batch is that of its normal picture, as it was installed; it is told before the change is announced.\<close>

definition batch_heard :: "env \<Rightarrow> WallpaperType \<Rightarrow> service \<Rightarrow> service \<Rightarrow> bool" where
  "batch_heard e w s s' \<longleftrightarrow>
     effects s' = effects s @ colour_effects e (picture_file (QueryActiveUserId e) w)
       (bytes_at (files s') (picture_file (QueryActiveUserId e) w)) w s @ change_effects w PICTURE s \<and>
     stored_colour w s' = colour_after e (picture_file (QueryActiveUserId e) w)
       (bytes_at (files s') (picture_file (QueryActiveUserId e) w)) w s"

lemma normal_file: "GetWallpaperDataFile NORMAL PORT u w = picture_file u w"
  by (simp add: GetWallpaperDataFile_eq screen_name_def picture_file_def)

lemma SetAllWallpapers_res_effect:
  assumes app: "IsSystemApp e \<or> IsNativeSa e" and granted: "PermissionGranted e PERMISSION_SET_WALLPAPER"
    and not_guest: "OsAccountIsGuest e (QueryActiveUserId e) = Some False" and ok: "service_ok res s"
    and ready: "ready e (QueryActiveUserId e) (as_WallpaperType wt) s" and batch: "batch_ok wt ps s"
  shows "\<exists>s' d. SetAllWallpapers_res e ps wt PICTURE s = (NO_ERROR, s') \<and>
    batch_installed (QueryActiveUserId e) (as_WallpaperType wt) ps s s' d \<and>
    ((NORMAL, PORT) \<in> screen ` set ps \<longrightarrow> batch_heard e (as_WallpaperType wt) s s') \<and>
    (\<forall>fd. fd \<notin> pic_fd ` set ps \<longrightarrow> map_of (fds s') fd = map_of (fds s) fd)"
proof -
  let ?u = "QueryActiveUserId e" and ?w = "as_WallpaperType wt" and ?qs = "map put_aside ps"
  have disk: "disk_ok e" and dir: "map_of (files s) (type_comps ?u ?w) = Some DirNode"
    and user: "map_of (files s) (user_comps ?u) = Some DirNode"
    using ready by (simp_all add: ready_def cfg_writable_def)
  have "node_at (files s) (butlast tmp_comps) = Some DirNode"
    using tmp_parent_ok [OF service_ok_wf_fs [OF ok] user] by (simp add: parent_ok_def)
  then obtain s1 where s1: "stage_wallpapers e wt PICTURE [] ps s = (NO_ERROR, ?qs, s1)" "only_files s s1"
    "\<forall>p \<in> set ps. map_of (files s1) (screen_temp (screen p)) = Some (FileNode (picture_bytes s p))"
    "\<forall>k. k \<notin> screen_temp ` screen ` set ps \<longrightarrow> map_of (files s1) k = map_of (files s) k"
    "\<forall>fd. fd \<notin> pic_fd ` set ps \<longrightarrow> map_of (fds s1) fd = map_of (fds s) fd"
    using stage_wallpapers_succeeds [OF disk, of ps wt s "[]"] batch by (auto simp: batch_ok_def)
  have st: "staged ?qs" by (simp add: staged_def)
  have "\<forall>p \<in> set ps. tempPath p = ''''" using batch by (simp add: batch_ok_def)
  then have wf1: "wf_fs (files s1)"
    using safe_stage_wallpapers [OF s1(1) _ _ safe_refl [OF ok, of ?u]] by (simp add: staged_def safe_def service_ok_def)
  have st_ne: "type_comps ?u ?w \<notin> screen_temp ` A" "user_comps ?u \<notin> screen_temp ` A" "cfg_comps ?u \<notin> screen_temp ` A" for A
    using screen_temp_not_user(2,4) [where u = ?u] screen_temp_not_user(3) [of ?u ?w] by fastforce+
  have ready1: "ready e ?u ?w s1"
    using ready s1(2,4) st_ne by (simp add: ready_def cfg_writable_def only_files_def)
  obtain t where t: "on_files (DeleteDir e (GetWallpaperDir ?u ?w) False) s1 = (True, s1\<lparr>files := t\<rparr>)"
    "\<And>k. map_of t k = (if strict_prefix (type_comps ?u ?w) k then None else map_of (files s1) k)"
    by (rule DeleteDir_type [OF ready1 wf1]) blast
  let ?s2 = "s1\<lparr>files := t\<rparr>"
  have sp: "strict_prefix (type_comps ?u ?w) (screen_comps ?u ?w x)" "\<not> strict_prefix (type_comps ?u ?w) (screen_temp x)" for x
    using screen_temp_not_user(3) [of ?u ?w x] by (auto simp: screen_comps_def strict_prefix_def)
  have nodes2: "\<forall>p \<in> set ?qs. map_of (files ?s2) (screen_temp (screen p)) = Some (FileNode (picture_bytes s p)) \<and>
      map_of (files ?s2) (screen_comps ?u ?w (screen p)) = None"
    using s1(3) sp by (simp add: t(2))
  have dir2: "map_of (files ?s2) (type_comps ?u ?w) = Some DirNode"
    using dir s1(4) st_ne(1) by (simp add: t(2))
  have dist: "distinct (map screen ?qs)" and scr: "screen ` set ?qs = screen ` set ps"
    using batch by (simp_all add: batch_ok_def comp_def image_image)
  obtain s3 d where s3: "UpdateWallpaperData e ?qs ?u ?w ?s2 = (NO_ERROR, s3)" "entry ?w ?u s3 = Some d"
    "resourceType d = PICTURE" "wallpaperId d = fst (MakeWallpaperIdLocked ?s2)"
    "\<forall>x. x \<in> screen ` set ps \<longrightarrow> screen_file x d = GetWallpaperDataFile (fst x) (snd x) ?u ?w"
    "\<forall>x. x \<notin> screen ` set ps \<longrightarrow> x \<noteq> (NORMAL, PORT) \<longrightarrow> screen_file x d = ''''"
    "(NORMAL, PORT) \<notin> screen ` set ps \<longrightarrow> (\<forall>d0. entry ?w ?u ?s2 = Some d0 \<longrightarrow> wallpaperFile d = wallpaperFile d0)"
    "\<forall>p \<in> set ?qs. map_of (files s3) (screen_temp (screen p)) = None \<and>
       map_of (files s3) (screen_comps ?u ?w (screen p)) = Some (FileNode (picture_bytes s p))"
    "\<forall>k. k \<notin> screen_temp ` screen ` set ps \<longrightarrow> k \<notin> screen_comps ?u ?w ` screen ` set ps \<longrightarrow> map_of (files s3) k = map_of t k"
    "\<forall>w' v. (w', v) \<noteq> (?w, ?u) \<longrightarrow> entry w' v ?s2 \<noteq> None \<longrightarrow> entry w' v s3 = entry w' v ?s2"
    "same_service ?s2 s3"
    using UpdateWallpaperData_succeeds [OF disk st dist nodes2 dir2] unfolding scr by fastforce
  note same = s3(11) [unfolded same_service_def]
  let ?s4 = "snd (SaveColor e ?u ?w s3)"
  let ?s5 = "?s4\<lparr>effects := effects ?s4 @ change_effects ?w PICTURE ?s4\<rparr>"
  note col = SaveColor_frame [OF s3(2), where e = e] SaveColor_listeners [OF s3(2), where e = e]
  have send: "SendWallpaperChangeEvent e ?u ?w ?s4 = (True, ?s5)"
    using SendWallpaperChangeEvent_eq [of ?w ?u ?s4 d e] s3(2,3) col(3) by simp
  have run: "SetAllWallpapers_res e ps wt PICTURE s = (NO_ERROR, ?s5)"
    using app granted not_guest
    by (auto simp: SetAllWallpapers_res_def CheckCallingPermission_def CheckUserPermissionById_def Let_def s1(1) t(1) s3(1) send)
  have eff: "change_effects ?w PICTURE ?s4 = change_effects ?w PICTURE s" "prefix (effects s) (effects ?s4)"
    using s1(2) same col(5,7,8) by (simp_all add: change_effects_def listeners_of_def only_files_def)
  have heard: "batch_heard e ?w s ?s5" if "(NORMAL, PORT) \<in> screen ` set ps"
  proof -
    have pic: "wallpaperFile d = picture_file ?u ?w"
      using s3(5) [rule_format, OF that] by (simp add: screen_file_def normal_file)
    then have "wallpaperFile d \<noteq> ''''" by (simp add: picture_file_def)
    note h = SaveColor_heard [OF s3(2) this, of e, unfolded pic]
    have "same_hearing s s3" using s1(2) same by (simp add: only_files_def same_hearing_def)
    from h heard_same [OF this] same s1(2) eff(1) col(1) show ?thesis
      by (simp add: batch_heard_def only_files_def)
  qed
  have ident: "wallpaperId d = fst (MakeWallpaperIdLocked s)"
    using s3(4) s1(2) by (simp add: MakeWallpaperIdLocked_def Let_def only_files_def)
  have gone: "k \<in> screen_comps ?u ?w ` screen ` set ps \<or> map_of (files s3) k = None" if "strict_prefix (type_comps ?u ?w) k" for k
  proof -
    have "k \<notin> screen_temp ` screen ` set ps" using that sp(2) by blast
    with s3(9) [rule_format, of k] that show ?thesis by (auto simp: t(2))
  qed
  have kept: "map_of (files s3) k = map_of (files s) k"
    if "\<not> strict_prefix (type_comps ?u ?w) k" "k \<notin> screen_temp ` screen ` set ps" for k
  proof -
    have "k \<notin> screen_comps ?u ?w ` screen ` set ps" using that(1) sp(1) by blast
    with s3(9) [rule_format, of k] s1(4) that show ?thesis by (simp add: t(2))
  qed
  have "batch_installed ?u ?w ps s ?s5 d"
    unfolding batch_installed_def
  proof (intro conjI)
    show "\<forall>w' v. (w', v) \<noteq> (?w, ?u) \<longrightarrow> entry w' v s \<noteq> None \<longrightarrow> entry w' v ?s5 = entry w' v s"
      using s3(10) s1(2) col(3) by (simp add: only_files_def)
    show "(NORMAL, PORT) \<notin> screen ` set ps \<longrightarrow> (\<forall>d0. entry ?w ?u s = Some d0 \<longrightarrow> wallpaperFile d = wallpaperFile d0)"
      using s3(7) s1(2) by (simp add: only_files_def)
    show "wallpaperTmpFullPath ?s5 = wallpaperTmpFullPath s"
      using same s1(2) col(6) by (simp add: only_files_def)
  qed (use s3 col gone kept eff ident in \<open>auto simp: suffix_def elim: prefix_order.trans\<close>)
  with run s1(5) same col(2) heard show ?thesis
    by (intro exI [of _ ?s5] exI [of _ d]) simp
qed

section \<open>What is shown afterwards\<close>

text \<open>The descriptors that came with the request are closed.\<close>

lemma CloseWallpaperInfoFd_frame:
  "files (CloseWallpaperInfoFd ps s) = files s \<and> wallpaperTmpFullPath (CloseWallpaperInfoFd ps s) = wallpaperTmpFullPath s \<and> entry w u (CloseWallpaperInfoFd ps s) = entry w u s \<and>
   effects (CloseWallpaperInfoFd ps s) = effects s \<and>
   map_of (fds (CloseWallpaperInfoFd ps s)) fd = (if fd \<in> pic_fd ` set ps \<and> 0 \<le> fd then None else map_of (fds s) fd)"
  by (induction ps s rule: CloseWallpaperInfoFd.induct) (auto simp: os_close_def map_of_AList_delete)

lemma stored_colour_close: "stored_colour w (CloseWallpaperInfoFd ps s) = stored_colour w s"
  by (induction ps s rule: CloseWallpaperInfoFd.induct) (auto simp: os_close_def)

lemma batch_installed_close:
  "batch_installed u w ps s s' d \<Longrightarrow> batch_installed u w ps s (CloseWallpaperInfoFd qs s') d"
  by (simp add: batch_installed_def CloseWallpaperInfoFd_frame)

text \<open>The pictures of a request, each with the descriptor that came for it.\<close>

definition with_fds :: "WallpaperPictureInfo list \<Rightarrow> int list \<Rightarrow> WallpaperPictureInfo list" where
  "with_fds infos fdVector = map2 (\<lambda>p fd. p\<lparr>pic_fd := fd\<rparr>) infos fdVector"

lemma SetAllWallpapers_effect:
  assumes app: "IsSystemApp e \<or> IsNativeSa e" and granted: "PermissionGranted e PERMISSION_SET_WALLPAPER"
    and not_guest: "OsAccountIsGuest e (QueryActiveUserId e) = Some False" and ok: "service_ok res s"
    and ready: "ready e (QueryActiveUserId e) (as_WallpaperType wt) s"
    and len: "length infos = length fdVector" "infos \<noteq> []" and batch: "batch_ok wt (with_fds infos fdVector) s"
  shows "\<exists>s' d. SetAllWallpapers e infos wt fdVector s = (NO_ERROR, s') \<and>
    batch_installed (QueryActiveUserId e) (as_WallpaperType wt) (with_fds infos fdVector) s s' d \<and>
    ((NORMAL, PORT) \<in> screen ` set (with_fds infos fdVector) \<longrightarrow> batch_heard e (as_WallpaperType wt) s s') \<and>
    (\<forall>fd. map_of (fds s') fd = (if fd \<in> pic_fd ` set (with_fds infos fdVector) then None else map_of (fds s) fd))"
proof -
  let ?ps = "with_fds infos fdVector"
  obtain s1 d where s1: "SetAllWallpapers_res e ?ps wt PICTURE s = (NO_ERROR, s1)"
    "batch_installed (QueryActiveUserId e) (as_WallpaperType wt) ?ps s s1 d"
    "\<forall>fd. fd \<notin> pic_fd ` set ?ps \<longrightarrow> map_of (fds s1) fd = map_of (fds s) fd"
    "(NORMAL, PORT) \<in> screen ` set ?ps \<longrightarrow> batch_heard e (as_WallpaperType wt) s s1"
    using SetAllWallpapers_res_effect [OF app granted not_guest ok ready batch] by blast
  have "SetAllWallpapers e infos wt fdVector s = (NO_ERROR, CloseWallpaperInfoFd ?ps s1)"
    using len s1(1) by (auto simp: SetAllWallpapers_def Let_def with_fds_def)
  moreover have "0 \<le> fd" if "fd \<in> pic_fd ` set ?ps" for fd
    using batch that by (auto simp: batch_ok_def)
  ultimately show ?thesis
    using s1(3,4) batch_installed_close [OF s1(2), of ?ps]
    by (intro exI [of _ "CloseWallpaperInfoFd ?ps s1"] exI [of _ d]) (simp add: CloseWallpaperInfoFd_frame batch_heard_def stored_colour_close)
qed

text \<open>The screen whose picture is shown when the device is in the state \<open>x\<close>.\<close>

definition shown_screen :: "(FoldState \<times> RotateState) set \<Rightarrow> FoldState \<times> RotateState \<Rightarrow> FoldState \<times> RotateState" where
  "shown_screen S x =
     (if x \<in> S then x
      else if (fst x, PORT) \<in> S then (fst x, PORT) else (NORMAL, PORT))"

lemma GetWallpaperPath_screens:
  assumes "\<forall>x. x \<in> S \<longrightarrow> screen_file x d = GetWallpaperDataFile (fst x) (snd x) u w"
    "\<forall>x. x \<notin> S \<longrightarrow> x \<noteq> (NORMAL, PORT) \<longrightarrow> screen_file x d = ''''" "(NORMAL, PORT) \<in> S"
    "y = shown_screen S (f, r)"
  shows "GetWallpaperPath (FoldState_value f) (RotateState_value r) d = GetWallpaperDataFile (fst y) (snd y) u w"
proof -
  have pick: "screen_file x d = (if x \<in> S then GetWallpaperDataFile (fst x) (snd x) u w else '''')" for x
    using assms(1-3) by (metis (full_types))
  have "GetWallpaperPath (FoldState_value f) (RotateState_value r) d = first_nonempty (candidates f r d)"
    using GetWallpaperPath_falls_back [of f r d] by blast
  also have "candidates f r d = map (\<lambda>x. screen_file x d) ((case r of LAND \<Rightarrow> [(f, LAND)] | PORT \<Rightarrow> []) @
      (case f of NORMAL \<Rightarrow> [] | _ \<Rightarrow> [(f, PORT)]) @ [(NORMAL, PORT)])"
    by (cases f; cases r) (simp_all add: candidates_def screen_file_def)
  finally show ?thesis
    using assms(3,4) by (cases f; cases r) (simp_all add: pick GetWallpaperDataFile_not_Nil shown_screen_def)
qed

text \<open>Outside the directory of the wallpaper nothing changes: the temporary files were not there before.\<close>

lemma batch_outside:
  assumes "batch_installed u w ps s s' d" "batch_ok wt ps s" "\<not> strict_prefix (type_comps u w) k"
  shows "map_of (files s') k = map_of (files s) k"
proof (cases "k \<in> screen_temp ` screen ` set ps")
  case True
  then obtain p where p: "p \<in> set ps" "k = screen_temp (screen p)" by blast
  then have "map_of (files s') k = None" "map_of (files s) k = None"
    using assms(1,2) by (simp_all add: batch_installed_def batch_ok_def)
  then show ?thesis by simp
qed (use assms(1,3) in \<open>simp add: batch_installed_def\<close>)

text \<open>The picture a state of the device is shown, and the file the record names for it.\<close>

lemma batch_shown:
  assumes ins: "batch_installed u w ps s s' d" and normal: "(NORMAL, PORT) \<in> screen ` set ps"
  obtains p where "p \<in> set ps" "screen p = shown_screen (screen ` set ps) (f, r)"
    "GetWallpaperPath (FoldState_value f) (RotateState_value r) d = GetWallpaperDataFile (foldState p) (rotateState p) u w"
    "node_at (files s') (comps (GetWallpaperDataFile (foldState p) (rotateState p) u w)) = Some (FileNode (picture_bytes s p))"
proof -
  have "shown_screen (screen ` set ps) (f, r) \<in> screen ` set ps" using normal by (simp add: shown_screen_def)
  then obtain p where p: "p \<in> set ps" "shown_screen (screen ` set ps) (f, r) = screen p" by (metis imageE)
  have "GetWallpaperPath (FoldState_value f) (RotateState_value r) d
      = GetWallpaperDataFile (fst (screen p)) (snd (screen p)) u w"
    by (rule GetWallpaperPath_screens [where S = "screen ` set ps"]) (use ins normal p(2) in \<open>auto simp: batch_installed_def\<close>)
  moreover have "map_of (files s') (screen_comps u w (screen p)) = Some (FileNode (picture_bytes s p))"
    using ins p(1) by (simp add: batch_installed_def)
  ultimately show thesis
    using p by (intro that [OF p(1)]) (simp_all add: comps_screen, simp_all add: screen_def node_at_def screen_comps_def)
qed

lemma GetCorrespondWallpaper_effect:
  assumes "IsSystemApp e" "PermissionGranted e PERMISSION_GET_WALLPAPER" "known_type wt"
    and entry: "entry (as_WallpaperType wt) (QueryActiveUserId e) s = Some d"
    and res: "resourceType d = PICTURE" and path: "GetWallpaperPath f r d = p" "p \<noteq> ''''"
    and disk: "disk_ok e"
    and pic: "node_at (files s) (comps p) = Some (FileNode c)" "c \<noteq> ''''" "int (length c) \<le> INT32_MAX"
  shows "GetCorrespondWallpaper e wt f r s =
    (NO_ERROR, Some (int (length c)), Some (fresh_fd (fds s)), s\<lparr>fds := (fresh_fd (fds s), ReadFd c) # fds s\<rparr>)"
proof -
  let ?u = "QueryActiveUserId e" and ?w = "as_WallpaperType wt" and ?fd = "fresh_fd (fds s)"
  have found: "find_wallpaper ?w ?u s = (True, d)" using entry by (simp add: find_wallpaper_entry)
  have data: "GetWallpaperDataPath e ?u ?w f r s = (True, p, s)"
    using path by (simp add: GetWallpaperDataPath_def found Let_def)
  have len: "0 < length c" "wrap32 (int (length c)) = int (length c)"
    using pic(2,3) by (simp_all add: wrap32_id in_int32_def INT32_MIN_def)
  have acc: "os_access (files s) p" "lookup_path (files s) p = Some (FileNode c)"
    using pic(1) path(2) by (simp_all add: os_access_def lookup_path_def)
  have size: "GetCorrespondImageSize e ?u ?w f r s = (NO_ERROR, Some (int (length c)), s)"
    using acc len by (simp add: GetCorrespondImageSize_eq data disk_okD [OF disk] file_content_def pic(1) Let_def)
  have open_it: "os_open_read e p s = (?fd, s\<lparr>fds := (?fd, ReadFd c) # fds s\<rparr>)"
    by (simp add: os_open_read_def acc(2) disk_okD [OF disk] Let_def)
  have fd: "GetCorrespondImageFd e ?u ?w f r s = (NO_ERROR, Some ?fd, s\<lparr>fds := (?fd, ReadFd c) # fds s\<rparr>)"
    using res fresh_fd_nonneg [of "fds s"] by (simp add: GetCorrespondImageFd_def data GetResType_def found open_it)
  show ?thesis
    using assms(1-3) res by (simp add: GetCorrespondWallpaper_def CheckCallingPermission_def Let_def GetResType_def found size fd)
qed

lemma picture_bytes_length: "int (length (picture_bytes s p)) = (if pic_length p \<le> 0 then 0 else pic_length p)"
  by (simp add: picture_bytes_def)

section \<open>Properties\<close>

text \<open>C8: after a permitted batch of pictures of valid sizes, one for each screen state it names, that contains the one for the normal upright
  screen, on an undisturbed disk without left-over temporary files, every
  state of the device is shown the right one: the picture of its fold and rotation if the batch has it, else the upright
  one of its fold, else the normal one, byte for byte; the descriptors of the request are closed, no temporary file is
  left, and no file outside the directory of the user and type changes; the main colour of the normal picture is told to
  the listeners of colours when it is new, and then the change is announced.\<close>

theorem batch_shows_each_screen:
  assumes app: "IsSystemApp e \<or> IsNativeSa e" and granted: "PermissionGranted e PERMISSION_SET_WALLPAPER"
    and not_guest: "OsAccountIsGuest e (QueryActiveUserId e) = Some False" and ok: "service_ok res s"
    and ready: "ready e (QueryActiveUserId e) (as_WallpaperType wt) s"
    and len: "length infos = length fdVector" and batch: "batch_ok wt (with_fds infos fdVector) s"
    and normal: "(NORMAL, PORT) \<in> screen ` set (with_fds infos fdVector)"
    and reader: "IsSystemApp e'" "PermissionGranted e' PERMISSION_GET_WALLPAPER" "disk_ok e'"
      "QueryActiveUserId e' = QueryActiveUserId e"
  shows "\<exists>s'. SetAllWallpapers e infos wt fdVector s = (NO_ERROR, s') \<and>
    (\<forall>fd. map_of (fds s') fd = (if fd \<in> pic_fd ` set (with_fds infos fdVector) then None else map_of (fds s) fd)) \<and>
    (\<forall>k. \<not> strict_prefix (type_comps (QueryActiveUserId e) (as_WallpaperType wt)) k \<longrightarrow>
       map_of (files s') k = map_of (files s) k) \<and>
    batch_heard e (as_WallpaperType wt) s s' \<and>
    (\<forall>f r. \<exists>p \<in> set (with_fds infos fdVector). screen p = shown_screen (screen ` set (with_fds infos fdVector)) (f, r) \<and>
       (\<exists>fd s''. GetCorrespondWallpaper e' wt (FoldState_value f) (RotateState_value r) s'
           = (NO_ERROR, Some (pic_length p), Some fd, s'') \<and>
         map_of (fds s'') fd = Some (ReadFd (picture_bytes s p))))"
proof -
  let ?u = "QueryActiveUserId e" and ?w = "as_WallpaperType wt" and ?ps = "with_fds infos fdVector"
  have "infos \<noteq> []" using normal by (auto simp: with_fds_def)
  then obtain s' d where s': "SetAllWallpapers e infos wt fdVector s = (NO_ERROR, s')" "batch_installed ?u ?w ?ps s s' d"
    "\<forall>fd. map_of (fds s') fd = (if fd \<in> pic_fd ` set ?ps then None else map_of (fds s) fd)"
    "batch_heard e ?w s s'"
    using SetAllWallpapers_effect [OF app granted not_guest ok ready len _ batch] normal by blast
  have outside: "map_of (files s') k = map_of (files s) k" if "\<not> strict_prefix (type_comps ?u ?w) k" for k
    by (rule batch_outside [OF s'(2) batch that])
  have shown: "\<exists>p \<in> set ?ps. screen p = shown_screen (screen ` set ?ps) (f, r) \<and>
      (\<exists>fd s''. GetCorrespondWallpaper e' wt (FoldState_value f) (RotateState_value r) s'
         = (NO_ERROR, Some (pic_length p), Some fd, s'') \<and> map_of (fds s'') fd = Some (ReadFd (picture_bytes s p)))" for f r
  proof -
    obtain p where p: "p \<in> set ?ps" "screen p = shown_screen (screen ` set ?ps) (f, r)"
      "GetWallpaperPath (FoldState_value f) (RotateState_value r) d = GetWallpaperDataFile (foldState p) (rotateState p) ?u ?w"
      "node_at (files s') (comps (GetWallpaperDataFile (foldState p) (rotateState p) ?u ?w)) = Some (FileNode (picture_bytes s p))"
      by (rule batch_shown [OF s'(2) normal, of f r])
    have "CheckValid wt (pic_length p) PICTURE = NO_ERROR" using batch p(1) by (simp add: batch_ok_def)
    then have n: "0 < pic_length p" "pic_length p \<le> FOO_MAX_LEN" "known_type wt" by (simp_all add: CheckValid_NO_ERROR)
    then have bytes: "int (length (picture_bytes s p)) = pic_length p" "picture_bytes s p \<noteq> ''''"
      using picture_bytes_length [of s p] by auto
    have rec: "entry ?w (QueryActiveUserId e') s' = Some d" "resourceType d = PICTURE"
      using s'(2) reader(4) by (simp_all add: batch_installed_def)
    have "int (length (picture_bytes s p)) \<le> INT32_MAX" using bytes(1) n(2) by (simp add: FOO_MAX_LEN_def INT32_MAX_def)
    from GetCorrespondWallpaper_effect [OF reader(1,2) n(3) rec p(3) GetWallpaperDataFile_not_Nil reader(3) p(4) bytes(2) this]
    show ?thesis using p(2) bytes(1) by (intro bexI [OF _ p(1)]) simp
  qed
  show ?thesis
    by (rule exI [of _ s']) (use s'(1,3,4) outside shown in blast)
qed

text \<open>A batch without the normal picture is accepted all the same: when the record named the user's own picture it still
  names it, but the file is gone, so that in the normal state, and in every other the batch says nothing of, nothing can be shown.\<close>

theorem normal_picture_lost:
  assumes app: "IsSystemApp e \<or> IsNativeSa e" and granted: "PermissionGranted e PERMISSION_SET_WALLPAPER"
    and not_guest: "OsAccountIsGuest e (QueryActiveUserId e) = Some False" and ok: "service_ok res s"
    and ready: "ready e (QueryActiveUserId e) (as_WallpaperType wt) s"
    and len: "length infos = length fdVector" "infos \<noteq> []" and batch: "batch_ok wt (with_fds infos fdVector) s"
    and missing: "(NORMAL, PORT) \<notin> screen ` set (with_fds infos fdVector)"
    and own: "entry (as_WallpaperType wt) (QueryActiveUserId e) s = Some d0"
      "wallpaperFile d0 = picture_file (QueryActiveUserId e) (as_WallpaperType wt)"
  shows "\<exists>s' d. SetAllWallpapers e infos wt fdVector s = (NO_ERROR, s') \<and>
    entry (as_WallpaperType wt) (QueryActiveUserId e) s' = Some d \<and>
    GetWallpaperPath (FoldState_value NORMAL) (RotateState_value PORT) d = wallpaperFile d0 \<and>
    \<not> os_access (files s') (wallpaperFile d0)"
proof -
  let ?u = "QueryActiveUserId e" and ?w = "as_WallpaperType wt"
  obtain s' d where s': "SetAllWallpapers e infos wt fdVector s = (NO_ERROR, s')"
    "batch_installed ?u ?w (with_fds infos fdVector) s s' d"
    using SetAllWallpapers_effect [OF app granted not_guest ok ready len batch] by blast
  have pic: "picture_comps ?u ?w = screen_comps ?u ?w (NORMAL, PORT)"
    by (simp add: picture_comps_def screen_comps_def screen_name_def)
  have "strict_prefix (type_comps ?u ?w) (picture_comps ?u ?w)"
    by (auto simp: picture_comps_def strict_prefix_def)
  then have "map_of (files s') (picture_comps ?u ?w) = None"
    using s'(2) missing unfolding batch_installed_def pic by (metis (no_types, lifting) screen_paths_mem(2))
  then have "\<not> os_access (files s') (wallpaperFile d0)"
    by (simp add: own(2) os_access_def lookup_path_def node_at_def comps_picture_file picture_comps_def)
  then show ?thesis
    using s' own missing
    by (intro exI [of _ s'] exI [of _ d]) (simp add: batch_installed_def GetWallpaperPath_def FoldState_value_def RotateState_value_def)
qed

text \<open>The normal picture and one for the unfolded screen on its side.\<close>

definition sample_batch :: "WallpaperPictureInfo list" where
  "sample_batch =
     [\<lparr>foldState = NORMAL, rotateState = PORT, pic_fd = 0, pic_length = 7, tempPath = ''''\<rparr>,
      \<lparr>foldState = UNFOLD_1, rotateState = LAND, pic_fd = 0, pic_length = 4, tempPath = ''''\<rparr>]"

definition two_pictures :: service where
  "two_pictures = sample_service\<lparr>fds := (7, ReadFd ''wide'') # fds sample_service\<rparr>"

lemma two_pictures_ok: "service_ok '''' two_pictures" "ready sample_env 100 w two_pictures"
  using sample_service_ok sample_ready [of w]
  by (simp_all add: two_pictures_def service_ok_def entry_def ready_def cfg_writable_def)

lemma sample_no_temps: "map_of sample_files (screen_temp x) = None"
  by (cases x; cases "fst x"; cases "snd x")
    (simp_all add: sample_files_def screen_temp_def temp_comps_def GetFoldStateName_def GetRotateStateName_def)

lemma two_pictures_batch: "batch_ok 0 (with_fds sample_batch [5, 7]) two_pictures"
proof -
  have "CheckValid 0 7 PICTURE = NO_ERROR" "CheckValid 0 4 PICTURE = NO_ERROR" by code_simp+
  then show ?thesis
    by (simp add: sample_no_temps batch_ok_def with_fds_def sample_batch_def two_pictures_def screen_def received_def)
qed

theorem batch_shows_each_screen_witness:
  "\<exists>s' fd s''. SetAllWallpapers sample_env sample_batch 0 [5, 7] two_pictures = (NO_ERROR, s') \<and>
     GetCorrespondWallpaper sample_env 0 (FoldState_value UNFOLD_1) (RotateState_value LAND) s' = (NO_ERROR, Some 4, Some fd, s'') \<and>
     map_of (fds s'') fd = Some (ReadFd ''wide'')"
proof -
  have u: "QueryActiveUserId sample_env = 100" and w: "as_WallpaperType 0 = WALLPAPER_SYSTEM"
    by (simp_all add: QueryActiveUserId_def sample_env_def as_WallpaperType_def WallpaperType_value_def)
  let ?ps = "with_fds sample_batch [5, 7]"
  have ps: "?ps = [\<lparr>foldState = NORMAL, rotateState = PORT, pic_fd = 5, pic_length = 7, tempPath = ''''\<rparr>,
      \<lparr>foldState = UNFOLD_1, rotateState = LAND, pic_fd = 7, pic_length = 4, tempPath = ''''\<rparr>]"
    by (simp add: with_fds_def sample_batch_def)
  have bytes: "picture_bytes two_pictures (?ps ! 1) = ''wide''"
    by (simp add: ps picture_bytes_def received_def two_pictures_def zero_fill_def)
  have normal: "(NORMAL, PORT) \<in> screen ` set ?ps" by (subst ps) (simp add: screen_def)
  have len: "length sample_batch = length [5 :: int, 7]" by (simp add: sample_batch_def)
  from batch_shows_each_screen [OF _ _ _ two_pictures_ok(1) two_pictures_ok(2) [folded u] len two_pictures_batch normal
      _ _ sample_disk refl]
  obtain s' where s': "SetAllWallpapers sample_env sample_batch 0 [5, 7] two_pictures = (NO_ERROR, s')"
    "\<forall>f r. \<exists>p \<in> set ?ps. screen p = shown_screen (screen ` set ?ps) (f, r) \<and>
       (\<exists>fd s''. GetCorrespondWallpaper sample_env 0 (FoldState_value f) (RotateState_value r) s'
           = (NO_ERROR, Some (pic_length p), Some fd, s'') \<and> map_of (fds s'') fd = Some (ReadFd (picture_bytes two_pictures p)))"
    by (auto simp: sample_env_def IsSystemApp_def)
  from s'(2) [rule_format, of UNFOLD_1 LAND] bytes s'(1) show ?thesis
    by (auto simp: ps shown_screen_def screen_def)
qed

end
