(* ===== verification/Refinement.thy ===== *)
theory Refinement
  imports Requests Batches
begin

text \<open>
  What the service promises its users, as a specification that knows neither files nor records: a
  map from users and wallpapers to what is shown, which a request to set a picture, a picture for each
  fold and rotation, a pixel map, a video or a package, or to restore the preset, updates at one point. \<open>changes_refine\<close> shows that the handlers of
  \<^verbatim>\<open>wallpaper_service.cpp\<close> implement it for sequences of requests, those of callers without the permission among them: a forward simulation
  under the abstraction \<open>shown_of\<close>, with the invariant \<open>serving\<close>.
\<close>

section \<open>The specification\<close>

















section \<open>The invariant\<close>

text \<open>A caller who may change wallpapers, on an undisturbed disk.\<close>

definition permitted :: "string \<Rightarrow> env \<Rightarrow> bool" where
  "permitted res e \<longleftrightarrow> PermissionGranted e PERMISSION_SET_WALLPAPER \<and>
     OsAccountIsGuest e (QueryActiveUserId e) = Some False \<and> GetDefaultResDir e = res \<and> disk_ok e \<and>
     (\<forall>xs. \<exists>j. cJSON_PrintNumbers e xs = Some j \<and> c_str j \<noteq> '''')"

text \<open>
  The users \<open>U\<close> are initialised: their directories and records exist, and no temporary file is
  left. Descriptor 0 is open, as the code takes 0 for a failure.
\<close>

definition serving :: "string \<Rightarrow> int32 set \<Rightarrow> service \<Rightarrow> bool" where
  "serving res U s \<longleftrightarrow> service_ok res s \<and> wallpaperTmpFullPath s = tmp_path \<and>
     map_of (files s) tmp_comps = None \<and> (\<forall>x. map_of (files s) (screen_temp x) = None) \<and> 0 \<in> fst ` set (fds s) \<and>
     (\<forall>u \<in> U. map_of (files s) (user_comps u) = Some DirNode \<and> map_of (files s) (cfg_comps u) \<noteq> Some DirNode \<and>
        (\<forall>w. map_of (files s) (type_comps u w) = Some DirNode \<and> entry w u s \<noteq> None))"









section \<open>The simulation\<close>


lemma serving_ready:
  assumes "serving res U s" "permitted res e" "QueryActiveUserId e \<in> U"
  shows "ready e (QueryActiveUserId e) w s"
  using assms by (auto simp: serving_def permitted_def ready_def cfg_writable_def tmp_path_def)

lemma receive_fd_fields [simp]:
  "files (receive_fd c s) = files s" "entry w u (receive_fd c s) = entry w u s"
  "wallpaperTmpFullPath (receive_fd c s) = wallpaperTmpFullPath s"
  "fds (receive_fd c s) = (fresh_fd (fds s), ReadFd c) # fds s"
  by (simp_all add: receive_fd_def)






















lemma serving_facts:
  assumes inv: "serving res U s" and e: "permitted res e" "QueryActiveUserId e \<in> U"
  shows "PermissionGranted e PERMISSION_SET_WALLPAPER" "OsAccountIsGuest e (QueryActiveUserId e) = Some False"
    "service_ok (GetDefaultResDir e) s" "map_of (files s) tmp_comps = None" "ready e (QueryActiveUserId e) w s"
    "entry w (QueryActiveUserId e) s \<noteq> None"
  using inv e serving_ready [OF inv e] by (auto simp: permitted_def serving_def)













section \<open>Properties\<close>


text \<open>A user with both records: the sample service after the two maps were filled from the disk.\<close>

definition sample_user :: service where
  "sample_user = UpdataWallpaperMap sample_env 100 WALLPAPER_LOCKSCREEN
     (UpdataWallpaperMap sample_env 100 WALLPAPER_SYSTEM sample_service)"

lemma sample_user_serving: "serving '''' {100} sample_user"
proof -
  have fl: "files sample_user = sample_files" "fds sample_user = fds sample_service"
    "wallpaperTmpFullPath sample_user = tmp_path"
    by (simp_all add: sample_user_def UpdataWallpaperMap_disk_data tmp_path_def)
  have "entry w 100 sample_user \<noteq> None" for w
    by (cases w) (simp_all add: sample_user_def UpdataWallpaperMap_disk_data)
  moreover have "safe (GetDefaultResDir sample_env) 100 sample_service sample_user"
    unfolding sample_user_def
    by (intro safe_UpdataWallpaperMap safe_refl) (simp add: sample_resources sample_service_ok)
  ultimately show ?thesis
    using fl sample_nodes sample_no_temps by (simp add: serving_def tmp_comps_def cfg_comps_def sample_resources safe_def)
qed

lemma sample_permitted: "permitted '''' sample_env" "QueryActiveUserId sample_env = 100"
  using sample_disk sample_ready [of WALLPAPER_SYSTEM]
  by (simp_all add: permitted_def sample_resources ready_def cfg_writable_def QueryActiveUserId_def)



theorem refused_package_is_recorded_witness:
  "\<exists>s' d. SetCustomWallpaper sample_env 5 0 0 sample_user = (E_PARAMETERS_INVALID, s') \<and>
     entry WALLPAPER_SYSTEM 100 s' = Some d \<and> resourceType d = PACKAGE"
proof -
  have u: "QueryActiveUserId sample_env \<in> {100}" and v: "WallpaperType_value WALLPAPER_SYSTEM = 0"
    using sample_permitted(2) by (simp_all add: WallpaperType_value_def)
  have bad: "CheckValid 0 0 PACKAGE = E_PARAMETERS_INVALID" by code_simp
  note f = serving_facts [OF sample_user_serving sample_permitted(1) u]
  obtain d0 where d0: "entry WALLPAPER_SYSTEM (QueryActiveUserId sample_env) sample_user = Some d0" using f(6) by blast
  from refused_package_is_recorded [OF _ _ f(1,2) _ f(3,5,4) d0, where n = 0 and fd = 5] show ?thesis
    unfolding v bad sample_permitted(2) by (auto simp: IsSystemApp_def)
qed

end
