(* ===== verification/EndToEnd.thy ===== *)
theory EndToEnd
  imports Ets UserLifetime Refinement
begin

text \<open>
  Client library and service together. What the client relies on is stated as two locales over
  the methods of its proxy, \<open>picture_service\<close> and \<open>listener_service\<close>; its own lemmas are proved
  inside them, for any service that keeps the contract, and both are interpreted on
  \<open>direct_proxy\<close>, the model of \<^verbatim>\<open>wallpaper_service.cpp\<close> behind the interface of
  \<^verbatim>\<open>IWallpaperService.idl\<close>.
\<close>

section \<open>The client's side of a transfer\<close>

text \<open>A picture the client can send: its path names a regular file of the process that holds \<open>c\<close>.\<close>

definition local_picture :: "mgr_env \<Rightarrow> string \<Rightarrow> string \<Rightarrow> 'r client \<Rightarrow> bool" where
  "local_picture m uri c s \<longleftrightarrow> disk_ok m \<and> fclose_ok m uri \<and> uri \<noteq> '''' \<and> length uri \<le> PATH_MAX \<and>
     realpath_of m uri = Some uri \<and> node_at (files s) (comps uri) = Some (FileNode c) \<and> c \<noteq> ''''"

lemma GetService_connected: "wallpaperProxy s = Some p \<Longrightarrow> GetService m s = (Some p, s)"
  by (simp add: GetService_def)

lemma local_picture_path:
  "local_picture m uri c s \<Longrightarrow> GetRealPath m (files s) uri = Some uri"
  by (simp add: local_picture_def GetRealPath_def IsFileExist_def os_access_def lookup_path_def)

lemma local_picture_size:
  assumes "local_picture m uri c s" "int (length c) \<le> INT32_MAX"
  shows "wallpaper_size m (files s) uri False = (E_OK, Some (int (length c)))"
  using assms
  by (simp add: local_picture_def wallpaper_size_def Let_def os_access_def lookup_path_def disk_okD
      file_content_def wrap32_id in_int32_def INT32_MIN_def)

lemma send_file_transfers:
  assumes "local_picture m uri c s" and run: "h (Some (ReadFd c)) (remote s) = (code, r')"
  shows "send_file m h uri s = (ConvertIntToErrorCode m code, s\<lparr>remote := r'\<rparr>)"
proof -
  have "\<not> fresh_fd (fds s) < 0" using fresh_fd_nonneg [of "fds s"] by simp
  with assms delete_fresh [OF fresh_fd_fresh [of "fds s"]] show ?thesis
    by (simp add: local_picture_def send_file_def os_open_read_def lookup_path_def disk_okD Let_def
        call_remote_def os_close_def)
qed

lemma picture_of_answer_decodes:
  assumes "ConvertIntToErrorCode m code = E_OK" "disk_ok m" "c \<noteq> ''''" "int (length c) \<le> CLIENT_MAX_VIDEO_SIZE"
    and dec: "SourceOfBuffer m c = Some src" "CreatePixelMapOf m src = (True, q)"
  shows "picture_of_answer m code (Some (int (length c))) (Some (ReadFd c)) pm s = (E_OK, q, s)"
proof -
  have fd: "\<not> fresh_fd (fds s) < 0" "fresh_fd (fds s) \<noteq> - 1" using fresh_fd_nonneg [of "fds s"] by auto
  have n: "\<not> int (length c) \<le> 0" "\<not> read_max m i (length c) < 0" "nat (read_max m i (length c)) \<ge> length c" for i
    using assms(3) disk_okD(8) [OF assms(2), of "length c" i] by simp_all
  from fd n assms delete_fresh [OF fresh_fd_fresh [of "fds s"]] show ?thesis
    by (simp add: picture_of_answer_def install_fd_def Let_def CreatePixelMapByFd_def os_read_def os_close_def)
qed

section \<open>Showing a picture\<close>

text \<open>
  The contract the client library relies on when it sets and then reads a wallpaper: a request
  the service accepts makes it show the bytes sent, and reading a type that shows some bytes
  returns exactly these and leaves them shown. Both the ordinary methods and those of the newer
  interface (\<^verbatim>\<open>V9\<close>) keep it.
\<close>

locale picture_service =
  fixes px :: "'r proxy"
    and off :: int
    and accepts :: "int32 \<Rightarrow> string \<Rightarrow> 'r \<Rightarrow> bool"
    and shows_bytes :: "int32 \<Rightarrow> string \<Rightarrow> 'r \<Rightarrow> bool"
  assumes set_shows: "accepts wt c r \<Longrightarrow>
      \<exists>r'. px_SetWallpaper px (Some (ReadFd c)) wt (int (length c)) r = (ErrorCode_value off NO_ERROR, r') \<and>
        shows_bytes wt c r'"
    and set_shows_V9: "accepts wt c r \<Longrightarrow>
      \<exists>r'. px_SetWallpaperV9 px (Some (ReadFd c)) wt (int (length c)) r = (ErrorCode_value off NO_ERROR, r') \<and>
        shows_bytes wt c r'"
    and get_returns: "shows_bytes wt c r \<Longrightarrow>
      \<exists>r'. px_GetPixelMap px wt r
        = (ErrorCode_value off NO_ERROR, Some (int (length c)), Some (ReadFd c), r') \<and> shows_bytes wt c r'"
    and get_returns_V9: "shows_bytes wt c r \<Longrightarrow>
      \<exists>r'. px_GetPixelMapV9 px wt r
        = (ErrorCode_value off NO_ERROR, Some (int (length c)), Some (ReadFd c), r') \<and> shows_bytes wt c r'"
begin

lemma client_sets:
  assumes up: "wallpaperProxy s = Some p" and off: "ErrOffset m = off"
    and pic: "local_picture m uri c s" and len: "int (length c) \<le> CLIENT_MAX_VIDEO_SIZE"
    and acc: "accepts wt c (remote s)"
  shows "\<exists>s'. Manager_SetWallpaper m px uri wt api s = (E_OK, s') \<and> shows_bytes wt c (remote s') \<and>
    wallpaperProxy s' = Some p \<and> fds s' = uncached wt s \<and> files s' = files s"
proof -
  obtain r' where r': "(if isSystemApi api then px_SetWallpaperV9 px (Some (ReadFd c)) wt (int (length c))
        else px_SetWallpaper px (Some (ReadFd c)) wt (int (length c))) (remote s)
      = (ErrorCode_value off NO_ERROR, r')" "shows_bytes wt c r'"
    using set_shows [OF acc] set_shows_V9 [OF acc] by (cases "isSystemApi api") auto
  have size: "wallpaper_size m (files s) uri False = (E_OK, Some (int (length c)))"
    using local_picture_size [OF pic] len by (simp add: CLIENT_MAX_VIDEO_SIZE_def INT32_MAX_def)
  have conv: "ConvertIntToErrorCode m (ErrorCode_value off NO_ERROR) = E_OK" unfolding off [symmetric] by simp
  let ?s1 = "s\<lparr>remote := r'\<rparr>"
  have "Manager_SetWallpaper m px uri wt api s = (E_OK, CloseWallpaperFd wt ?s1)"
    unfolding Manager_SetWallpaper_def
    using send_file_transfers [OF pic, of "\<lambda>f. if isSystemApi api then px_SetWallpaperV9 px f wt (int (length c))
        else px_SetWallpaper px f wt (int (length c))", OF r'(1)]
    by (simp add: GetService_connected [OF up] local_picture_path [OF pic] wallpaper_format_def size Let_def conv cong: if_cong)
  then show ?thesis
    using r'(2) up by (simp add: CloseWallpaperFd_drops uncached_def split: option.split)
qed

lemma client_reads:
  assumes up: "wallpaperProxy s = Some p" and off: "ErrOffset m = off" and "disk_ok m"
    and c: "c \<noteq> ''''" "int (length c) \<le> CLIENT_MAX_VIDEO_SIZE"
    and dec: "SourceOfBuffer m c = Some src" "CreatePixelMapOf m src = (True, q)"
    and shown: "shows_bytes wt c (remote s)"
  shows "\<exists>s'. Manager_GetPixelMap m px wt api pm s = (E_OK, q, s') \<and> shows_bytes wt c (remote s') \<and>
    fds s' = fds s \<and> files s' = files s"
proof -
  obtain r' where r': "(if isSystemApi api then px_GetPixelMapV9 px wt (remote s) else px_GetPixelMap px wt (remote s))
      = (ErrorCode_value off NO_ERROR, Some (int (length c)), Some (ReadFd c), r')" "shows_bytes wt c r'"
    using get_returns [OF shown] get_returns_V9 [OF shown] by (cases "isSystemApi api") auto
  have conv: "ConvertIntToErrorCode m (ErrorCode_value off NO_ERROR) = E_OK" unfolding off [symmetric] by simp
  have "Manager_GetPixelMap m px wt api pm s = (E_OK, q, s\<lparr>remote := r'\<rparr>)"
    using picture_of_answer_decodes [OF conv assms(3) c dec]
    by (simp add: Manager_GetPixelMap_def GetService_connected [OF up] r'(1))
  then show ?thesis using r'(2) by simp
qed

end

text \<open>
  The service of this development keeps the contract. It accepts a picture of a permitted caller
  on an undisturbed disk, and shows what the record of the caller's user names.
\<close>

definition service_accepts :: "env \<Rightarrow> int32 \<Rightarrow> string \<Rightarrow> service \<Rightarrow> bool" where
  "service_accepts e wt c r \<longleftrightarrow>
     CallingIsSystemApp e \<and> PermissionGranted e PERMISSION_SET_WALLPAPER \<and>
     PermissionGranted e PERMISSION_GET_WALLPAPER \<and>
     OsAccountIsGuest e (QueryActiveUserId e) = Some False \<and>
     CheckValid wt (int (length c)) PICTURE = NO_ERROR \<and> service_ok (GetDefaultResDir e) r \<and>
     ready e (QueryActiveUserId e) (as_WallpaperType wt) r \<and> map_of (files r) tmp_comps = None"

definition service_shows :: "env \<Rightarrow> int32 \<Rightarrow> string \<Rightarrow> service \<Rightarrow> bool" where
  "service_shows e wt c r \<longleftrightarrow>
     CallingIsSystemApp e \<and> PermissionGranted e PERMISSION_GET_WALLPAPER \<and> known_type wt \<and> disk_ok e \<and>
     c \<noteq> '''' \<and> int (length c) \<le> INT32_MAX \<and>
     (case entry (as_WallpaperType wt) (QueryActiveUserId e) r of
        None \<Rightarrow> False
      | Some d \<Rightarrow> (resourceType d = PICTURE \<or> resourceType d = DEFAULT) \<and> wallpaperFile d \<noteq> '''' \<and>
          node_at (files r) (comps (wallpaperFile d)) = Some (FileNode c))"

lemma with_fd_receive:
  "with_fd (Some (ReadFd c)) h r = h (fresh_fd (fds r)) (receive_fd c r)"
  by (simp add: with_fd_def receive_fd_def Let_def)

lemma service_set_shows:
  assumes "service_accepts e wt c r"
  shows "\<exists>r'. SetWallpaper e (fresh_fd (fds r)) wt (int (length c)) (receive_fd c r) = (NO_ERROR, r') \<and>
    service_shows e wt c r' \<and> heard e (QueryActiveUserId e) (as_WallpaperType wt) r r' \<and>
    bytes_at (files r') (picture_file (QueryActiveUserId e) (as_WallpaperType wt)) = Some c"
proof -
  let ?r = "receive_fd c r"
  let ?u = "QueryActiveUserId e" and ?w = "as_WallpaperType wt"
  have h: "CallingIsSystemApp e" "PermissionGranted e PERMISSION_SET_WALLPAPER"
    "PermissionGranted e PERMISSION_GET_WALLPAPER" "OsAccountIsGuest e ?u = Some False"
    "CheckValid wt (int (length c)) PICTURE = NO_ERROR" "service_ok (GetDefaultResDir e) r"
    "ready e ?u ?w r" "map_of (files r) tmp_comps = None"
    using assms by (simp_all add: service_accepts_def)
  have valid: "known_type wt" "0 < length c" "int (length c) \<le> INT32_MAX"
    using h(5) by (auto simp: CheckValid_def FOO_MAX_LEN_def INT32_MAX_def Let_def split: if_splits)
  have ne: "c \<noteq> ''''" using valid(2) by auto
  have rdy: "ready e ?u ?w ?r" "map_of (files ?r) tmp_comps = None"
      "map_of (fds ?r) (fresh_fd (fds r)) = Some (ReadFd c)"
    using h(7,8) by (simp_all add: ready_def cfg_writable_def receive_fd_def)
  obtain r' d where r': "SetWallpaper e (fresh_fd (fds r)) wt (int (length c)) ?r = (NO_ERROR, r')"
    "map_of (files r') (picture_comps ?u ?w) = Some (FileNode c)"
    "entry ?w ?u r' = Some d" "wallpaperFile d = picture_file ?u ?w" "resourceType d = PICTURE" "heard e ?u ?w ?r r'"
    using SetWallpaper_effect [OF h(2,4,5) service_ok_receive_fd [OF h(6)] rdy ne]
    by (auto simp: zero_fill_def installed_def GetWallpaperFile_def)
  have "service_shows e wt c r'"
    using h(1,3,7) valid ne r' comps_picture_file [of ?u ?w] picture_comps_def [of ?u ?w]
    by (simp add: service_shows_def ready_def node_at_def GetWallpaperDir_not_Nil)
  moreover have "same_hearing r ?r" "change_effects ?w PICTURE ?r = change_effects ?w PICTURE r" "effects ?r = effects r"
    by (simp_all add: receive_fd_def same_hearing_def change_effects_def listeners_of_def)
  then have "heard e ?u ?w r r'" using r'(6) heard_same by (simp add: heard_def)
  moreover have "bytes_at (files r') (picture_file ?u ?w) = Some c"
    using r'(2) by (simp add: bytes_at_def lookup_path_def node_at_def comps_picture_file picture_comps_def)
  ultimately show ?thesis using r'(1) by blast
qed

lemma service_get_returns:
  assumes "service_shows e wt c r"
  shows "\<exists>fd. 0 \<le> fd \<and> fd \<notin> fst ` set (fds r) \<and>
    GetPixelMap e wt r = (NO_ERROR, Some (int (length c)), Some fd, r\<lparr>fds := (fd, ReadFd c) # fds r\<rparr>)"
proof -
  obtain d where d: "entry (as_WallpaperType wt) (QueryActiveUserId e) r = Some d"
    "resourceType d = PICTURE \<or> resourceType d = DEFAULT" "wallpaperFile d \<noteq> ''''"
    "node_at (files r) (comps (wallpaperFile d)) = Some (FileNode c)"
    using assms by (auto simp: service_shows_def split: option.splits)
  show ?thesis
    using GetPixelMap_effect [OF _ _ _ d(1-3) _ d(4)] assms by (auto simp: service_shows_def)
qed

lemma answer_fd_returns:
  assumes "0 \<le> fd" "fd \<notin> fst ` set (fds r)"
    and "h r = (NO_ERROR, Some n, Some fd, r\<lparr>fds := (fd, ReadFd c) # fds r\<rparr>)"
  shows "\<exists>fs. answer_fd off h r = (ErrorCode_value off NO_ERROR, Some n, Some (ReadFd c), r\<lparr>fds := fs\<rparr>)"
  using assms
  by (intro exI [of _ "if DEFAULT_WALLPAPER_ID < fd then fds r else (fd, ReadFd c) # fds r"])
    (simp add: answer_fd_def close_valid_def os_close_def)

text \<open>The contract, with what the listeners heard since the request to set the picture reached the service in \<open>r0\<close>.\<close>

definition service_takes :: "env \<Rightarrow> service \<Rightarrow> int32 \<Rightarrow> string \<Rightarrow> service \<Rightarrow> bool" where
  "service_takes e r0 wt c r \<longleftrightarrow> service_accepts e wt c r \<and> r = r0"

definition service_serves :: "env \<Rightarrow> service \<Rightarrow> int32 \<Rightarrow> string \<Rightarrow> service \<Rightarrow> bool" where
  "service_serves e r0 wt c r \<longleftrightarrow> service_shows e wt c r \<and> heard e (QueryActiveUserId e) (as_WallpaperType wt) r0 r \<and>
     bytes_at (files r) (picture_file (QueryActiveUserId e) (as_WallpaperType wt)) = Some c"

lemma service_serves_fds: "service_serves e r0 wt c (r\<lparr>fds := fs\<rparr>) = service_serves e r0 wt c r"
  by (simp add: service_serves_def service_shows_def split: option.split)

interpretation svc: picture_service "direct_proxy off e" off "service_takes e r0" "service_serves e r0"
  for off :: int and e :: env and r0 :: service
proof
  fix wt :: int32 and c and r :: service
  assume "service_takes e r0 wt c r"
  then have acc: "service_accepts e wt c r" and eq: "r = r0" unfolding service_takes_def by blast+
  note set = service_set_shows [OF acc] and sys = eq acc [unfolded service_accepts_def]
  show "\<exists>r'. px_SetWallpaper (direct_proxy off e) (Some (ReadFd c)) wt (int (length c)) r
      = (ErrorCode_value off NO_ERROR, r') \<and> service_serves e r0 wt c r'"
    using set sys(1) by (auto simp: direct_proxy_def with_fd_receive answer_def service_serves_def)
  show "\<exists>r'. px_SetWallpaperV9 (direct_proxy off e) (Some (ReadFd c)) wt (int (length c)) r
      = (ErrorCode_value off NO_ERROR, r') \<and> service_serves e r0 wt c r'"
    using set sys by (auto simp: direct_proxy_def with_fd_receive answer_def SetWallpaperV9_def IsSystemApp_def service_serves_def)
next
  fix wt :: int32 and c and r :: service
  assume shown: "service_serves e r0 wt c r"
  obtain fd where fd: "0 \<le> fd" "fd \<notin> fst ` set (fds r)"
    "GetPixelMap e wt r = (NO_ERROR, Some (int (length c)), Some fd, r\<lparr>fds := (fd, ReadFd c) # fds r\<rparr>)"
    using service_get_returns shown unfolding service_serves_def by blast
  have get: "\<exists>r'. answer_fd off (GetPixelMap e wt) r
      = (ErrorCode_value off NO_ERROR, Some (int (length c)), Some (ReadFd c), r') \<and> service_serves e r0 wt c r'"
    using answer_fd_returns [OF fd(1,2), of "GetPixelMap e wt", OF fd(3), of off]
      service_serves_fds shown by metis
  show "\<exists>r'. px_GetPixelMap (direct_proxy off e) wt r
      = (ErrorCode_value off NO_ERROR, Some (int (length c)), Some (ReadFd c), r') \<and> service_serves e r0 wt c r'"
    using get by (simp add: direct_proxy_def)
  have "GetPixelMapV9 e wt = GetPixelMap e wt" by (rule ext) (simp add: GetPixelMapV9_def)
  with get show "\<exists>r'. px_GetPixelMapV9 (direct_proxy off e) wt r
      = (ErrorCode_value off NO_ERROR, Some (int (length c)), Some (ReadFd c), r') \<and> service_serves e r0 wt c r'"
    by (simp add: direct_proxy_def)
qed

lemma sample_picture: "local_picture sample_mgr ''/a.jpg'' ''new picture'' sample_client"
proof -
  have "disk_ok sample_mgr" by (simp add: disk_ok_def sample_mgr_def)
  then show ?thesis
    by (simp add: local_picture_def sample_mgr_simps sample_client_paths PATH_MAX_def)
      (simp add: sample_client_def node_at_def)
qed

lemma sample_accepts: "service_accepts sample_env 0 ''new picture'' (remote sample_client)"
proof -
  have u: "QueryActiveUserId sample_env = 100" and w: "as_WallpaperType 0 = WALLPAPER_SYSTEM"
    by (simp_all add: QueryActiveUserId_def sample_env_def as_WallpaperType_def WallpaperType_value_def)
  have rem: "remote sample_client = sample_service" by (simp add: sample_client_def)
  have "CheckValid 0 (int (length ''new picture'')) PICTURE = NO_ERROR" by code_simp
  moreover have "map_of (files sample_service) tmp_comps = None" using sample_nodes by (simp add: tmp_comps_def)
  moreover have "service_ok (GetDefaultResDir sample_env) sample_service" by (simp add: sample_resources sample_service_ok)
  ultimately show ?thesis using sample_ready by (simp add: service_accepts_def u w rem)
qed

lemma sample_decodes: "SourceOfBuffer sample_mgr ''new picture'' = Some 11" "CreatePixelMapOf sample_mgr 11 = (True, Some 111)"
  by (simp_all add: sample_mgr_def)

lemma sample_connected: "wallpaperProxy sample_client = Some 21" "uncached 0 sample_client = []"
  by (simp_all add: sample_client_def uncached_def)

lemma taken: "service_accepts e wt c r \<Longrightarrow> service_takes e r wt c r"
  by (simp add: service_takes_def)

text \<open>C3: a picture of the process that the service accepts is what the client library gives back: after
  \<^verbatim>\<open>SetWallpaper\<close> with its path, \<^verbatim>\<open>GetPixelMap\<close> returns the pixel map decoded from exactly the
  bytes of the file. No descriptor is left open in the process, and the one it had cached for the
  type is closed. The conditions: the client is connected to the service, the picture is a non-empty regular file under its real path on
  an undisturbed disk of the process (\<open>local_picture\<close>), the caller, its user and the disk of the service let it be set and read
  (\<open>service_accepts\<close>), and the decoder takes its bytes.\<close>

theorem client_sets_and_reads:
  assumes up: "wallpaperProxy s = Some p" and pic: "local_picture m uri c s"
    and acc: "service_accepts e wt c (remote s)"
    and dec: "SourceOfBuffer m c = Some src" "CreatePixelMapOf m src = (True, q)"
  shows "\<exists>s1 s2. Manager_SetWallpaper m (direct_proxy (ErrOffset m) e) uri wt api s = (E_OK, s1) \<and>
    Manager_GetPixelMap m (direct_proxy (ErrOffset m) e) wt api' pm s1 = (E_OK, q, s2) \<and>
    fds s2 = uncached wt s \<and> files s2 = files s"
proof -
  have len: "int (length c) \<le> CLIENT_MAX_VIDEO_SIZE"
    using acc by (auto simp: service_accepts_def CheckValid_def FOO_MAX_LEN_def CLIENT_MAX_VIDEO_SIZE_def Let_def
        split: if_splits)
  have c: "c \<noteq> ''''" "disk_ok m" using pic by (simp_all add: local_picture_def)
  obtain s1 where s1: "Manager_SetWallpaper m (direct_proxy (ErrOffset m) e) uri wt api s = (E_OK, s1)"
    "service_serves e (remote s) wt c (remote s1)" "wallpaperProxy s1 = Some p" "fds s1 = uncached wt s" "files s1 = files s"
    using svc.client_sets [OF up refl pic len taken [OF acc]] by blast
  obtain s2 where "Manager_GetPixelMap m (direct_proxy (ErrOffset m) e) wt api' pm s1 = (E_OK, q, s2)"
    "fds s2 = fds s1" "files s2 = files s1"
    using svc.client_reads [OF s1(3) refl c(2) c(1) len dec s1(2)] by blast
  with s1 show ?thesis by auto
qed

theorem client_sets_and_reads_witness:
  "\<exists>s1 s2. Manager_SetWallpaper sample_mgr (direct_proxy 1000 sample_env) ''/a.jpg'' 0 \<lparr>needException = False, isSystemApi = False\<rparr> sample_client
       = (E_OK, s1) \<and>
     Manager_GetPixelMap sample_mgr (direct_proxy 1000 sample_env) 0 \<lparr>needException = False, isSystemApi = True\<rparr> None s1 = (E_OK, Some 111, s2) \<and>
     fds s2 = []"
  using client_sets_and_reads [OF sample_connected(1) sample_picture sample_accepts sample_decodes,
      of "\<lparr>needException = False, isSystemApi = False\<rparr>" "\<lparr>needException = False, isSystemApi = True\<rparr>" None]
    sample_connected(2)
  by (auto simp: sample_mgr_simps)

section \<open>Listeners after a restart\<close>

text \<open>
  The contract of the registration of listeners: a call answered with success registers the
  listener for its event, and no call takes the listener of another event away.
\<close>

locale listener_service =
  fixes px :: "'r proxy"
    and succeeded :: "int32 \<Rightarrow> bool"
    and registered :: "string \<Rightarrow> handle option \<Rightarrow> 'r \<Rightarrow> bool"
  assumes on_registers: "succeeded (fst (px_On px ty l r)) \<Longrightarrow> registered ty l (snd (px_On px ty l r))"
    and on_keeps: "ty' \<noteq> ty \<Longrightarrow> registered ty' l' r \<Longrightarrow> registered ty' l' (snd (px_On px ty l r))"
begin

lemma register_listeners_registers:
  assumes "\<forall>code. ConvertIntToErrorCode m code = E_OK \<longrightarrow> succeeded code"
    and "register_listeners m px ls s = (True, s')" "distinct (map fst ls)"
  shows "(\<forall>(ty, l) \<in> set ls. registered ty l (remote s')) \<and>
    (\<forall>ty l. ty \<notin> fst ` set ls \<longrightarrow> registered ty l (remote s) \<longrightarrow> registered ty l (remote s'))"
  using assms(2,3)
proof (induction ls arbitrary: s)
  case (Cons x ls)
  obtain ty l where x: "x = (ty, l)" by (cases x)
  let ?r1 = "snd (px_On px ty l (remote s))"
  have run: "ConvertIntToErrorCode m (fst (px_On px ty l (remote s))) = E_OK"
    "register_listeners m px ls (s\<lparr>remote := ?r1\<rparr>) = (True, s')"
    using Cons.prems(1) by (auto simp: x call_remote_def split: prod.splits if_splits)
  have here: "registered ty l ?r1" using assms(1) run(1) on_registers by blast
  have rest: "\<forall>(ty, l) \<in> set ls. registered ty l (remote s')"
    "\<forall>ty' l'. ty' \<notin> fst ` set ls \<longrightarrow> registered ty' l' ?r1 \<longrightarrow> registered ty' l' (remote s')"
    using Cons.IH [OF run(2)] Cons.prems(2) by auto
  have "ty \<notin> fst ` set ls" using Cons.prems(2) by (simp add: x)
  with rest here have "registered ty l (remote s')" by blast
  with rest on_keeps show ?case by (auto simp: x)
qed simp

end

interpretation ls: listener_service "direct_proxy off e"
    "\<lambda>code. code = ErrorCode_value off NO_ERROR \<or> code = ErrorCode_value off E_OK"
    "\<lambda>ty l r. 0 < off \<longrightarrow> listener_at ty (wrap32 (CallingTokenID e)) r = Some l"
  for off :: int and e :: env
proof
  fix ty l and r :: service
  obtain c r' where run: "On e ty l r = (c, r')" by fastforce
  note eff = On_effect [where e = e and ty = ty and l = l and s = r, unfolded run prod.case]
  have px: "px_On (direct_proxy off e) ty l r = (ErrorCode_value off c, r')"
    by (simp add: direct_proxy_def answer_def run)
  show "0 < off \<longrightarrow> listener_at ty (wrap32 (CallingTokenID e)) (snd (px_On (direct_proxy off e) ty l r)) = Some l"
    if "fst (px_On (direct_proxy off e) ty l r) = ErrorCode_value off NO_ERROR \<or>
        fst (px_On (direct_proxy off e) ty l r) = ErrorCode_value off E_OK"
    using that eff by (auto simp: px ErrorCode_value_def split: if_splits)
  show "0 < off \<longrightarrow> listener_at ty' (wrap32 (CallingTokenID e)) (snd (px_On (direct_proxy off e) ty l r)) = Some l'"
    if "ty' \<noteq> ty" "0 < off \<longrightarrow> listener_at ty' (wrap32 (CallingTokenID e)) r = Some l'" for ty' l'
    using that eff by (auto simp: px split: if_splits)
qed

lemma RegisterWallpaperListener_listenerMap:
  "listenerMap (snd (RegisterWallpaperListener m px s)) = listenerMap s"
proof -
  have "listenerMap (snd (register_listeners m px ls s)) = listenerMap s" for ls s
    by (induction m px ls s rule: register_listeners.induct) (auto simp: call_remote_def split: prod.splits)
  then show ?thesis
    by (simp add: RegisterWallpaperListener_def split_beta frame_simps split: option.split)
qed

lemma register_again_success:
  "register_again es px tried left s = (True, n, s') \<Longrightarrow>
     \<exists>s0 k. listenerMap s0 = listenerMap s \<and> register_listeners (es k) px (listenerMap s) s0 = (True, s')"
proof (induction es px tried left s rule: register_again.induct)
  case (2 es px tried left s)
  obtain result s1 where one: "RegisterWallpaperListener (es (Suc tried)) px s = (result, s1)" by fastforce
  have lm: "listenerMap s1 = listenerMap s" using RegisterWallpaperListener_listenerMap one by (metis snd_conv)
  show ?case
  proof (cases result)
    case True
    obtain p s2 where g: "GetService (es (Suc tried)) s = (p, s2)" by fastforce
    from True "2.prems" one g GetServiceD(5) [OF g] show ?thesis
      by (auto simp: RegisterWallpaperListener_def split: option.splits)
  next
    case False
    with "2.prems" one "2.IH" [OF one [symmetric]] lm show ?thesis by auto
  qed
qed simp

lemma Convert_E_OK:
  "ConvertIntToErrorCode m code = E_OK \<Longrightarrow>
     code = ErrorCode_value (ErrOffset m) NO_ERROR \<or> code = ErrorCode_value (ErrOffset m) E_OK"
  by (auto simp: ConvertIntToErrorCode_def errorCodeMap_def split: if_splits)

lemma Manager_Off_listenerMap: "listenerMap (snd (Manager_Off m px ev l s)) = listenerMap s"
  by (simp add: Manager_Off_def call_remote_def split_beta frame_simps split: option.split prod.split)

lemma Manager_Off_effect:
  assumes "Manager_Off m (direct_proxy (ErrOffset m) e) ev l s = (code, s1)" "0 < ErrOffset m"
  shows "code = E_OK \<Longrightarrow> listener_at ev (wrap32 (CallingTokenID e)) (remote s1) = None"
    "listener_at ev' token (remote s) = None \<Longrightarrow> listener_at ev' token (remote s1) = None"
proof -
  obtain p s0 where g: "GetService m s = (p, s0)" by fastforce
  obtain c r where run: "Off e ev l (remote s) = (c, r)" by fastforce
  note eff = Off_effect [where e = e and ty = ev and l = l and s = "remote s", unfolded run prod.case]
  have px: "px_Off (direct_proxy (ErrOffset m) e) ev l (remote s) = (ErrorCode_value (ErrOffset m) c, r)"
    by (simp add: direct_proxy_def answer_def run)
  have conv: "c = NO_ERROR \<or> c = E_OK" if "ConvertIntToErrorCode m (ErrorCode_value (ErrOffset m) c) = E_OK"
    using Convert_E_OK [OF that] assms(2) by (cases c) (simp_all add: ErrorCode_value_def)
  have gone: "c = NO_ERROR \<or> c = E_OK \<Longrightarrow> listener_at ev (wrap32 (CallingTokenID e)) r = None"
    using eff by (auto split: if_splits)
  have less: "listener_at k t (remote s) = None \<Longrightarrow> listener_at k t r = None" for k t
    using eff by (cases "ev = WALLPAPER_CHANGE \<and> \<not> CallingIsSystemApp e") simp_all
  have "remote s0 = remote s" by (rule GetServiceD(3) [OF g])
  then have "remote s1 = remote s \<and> code \<noteq> E_OK \<or>
      remote s1 = r \<and> code = ConvertIntToErrorCode m (ErrorCode_value (ErrOffset m) c)"
    using assms(1) px by (simp add: Manager_Off_def g call_remote_def split: option.splits if_splits) auto
  then show "code = E_OK \<Longrightarrow> listener_at ev (wrap32 (CallingTokenID e)) (remote s1) = None"
    "listener_at ev' token (remote s) = None \<Longrightarrow> listener_at ev' token (remote s1) = None"
    using conv gone less by auto
qed

lemma remembered_listener_restored:
  assumes run: "Manager_OnRemoteDied es (direct_proxy off e) dead s = (True, n, s')"
    and off: "0 < off" "\<forall>k. ErrOffset (es k) = off" and wf: "std_wf (listenerMap s)"
    and l: "map_of (listenerMap s) ev = Some h"
  shows "listener_at ev (wrap32 (CallingTokenID e)) (remote s') = Some h"
proof -
  have "listenerMap (ResetService dead s) = listenerMap s"
    by (simp add: ResetService_def client_emit_def split: option.split)
  then obtain s0 k where reg: "register_listeners (es k) (direct_proxy off e) (listenerMap s) s0 = (True, s')"
    using register_again_success [OF run [unfolded Manager_OnRemoteDied_def]] by auto
  have conv: "\<forall>code. ConvertIntToErrorCode (es k) code = E_OK \<longrightarrow>
      code = ErrorCode_value off NO_ERROR \<or> code = ErrorCode_value off E_OK"
    using off(2) Convert_E_OK [of "es k"] by metis
  have "distinct (map fst (listenerMap s))" using wf by (simp add: std_wf_def strict_sorted_iff)
  from ls.register_listeners_registers [OF conv reg this] off(1) map_of_SomeD [OF l]
  show ?thesis by auto
qed

text \<open>C16: when the client library reports that it registered again after the death of the service,
  every listener it remembers is registered at the service for its event and process.\<close>

theorem listeners_restored:
  assumes run: "Manager_OnRemoteDied es (direct_proxy off e) dead s = (True, n, s')"
    and off: "0 < off" "\<forall>k. ErrOffset (es k) = off" and wf: "std_wf (listenerMap s)"
    and l: "map_of (listenerMap s) ev = Some h"
  shows "listener_at ev (wrap32 (CallingTokenID e)) (remote s') = Some h"
  using remembered_listener_restored [OF run off wf l] .

text \<open>\<^verbatim>\<open>Off\<close> of the client library does not forget the listener: one that was switched off with success
  is registered at the service again when the service dies and comes back.\<close>

theorem removed_listener_returns:
  assumes off: "Manager_Off m (direct_proxy (ErrOffset m) e) ev l s = (E_OK, s1)" "0 < ErrOffset m"
    and run: "Manager_OnRemoteDied es (direct_proxy (ErrOffset m) e) dead s1 = (True, n, s2)" "\<forall>k. ErrOffset (es k) = ErrOffset m"
    and h: "std_wf (listenerMap s)" "map_of (listenerMap s) ev = Some h"
  shows "listener_at ev (wrap32 (CallingTokenID e)) (remote s1) = None \<and>
    listener_at ev (wrap32 (CallingTokenID e)) (remote s2) = Some h"
proof -
  have "listenerMap s1 = listenerMap s" using Manager_Off_listenerMap [of m _ ev l s] off(1) by (metis snd_conv)
  then have "listener_at ev (wrap32 (CallingTokenID e)) (remote s2) = Some h"
    using remembered_listener_restored [OF run(1) off(2) run(2)] h by simp
  then show ?thesis using Manager_Off_effect(1) [OF off] by simp
qed

lemma sample_on: "fst (On sample_env ty (Some h) r) = NO_ERROR"
  by (simp add: On_def IsSystemApp_def sample_env_def Let_def)

lemma sample_codes: "ConvertIntToErrorCode sample_mgr (ErrorCode_value 1000 NO_ERROR) = E_OK"
  using Convert_NO_ERROR [of sample_mgr] by (simp add: sample_mgr_simps)

lemma sample_registers_again:
  assumes l: "listenerMap s = [(COLOR_CHANGE, Some 41), (WALLPAPER_CHANGE, Some 42)]"
  obtains n s' where "Manager_OnRemoteDied (\<lambda>_. sample_mgr) (direct_proxy 1000 sample_env) dead s = (True, n, s')"
proof -
  let ?px = "direct_proxy 1000 sample_env"
  have on: "fst (register_listeners sample_mgr ?px [(COLOR_CHANGE, Some 41), (WALLPAPER_CHANGE, Some 42)] s)" for s
    by (simp add: call_remote_def direct_proxy_def answer_def split_beta sample_on sample_codes)
  have up: "fst (RegisterWallpaperListener sample_mgr ?px s)"
    if "listenerMap s = [(COLOR_CHANGE, Some 41), (WALLPAPER_CHANGE, Some 42)]" for s
  proof -
    obtain p s1 where g: "GetService sample_mgr s = (Some p, s1)"
      by (cases "wallpaperProxy s") (auto simp: GetService_def sample_mgr_def Let_def)
    with GetServiceD(5) [OF g] on [of s1] that show ?thesis by (simp add: RegisterWallpaperListener_def)
  qed
  have "listenerMap (ResetService dead s) = listenerMap s"
    by (simp add: ResetService_def client_emit_def split: option.split)
  with l have "fst (Manager_OnRemoteDied (\<lambda>_. sample_mgr) ?px dead s)"
    using up [of "ResetService dead s"]
    by (simp add: Manager_OnRemoteDied_def CLIENT_MAX_RETRY_TIMES_def eval_nat_numeral split_beta)
  then show ?thesis using that by (metis (full_types) prod.collapse)
qed

lemma client_listeners:
  "listenerMap sample_client = [(COLOR_CHANGE, Some 41), (WALLPAPER_CHANGE, Some 42)]" "std_wf (listenerMap sample_client)"
  "CallingTokenID sample_env = 1" "wrap32 1 = 1"
  by (simp_all add: sample_client_def std_wf_def COLOR_CHANGE_def WALLPAPER_CHANGE_def sample_env_def wrap32_eq)

theorem listeners_restored_witness:
  "\<exists>n s'. Manager_OnRemoteDied (\<lambda>_. sample_mgr) (direct_proxy 1000 sample_env) 21 sample_client = (True, n, s') \<and>
     listener_at COLOR_CHANGE 1 (remote s') = Some (Some 41)"
proof -
  obtain n s' where run: "Manager_OnRemoteDied (\<lambda>_. sample_mgr) (direct_proxy 1000 sample_env) 21 sample_client = (True, n, s')"
    by (rule sample_registers_again [OF client_listeners(1)])
  have "listener_at COLOR_CHANGE (wrap32 (CallingTokenID sample_env)) (remote s') = Some (Some 41)"
    by (rule listeners_restored [OF run]) (simp_all add: sample_mgr_simps client_listeners(2), simp add: client_listeners(1))
  with run show ?thesis by (auto simp: client_listeners)
qed

section \<open>From JavaScript to the files and back\<close>

lemma setImage_serves:
  assumes path: "n_typeof n u = napi_string" "Convert2String n u = uri"
    and type: "n_typeof n t = napi_number" "n_value_int32 n t = Some wt" "wt = 0 \<or> wt = 1"
    and up: "wallpaperProxy s = Some p" and pic: "local_picture m uri c s"
    and acc: "service_accepts e wt c (remote s)"
  obtains s1 where "NAPI_SetImage n m (direct_proxy (ErrOffset m) e) [u, t] s = (Resolved JUndefined, s1)"
    "service_serves e (remote s) wt c (remote s1)" "wallpaperProxy s1 = Some p" "int (length c) \<le> CLIENT_MAX_VIDEO_SIZE"
proof -
  let ?px = "direct_proxy (ErrOffset m) e"
  have len: "int (length c) \<le> CLIENT_MAX_VIDEO_SIZE"
    using acc by (auto simp: service_accepts_def CheckValid_def FOO_MAX_LEN_def CLIENT_MAX_VIDEO_SIZE_def Let_def
        split: if_splits)
  obtain s1 where s1: "Manager_SetWallpaper m ?px uri wt system_api s = (E_OK, s1)"
    "service_serves e (remote s) wt c (remote s1)" "wallpaperProxy s1 = Some p"
    using svc.client_sets [OF up refl pic len taken [OF acc]] by blast
  have "uri \<noteq> ''''" using pic by (simp add: local_picture_def)
  then have "NAPI_SetImage n m ?px [u, t] s = (Resolved JUndefined, s1)"
    using setImage_call [OF path(1) _ type, of m ?px s] s1(1) by (simp add: path(2) settled_def)
  then show thesis using that s1(2,3) len by blast
qed

text \<open>C4: from JavaScript to the disk of the service and back: \<^verbatim>\<open>setImage\<close> with the path of a picture and one of the
  two types resolves, and \<^verbatim>\<open>getImage\<close> for the same type then resolves with the pixel map decoded from exactly
  the bytes of that file. The conditions: the client library is connected to the service; the path, not empty and no longer than allowed, is the real path of
  a non-empty regular file of the process, whose disk is undisturbed (\<open>local_picture\<close>); the caller is a system application with
  both permissions, its user no guest and with the directories of the type in place, the size of the picture is one the service
  accepts, and the service is in a well-formed state on an undisturbed disk, with no temporary file left over (\<open>service_accepts\<close>); and the
  decoder of the process takes the bytes.\<close>

theorem setImage_getImage:
  assumes path: "n_typeof n u = napi_string" "Convert2String n u = uri"
    and type: "n_typeof n t = napi_number" "n_value_int32 n t = Some wt" "wt = 0 \<or> wt = 1"
    and up: "wallpaperProxy s = Some p" and pic: "local_picture m uri c s"
    and acc: "service_accepts e wt c (remote s)"
    and dec: "SourceOfBuffer m c = Some src" "CreatePixelMapOf m src = (True, Some pm)"
  shows "\<exists>s1 s2. NAPI_SetImage n m (direct_proxy (ErrOffset m) e) [u, t] s = (Resolved JUndefined, s1) \<and>
    NAPI_GetImage n m (direct_proxy (ErrOffset m) e) [t] s1 = (Resolved (JPixelMap pm), s2)"
proof -
  let ?px = "direct_proxy (ErrOffset m) e"
  have c: "c \<noteq> ''''" "disk_ok m" using pic by (simp_all add: local_picture_def)
  obtain s1 where s1: "NAPI_SetImage n m ?px [u, t] s = (Resolved JUndefined, s1)"
    "service_serves e (remote s) wt c (remote s1)" "wallpaperProxy s1 = Some p" "int (length c) \<le> CLIENT_MAX_VIDEO_SIZE"
    by (rule setImage_serves [OF path type up pic acc])
  obtain s2 where s2: "Manager_GetPixelMap m ?px wt system_api None s1 = (E_OK, Some pm, s2)"
    using svc.client_reads [OF s1(3) refl c(2) c(1) s1(4) dec s1(2)] by blast
  then have "NAPI_GetImage n m ?px [t] s1 = (Resolved (JPixelMap pm), s2)"
    using getImage_call [OF type s2] by simp
  with s1(1) show ?thesis by blast
qed

theorem setImage_getImage_witness:
  "\<exists>s1 s2. NAPI_SetImage sample_napi sample_mgr (direct_proxy 1000 sample_env) [Str ''/a.jpg'', Num 0] sample_client
       = (Resolved JUndefined, s1) \<and>
     NAPI_GetImage sample_napi sample_mgr (direct_proxy 1000 sample_env) [Num 0] s1 = (Resolved (JPixelMap 111), s2)"
proof -
  have "c_str ''/a.jpg'' = ''/a.jpg''" by code_simp
  then have "n_typeof sample_napi (Str ''/a.jpg'') = napi_string" "Convert2String sample_napi (Str ''/a.jpg'') = ''/a.jpg''"
    "n_typeof sample_napi (Num 0) = napi_number" "n_value_int32 sample_napi (Num 0) = Some 0"
    by (simp_all add: sample_napi_def Convert2String_def Let_def)
  from setImage_getImage [OF this _ sample_connected(1) sample_picture sample_accepts sample_decodes]
  show ?thesis by (simp add: sample_mgr_simps)
qed

lemma on_client_client: "ets_client (snd (on_client f s)) = snd (f (ets_client s))" "fst (on_client f s) = fst (f (ets_client s))"
  by (simp_all add: on_client_def split_beta)

lemma Release_client: "ets_client (Release a obs s) = ets_client s"
  by (simp add: Release_def GlobalReference_Delete_def Let_def split: option.split)

lemma off_loop_unheard:
  assumes "0 < ErrOffset m" "off_loop a m (direct_proxy (ErrOffset m) e) jsRef kept l s = (None, s')"
    and "(\<exists>obs \<in> set l. case jsRef of None \<Rightarrow> True | Some ref \<Rightarrow> Reference_StrictEquals ref (callback_ref s obs) s) \<or>
      listener_at WALLPAPER_CHANGE (wrap32 (CallingTokenID e)) (remote (ets_client s)) = None"
  shows "listener_at WALLPAPER_CHANGE (wrap32 (CallingTokenID e)) (remote (ets_client s')) = None"
  using assms(2,3)
proof (induction l arbitrary: kept s)
  case (Cons obs rest)
  let ?px = "direct_proxy (ErrOffset m) e" and ?call = "Manager_Off m (direct_proxy (ErrOffset m) e) ''wallpaperChange'' (Some obs)"
  show ?case
  proof (cases "case jsRef of None \<Rightarrow> True | Some ref \<Rightarrow> Reference_StrictEquals ref (callback_ref s obs) s")
    case True
    obtain code s1 where off: "on_client ?call (Release a obs s) = (code, s1)" by fastforce
    then have run: "code = E_OK" "off_loop a m ?px jsRef kept rest s1 = (None, s')"
      using Cons.prems(1) True by (auto simp: setErrorCode_def split: if_splits)
    have "?call (ets_client s) = (E_OK, ets_client s1)"
      using on_client_client [of ?call "Release a obs s"] off run(1) by (simp add: Release_client prod_eq_iff)
    from Manager_Off_effect(1) [OF this [folded WALLPAPER_CHANGE_def] assms(1)]
    have "listener_at WALLPAPER_CHANGE (wrap32 (CallingTokenID e)) (remote (ets_client s1)) = None" by simp
    then show ?thesis using Cons.IH [OF run(2)] by simp
  next
    case False
    then have "off_loop a m ?px jsRef (kept @ [obs]) rest s = (None, s')" using Cons.prems(1) by simp
    from Cons.IH [OF this] Cons.prems(2) False show ?thesis by auto
  qed
qed auto

text \<open>The service keeps one listener per process and event, the last one: switching off one of several
  functions registered for wallpaper changes silences the others too, which stay on the list of
  the binding.\<close>

theorem remaining_functions_unheard:
  assumes "ets_reachable s" "calm a (Some f)" "0 < ErrOffset m"
    and off: "Ets_OffWallpaperChange a m (direct_proxy (ErrOffset m) e) (Some f) s = (None, s')"
    and f: "obs \<in> set (jsWallpaperChangeCbList s)" "callback_object s obs = Some f"
  shows "listener_at WALLPAPER_CHANGE (wrap32 (CallingTokenID e)) (remote (ets_client s')) = None \<and>
    jsWallpaperChangeCbList s' = filter (\<lambda>obs. callback_object s obs \<noteq> Some f) (jsWallpaperChangeCbList s)"
proof -
  have ok: "ets_ok s" by (rule ets_reachable_ok [OF assms(1)])
  then have rs: "refs_ok s" "distinct (jsWallpaperChangeCbList s)" by (simp_all add: ets_ok_def list_ok_def)
  obtain ref s1 where cr: "GlobalReference_Create a f s = (Some ref, s1)"
    using assms(2) by (simp add: calm_def GlobalReference_Create_def)
  note c = Create_effect [OF rs(1) cr]
  obtain s2 where loop: "off_loop a m (direct_proxy (ErrOffset m) e) (Some ref) [] (jsWallpaperChangeCbList s1) s1 = (None, s2)"
    and s': "s' = GlobalReference_Delete ref s2"
    using off assms(2) cr by (auto simp: Ets_OffWallpaperChange_def calm_def split: prod.splits)
  have "callback_object s1 obs = Some f" using f(2) c(3) by simp
  then have "Reference_StrictEquals ref (callback_ref s1 obs) s1"
    using c(4) by (cases "callback_ref s1 obs") (auto simp: Reference_StrictEquals_def callback_object_def)
  then have "listener_at WALLPAPER_CHANGE (wrap32 (CallingTokenID e)) (remote (ets_client s2)) = None"
    using off_loop_unheard [OF assms(3) loop] f(1) c(7) by auto
  then show ?thesis
    using Off_effect_ets [OF rs off] assms(2) by (simp add: s' GlobalReference_Delete_def meant_def)
qed

section \<open>Two functions on the sample process\<close>

definition sample_ani :: "nat ani" where
  "sample_ani = \<lparr>ani_get_env = True, ani_reference_ok = (\<lambda>_. True), ani_native_pixel_map = (\<lambda>_. Some 111),
     ani_ets_pixel_map = (\<lambda>p. case p of None \<Rightarrow> 0 | Some h \<Rightarrow> h), ani_main_runner = True\<rparr>"

definition sample_ets :: "(nat, service) ets" where
  "sample_ets = \<lparr>ets_client = sample_client, jsWallpaperChangeCbList = [], observers = Map.empty, next_observer = 0,
     global_refs = Map.empty, next_ref = 0, mainHandler = False, main_tasks = [], js_calls = []\<rparr>"

lemma sample_off: "fst (Off sample_env ty l r) = NO_ERROR"
  by (simp add: Off_def IsSystemApp_def sample_env_def Let_def split: option.split)

lemma sample_Manager_On_Off:
  assumes "wallpaperProxy c = Some p"
  shows "fst (Manager_On sample_mgr (direct_proxy 1000 sample_env) ty (Some h) c) = E_OK"
    "wallpaperProxy (snd (Manager_On sample_mgr (direct_proxy 1000 sample_env) ty (Some h) c)) = Some p"
    "fst (Manager_Off sample_mgr (direct_proxy 1000 sample_env) ty l c) = E_OK"
    "wallpaperProxy (snd (Manager_Off sample_mgr (direct_proxy 1000 sample_env) ty l c)) = Some p"
  using assms sample_codes [unfolded sample_mgr_def]
  by (simp_all add: Manager_On_def Manager_Off_def GetService_def call_remote_def direct_proxy_def answer_def split_beta
      sample_on sample_off sample_mgr_def)

text \<open>The process after the functions 5 and 6 were registered.\<close>

definition registered_five :: "(nat, service) ets" where
  "registered_five = snd (Ets_OnWallpaperChange sample_ani sample_mgr (direct_proxy 1000 sample_env) 5 5 sample_ets)"

definition registered_both :: "(nat, service) ets" where
  "registered_both = snd (Ets_OnWallpaperChange sample_ani sample_mgr (direct_proxy 1000 sample_env) 6 6 registered_five)"

lemmas ets_call_defs = Ets_OnWallpaperChange_def CreateCallbackRefIfNotDuplicate_def GlobalReference_Create_def
  Reference_StrictEquals_def callback_ref_def callback_object_def on_client_def split_beta sample_ani_def

lemma registered_five_state:
  "jsWallpaperChangeCbList registered_five = [0]" "observers registered_five = [0 \<mapsto> (5, Some 0)]"
  "global_refs registered_five = [0 \<mapsto> 5]" "next_observer registered_five = 1" "next_ref registered_five = 1"
  "\<exists>p. wallpaperProxy (ets_client registered_five) = Some p"
  using sample_Manager_On_Off(1,2) [OF sample_connected(1), of "''wallpaperChange''" 0]
  by (simp_all add: registered_five_def ets_call_defs sample_ets_def Let_def)

lemma registered_both_state:
  "jsWallpaperChangeCbList registered_both = [0, 1]" "observers registered_both = [0 \<mapsto> (5, Some 0), 1 \<mapsto> (6, Some 1)]"
  "global_refs registered_both = [0 \<mapsto> 5, 1 \<mapsto> 6]" "next_ref registered_both = 2"
  "\<exists>p. wallpaperProxy (ets_client registered_both) = Some p"
proof -
  obtain p where "wallpaperProxy (ets_client registered_five) = Some p" using registered_five_state(6) by blast
  note on = sample_Manager_On_Off(1,2) [OF this, of "''wallpaperChange''" 1]
  show "jsWallpaperChangeCbList registered_both = [0, 1]" "observers registered_both = [0 \<mapsto> (5, Some 0), 1 \<mapsto> (6, Some 1)]"
    "global_refs registered_both = [0 \<mapsto> 5, 1 \<mapsto> 6]" "next_ref registered_both = 2" "\<exists>p. wallpaperProxy (ets_client registered_both) = Some p"
    using on by (simp_all add: registered_both_def ets_call_defs registered_five_state(1-5) Let_def)
qed

lemma registered_both_reachable: "ets_reachable registered_both"
proof -
  have "ets_started sample_ets" by (simp add: ets_started_def sample_ets_def)
  moreover have "ets_later sample_ets registered_five"
    unfolding registered_five_def by (rule ets_later.later [OF ets_later.here ets_step.on])
  then have "ets_later sample_ets registered_both"
    unfolding registered_both_def by (rule ets_later.later [OF _ ets_step.on])
  ultimately show ?thesis unfolding ets_reachable_def by blast
qed

lemma sample_calm: "calm sample_ani f"
  by (simp add: calm_def sample_ani_def split: option.split)

lemma five_off:
  "fst (Ets_OffWallpaperChange sample_ani sample_mgr (direct_proxy 1000 sample_env) (Some 5) registered_both) = None"
proof -
  obtain p where "wallpaperProxy (ets_client registered_both) = Some p" using registered_both_state(5) by blast
  note off = sample_Manager_On_Off(3) [OF this]
  show ?thesis
    using off by (simp add: Ets_OffWallpaperChange_def ets_call_defs registered_both_state Release_def GlobalReference_Delete_def Let_def)
qed
section \<open>Witnesses for the observers\<close>

theorem removed_listener_returns_witness:
  "\<exists>s1 n s2. Manager_Off sample_mgr (direct_proxy 1000 sample_env) WALLPAPER_CHANGE None sample_client = (E_OK, s1) \<and>
     Manager_OnRemoteDied (\<lambda>_. sample_mgr) (direct_proxy 1000 sample_env) 21 s1 = (True, n, s2) \<and>
     listener_at WALLPAPER_CHANGE 1 (remote s1) = None \<and> listener_at WALLPAPER_CHANGE 1 (remote s2) = Some (Some 42)"
proof -
  let ?m = "sample_mgr" and ?px = "direct_proxy (ErrOffset sample_mgr) sample_env"
  obtain s1 where off: "Manager_Off ?m ?px WALLPAPER_CHANGE None sample_client = (E_OK, s1)"
    using sample_Manager_On_Off(3) [OF sample_connected(1), of WALLPAPER_CHANGE None]
    by (metis prod.collapse sample_mgr_simps(6))
  have l: "listenerMap s1 = [(COLOR_CHANGE, Some 41), (WALLPAPER_CHANGE, Some 42)]"
    using Manager_Off_listenerMap [of ?m ?px WALLPAPER_CHANGE None sample_client] off client_listeners(1) by simp
  obtain n s2 where run: "Manager_OnRemoteDied (\<lambda>_. sample_mgr) ?px 21 s1 = (True, n, s2)"
    using sample_registers_again [OF l, of 21] by (metis sample_mgr_simps(6))
  have "map_of (listenerMap sample_client) WALLPAPER_CHANGE = Some (Some 42)"
    by (simp add: client_listeners(1) COLOR_CHANGE_def WALLPAPER_CHANGE_def)
  from removed_listener_returns [OF off _ run _ client_listeners(2) this] off run show ?thesis
    by (auto simp: sample_mgr_simps(6) client_listeners(3,4))
qed

theorem one_observer_per_function_witness:
  "callback_object registered_both 0 = Some 5 \<and> callback_object registered_both 1 \<noteq> Some 5"
proof -
  have "callback_object registered_both 0 = Some 5" "callback_object registered_both 1 \<noteq> None"
    by (simp_all add: callback_object_def callback_ref_def registered_both_state)
  moreover from this have "0 \<in> {obs \<in> set (jsWallpaperChangeCbList registered_both). callback_object registered_both obs \<noteq> None}"
    "1 \<in> {obs \<in> set (jsWallpaperChangeCbList registered_both). callback_object registered_both obs \<noteq> None}"
    by (simp_all add: registered_both_state(1))
  ultimately show ?thesis
    using one_observer_per_function [OF registered_both_reachable] by (metis inj_onD zero_neq_one)
qed

lemma five_off_result:
  obtains s' where "Ets_OffWallpaperChange sample_ani sample_mgr (direct_proxy 1000 sample_env) (Some 5) registered_both = (None, s')"
  using five_off by (metis prod.collapse)


theorem remaining_functions_unheard_witness:
  "\<exists>s'. Ets_OffWallpaperChange sample_ani sample_mgr (direct_proxy 1000 sample_env) (Some 5) registered_both = (None, s') \<and>
     jsWallpaperChangeCbList s' = [1] \<and> listener_at WALLPAPER_CHANGE 1 (remote (ets_client s')) = None"
proof -
  obtain s' where off: "Ets_OffWallpaperChange sample_ani sample_mgr (direct_proxy (ErrOffset sample_mgr) sample_env) (Some 5) registered_both = (None, s')"
    using five_off_result by (metis sample_mgr_simps(6))
  have "0 \<in> set (jsWallpaperChangeCbList registered_both)" "callback_object registered_both 0 = Some 5"
    by (simp_all add: registered_both_state callback_object_def callback_ref_def)
  from remaining_functions_unheard [OF registered_both_reachable sample_calm _ off this] off show ?thesis
    by (simp add: sample_mgr_simps(6) client_listeners(3,4) registered_both_state callback_object_def callback_ref_def)
qed

theorem colours_are_cut_witness:
  "\<exists>s1. GetColorsSync sample_mgr (direct_proxy 1000 sample_env) 0
       (sample_client\<lparr>remote := sample_service\<lparr>systemWallpaperColor := 0xFF80FE0000000000\<rparr>\<rparr>)
     = (None, [\<lparr>red = 0, green = 0, blue = 0, alpha = 1\<rparr>], s1)"
proof -
  let ?s = "sample_client\<lparr>remote := sample_service\<lparr>systemWallpaperColor := 0xFF80FE0000000000\<rparr>\<rparr>"
  have "\<exists>s1. Manager_GetColors sample_mgr (direct_proxy 1000 sample_env) 0 \<lparr>needException = True, isSystemApi = True\<rparr> [] ?s
      = (E_OK, [0xFF80FE0000000000], s1)"
    by (simp add: Manager_GetColors_def GetService_def sample_connected(1) direct_proxy_def GetColorsV9_def IsSystemApp_def
        sample_env_def GetColors_def WallpaperType_value_def sample_codes)
  then obtain s1 where "Manager_GetColors sample_mgr (direct_proxy 1000 sample_env) 0 \<lparr>needException = True, isSystemApi = True\<rparr> [] ?s
      = (E_OK, [0xFF80FE0000000000], s1)" by blast
  moreover have "and (drop_bit 48 0xFF80FE0000000000) 0xff \<noteq> (0xff :: uint64)" "and (drop_bit 40 0xFF80FE0000000000) 0xff \<noteq> (0xff :: uint64)"
    "and (drop_bit 32 0xFF80FE0000000000) 0xff \<noteq> (0xff :: uint64)" "and (drop_bit 56 0xFF80FE0000000000) 0xff = (0xff :: uint64)"
    by code_simp+
  ultimately show ?thesis using colours_are_cut [of sample_mgr "direct_proxy 1000 sample_env" 0 ?s E_OK] by simp
qed

text \<open>An engine with a pixel map, and with an array that holds one picture.\<close>

definition object_napi :: "FoldState \<Rightarrow> js napi" where
  "object_napi f = sample_napi
     \<lparr>n_typeof := (\<lambda>v. case v of Fun _ \<Rightarrow> napi_object | _ \<Rightarrow> n_typeof sample_napi v),
      n_is_array := (\<lambda>v. v = Fun 1), n_array_length := (\<lambda>_. Some 1), n_element := (\<lambda>_ _. Some (Fun 2)),
      n_property := (\<lambda>_ k. Some (if k = ''foldState'' then Num (FoldState_value f)
        else if k = ''rotateState'' then Num 0 else Str ''/a.jpg'')),
      n_pixel_map := (\<lambda>v. if v = Fun 3 then Some 111 else None)\<rparr>"

theorem bindings_agree_witness:
  "ets_number (fst (SetImageAsync sample_ani sample_mgr (direct_proxy 1000 sample_env) (pixelMap_ref 5) 0 sample_client))
    = js_number (fst (NAPI_SetImage (object_napi NORMAL) sample_mgr (direct_proxy 1000 sample_env) [Fun 3, Num 0] sample_client)) \<and>
   ets_number (fst (SetAllWallpapersSync sample_mgr (direct_proxy 1000 sample_env) [(NORMAL, PORT, ''/a.jpg'')] 0 sample_client))
    = js_number (fst (NAPI_SetAllWallpapers (object_napi NORMAL) sample_mgr (direct_proxy 1000 sample_env) [Fun 1, Num 0] sample_client)) \<and>
   js_number (fst (NAPI_SetAllWallpapers (object_napi UNFOLD_1) sample_mgr (direct_proxy 1000 sample_env) [Fun 1, Num 0] sample_client))
    = Some 401"
proof -
  have "c_str ''/a.jpg'' = ''/a.jpg''" by code_simp
  then have js: "n_typeof (object_napi f) (Str ''/a.jpg'') = napi_string" "Convert2String (object_napi f) (Str ''/a.jpg'') = ''/a.jpg''"
    "n_typeof (object_napi f) (Num 0) = napi_number" "n_value_int32 (object_napi f) (Num 0) = Some 0"
    "n_typeof (object_napi f) (Fun k) = napi_object" "n_is_array (object_napi f) (Fun 1)"
    "n_pixel_map (object_napi f) (Fun 3) = ani_native_pixel_map sample_ani 5" for f k
    by (simp_all add: object_napi_def sample_napi_def sample_ani_def Convert2String_def Let_def)
  have "n_array_length (object_napi f) v = Some 1" "n_element (object_napi f) v i = Some (Fun 2)" for f v i
    by (simp_all add: object_napi_def)
  moreover have "Convert2WallpaperInfo (object_napi f) (Fun 2) = Some (FoldState_value f, 0, ''/a.jpg'')" for f
    using js(2) [of f] by (simp add: Convert2WallpaperInfo_def) (simp add: object_napi_def sample_napi_def)
  ultimately have arr: "Convert2WallpaperInfos (object_napi f) (Fun 1) [] = (True, js_infos [(f, PORT, ''/a.jpg'')])" for f
    by (simp add: Convert2WallpaperInfos_def js_infos_def RotateState_value_def)
  note agree = bindings_agree [OF js(1,2) _ js(3,4) _ js(5,7,5,6) arr, where m = sample_mgr and s = sample_client
      and px = "direct_proxy 1000 sample_env"]
  from agree [of NORMAL] agree [of UNFOLD_1] show ?thesis by (auto simp: js_number_def)
qed

end
