(* ===== verification/ExtensionContext.thy ===== *)
theory ExtensionContext
  imports Napi
begin

text \<open>
  The context of the wallpaper extension, \<^verbatim>\<open>frameworks/kits/extension\<close>: the calls to the ability
  manager (\<^verbatim>\<open>wallpaper_extension_context.cpp\<close>) and their JavaScript functions, the table of
  connections and the events that come back for them (\<^verbatim>\<open>js_wallpaper_extension_context.cpp\<close>).

  A JavaScript value has type \<open>'v\<close>; \<open>ext_engine\<close> is what the engine and the converters of the
  ability runtime answer, \<open>ability_env\<close> what the ability manager and the conn manager answer. A
  function of the context checks its arguments and posts a task to the JavaScript thread; the
  tasks wait in \<open>ext_tasks\<close> until \<open>RunExtTask\<close> runs the first one.
\<close>

section \<open>The world around the context\<close>

record want =
  want_bundle :: string
  want_ability :: string
  want_rest :: nat

record 'v ext_engine =
  x_typeof :: "'v \<Rightarrow> napi_valuetype"
  x_unwrap_want :: "'v \<Rightarrow> want"
  x_unwrap_int32 :: "'v \<Rightarrow> int32 option"
  x_unwrap_options :: "'v \<Rightarrow> nat"
  x_int64 :: "'v \<Rightarrow> int option"
  x_reference_ok :: "'v \<Rightarrow> bool"
  x_property :: "'v \<Rightarrow> string \<Rightarrow> 'v option"
  x_send_event_ok :: bool
  x_error_code_inner :: int32

text \<open>What the ability manager and the connection manager are asked, on behalf of the token of the context.\<close>

datatype ability_request =
  StartAbilityReq want "nat option" "int32 option"
| TerminateAbilityReq
| ConnectAbilityReq want "int32 option" handle
| DisconnectAbilityReq want handle

text \<open>\<open>context_alive\<close>: the weak pointer to the context can be locked; \<open>held_elsewhere\<close>: someone other than the
  table keeps a conn alive.\<close>

record ability_env =
  AbilityManagerUp :: bool
  answer_of :: "ability_request \<Rightarrow> int32"
  NO_INIT :: int32
  context_alive :: bool
  held_elsewhere :: "handle \<Rightarrow> bool"

datatype 'v js_arg = JElement string string | JRemote "handle option" | JCode int32 | JPastEnd

datatype settlement = Fulfilled | Refused int32 string | RefusedNative int32 string

text \<open>A task of the JavaScript thread; the first number of those that belong to a call is its promise, with
  the callback that may stand for it.\<close>

datatype 'v ext_task =
  StartTask nat want "nat option" "int32 option"
| TerminateTask nat
| ConnectTask nat want "int32 option" handle
| DisconnectTask nat want "handle option"
| ConnectDoneTask handle string string "handle option"
| DisconnectDoneTask handle string string

datatype 'v ext_event =
  Settled nat settlement
| CalledMethod 'v 'v "'v js_arg list"

text \<open>
  The state: the table \<^verbatim>\<open>connects_\<close>, ordered by the serial number of its keys, the next serial
  number, the connections made so far with their \<^verbatim>\<open>jsConnectionObject_\<close>, \<^verbatim>\<open>handler_\<close>, the tasks, the promises
  and callbacks handed out, what the ability manager was asked and what JavaScript was told.
\<close>

record 'v ext =
  connects :: "(int, want \<times> handle) stdmap"
  serialNumber :: int
  connections :: "handle \<Rightarrow> 'v option option"
  next_connection :: handle
  handlerMade :: bool
  ext_tasks :: "'v ext_task list"
  promises :: "'v option list"
  ability_requests :: "ability_request list"
  ext_events :: "'v ext_event list"

definition INT64_MAX :: int where "INT64_MAX = 9223372036854775807"

definition ext_emit :: "'v ext_event \<Rightarrow> 'v ext \<Rightarrow> 'v ext" where
  "ext_emit x s = s\<lparr>ext_events := ext_events s @ [x]\<rparr>"

definition ask_ability :: "ability_env \<Rightarrow> ability_request \<Rightarrow> 'v ext \<Rightarrow> int32 \<times> 'v ext" where
  "ask_ability b r s = (answer_of b r, s\<lparr>ability_requests := ability_requests s @ [r]\<rparr>)"

section \<open>The native context\<close>

definition ExtStartAbility :: "ability_env \<Rightarrow> want \<Rightarrow> 'v ext \<Rightarrow> int32 \<times> 'v ext" where
  "ExtStartAbility b w s =
     (if \<not> AbilityManagerUp b then (NO_INIT b, s) else ask_ability b (StartAbilityReq w None None) s)"

definition ExtStartAbilityOptions :: "ability_env \<Rightarrow> want \<Rightarrow> nat \<Rightarrow> 'v ext \<Rightarrow> int32 \<times> 'v ext" where
  "ExtStartAbilityOptions b w opts s =
     (if \<not> AbilityManagerUp b then (NO_INIT b, s) else ask_ability b (StartAbilityReq w (Some opts) None) s)"

definition StartAbilityWithAccount :: "ability_env \<Rightarrow> want \<Rightarrow> int32 \<Rightarrow> 'v ext \<Rightarrow> int32 \<times> 'v ext" where
  "StartAbilityWithAccount b w accountId s =
     (if \<not> AbilityManagerUp b then (NO_INIT b, s) else ask_ability b (StartAbilityReq w None (Some accountId)) s)"

definition StartAbilityWithAccountOptions :: "ability_env \<Rightarrow> want \<Rightarrow> int32 \<Rightarrow> nat \<Rightarrow> 'v ext \<Rightarrow> int32 \<times> 'v ext" where
  "StartAbilityWithAccountOptions b w accountId opts s =
     (if \<not> AbilityManagerUp b then (NO_INIT b, s)
      else ask_ability b (StartAbilityReq w (Some opts) (Some accountId)) s)"

definition ExtConnectAbility :: "ability_env \<Rightarrow> want \<Rightarrow> handle \<Rightarrow> 'v ext \<Rightarrow> bool \<times> 'v ext" where
  "ExtConnectAbility b w conn s =
     (case ask_ability b (ConnectAbilityReq w None conn) s of (ret, s1) \<Rightarrow> (ret = 0, s1))"

definition ExtConnectAbilityWithAccount :: "ability_env \<Rightarrow> want \<Rightarrow> int32 \<Rightarrow> handle \<Rightarrow> 'v ext \<Rightarrow> bool \<times> 'v ext" where
  "ExtConnectAbilityWithAccount b w accountId conn s =
     (case ask_ability b (ConnectAbilityReq w (Some accountId) conn) s of (ret, s1) \<Rightarrow> (ret = 0, s1))"

definition ExtDisconnectAbility :: "ability_env \<Rightarrow> want \<Rightarrow> handle \<Rightarrow> 'v ext \<Rightarrow> int32 \<times> 'v ext" where
  "ExtDisconnectAbility b w conn s = ask_ability b (DisconnectAbilityReq w conn) s"

definition ExtTerminateAbility :: "ability_env \<Rightarrow> 'v ext \<Rightarrow> int32 \<times> 'v ext" where
  "ExtTerminateAbility b s =
     (if \<not> AbilityManagerUp b then (NO_INIT b, s) else ask_ability b TerminateAbilityReq s)"

section \<open>Connections\<close>

text \<open>\<^verbatim>\<open>new JSWallpaperExtensionConnection\<close> and \<^verbatim>\<open>SetJsConnectionObject\<close>.\<close>

definition new_connection :: "'v ext \<Rightarrow> handle \<times> 'v ext" where
  "new_connection s =
     (next_connection s,
      s\<lparr>connections := (connections s)(next_connection s \<mapsto> None), next_connection := Suc (next_connection s)\<rparr>)"

definition SetJsConnectionObject :: "'v ext_engine \<Rightarrow> handle \<Rightarrow> 'v \<Rightarrow> 'v ext \<Rightarrow> 'v ext" where
  "SetJsConnectionObject x conn v s =
     s\<lparr>connections := (connections s)(conn \<mapsto> (if x_reference_ok x v then Some v else None))\<rparr>"

definition GetConnectId :: "'v ext_engine \<Rightarrow> 'v list \<Rightarrow> want \<Rightarrow> handle \<Rightarrow> 'v ext \<Rightarrow> int \<times> 'v ext" where
  "GetConnectId x argv w conn s =
     (let s1 = SetJsConnectionObject x conn (argv ! 1) s; connectId = serialNumber s1 in
      (connectId,
       s1\<lparr>connects := snd (Insert connectId (w, conn) (connects s1)),
          serialNumber := (if serialNumber s1 < INT64_MAX then serialNumber s1 + 1 else 0)\<rparr>))"

text \<open>The object of a connection and one of its methods; \<open>None\<close> when there is no object or the engine refuses
  to look the property up. A missing method is the value undefined.\<close>

definition js_method :: "'v ext_engine \<Rightarrow> handle \<Rightarrow> string \<Rightarrow> 'v ext \<Rightarrow> ('v \<times> 'v) option" where
  "js_method x conn name s =
     (case connections s conn of
        Some (Some obj) \<Rightarrow> (case x_property x obj name of None \<Rightarrow> None | Some m \<Rightarrow> Some (obj, m))
      | _ \<Rightarrow> None)"

definition napi_call_function :: "'v ext_engine \<Rightarrow> 'v \<Rightarrow> 'v \<Rightarrow> 'v js_arg list \<Rightarrow> 'v ext \<Rightarrow> 'v ext" where
  "napi_call_function x obj m args s =
     (if x_typeof x m = napi_function then ext_emit (CalledMethod obj m args) s else s)"

definition CallJsFailed :: "'v ext_engine \<Rightarrow> handle \<Rightarrow> int32 \<Rightarrow> 'v ext \<Rightarrow> 'v ext" where
  "CallJsFailed x conn errorCode s =
     (case js_method x conn ''onFailed'' s of
        None \<Rightarrow> s
      | Some (obj, m) \<Rightarrow> napi_call_function x obj m [JCode errorCode] s)"

definition OnAbilityConnectDone_ext :: "handle \<Rightarrow> string \<Rightarrow> string \<Rightarrow> handle option \<Rightarrow> 'v ext \<Rightarrow> 'v ext" where
  "OnAbilityConnectDone_ext conn bundle ability remoteObject s =
     (if \<not> handlerMade s then s
      else s\<lparr>ext_tasks := ext_tasks s @ [ConnectDoneTask conn bundle ability remoteObject]\<rparr>)"

definition HandleOnAbilityConnectDone ::
  "'v ext_engine \<Rightarrow> handle \<Rightarrow> string \<Rightarrow> string \<Rightarrow> handle option \<Rightarrow> 'v ext \<Rightarrow> 'v ext" where
  "HandleOnAbilityConnectDone x conn bundle ability remoteObject s =
     (case js_method x conn ''onConnect'' s of
        None \<Rightarrow> s
      | Some (obj, m) \<Rightarrow> napi_call_function x obj m [JElement bundle ability, JRemote remoteObject] s)"

definition OnAbilityDisconnectDone_ext :: "handle \<Rightarrow> string \<Rightarrow> string \<Rightarrow> 'v ext \<Rightarrow> 'v ext" where
  "OnAbilityDisconnectDone_ext conn bundle ability s =
     (if \<not> handlerMade s then s
      else s\<lparr>ext_tasks := ext_tasks s @ [DisconnectDoneTask conn bundle ability]\<rparr>)"

text \<open>\<^verbatim>\<open>std::find_if\<close> over the table finds the smallest serial number.\<close>

definition find_connect :: "(want \<Rightarrow> bool) \<Rightarrow> (int, want \<times> handle) stdmap \<Rightarrow> int option" where
  "find_connect P m = map_option fst (List.find (\<lambda>(i, w, c). P w) m)"

text \<open>The call passes the argument count two with an array of one argument.\<close>

definition HandleOnAbilityDisconnectDone ::
  "'v ext_engine \<Rightarrow> handle \<Rightarrow> string \<Rightarrow> string \<Rightarrow> 'v ext \<Rightarrow> 'v ext" where
  "HandleOnAbilityDisconnectDone x conn bundle ability s =
     (case js_method x conn ''onDisconnect'' s of
        None \<Rightarrow> s
      | Some (obj, m) \<Rightarrow>
          let s1 = (case find_connect (\<lambda>w. bundle = want_bundle w \<and> ability = want_ability w) (connects s) of
                      None \<Rightarrow> s | Some i \<Rightarrow> s\<lparr>connects := std_erase i (connects s)\<rparr>) in
          napi_call_function x obj m [JElement bundle ability, JPastEnd] s1)"

section \<open>The functions of the context\<close>

text \<open>What a function returns: undefined, the promise of its task (or its callback) or the number of a connection.\<close>

datatype ext_result = ReturnUndefined | ReturnPromise nat | ReturnId int

definition ERROR_CODE_ONE :: int32 where "ERROR_CODE_ONE = 1"
definition ERROR_CODE_TWO :: int32 where "ERROR_CODE_TWO = 2"

text \<open>\<^verbatim>\<open>CreateEmptyAsyncTask\<close> with the last parameter, and \<^verbatim>\<open>napi_send_event\<close>.\<close>

definition post_call ::
  "'v ext_engine \<Rightarrow> 'v option \<Rightarrow> (nat \<Rightarrow> 'v ext_task) \<Rightarrow> 'v ext \<Rightarrow> nat \<times> 'v ext" where
  "post_call x lastParam mk s =
     (let p = length (promises s); s1 = s\<lparr>promises := promises s @ [lastParam]\<rparr> in
      (p, if \<not> x_send_event_ok x
          then ext_emit (Settled p (RefusedNative (x_error_code_inner x) ''send event failed!'')) s1
          else s1\<lparr>ext_tasks := ext_tasks s1 @ [mk p]\<rparr>))"

definition OnStartAbility :: "'v ext_engine \<Rightarrow> 'v list \<Rightarrow> 'v ext \<Rightarrow> ext_result \<times> 'v ext" where
  "OnStartAbility x argv s =
     (let argc = length argv in
      if argc \<noteq> 1 \<and> argc \<noteq> 2 \<and> argc \<noteq> 3 then (ReturnUndefined, s)
      else let w = x_unwrap_want x (argv ! 0);
               with_options = (argc > 1 \<and> x_typeof x (argv ! 1) = napi_object);
               opts = (if with_options then Some (x_unwrap_options x (argv ! 1)) else None);
               unwrapArgc = (if with_options then 2 else 1);
               lastParam = (if argc > unwrapArgc then Some (argv ! unwrapArgc) else None) in
      case post_call x lastParam (\<lambda>p. StartTask p w opts None) s of (p, s1) \<Rightarrow> (ReturnPromise p, s1))"

definition OnStartAbilityWithAccount :: "'v ext_engine \<Rightarrow> 'v list \<Rightarrow> 'v ext \<Rightarrow> ext_result \<times> 'v ext" where
  "OnStartAbilityWithAccount x argv s =
     (let argc = length argv in
      if argc \<noteq> 2 \<and> argc \<noteq> 3 \<and> argc \<noteq> 4 then (ReturnUndefined, s)
      else let w = x_unwrap_want x (argv ! 0) in
      case x_unwrap_int32 x (argv ! 1) of
        None \<Rightarrow> (ReturnUndefined, s)
      | Some accountId \<Rightarrow>
          let with_options = (argc > 2 \<and> x_typeof x (argv ! 1) = napi_object);
              opts = (if with_options then Some (x_unwrap_options x (argv ! 2)) else None);
              unwrapArgc = (if with_options then 3 else 2);
              lastParam = (if argc = unwrapArgc then None else Some (argv ! unwrapArgc)) in
          (case post_call x lastParam (\<lambda>p. StartTask p w opts (Some accountId)) s of (p, s1) \<Rightarrow> (ReturnPromise p, s1)))"

definition OnTerminateAbility :: "'v ext_engine \<Rightarrow> 'v list \<Rightarrow> 'v ext \<Rightarrow> ext_result \<times> 'v ext" where
  "OnTerminateAbility x argv s =
     (let argc = length argv in
      if argc \<noteq> 0 \<and> argc \<noteq> 1 then (ReturnUndefined, s)
      else let lastParam = (if argc = 0 then None else Some (argv ! 0)) in
      case post_call x lastParam TerminateTask s of (p, s1) \<Rightarrow> (ReturnPromise p, s1))"

definition OnConnectAbility :: "'v ext_engine \<Rightarrow> 'v list \<Rightarrow> 'v ext \<Rightarrow> ext_result \<times> 'v ext" where
  "OnConnectAbility x argv s =
     (if length argv \<noteq> 2 then (ReturnUndefined, s)
      else let w = x_unwrap_want x (argv ! 0) in
      case new_connection s of (conn, s1) \<Rightarrow>
      case GetConnectId x argv w conn s1 of (connectId, s2) \<Rightarrow>
      case post_call x None (\<lambda>p. ConnectTask p w None conn) s2 of (p, s3) \<Rightarrow> (ReturnId connectId, s3))"

definition OnConnectAbilityWithAccount :: "'v ext_engine \<Rightarrow> 'v list \<Rightarrow> 'v ext \<Rightarrow> ext_result \<times> 'v ext" where
  "OnConnectAbilityWithAccount x argv s =
     (if length argv \<noteq> 3 then (ReturnUndefined, s)
      else let w = x_unwrap_want x (argv ! 0) in
      case x_unwrap_int32 x (argv ! 1) of
        None \<Rightarrow> (ReturnUndefined, s)
      | Some accountId \<Rightarrow>
      (case new_connection s of (conn, s1) \<Rightarrow>
       case GetConnectId x argv w conn s1 of (connectId, s2) \<Rightarrow>
       case post_call x None (\<lambda>p. ConnectTask p w (Some accountId) conn) s2 of (p, s3) \<Rightarrow> (ReturnId connectId, s3)))"

definition OnDisconnectAbility :: "'v ext_engine \<Rightarrow> want \<Rightarrow> 'v list \<Rightarrow> 'v ext \<Rightarrow> ext_result \<times> 'v ext" where
  "OnDisconnectAbility x empty_want argv s =
     (let argc = length argv in
      if argc \<noteq> 1 \<and> argc \<noteq> 2 then (ReturnUndefined, s)
      else let connectId = (case x_int64 x (argv ! 0) of None \<Rightarrow> - 1 | Some i \<Rightarrow> i);
               found = map_of (connects s) connectId;
               w = (case found of None \<Rightarrow> empty_want | Some (w, c) \<Rightarrow> w);
               conn = map_option snd found;
               lastParam = (if argc = 1 then None else Some (argv ! 1)) in
      case post_call x lastParam (\<lambda>p. DisconnectTask p w conn) s of (p, s1) \<Rightarrow> (ReturnPromise p, s1))"

section \<open>Running a task\<close>

definition settle :: "nat \<Rightarrow> int32 \<Rightarrow> string \<Rightarrow> 'v ext \<Rightarrow> 'v ext" where
  "settle p errcode msg s = ext_emit (Settled p (if errcode = 0 then Fulfilled else Refused errcode msg)) s"

definition released :: "nat \<Rightarrow> 'v ext \<Rightarrow> 'v ext" where
  "released p s = ext_emit (Settled p (Refused ERROR_CODE_ONE ''Context is released'')) s"

text \<open>A weak pointer to a connection can be promoted while the table, a waiting task or someone else holds the
  connection.\<close>

fun held_by_task :: "'v ext_task \<Rightarrow> handle option" where
  "held_by_task (ConnectTask p w accountId conn) = Some conn"
| "held_by_task (DisconnectTask p w conn) = conn"
| "held_by_task _ = None"

definition promoted :: "ability_env \<Rightarrow> handle \<Rightarrow> 'v ext \<Rightarrow> bool" where
  "promoted b conn s \<longleftrightarrow>
     conn \<in> snd ` snd ` set (connects s) \<or> Some conn \<in> held_by_task ` set (ext_tasks s) \<or> held_elsewhere b conn"

definition start_task ::
  "ability_env \<Rightarrow> nat \<Rightarrow> want \<Rightarrow> nat option \<Rightarrow> int32 option \<Rightarrow> 'v ext \<Rightarrow> 'v ext" where
  "start_task b p w opts accountId s =
     (if \<not> context_alive b then released p s
      else case (case (opts, accountId) of
                   (None, None) \<Rightarrow> ExtStartAbility b w s
                 | (Some o', None) \<Rightarrow> ExtStartAbilityOptions b w o' s
                 | (None, Some a) \<Rightarrow> StartAbilityWithAccount b w a s
                 | (Some o', Some a) \<Rightarrow> StartAbilityWithAccountOptions b w a o' s) of (errcode, s1) \<Rightarrow>
      settle p errcode ''Start Ability failed!'' s1)"

definition terminate_task :: "ability_env \<Rightarrow> nat \<Rightarrow> 'v ext \<Rightarrow> 'v ext" where
  "terminate_task b p s =
     (if \<not> context_alive b then released p s
      else case ExtTerminateAbility b s of (errcode, s1) \<Rightarrow> settle p errcode ''Terminate Ability failed!'' s1)"

definition connect_task ::
  "'v ext_engine \<Rightarrow> ability_env \<Rightarrow> nat \<Rightarrow> want \<Rightarrow> int32 option \<Rightarrow> handle \<Rightarrow> 'v ext \<Rightarrow> 'v ext" where
  "connect_task x b p w accountId conn s =
     (if \<not> context_alive b then released p s
      else case (case accountId of
                   None \<Rightarrow> ExtConnectAbility b w conn s
                 | Some a \<Rightarrow> ExtConnectAbilityWithAccount b w a conn s) of (ok, s1) \<Rightarrow>
      settle p 0 '''' (if \<not> ok then CallJsFailed x conn ERROR_CODE_ONE s1 else s1))"

definition disconnect_task :: "ability_env \<Rightarrow> nat \<Rightarrow> want \<Rightarrow> handle option \<Rightarrow> 'v ext \<Rightarrow> 'v ext" where
  "disconnect_task b p w conn s =
     (if \<not> context_alive b then released p s
      else case conn of
        None \<Rightarrow> ext_emit (Settled p (Refused ERROR_CODE_TWO ''not found connection.'')) s
      | Some c \<Rightarrow> (case ExtDisconnectAbility b w c s of (errcode, s1) \<Rightarrow> settle p errcode ''Disconnect Ability failed!'' s1))"

fun run_ext_task :: "'v ext_engine \<Rightarrow> ability_env \<Rightarrow> 'v ext_task \<Rightarrow> 'v ext \<Rightarrow> 'v ext" where
  "run_ext_task x b (StartTask p w opts accountId) s = start_task b p w opts accountId s"
| "run_ext_task x b (TerminateTask p) s = terminate_task b p s"
| "run_ext_task x b (ConnectTask p w accountId conn) s = connect_task x b p w accountId conn s"
| "run_ext_task x b (DisconnectTask p w conn) s = disconnect_task b p w conn s"
| "run_ext_task x b (ConnectDoneTask conn bundle ability remoteObject) s =
     (if promoted b conn s then HandleOnAbilityConnectDone x conn bundle ability remoteObject s else s)"
| "run_ext_task x b (DisconnectDoneTask conn bundle ability) s =
     (if promoted b conn s then HandleOnAbilityDisconnectDone x conn bundle ability s else s)"

definition RunExtTask :: "'v ext_engine \<Rightarrow> ability_env \<Rightarrow> 'v ext \<Rightarrow> 'v ext" where
  "RunExtTask x b s =
     (case ext_tasks s of [] \<Rightarrow> s | t # rest \<Rightarrow> run_ext_task x b t (s\<lparr>ext_tasks := rest\<rparr>))"

section \<open>Making the context object\<close>

text \<open>The properties \<^verbatim>\<open>CreateJsExtensionAbilityInfo\<close> sets; the application info is an object of the ability runtime.\<close>

datatype ext_value =
  VString string | VInt int32 | VBool bool | VStrings "string list" | VObjects "(string \<times> ext_value) list list" | VForeign handle

record metadata =
  meta_name :: string
  meta_value :: string
  meta_resource :: string

record extension_info =
  ei_bundleName :: string
  ei_moduleName :: string
  ei_name :: string
  ei_labelId :: int32
  ei_descriptionId :: int32
  ei_iconId :: int32
  ei_visible :: bool
  ei_type :: int32
  ei_permissions :: "string list"
  ei_applicationInfo :: handle
  ei_metadata :: "metadata list"
  ei_enabled :: bool
  ei_readPermission :: string
  ei_writePermission :: string

definition CreateJsMetadata :: "metadata \<Rightarrow> (string \<times> ext_value) list" where
  "CreateJsMetadata i =
     [(''name'', VString (meta_name i)), (''value'', VString (meta_value i)), (''resource'', VString (meta_resource i))]"

definition CreateJsMetadataArray :: "metadata list \<Rightarrow> ext_value" where
  "CreateJsMetadataArray is = VObjects (map CreateJsMetadata is)"

definition CreateJsExtensionAbilityInfo :: "extension_info \<Rightarrow> (string \<times> ext_value) list" where
  "CreateJsExtensionAbilityInfo i =
     [(''bundleName'', VString (ei_bundleName i)), (''moduleName'', VString (ei_moduleName i)), (''name'', VString (ei_name i)),
      (''labelId'', VInt (ei_labelId i)), (''descriptionId'', VInt (ei_descriptionId i)), (''iconId'', VInt (ei_iconId i)),
      (''isVisible'', VBool (ei_visible i)), (''extensionAbilityType'', VInt (ei_type i)),
      (''permissions'', VStrings (ei_permissions i)), (''applicationInfo'', VForeign (ei_applicationInfo i)),
      (''metadata'', CreateJsMetadataArray (ei_metadata i)), (''enabled'', VBool (ei_enabled i)),
      (''readPermission'', VString (ei_readPermission i)), (''writePermission'', VString (ei_writePermission i))]"

definition context_functions :: "string list" where
  "context_functions =
     [''startAbility'', ''terminateSelf'', ''connectAbility'', ''disconnectAbility'', ''startAbilityWithAccount'',
      ''connectAbilityWithAccount'']"

text \<open>\<^verbatim>\<open>CreateJsWallpaperExtensionContext\<close>: the functions bound and the property \<^verbatim>\<open>extensionAbilityInfo\<close>, set when the context knows
  its ability and its module and the module lists the ability. A context whose ability is not listed
  keeps its functions. \<open>info\<close> and \<open>extensions\<close> are the answers of the context.\<close>

definition CreateJsWallpaperExtensionContext ::
  "(string \<times> string) option \<Rightarrow> extension_info list option \<Rightarrow> ('v, 'm) ext_scheme
    \<Rightarrow> (string list \<times> (string \<times> ext_value) list option) \<times> ('v, 'm) ext_scheme" where
  "CreateJsWallpaperExtensionContext info extensions s =
     ((context_functions,
       (case (info, extensions) of
          (Some (bundle, name), Some is) \<Rightarrow>
            map_option CreateJsExtensionAbilityInfo (List.find (\<lambda>i. ei_bundleName i = bundle \<and> ei_name i = name) is)
        | _ \<Rightarrow> None)),
      s\<lparr>handlerMade := True\<rparr>)"

end
