(* ===== verification/ExtensionTable.thy ===== *)
theory ExtensionTable
  imports ExtensionContext
begin

text \<open>
  What holds of the context of the wallpaper extension (\<^verbatim>\<open>ExtensionContext\<close>) along any interleaving of
  JavaScript calls, tasks and reports of the ability manager (\<open>ext_step\<close>): the table of connections
  stays well formed (\<open>ext_wf\<close>), the number of a connection keeps its meaning (\<open>ext_before\<close>), every
  promise is settled once (\<open>ext_owed\<close>); and where the functions with an account and the end of a connection
  differ from those without.
\<close>

section \<open>The steps of the extension process\<close>

text \<open>
  JavaScript calls the functions of the context, the main thread runs the tasks, and the ability
  manager reports connections. Only connections made so far are reported. A step is taken while the
  serial number is below its last value: the wrap after \<^verbatim>\<open>INT64_MAX\<close> connections is in
  \<open>GetConnectId\<close> and \<open>connect_id_range\<close>.
\<close>

inductive ext_step :: "'v ext_engine \<Rightarrow> want \<Rightarrow> 'v ext \<Rightarrow> 'v ext \<Rightarrow> bool" for x :: "'v ext_engine" and e :: want where
  call_start: "OnStartAbility x argv s = (r, s') \<Longrightarrow> ext_step x e s s'"
| call_start_account: "OnStartAbilityWithAccount x argv s = (r, s') \<Longrightarrow> ext_step x e s s'"
| call_terminate: "OnTerminateAbility x argv s = (r, s') \<Longrightarrow> ext_step x e s s'"
| call_connect: "\<lbrakk>serialNumber s < INT64_MAX; OnConnectAbility x argv s = (r, s')\<rbrakk> \<Longrightarrow> ext_step x e s s'"
| call_connect_account: "\<lbrakk>serialNumber s < INT64_MAX; OnConnectAbilityWithAccount x argv s = (r, s')\<rbrakk> \<Longrightarrow> ext_step x e s s'"
| call_disconnect: "OnDisconnectAbility x e argv s = (r, s') \<Longrightarrow> ext_step x e s s'"
| run_task: "ext_step x e s (RunExtTask x b s)"
| connect_done: "c < next_connection s \<Longrightarrow> ext_step x e s (OnAbilityConnectDone_ext c bundle ability remoteObject s)"
| disconnect_done: "c < next_connection s \<Longrightarrow> ext_step x e s (OnAbilityDisconnectDone_ext c bundle ability s)"

definition ext_start :: "'v ext" where
  "ext_start = \<lparr>connects = [], serialNumber = 0, connections = Map.empty, next_connection = 0, handlerMade = False,
                ext_tasks = [], promises = [], ability_requests = [], ext_events = []\<rparr>"

definition ext_reachable :: "'v ext_engine \<Rightarrow> want \<Rightarrow> 'v ext \<Rightarrow> bool" where
  "ext_reachable x e s \<longleftrightarrow> (\<exists>h. (ext_step x e)\<^sup>*\<^sup>* (ext_start\<lparr>handlerMade := h\<rparr>) s)"

section \<open>What a step leaves alone\<close>

named_theorems ext_frames \<open>how the helpers change one field of the state\<close>

lemma ext_emit_simps [ext_frames]:
  "connects (ext_emit v s) = connects s" "serialNumber (ext_emit v s) = serialNumber s"
  "connections (ext_emit v s) = connections s" "next_connection (ext_emit v s) = next_connection s"
  "ext_tasks (ext_emit v s) = ext_tasks s" "promises (ext_emit v s) = promises s"
  "ext_events (ext_emit v s) = ext_events s @ [v]" "ability_requests (ext_emit v s) = ability_requests s"
  "handlerMade (ext_emit v s) = handlerMade s"
  by (simp_all add: ext_emit_def)

definition settlements :: "'v ext \<Rightarrow> nat list" where
  "settlements s = List.map_filter (\<lambda>v. case v of Settled p _ \<Rightarrow> Some p | CalledMethod _ _ _ \<Rightarrow> None) (ext_events s)"

fun task_promise :: "'v ext_task \<Rightarrow> nat option" where
  "task_promise (StartTask p w opts accountId) = Some p"
| "task_promise (TerminateTask p) = Some p"
| "task_promise (ConnectTask p w accountId conn) = Some p"
| "task_promise (DisconnectTask p w conn) = Some p"
| "task_promise _ = None"

definition waiting :: "'v ext \<Rightarrow> nat list" where
  "waiting s = List.map_filter task_promise (ext_tasks s)"

text \<open>How often promise \<open>p\<close> is settled or waits to be.\<close>

definition owed :: "nat \<Rightarrow> 'v ext \<Rightarrow> nat" where
  "owed p s = count_list (settlements s) p + count_list (waiting s) p"

lemma settlements_emit [ext_frames]:
  "settlements (ext_emit (Settled p d) s) = settlements s @ [p]"
  "settlements (ext_emit (CalledMethod obj m args) s) = settlements s"
  by (simp_all add: settlements_def ext_emit_def map_filter_def)

text \<open>\<open>kept s s'\<close>: at most the record of what was asked and what JavaScript was told grew, and no promise was settled.\<close>

definition kept :: "'v ext \<Rightarrow> 'v ext \<Rightarrow> bool" where
  "kept s s' \<longleftrightarrow> connects s' = connects s \<and> serialNumber s' = serialNumber s \<and> connections s' = connections s \<and>
     next_connection s' = next_connection s \<and> ext_tasks s' = ext_tasks s \<and> promises s' = promises s \<and>
     settlements s' = settlements s"

lemma kept_refl: "kept s s"
  by (simp add: kept_def)

lemma kept_trans: "kept s s' \<Longrightarrow> kept s' s'' \<Longrightarrow> kept s s''"
  by (simp add: kept_def)

lemma kept_ask: "ask_ability b r s = (k, s') \<Longrightarrow> kept s s'"
  by (auto simp: ask_ability_def kept_def settlements_def)

lemma kept_manager:
  "ExtStartAbility b w s = (k, s') \<Longrightarrow> kept s s'"
  "ExtStartAbilityOptions b w opts s = (k, s') \<Longrightarrow> kept s s'"
  "StartAbilityWithAccount b w a s = (k, s') \<Longrightarrow> kept s s'"
  "StartAbilityWithAccountOptions b w a opts s = (k, s') \<Longrightarrow> kept s s'"
  "ExtConnectAbility b w c s = (ok, s') \<Longrightarrow> kept s s'"
  "ExtConnectAbilityWithAccount b w a c s = (ok, s') \<Longrightarrow> kept s s'"
  "ExtDisconnectAbility b w c s = (k, s') \<Longrightarrow> kept s s'"
  "ExtTerminateAbility b s = (k, s') \<Longrightarrow> kept s s'"
  by (auto simp: ExtStartAbility_def ExtStartAbilityOptions_def StartAbilityWithAccount_def
      StartAbilityWithAccountOptions_def ExtConnectAbility_def ExtConnectAbilityWithAccount_def
      ExtDisconnectAbility_def ExtTerminateAbility_def kept_refl dest: kept_ask split: if_splits prod.splits)

lemma kept_call: "kept s (napi_call_function x obj m args s)"
  by (simp add: napi_call_function_def kept_def ext_frames)

lemma kept_CallJsFailed: "kept s (CallJsFailed x c k s)"
  by (simp add: CallJsFailed_def kept_call kept_refl split: option.split prod.split)

lemma kept_ConnectDone: "kept s (HandleOnAbilityConnectDone x c bn an r s)"
  by (simp add: HandleOnAbilityConnectDone_def kept_call kept_refl split: option.split prod.split)

text \<open>The event of a disconnection erases the entry \<open>find_connect\<close> finds, when the object of the connection is there.\<close>

definition forget_ability :: "'v ext_engine \<Rightarrow> handle \<Rightarrow> string \<Rightarrow> string \<Rightarrow> 'v ext \<Rightarrow> 'v ext" where
  "forget_ability x c bn an s =
     (case js_method x c ''onDisconnect'' s of
        None \<Rightarrow> s
      | Some _ \<Rightarrow> (case find_connect (\<lambda>w. bn = want_bundle w \<and> an = want_ability w) (connects s) of
                    None \<Rightarrow> s | Some i \<Rightarrow> s\<lparr>connects := std_erase i (connects s)\<rparr>))"

lemma kept_DisconnectDone: "kept (forget_ability x c bn an s) (HandleOnAbilityDisconnectDone x c bn an s)"
  by (simp add: HandleOnAbilityDisconnectDone_def forget_ability_def Let_def kept_call kept_refl
      split: option.split prod.split)

text \<open>Running a task leaves the connections and the other tasks alone, only erases from the table, and settles
  the promise of the task, once.\<close>

definition task_frame :: "'v ext_task \<Rightarrow> 'v ext \<Rightarrow> 'v ext \<Rightarrow> bool" where
  "task_frame t s s' \<longleftrightarrow> (\<exists>P. connects s' = filter P (connects s)) \<and> serialNumber s' = serialNumber s \<and>
     connections s' = connections s \<and> next_connection s' = next_connection s \<and> ext_tasks s' = ext_tasks s \<and>
     promises s' = promises s \<and>
     settlements s' = settlements s @ (case task_promise t of None \<Rightarrow> [] | Some p \<Rightarrow> [p])"

lemma filter_id_ex: "\<exists>P. xs = filter P xs"
  by (rule exI[of _ "\<lambda>_. True"]) simp

lemma task_frame_settled: "kept s s' \<Longrightarrow> task_promise t = Some p \<Longrightarrow> task_frame t s (ext_emit (Settled p d) s')"
  by (auto simp: task_frame_def kept_def ext_frames filter_id_ex)

lemma task_frame_unsettled: "kept s s' \<Longrightarrow> task_promise t = None \<Longrightarrow> task_frame t s s'"
  by (auto simp: task_frame_def kept_def filter_id_ex)

lemma task_frame_DisconnectDone:
  "task_promise t = None \<Longrightarrow> task_frame t s (HandleOnAbilityDisconnectDone x c bn an s)"
  using kept_DisconnectDone[of x c bn an s]
  by (auto simp: task_frame_def kept_def forget_ability_def settlements_def std_erase_def filter_id_ex split: option.splits)

lemma task_frame_calls:
  "task_frame (StartTask p w opts a) s (start_task b p w opts a s)"
  "task_frame (TerminateTask p) s (terminate_task b p s)"
  "task_frame (DisconnectTask p w d) s (disconnect_task b p w d s)"
  by (auto simp: start_task_def terminate_task_def disconnect_task_def released_def settle_def kept_refl
      split: prod.split option.split intro!: task_frame_settled intro: kept_manager)

lemma task_frame_connect: "task_frame (ConnectTask p w a c) s (connect_task x b p w a c s)"
  by (auto simp: connect_task_def released_def settle_def kept_refl split: prod.split option.split
      intro!: task_frame_settled intro: kept_manager kept_trans[OF kept_manager(5) kept_CallJsFailed]
        kept_trans[OF kept_manager(6) kept_CallJsFailed])

lemma task_frame_run: "task_frame t s (run_ext_task x b t s)"
proof (cases t)
  case (ConnectDoneTask c bn an r)
  then show ?thesis
    by (auto intro!: task_frame_unsettled simp: kept_refl kept_ConnectDone)
next
  case (DisconnectDoneTask c bn an)
  then show ?thesis
    by (auto intro!: task_frame_DisconnectDone intro: task_frame_unsettled[OF kept_refl])
qed (simp_all add: task_frame_calls task_frame_connect)

section \<open>The table stays well formed\<close>

text \<open>
  The table is in the order of its serial numbers, they lie below the next one, and every connection of
  the table was made. Once made, a connection keeps its callback object, and the number of a
  connection never denotes another one: \<open>ext_before\<close>.
\<close>

definition ext_wf :: "'v ext \<Rightarrow> bool" where
  "ext_wf s \<longleftrightarrow> std_wf (connects s) \<and> 0 \<le> serialNumber s \<and> serialNumber s \<le> INT64_MAX \<and>
     (\<forall>(i, w, c) \<in> set (connects s). 0 \<le> i \<and> i < serialNumber s \<and> c < next_connection s) \<and>
     dom (connections s) = {..<next_connection s}"

definition ext_before :: "'v ext \<Rightarrow> 'v ext \<Rightarrow> bool" where
  "ext_before s s' \<longleftrightarrow> serialNumber s \<le> serialNumber s' \<and> next_connection s \<le> next_connection s' \<and>
     (\<forall>c < next_connection s. connections s' c = connections s c) \<and>
     (\<forall>i < serialNumber s. map_of (connects s') i = None \<or> map_of (connects s') i = map_of (connects s) i)"

lemma ext_before_refl: "ext_before s s"
  by (simp add: ext_before_def)

lemma ext_before_trans: "ext_before s s' \<Longrightarrow> ext_before s' s'' \<Longrightarrow> ext_before s s''"
  by (simp add: ext_before_def) (metis order_less_le_trans)

lemma post_call_table [ext_frames]:
  "connects (snd (post_call x l mk s)) = connects s" "serialNumber (snd (post_call x l mk s)) = serialNumber s"
  "connections (snd (post_call x l mk s)) = connections s" "next_connection (snd (post_call x l mk s)) = next_connection s"
  "promises (snd (post_call x l mk s)) = promises s @ [l]" "fst (post_call x l mk s) = length (promises s)"
  by (simp_all add: post_call_def Let_def ext_frames)

text \<open>A new connection, registered: what \<open>OnConnectAbility\<close> does before it posts its task.\<close>

definition registered_connection :: "'v ext_engine \<Rightarrow> 'v list \<Rightarrow> 'v ext \<Rightarrow> 'v ext" where
  "registered_connection x argv s =
     snd (GetConnectId x argv (x_unwrap_want x (argv ! 0)) (next_connection s) (snd (new_connection s)))"

lemma registered_fields [ext_frames]:
  "connects (registered_connection x argv s) =
     snd (Insert (serialNumber s) (x_unwrap_want x (argv ! 0), next_connection s) (connects s))"
  "serialNumber (registered_connection x argv s) = (if serialNumber s < INT64_MAX then serialNumber s + 1 else 0)"
  "connections (registered_connection x argv s) =
     (connections s)(next_connection s \<mapsto> (if x_reference_ok x (argv ! 1) then Some (argv ! 1) else None))"
  "next_connection (registered_connection x argv s) = Suc (next_connection s)"
  "ext_tasks (registered_connection x argv s) = ext_tasks s" "promises (registered_connection x argv s) = promises s"
  "settlements (registered_connection x argv s) = settlements s"
  by (simp_all add: registered_connection_def GetConnectId_def new_connection_def SetJsConnectionObject_def
      Let_def settlements_def)

text \<open>The six functions of the context, each of them one \<open>post_call\<close> at most.\<close>

definition posted :: "'v ext \<Rightarrow> 'v ext \<Rightarrow> bool" where
  "posted s s' \<longleftrightarrow> (\<exists>x l mk. s' = snd (post_call x l mk s) \<and> (\<forall>p. task_promise (mk p) = Some p))"

lemma postedI: "(\<And>p. task_promise (mk p) = Some p) \<Longrightarrow> posted s (snd (post_call x l mk s))"
  by (auto simp: posted_def)

lemma call_posts:
  "OnStartAbility x argv s = (r, s') \<Longrightarrow> s' = s \<or> posted s s'"
  "OnStartAbilityWithAccount x argv s = (r, s') \<Longrightarrow> s' = s \<or> posted s s'"
  "OnTerminateAbility x argv s = (r, s') \<Longrightarrow> s' = s \<or> posted s s'"
  "OnDisconnectAbility x e argv s = (r, s') \<Longrightarrow> s' = s \<or> posted s s'"
  by (auto simp: OnStartAbility_def OnStartAbilityWithAccount_def OnTerminateAbility_def OnDisconnectAbility_def
      Let_def case_prod_beta split: if_splits option.splits intro!: postedI)

lemma OnConnectAbility_eq:
  "OnConnectAbility x [a, v] s =
     (ReturnId (serialNumber s),
      snd (post_call x None (\<lambda>p. ConnectTask p (x_unwrap_want x a) None (next_connection s))
             (registered_connection x [a, v] s)))"
  by (simp add: OnConnectAbility_def registered_connection_def new_connection_def GetConnectId_def
      SetJsConnectionObject_def case_prod_beta Let_def)

lemma OnConnectAbilityWithAccount_eq:
  "x_unwrap_int32 x k = Some accountId \<Longrightarrow>
   OnConnectAbilityWithAccount x [a, k, v] s =
     (ReturnId (serialNumber s),
      snd (post_call x None (\<lambda>p. ConnectTask p (x_unwrap_want x a) (Some accountId) (next_connection s))
             (registered_connection x [a, k, v] s)))"
  by (simp add: OnConnectAbilityWithAccount_def registered_connection_def new_connection_def GetConnectId_def
      SetJsConnectionObject_def case_prod_beta Let_def)

lemma call_connects:
  "OnConnectAbility x argv s = (r, s') \<Longrightarrow> s' = s \<or> posted (registered_connection x argv s) s'"
  "OnConnectAbilityWithAccount x argv s = (r, s') \<Longrightarrow> s' = s \<or> posted (registered_connection x argv s) s'"
  by (auto simp: OnConnectAbility_def OnConnectAbilityWithAccount_def registered_connection_def new_connection_def
      GetConnectId_def SetJsConnectionObject_def Let_def case_prod_beta split: if_splits option.splits intro!: postedI)

lemma posted_table: "posted s s' \<Longrightarrow> connects s' = connects s \<and> serialNumber s' = serialNumber s \<and>
    connections s' = connections s \<and> next_connection s' = next_connection s"
  by (auto simp: posted_def ext_frames)

lemma posted_wf: "posted s s' \<Longrightarrow> ext_wf s \<Longrightarrow> ext_wf s' \<and> ext_before s s'"
  using posted_table[of s s'] by (simp add: ext_wf_def ext_before_def)

lemma std_wf_absent: "\<forall>(i, w) \<in> set m. i < k \<Longrightarrow> map_of m (k::int) = None"
  by (auto simp: map_of_eq_None_iff)

lemma set_std_upsert: "set (std_upsert k v m) \<subseteq> insert (k, v) (set m)"
  by (induction k v m rule: std_upsert.induct) auto

lemma registered_wf:
  assumes "ext_wf s" "serialNumber s < INT64_MAX"
  shows "ext_wf (registered_connection x argv s) \<and> ext_before s (registered_connection x argv s)"
proof -
  have absent: "map_of (connects s) (serialNumber s) = None"
    using assms by (intro std_wf_absent) (auto simp: ext_wf_def)
  have "0 \<le> i \<and> i < serialNumber s + 1 \<and> c < Suc (next_connection s)"
    if "(i, w, c) \<in> set (std_upsert (serialNumber s) (x_unwrap_want x (argv ! 0), next_connection s) (connects s))" for i w c
    using subsetD[OF set_std_upsert that] assms by (fastforce simp: ext_wf_def)
  then show ?thesis
    using assms absent
    by (auto simp: ext_wf_def ext_before_def ext_frames Insert_def std_wf_upsert split: if_splits)
qed

lemma map_of_filter_None_or: "distinct (map fst m) \<Longrightarrow> map_of (filter P m) k = None \<or> map_of (filter P m) k = map_of m k"
  by (induction m) (auto simp: map_of_eq_None_iff)

lemma task_frame_wf:
  assumes "task_frame t s s'" "ext_wf s"
  shows "ext_wf s' \<and> ext_before s s'"
proof -
  obtain P where P: "connects s' = filter P (connects s)"
    using assms(1) by (auto simp: task_frame_def)
  show ?thesis
    using assms P map_of_filter_None_or[of "connects s" P]
    by (auto simp: task_frame_def ext_wf_def ext_before_def std_wf_filter std_wf_distinct)
qed

text \<open>The kinds of step.\<close>

lemma ext_step_kinds [consumes 1, case_names same posted registered run reported]:
  assumes "ext_step x e s s'"
  obtains "s' = s" | "posted s s'" | argv where "serialNumber s < INT64_MAX" "posted (registered_connection x argv s) s'"
  | b where "s' = RunExtTask x b s" | t where "task_promise t = None" "s' = s\<lparr>ext_tasks := ext_tasks s @ [t]\<rparr>"
  using assms
proof cases
  case (call_start argv r)
  then show ?thesis using call_posts(1) that(1,2) by blast
next
  case (call_start_account argv r)
  then show ?thesis using call_posts(2) that(1,2) by blast
next
  case (call_terminate argv r)
  then show ?thesis using call_posts(3) that(1,2) by blast
next
  case (call_connect argv r)
  then show ?thesis using call_connects(1) that(1,3) by blast
next
  case (call_connect_account argv r)
  then show ?thesis using call_connects(2) that(1,3) by blast
next
  case (call_disconnect argv r)
  then show ?thesis using call_posts(4) that(1,2) by blast
next
  case (run_task b)
  then show ?thesis by (rule that(4))
next
  case (connect_done c bn an r)
  then show ?thesis
    using that(1) that(5)[of "ConnectDoneTask c bn an r"] by (simp add: OnAbilityConnectDone_ext_def split: if_splits)
next
  case (disconnect_done c bn an)
  then show ?thesis
    using that(1) that(5)[of "DisconnectDoneTask c bn an"] by (simp add: OnAbilityDisconnectDone_ext_def split: if_splits)
qed

lemma tasks_wf: "ext_wf s \<Longrightarrow> ext_wf (s\<lparr>ext_tasks := ts\<rparr>) \<and> ext_before s (s\<lparr>ext_tasks := ts\<rparr>)"
  by (simp add: ext_wf_def ext_before_def)

lemma run_wf:
  assumes "ext_wf s"
  shows "ext_wf (RunExtTask x b s) \<and> ext_before s (RunExtTask x b s)"
proof (cases "ext_tasks s")
  case (Cons t rest)
  then have "RunExtTask x b s = run_ext_task x b t (s\<lparr>ext_tasks := rest\<rparr>)"
    by (simp add: RunExtTask_def)
  then show ?thesis
    using task_frame_wf[OF task_frame_run] tasks_wf[OF assms] ext_before_trans by metis
qed (use assms in \<open>simp add: RunExtTask_def ext_before_refl\<close>)

lemma ext_step_wf:
  assumes "ext_step x e s s'" "ext_wf s"
  shows "ext_wf s' \<and> ext_before s s'"
  using assms(1)
proof (cases rule: ext_step_kinds)
  case (registered argv)
  then show ?thesis
    using registered_wf[OF assms(2), of x argv] posted_wf ext_before_trans by blast
qed (use assms(2) posted_wf run_wf tasks_wf ext_before_refl in blast)+

lemma ext_steps_wf: "(ext_step x e)\<^sup>*\<^sup>* s s' \<Longrightarrow> ext_wf s \<Longrightarrow> ext_wf s' \<and> ext_before s s'"
  by (induction rule: rtranclp_induct) (auto intro: ext_before_refl dest: ext_step_wf ext_before_trans)

lemma ext_invariant:
  assumes "ext_reachable x e s" "\<And>h. P (ext_start\<lparr>handlerMade := h\<rparr>)" "\<And>s s'. ext_step x e s s' \<Longrightarrow> P s \<Longrightarrow> P s'"
  shows "P s"
proof -
  have "(ext_step x e)\<^sup>*\<^sup>* s0 s \<Longrightarrow> P s0 \<Longrightarrow> P s" for s0
    by (induction rule: rtranclp_induct) (auto intro: assms(3))
  then show ?thesis
    using assms(1,2) by (auto simp: ext_reachable_def)
qed

text \<open>C37: the state of the extension's context keeps its type: one step from a well formed state leads to a well formed one,
  the table of connections in the order of its numbers, each of them below the next number and of a
  connection that was made; the step keeps the callback object of every connection, and what a number
  already given stands for, unless the entry is erased.\<close>

theorem context_stays_well_formed:
  assumes "ext_wf s" "ext_step x e s s'"
  shows "ext_wf s' \<and> ext_before s s'"
  using ext_step_wf[OF assms(2,1)] .

lemma ext_start_wf: "ext_wf (ext_start\<lparr>handlerMade := h\<rparr>)"
  by (simp add: ext_start_def ext_wf_def INT64_MAX_def)

lemma ext_reachable_wf: "ext_reachable x e s \<Longrightarrow> ext_wf s"
  by (erule ext_invariant) (auto intro: ext_start_wf dest: ext_step_wf)

section \<open>Every promise is settled once\<close>

definition ext_owed :: "'v ext \<Rightarrow> bool" where
  "ext_owed s \<longleftrightarrow> (\<forall>p. owed p s = (if p < length (promises s) then 1 else 0))"

lemma owed_ext_tasks:
  "settlements (s\<lparr>ext_tasks := ts\<rparr>) = settlements s"
  "count_list (List.map_filter task_promise (t # ts)) p =
     (if task_promise t = Some p then 1 else 0) + count_list (List.map_filter task_promise ts) p"
  by (auto simp: settlements_def map_filter_def)

lemma owed_post_call:
  assumes "\<And>p. task_promise (mk p) = Some p"
  shows "owed p (snd (post_call x l mk s)) = owed p s + (if p = length (promises s) then 1 else 0)"
proof -
  have "settlements (s\<lparr>promises := ps\<rparr>) = settlements s" "settlements (s\<lparr>promises := ps, ext_tasks := ts\<rparr>) = settlements s" for ps ts
    by (simp_all add: settlements_def)
  moreover have "List.map_filter task_promise (ts @ [mk q]) = List.map_filter task_promise ts @ [q]" for ts q
    using assms by (simp add: map_filter_def)
  ultimately show ?thesis
    by (simp add: owed_def post_call_def Let_def ext_frames waiting_def)
qed

lemma posted_owed: "posted s s' \<Longrightarrow> ext_owed s \<Longrightarrow> ext_owed s'"
  by (auto simp: posted_def ext_owed_def owed_post_call ext_frames)

lemma registered_owed: "ext_owed s \<Longrightarrow> ext_owed (registered_connection x argv s)"
  by (simp add: ext_owed_def owed_def ext_frames waiting_def)

lemma task_frame_owed:
  assumes "task_frame t (s\<lparr>ext_tasks := rest\<rparr>) s'" "ext_tasks s = t # rest"
  shows "owed p s' = owed p s \<and> promises s' = promises s"
  using assms by (cases "task_promise t") (auto simp: task_frame_def owed_def waiting_def owed_ext_tasks)

lemma run_owed:
  assumes "ext_owed s"
  shows "ext_owed (RunExtTask x b s)"
proof (cases "ext_tasks s")
  case (Cons t rest)
  have "owed p (RunExtTask x b s) = owed p s \<and> promises (RunExtTask x b s) = promises s" for p
    using task_frame_owed[OF task_frame_run Cons] by (simp add: RunExtTask_def Cons)
  then show ?thesis
    using assms by (simp add: ext_owed_def)
qed (use assms in \<open>simp add: RunExtTask_def\<close>)

lemma ext_step_owed:
  assumes "ext_step x e s s'" "ext_owed s"
  shows "ext_owed s'"
  using assms(1)
proof (cases rule: ext_step_kinds)
  case (registered argv)
  then show ?thesis
    using registered_owed[OF assms(2)] posted_owed by blast
next
  case (reported t)
  then show ?thesis
    using assms(2) by (simp add: ext_owed_def owed_def waiting_def owed_ext_tasks map_filter_def)
qed (use assms(2) posted_owed run_owed in blast)+

lemma ext_start_owed: "ext_owed (ext_start\<lparr>handlerMade := h\<rparr>)"
  by (simp add: ext_start_def ext_owed_def owed_def settlements_def waiting_def map_filter_def)

lemma ext_reachable_owed: "ext_reachable x e s \<Longrightarrow> ext_owed s"
  by (erule ext_invariant) (auto intro: ext_start_owed dest: ext_step_owed)

section \<open>Running every task\<close>

lemma run_fields:
  "ext_tasks (run_ext_task x b t s) = ext_tasks s" "promises (run_ext_task x b t s) = promises s"
  using task_frame_run[of t s x b] by (simp_all add: task_frame_def)

lemma ext_tasks_run: "ext_tasks (RunExtTask x b s) = tl (ext_tasks s)"
  by (simp add: RunExtTask_def run_fields split: list.split)

lemma ext_tasks_runs: "ext_tasks ((RunExtTask x b ^^ n) s) = drop n (ext_tasks s)"
  by (induction n) (simp_all add: ext_tasks_run drop_Suc tl_drop)

lemma runs_owed: "ext_owed s \<Longrightarrow> ext_owed ((RunExtTask x b ^^ n) s)"
  by (induction n) (simp_all add: run_owed)

lemma promises_run: "promises (RunExtTask x b s) = promises s"
  by (simp add: RunExtTask_def run_fields split: list.split)

lemma promises_runs: "promises ((RunExtTask x b ^^ n) s) = promises s"
  by (induction n) (simp_all add: promises_run)

text \<open>C35: every promise the extension's context hands out (or the callback in its place) is settled exactly
  once: however the calls, the tasks and the reports of the ability manager interleave, once the main
  thread has run the waiting tasks each promise has been resolved or rejected, and not twice.\<close>

theorem promises_settled_once:
  assumes "ext_reachable x e s" "p < length (promises s)"
  shows "count_list (settlements ((RunExtTask x b ^^ length (ext_tasks s)) s)) p = 1"
proof -
  let ?s = "(RunExtTask x b ^^ length (ext_tasks s)) s"
  have "ext_owed ?s"
    using runs_owed ext_reachable_owed[OF assms(1)] .
  moreover have "waiting ?s = []"
    by (simp add: waiting_def ext_tasks_runs map_filter_def)
  ultimately show ?thesis
    using assms(2) by (simp add: ext_owed_def owed_def promises_runs)
qed

section \<open>What the number of a connection stands for\<close>

lemma tasks_post_call:
  "x_send_event_ok x \<Longrightarrow> ext_tasks (snd (post_call x l mk s)) = ext_tasks s @ [mk (length (promises s))]"
  by (simp add: post_call_def Let_def)

text \<open>\<^verbatim>\<open>disconnectAbility\<close> posts one task, which keeps what the number stood for.\<close>

lemma OnDisconnectAbility_posts:
  assumes "x_send_event_ok x" "x_int64 x n = Some i"
  shows "OnDisconnectAbility x e [n] s =
     (ReturnPromise (length (promises s)),
      s\<lparr>promises := promises s @ [None],
        ext_tasks := ext_tasks s @
          [case map_of (connects s) i of
             None \<Rightarrow> DisconnectTask (length (promises s)) e None
           | Some (w, c) \<Rightarrow> DisconnectTask (length (promises s)) w (Some c)]\<rparr>)"
  using assms by (auto simp: OnDisconnectAbility_def post_call_def Let_def split: option.split)

text \<open>What running such a task asks the ability manager and answers the promise.\<close>

definition disconnect_outcome :: "ability_env \<Rightarrow> nat \<Rightarrow> (want \<times> handle) option \<Rightarrow> ability_request list \<times> settlement" where
  "disconnect_outcome b p target =
     (if \<not> context_alive b then ([], Refused 1 ''Context is released'')
      else case target of
        None \<Rightarrow> ([], Refused 2 ''not found connection.'')
      | Some (w, c) \<Rightarrow> ([DisconnectAbilityReq w c],
          let ret = answer_of b (DisconnectAbilityReq w c) in
          if ret = 0 then Fulfilled else Refused ret ''Disconnect Ability failed!''))"

lemma RunExtTask_disconnect:
  assumes "ext_tasks s = (case target of None \<Rightarrow> DisconnectTask p e None | Some (w, c) \<Rightarrow> DisconnectTask p w (Some c)) # rest"
  shows "RunExtTask x b s =
    s\<lparr>ext_tasks := rest, ability_requests := ability_requests s @ fst (disconnect_outcome b p target),
      ext_events := ext_events s @ [Settled p (snd (disconnect_outcome b p target))]\<rparr>"
  using assms
  by (auto simp: RunExtTask_def disconnect_task_def disconnect_outcome_def released_def settle_def ext_emit_def
      ExtDisconnectAbility_def ask_ability_def ERROR_CODE_ONE_def ERROR_CODE_TWO_def Let_def split: option.split)

text \<open>What a method of the object \<open>v\<close> given with a connection is told.\<close>

definition told :: "'v ext_engine \<Rightarrow> 'v \<Rightarrow> string \<Rightarrow> 'v js_arg list \<Rightarrow> 'v ext_event list" where
  "told x v name args =
     (case (if x_reference_ok x v then x_property x v name else None) of
        None \<Rightarrow> []
      | Some m \<Rightarrow> if x_typeof x m = napi_function then [CalledMethod v m args] else [])"

lemma events_told:
  assumes "connections s c = Some (if x_reference_ok x v then Some v else None)"
  shows "ext_events (HandleOnAbilityConnectDone x c bn an r s) = ext_events s @ told x v ''onConnect'' [JElement bn an, JRemote r]"
    "ext_events (HandleOnAbilityDisconnectDone x c bn an s) = ext_events s @ told x v ''onDisconnect'' [JElement bn an, JPastEnd]"
    "ext_events (CallJsFailed x c k s) = ext_events s @ told x v ''onFailed'' [JCode k]"
  using assms
  by (simp_all add: HandleOnAbilityConnectDone_def HandleOnAbilityDisconnectDone_def CallJsFailed_def js_method_def told_def
      napi_call_function_def Let_def ext_emit_def split: option.split)

lemma connect_later:
  assumes wf: "ext_wf s" and room: "serialNumber s < INT64_MAX"
    and p: "posted (registered_connection x argv s) s1" and later: "(ext_step x e)\<^sup>*\<^sup>* s1 s2"
  shows "map_of (connects s2) (serialNumber s) \<in> {None, Some (x_unwrap_want x (argv ! 0), next_connection s)}"
    "connections s2 (next_connection s) = Some (if x_reference_ok x (argv ! 1) then Some (argv ! 1) else None)"
proof -
  have absent: "map_of (connects s) (serialNumber s) = None"
    using wf by (intro std_wf_absent) (auto simp: ext_wf_def)
  have "ext_wf s1"
    using posted_wf[OF p] registered_wf[OF wf room] by blast
  then have "ext_before s1 s2"
    using ext_steps_wf[OF later] by blast
  then show "map_of (connects s2) (serialNumber s) \<in> {None, Some (x_unwrap_want x (argv ! 0), next_connection s)}"
    "connections s2 (next_connection s) = Some (if x_reference_ok x (argv ! 1) then Some (argv ! 1) else None)"
    using posted_table[OF p] room absent by (auto simp: ext_before_def ext_frames Insert_def)
qed

text \<open>C36: the number \<^verbatim>\<open>connectAbility\<close> returns stands for that connection for the rest of the process: whatever happens
  afterwards, \<^verbatim>\<open>disconnectAbility\<close> of the number posts one task, and whenever the main thread runs it, it asks the ability
  manager, in one request, to disconnect exactly that connection from the ability of its want and settles the promise by
  the answer; once the entry is gone it asks for nothing and rejects the promise with the code 2 of an unknown
  connection; and when the context is gone, with the code 1. It never reaches another connection. The events of the
  connection, its failure included, call the methods of the callback object given with it and nothing else. The engine is one that posts
  tasks and reads the number back, and the numbers have not run out (2 ^ 63).\<close>

theorem connect_id_denotes:
  assumes "ext_reachable x e s" "serialNumber s < INT64_MAX" "x_send_event_ok x"
    and "OnConnectAbility x [a, v] s = (ReturnId i, s1)" "(ext_step x e)\<^sup>*\<^sup>* s1 s2" "x_int64 x n = Some i"
  shows "\<exists>t. OnDisconnectAbility x e [n] s2 =
      (ReturnPromise (length (promises s2)), s2\<lparr>promises := promises s2 @ [None], ext_tasks := ext_tasks s2 @ [t]\<rparr>) \<and>
    (\<forall>b s3 rest. ext_tasks s3 = t # rest \<longrightarrow>
       (let out = disconnect_outcome b (length (promises s2))
              (if i \<in> fst ` set (connects s2) then Some (x_unwrap_want x a, next_connection s) else None)
        in RunExtTask x b s3 = s3\<lparr>ext_tasks := rest, ability_requests := ability_requests s3 @ fst out,
             ext_events := ext_events s3 @ [Settled (length (promises s2)) (snd out)]\<rparr>)) \<and>
    ext_events (HandleOnAbilityConnectDone x (next_connection s) bn an r s2)
      = ext_events s2 @ told x v ''onConnect'' [JElement bn an, JRemote r] \<and>
    ext_events (HandleOnAbilityDisconnectDone x (next_connection s) bn an s2)
      = ext_events s2 @ told x v ''onDisconnect'' [JElement bn an, JPastEnd] \<and>
    ext_events (CallJsFailed x (next_connection s) k s2) = ext_events s2 @ told x v ''onFailed'' [JCode k]"
proof -
  let ?target = "if i \<in> fst ` set (connects s2) then Some (x_unwrap_want x a, next_connection s) else None"
  have i: "i = serialNumber s" and p: "posted (registered_connection x [a, v] s) s1"
    using assms(4) by (auto simp: OnConnectAbility_eq intro: postedI)
  note later = connect_later[OF ext_reachable_wf[OF assms(1)] assms(2) p assms(5)]
  have "map_of (connects s2) i = ?target"
    using later(1) by (auto simp: i map_of_eq_None_iff dest: map_of_SomeD)
  note posts = OnDisconnectAbility_posts[OF assms(3,6), of e s2, unfolded this]
  have "connections s2 (next_connection s) = Some (if x_reference_ok x v then Some v else None)"
    using later(2) by simp
  note told = events_told[OF this]
  show ?thesis
    unfolding Let_def
    by (intro exI conjI allI impI, rule posts) (rule told RunExtTask_disconnect, assumption?)+
qed

text \<open>C39: \<^verbatim>\<open>connectAbilityWithAccount\<close> takes the account number, its second argument, for the callback object: when the properties of a number are not functions, and while the numbers of connections have not run out, neither the failure nor the connection nor the end of
  the connection is ever reported to JavaScript, then or later.\<close>

theorem account_connection_is_silent:
  assumes "ext_reachable x e s" "serialNumber s < INT64_MAX"
    and "OnConnectAbilityWithAccount x [a, k, v] s = (ReturnId i, s1)" "(ext_step x e)\<^sup>*\<^sup>* s1 s2"
    and number: "\<And>name m. x_property x k name = Some m \<Longrightarrow> x_typeof x m \<noteq> napi_function"
  shows "ext_events (CallJsFailed x (next_connection s) code s2) = ext_events s2 \<and>
    ext_events (HandleOnAbilityConnectDone x (next_connection s) bn an r s2) = ext_events s2 \<and>
    ext_events (HandleOnAbilityDisconnectDone x (next_connection s) bn an s2) = ext_events s2"
proof -
  have "posted (registered_connection x [a, k, v] s) s1"
  proof (cases "x_unwrap_int32 x k")
    case None
    then show ?thesis
      using assms(3) by (simp add: OnConnectAbilityWithAccount_def)
  next
    case (Some accountId)
    then show ?thesis
      using assms(3) by (auto simp: OnConnectAbilityWithAccount_eq intro: postedI)
  qed
  from connect_later(2)[OF ext_reachable_wf[OF assms(1)] assms(2) this assms(4)]
  have m: "x_typeof x m \<noteq> napi_function" if "js_method x (next_connection s) name s2 = Some (obj, m)" for name obj m
    using that number by (auto simp: js_method_def split: if_splits option.splits)
  show ?thesis
    by (auto simp: CallJsFailed_def HandleOnAbilityConnectDone_def HandleOnAbilityDisconnectDone_def
        napi_call_function_def Let_def dest: m split: option.split)
qed

text \<open>\<^verbatim>\<open>startAbilityWithAccount\<close> never uses start options: it tests the type of its second argument, the account
  number, so the options object, its third argument, is taken for the callback. \<^verbatim>\<open>startAbility\<close> with an options object
  uses them.\<close>

theorem start_options_need_no_account:
  assumes "x_send_event_ok x" "x_typeof x opts = napi_object"
    and "x_unwrap_int32 x k = Some accountId" "x_typeof x k = napi_number"
  shows "OnStartAbilityWithAccount x [a, k, opts] s =
      (ReturnPromise (length (promises s)),
       s\<lparr>promises := promises s @ [Some opts],
         ext_tasks := ext_tasks s @ [StartTask (length (promises s)) (x_unwrap_want x a) None (Some accountId)]\<rparr>) \<and>
    OnStartAbility x [a, opts] s =
      (ReturnPromise (length (promises s)),
       s\<lparr>promises := promises s @ [None],
         ext_tasks := ext_tasks s @
           [StartTask (length (promises s)) (x_unwrap_want x a) (Some (x_unwrap_options x opts)) None]\<rparr>)"
  using assms by (simp add: OnStartAbilityWithAccount_def OnStartAbility_def post_call_def Let_def)

text \<open>The first entry \<open>find_connect\<close> finds.\<close>

lemma find_connect_first:
  "std_wf m \<Longrightarrow> (j, w, c) \<in> set m \<Longrightarrow> P w \<Longrightarrow>
   \<exists>k w' c'. find_connect P m = Some k \<and> (k, w', c') \<in> set m \<and> P w' \<and> (\<forall>(i, u, d) \<in> set m. P u \<longrightarrow> k \<le> i)"
proof (induction m)
  case (Cons p m)
  obtain i u d where p: "p = (i, u, d)"
    by (cases p)
  show ?case
  proof (cases "P u")
    case True
    then show ?thesis
      using Cons.prems by (fastforce simp: p find_connect_def std_wf_Cons)
  next
    case False
    then have "std_wf m" "(j, w, c) \<in> set m" "find_connect P (p # m) = find_connect P m"
      using Cons.prems by (auto simp: p find_connect_def std_wf_Cons)
    then show ?thesis
      using Cons.IH Cons.prems(3) False by (auto simp: p)
  qed
qed simp

definition same_ability :: "want \<Rightarrow> want \<Rightarrow> bool" where
  "same_ability w w' \<longleftrightarrow> want_bundle w = want_bundle w' \<and> want_ability w = want_ability w'"

text \<open>C38: when a connection in the table ends whose callback object has a method onDisconnect, the entry that is erased is that of the oldest connection to the same
  ability (bundle and name), whichever ended, and no other entry: when an older one is still in the table, it is the older
  one's number that stands for nothing any more, and the entry of the one that ended stays.\<close>

theorem disconnect_erases_oldest:
  assumes "ext_reachable x e s" "(j, w, c) \<in> set (connects s)" "js_method x c ''onDisconnect'' s = Some (obj, m)"
  shows "\<exists>k w0 c0. (k, w0, c0) \<in> set (connects s) \<and> same_ability w0 w \<and>
    (\<forall>(i, w1, c1) \<in> set (connects s). same_ability w1 w \<longrightarrow> k \<le> i) \<and>
    (let s' = HandleOnAbilityDisconnectDone x c (want_bundle w) (want_ability w) s in
     map_of (connects s') = (map_of (connects s))(k := None) \<and>
     ((\<exists>(i, w1, c1) \<in> set (connects s). same_ability w1 w \<and> i < j) \<longrightarrow> map_of (connects s') j = Some (w, c)))"
proof -
  let ?P = "\<lambda>u. want_bundle w = want_bundle u \<and> want_ability w = want_ability u"
  have wf: "std_wf (connects s)"
    using ext_reachable_wf[OF assms(1)] by (simp add: ext_wf_def)
  obtain k w0 c0 where k: "find_connect ?P (connects s) = Some k" "(k, w0, c0) \<in> set (connects s)" "?P w0"
    "\<forall>(i, u, d) \<in> set (connects s). ?P u \<longrightarrow> k \<le> i"
    using find_connect_first[OF wf assms(2), of ?P] by auto
  have "connects (HandleOnAbilityDisconnectDone x c (want_bundle w) (want_ability w) s) = std_erase k (connects s)"
    using kept_DisconnectDone[of x c "want_bundle w" "want_ability w" s] k(1) assms(3)
    by (simp add: kept_def forget_ability_def)
  moreover have "map_of (connects s) j = Some (w, c)" "map_of (std_erase k (connects s)) = (map_of (connects s))(k := None)"
    using assms(2) wf by (simp_all add: std_wf_distinct)
  moreover have "\<forall>(i, w1, c1) \<in> set (connects s). same_ability w1 w \<longrightarrow> k \<le> i"
    using k(4) by (auto simp: same_ability_def)
  ultimately show ?thesis
    using k(2,3) by (intro exI[of _ k] exI[of _ w0] exI[of _ c0]) (fastforce simp: Let_def same_ability_def)
qed

section \<open>The number range and the context object\<close>

text \<open>The numbers stay between 0 and \<^verbatim>\<open>INT64_MAX\<close>. After the last one they start again at 0, where a connection that is
  still in the table keeps its entry and the new one is not registered.\<close>

lemma connect_id_range:
  assumes "ext_wf s"
  shows "0 \<le> serialNumber (registered_connection x argv s)" "serialNumber (registered_connection x argv s) \<le> INT64_MAX"
  using assms by (auto simp: ext_wf_def ext_frames INT64_MAX_def)

lemma connect_id_wraps:
  assumes "serialNumber s = INT64_MAX" "map_of (connects s) 0 = Some (w, c)"
  shows "map_of (connects (registered_connection x argv' (registered_connection x argv s))) 0 = Some (w, c)"
  using assms by (auto simp: ext_frames Insert_def INT64_MAX_def)

text \<open>The information published is that of the ability itself, under distinct names.\<close>

lemma context_info_is_own:
  assumes "fst (CreateJsWallpaperExtensionContext (Some (bundle, name)) (Some is) s) = (fs, Some ps)"
  shows "map_of ps ''bundleName'' = Some (VString bundle) \<and> map_of ps ''name'' = Some (VString name) \<and>
    distinct (map fst ps) \<and> (\<exists>i \<in> set is. ps = CreateJsExtensionAbilityInfo i)"
  using assms by (auto simp: CreateJsWallpaperExtensionContext_def CreateJsExtensionAbilityInfo_def find_Some_iff)

section \<open>Examples\<close>

text \<open>JavaScript values are their names; the object \<open>callback\<close> has the three functions.\<close>

definition sample_want :: want where
  "sample_want = \<lparr>want_bundle = ''com.clock'', want_ability = ''Clock'', want_rest = 0\<rparr>"

definition sample_ext :: "string ext_engine" where
  "sample_ext = \<lparr>x_typeof = (\<lambda>v. if v \<in> {''onConnect'', ''onDisconnect'', ''onFailed''} then napi_function
                                 else if v \<in> {''0'', ''1'', ''100''} then napi_number
                                 else if v = ''undefined'' then napi_undefined else napi_object),
    x_unwrap_want = (\<lambda>v. sample_want), x_unwrap_int32 = (\<lambda>v. if v = ''100'' then Some 100 else None),
    x_unwrap_options = length, x_int64 = (\<lambda>v. if v = ''0'' then Some 0 else if v = ''1'' then Some 1 else None),
    x_reference_ok = (\<lambda>v. True),
    x_property = (\<lambda>obj name. Some (if obj = ''callback'' then name else ''undefined'')),
    x_send_event_ok = True, x_error_code_inner = 16000050\<rparr>"

definition sample_ability :: ability_env where
  "sample_ability = \<lparr>AbilityManagerUp = True, answer_of = (\<lambda>r. 0), NO_INIT = 22, context_alive = True,
                     held_elsewhere = (\<lambda>c. False)\<rparr>"

definition ext_idle :: "string ext" where
  "ext_idle = ext_start\<lparr>handlerMade := True\<rparr>"

lemma ext_idle_reachable: "ext_reachable x e ext_idle"
  unfolding ext_reachable_def ext_idle_def by blast

lemma ext_reachable_step: "ext_reachable x e s \<Longrightarrow> ext_step x e s s' \<Longrightarrow> ext_reachable x e s'"
  by (auto simp: ext_reachable_def intro: rtranclp.rtrancl_into_rtrancl)

definition ext_one :: "string ext" where
  "ext_one = snd (OnConnectAbility sample_ext [''want'', ''callback''] ext_idle)"

definition ext_two :: "string ext" where
  "ext_two = snd (OnConnectAbility sample_ext [''want'', ''callback''] ext_one)"

lemma ext_one_eq:
  "OnConnectAbility sample_ext [''want'', ''callback''] ext_idle = (ReturnId 0, ext_one)"
  "ext_one = ext_idle\<lparr>connects := [(0, sample_want, 0)], serialNumber := 1, connections := [0 \<mapsto> Some ''callback''],
     next_connection := 1, promises := [None], ext_tasks := [ConnectTask 0 sample_want None 0]\<rparr>"
  by (simp_all add: ext_one_def OnConnectAbility_eq registered_connection_def new_connection_def GetConnectId_def
      SetJsConnectionObject_def post_call_def Let_def ext_idle_def ext_start_def sample_ext_def Insert_def INT64_MAX_def)

lemma ext_two_eq:
  "OnConnectAbility sample_ext [''want'', ''callback''] ext_one = (ReturnId 1, ext_two)"
  "ext_two = ext_idle\<lparr>connects := [(0, sample_want, 0), (1, sample_want, 1)], serialNumber := 2,
     connections := [0 \<mapsto> Some ''callback'', 1 \<mapsto> Some ''callback''], next_connection := 2, promises := [None, None],
     ext_tasks := [ConnectTask 0 sample_want None 0, ConnectTask 1 sample_want None 1]\<rparr>"
  by (simp_all add: ext_two_def OnConnectAbility_eq registered_connection_def new_connection_def GetConnectId_def
      SetJsConnectionObject_def post_call_def Let_def ext_one_eq(2) ext_idle_def ext_start_def sample_ext_def
      Insert_def INT64_MAX_def)

lemma ext_serials: "serialNumber ext_idle < INT64_MAX" "serialNumber ext_one < INT64_MAX"
  by (simp_all add: ext_idle_def ext_start_def ext_one_eq(2) INT64_MAX_def)

lemma ext_one_step: "ext_step sample_ext e ext_idle ext_one"
  by (rule call_connect[OF ext_serials(1) ext_one_eq(1)])

lemma ext_two_step: "ext_step sample_ext e ext_one ext_two"
  by (rule call_connect[OF ext_serials(2) ext_two_eq(1)])

lemma ext_two_reachable: "ext_reachable sample_ext e ext_two"
  by (rule ext_reachable_step[OF ext_reachable_step[OF ext_idle_reachable ext_one_step] ext_two_step])

theorem context_stays_well_formed_witness: "ext_wf ext_two \<and> ext_before ext_one ext_two"
  by (rule context_stays_well_formed[OF _ ext_two_step])
    (rule ext_reachable_wf[OF ext_reachable_step[OF ext_idle_reachable ext_one_step]])

theorem promises_settled_once_witness:
  "count_list (settlements ((RunExtTask sample_ext sample_ability ^^ 2) ext_two)) 0 = 1"
  using promises_settled_once[OF ext_two_reachable[of sample_want], of 0 sample_ability]
  by (simp add: ext_two_eq(2) numeral_2_eq_2)

theorem connect_id_denotes_witness:
  "\<exists>t. ext_tasks (snd (OnDisconnectAbility sample_ext sample_want [''0''] ext_two)) = ext_tasks ext_two @ [t] \<and>
     RunExtTask sample_ext sample_ability (ext_two\<lparr>ext_tasks := [t]\<rparr>)
       = ext_two\<lparr>ext_tasks := [], ability_requests := [DisconnectAbilityReq sample_want 0], ext_events := [Settled 2 Fulfilled]\<rparr>"
proof -
  have eng: "x_send_event_ok sample_ext" "x_int64 sample_ext ''0'' = Some 0" "next_connection ext_idle = 0"
    "x_unwrap_want sample_ext ''want'' = sample_want"
    by (simp_all add: sample_ext_def ext_idle_def ext_start_def)
  have out: "disconnect_outcome sample_ability 2 (Some (sample_want, 0)) = ([DisconnectAbilityReq sample_want 0], Fulfilled)"
    by (simp add: disconnect_outcome_def sample_ability_def)
  have none: "0 \<in> fst ` set (connects ext_two)" "length (promises ext_two) = 2" "ability_requests ext_two = []" "ext_events ext_two = []"
    by (simp_all add: ext_two_eq(2)) (simp_all add: ext_idle_def ext_start_def)
  have "\<exists>t. OnDisconnectAbility sample_ext sample_want [''0''] ext_two =
       (ReturnPromise 2, ext_two\<lparr>promises := promises ext_two @ [None], ext_tasks := ext_tasks ext_two @ [t]\<rparr>) \<and>
    (\<forall>b s3 rest. ext_tasks s3 = t # rest \<longrightarrow> RunExtTask sample_ext b s3 =
       s3\<lparr>ext_tasks := rest, ability_requests := ability_requests s3 @ fst (disconnect_outcome b 2 (Some (sample_want, 0))),
         ext_events := ext_events s3 @ [Settled 2 (snd (disconnect_outcome b 2 (Some (sample_want, 0))))]\<rparr>)"
    using connect_id_denotes[OF ext_idle_reachable ext_serials(1) _ ext_one_eq(1)
        r_into_rtranclp[of "ext_step sample_ext sample_want", OF ext_two_step], of "''0''" "[]" "[]" None 0]
      eng none(1,2)
    unfolding Let_def by simp blast
  then obtain t where t: "OnDisconnectAbility sample_ext sample_want [''0''] ext_two =
       (ReturnPromise 2, ext_two\<lparr>promises := promises ext_two @ [None], ext_tasks := ext_tasks ext_two @ [t]\<rparr>)"
    "\<And>b s3 rest. ext_tasks s3 = t # rest \<Longrightarrow> RunExtTask sample_ext b s3 =
       s3\<lparr>ext_tasks := rest, ability_requests := ability_requests s3 @ fst (disconnect_outcome b 2 (Some (sample_want, 0))),
         ext_events := ext_events s3 @ [Settled 2 (snd (disconnect_outcome b 2 (Some (sample_want, 0))))]\<rparr>"
    by blast
  from t(2) [of "ext_two\<lparr>ext_tasks := [t]\<rparr>" "[]" sample_ability] t(1) show ?thesis
    by (intro exI[of _ t]) (simp add: out none)
qed

theorem account_connection_is_silent_witness:
  "ext_events (HandleOnAbilityConnectDone sample_ext 0 ''com.clock'' ''Clock'' (Some 7)
     (snd (OnConnectAbilityWithAccount sample_ext [''want'', ''100'', ''callback''] ext_idle))) = []"
proof -
  have "OnConnectAbilityWithAccount sample_ext [''want'', ''100'', ''callback''] ext_idle =
    (ReturnId 0, snd (OnConnectAbilityWithAccount sample_ext [''want'', ''100'', ''callback''] ext_idle))"
    by (simp add: OnConnectAbilityWithAccount_eq[of _ _ 100] sample_ext_def ext_idle_def ext_start_def)
  note * = account_connection_is_silent[OF ext_idle_reachable ext_serials(1) this rtranclp.rtrancl_refl,
    where bn = "''com.clock''" and an = "''Clock''" and r = "Some 7"]
  have "ext_events (snd (OnConnectAbilityWithAccount sample_ext [''want'', ''100'', ''callback''] ext_idle)) = []"
    "next_connection ext_idle = 0"
    by (simp_all add: OnConnectAbilityWithAccount_eq[of _ _ 100] sample_ext_def ext_idle_def ext_start_def
        post_call_def Let_def registered_connection_def new_connection_def GetConnectId_def SetJsConnectionObject_def)
  then show ?thesis
    using * by (simp add: sample_ext_def)
qed

theorem start_options_need_no_account_witness:
  "OnStartAbilityWithAccount sample_ext [''want'', ''100'', ''options''] ext_idle =
     (ReturnPromise 0, ext_idle\<lparr>promises := [Some ''options''], ext_tasks := [StartTask 0 sample_want None (Some 100)]\<rparr>)"
  using start_options_need_no_account[of sample_ext "''options''" "''100''" 100 "''want''" ext_idle]
  by (simp add: sample_ext_def ext_idle_def ext_start_def)

theorem disconnect_erases_oldest_witness:
  "map_of (connects (HandleOnAbilityDisconnectDone sample_ext 1 ''com.clock'' ''Clock'' ext_two)) 1 = Some (sample_want, 1)"
proof -
  have "(1, sample_want, 1) \<in> set (connects ext_two)" "js_method sample_ext 1 ''onDisconnect'' ext_two = Some (''callback'', ''onDisconnect'')"
    by (simp_all add: ext_two_eq(2) js_method_def sample_ext_def)
  moreover have "\<exists>(i, w1, c1) \<in> set (connects ext_two). same_ability w1 sample_want \<and> i < 1"
    by (simp add: ext_two_eq(2) same_ability_def)
  moreover have "want_bundle sample_want = ''com.clock''" "want_ability sample_want = ''Clock''"
    by (simp_all add: sample_want_def)
  ultimately show ?thesis
    using disconnect_erases_oldest[OF ext_two_reachable, of 1 sample_want 1 "''callback''" "''onDisconnect''"]
    by (auto simp: Let_def)
qed

end
