(* ===== verification/ExtensionAbility.thy ===== *)
theory ExtensionAbility
  imports ExtensionTable
begin

text \<open>
  The wallpaper extension itself, \<^verbatim>\<open>frameworks/kits/extension\<close>: how its objects are created and destroyed,
  how the module is found and loaded, the life cycle callbacks and the wallpaper callback that runs
  \<^verbatim>\<open>onWallpaperChange\<close> (\<^verbatim>\<open>wallpaper_extension_ability.cpp\<close>, \<^verbatim>\<open>js_wallpaper_extension_ability.cpp\<close>). The state extends that
  of the context (\<^verbatim>\<open>ExtensionContext\<close>). Shown: the global pointer never dangles and every work item is freed
  (\<open>host_ok\<close>), what the callback reaches, and which source path is loaded.
\<close>

section \<open>State\<close>

text \<open>The fields of the ability's description that are read.\<close>

record entry_info =
  isModuleJson :: bool
  package :: string
  srcPath :: string
  entry_name :: string
  moduleName :: string
  srcEntrance :: string
  hapPath :: string
  esModule :: bool

text \<open>What the ability runtime answers: the module (\<open>None\<close> no reference, \<open>Some None\<close> a reference without value), whether
  there is a context and what it knows of its ability and its module, the system module, whether an object can be wrapped, whether a handle scope
  opens, whether memory is there.\<close>

record 'v runtime_env =
  rt_load_module :: "string \<Rightarrow> string \<Rightarrow> string \<Rightarrow> bool \<Rightarrow> 'v option option"
  rt_context :: bool
  rt_ability_info :: "(string \<times> string) option"
  rt_module_info :: "extension_info list option"
  rt_system_module :: "'v option option"
  rt_wrap_ok :: bool
  rt_scope_ok :: bool
  rt_memory :: bool

datatype ability_arg = AWant want | AType int32

datatype 'v host_event =
  CalledObject 'v string "ability_arg list"
| BaseInit nat | BaseStart nat | BaseStop nat | BaseConnect nat | BaseDisconnect nat | BaseCommand nat bool int32
| CreatedContext "string list" "(string \<times> ext_value) list option"
| BoundContext "'v option"
| SetContext 'v 'v
| WrappedContext 'v
| DisconnectCaller nat

text \<open>\<open>instance\<close> is the global pointer \<^verbatim>\<open>jsWallpaperExtensionAbility\<close>, \<open>abilities\<close> the live objects with their \<^verbatim>\<open>jsObj_\<close>,
  \<open>host_tasks\<close> the work items posted, \<open>work_live\<close> how many work items are allocated.\<close>

record 'v host = "'v ext" +
  ability_instance :: "nat option"
  abilities :: "nat \<Rightarrow> 'v option option option"
  next_ability :: nat
  host_tasks :: "int32 list"
  work_live :: nat
  host_events :: "'v host_event list"

definition host_emit :: "'v host_event \<Rightarrow> 'v host \<Rightarrow> 'v host" where
  "host_emit v s = s\<lparr>host_events := host_events s @ [v]\<rparr>"

section \<open>Creating and destroying\<close>

datatype language = LanguageJS | LanguageOther

text \<open>The objects made: a plain \<^verbatim>\<open>WallpaperExtensionAbility\<close>, or the JavaScript one of the number.\<close>

datatype extension_object = PlainExtension | JsExtension nat

definition JsCreate :: "'v host \<Rightarrow> extension_object \<times> 'v host" where
  "JsCreate s =
     (let n = next_ability s in
      (JsExtension n,
       s\<lparr>abilities := (abilities s)(n \<mapsto> None), next_ability := Suc n, ability_instance := Some n\<rparr>))"

definition CreateExtension :: "language option \<Rightarrow> 'v host \<Rightarrow> extension_object \<times> 'v host" where
  "CreateExtension runtime s =
     (case runtime of
        None \<Rightarrow> (PlainExtension, s)
      | Some LanguageJS \<Rightarrow> JsCreate s
      | Some LanguageOther \<Rightarrow> (PlainExtension, s))"

definition GetParams :: "(string, string) stdmap" where
  "GetParams = snd (Insert ''name'' ''WallpaperExtensionAbility'' (snd (Insert ''type'' ''8'' [])))"

definition JsDestroy :: "nat \<Rightarrow> 'v host \<Rightarrow> 'v host" where
  "JsDestroy n s = s\<lparr>abilities := (abilities s)(n := None), ability_instance := None\<rparr>"

section \<open>Loading the module\<close>

text \<open>\<open>None\<close>: \<^verbatim>\<open>std::string::erase\<close> throws, because there is no dot to cut at.\<close>

definition GetSrcPath :: "entry_info \<Rightarrow> string \<Rightarrow> string option" where
  "GetSrcPath i src =
     (if \<not> isModuleJson i
      then Some (src @ package i @ ''/assets/js/'' @ (if srcPath i \<noteq> '''' then srcPath i else '''')
                 @ ''/'' @ entry_name i @ ''.abc'')
      else if srcEntrance i \<noteq> ''''
      then let p = src @ moduleName i @ ''/'' @ srcEntrance i in
           (case find_last_of CHR ''.'' p of None \<Rightarrow> None | Some k \<Rightarrow> Some (take k p @ ''.abc''))
      else Some src)"

definition set_obj :: "nat \<Rightarrow> 'v option option \<Rightarrow> 'v host \<Rightarrow> 'v host" where
  "set_obj n v s = s\<lparr>abilities := (abilities s)(n \<mapsto> v)\<rparr>"

definition InitMoudle ::
  "'v runtime_env \<Rightarrow> entry_info \<Rightarrow> nat \<Rightarrow> string \<Rightarrow> 'v host \<Rightarrow> 'v host" where
  "InitMoudle rt i n src s =
     (let jsObj = rt_load_module rt (moduleName i @ ''::'' @ entry_name i) src (hapPath i) (esModule i);
          s1 = set_obj n jsObj s in
      case jsObj of
        None \<Rightarrow> s1
      | Some None \<Rightarrow> s1
      | Some (Some obj) \<Rightarrow>
      if \<not> rt_context rt then s1
      else case CreateJsWallpaperExtensionContext (rt_ability_info rt) (rt_module_info rt) s1 of ((fs, info), s1') \<Rightarrow>
      let s2 = host_emit (CreatedContext fs info) s1' in
      (case rt_system_module rt of
         None \<Rightarrow> s2
       | Some contextObj \<Rightarrow>
           let s3 = host_emit (BoundContext contextObj) s2 in
           (case contextObj of
              None \<Rightarrow> s3
            | Some c \<Rightarrow>
                let s4 = host_emit (SetContext obj c) s3 in
                if \<not> rt_memory rt then s4
                else if rt_wrap_ok rt then host_emit (WrappedContext c) s4 else s4)))"

text \<open>\<open>None\<close>: the exception of \<open>GetSrcPath\<close> leaves \<^verbatim>\<open>Init\<close>.\<close>

definition InitExtension :: "'v runtime_env \<Rightarrow> entry_info \<Rightarrow> nat \<Rightarrow> 'v host \<Rightarrow> 'v host option" where
  "InitExtension rt i n s =
     (let s1 = host_emit (BaseInit n) s in
      case GetSrcPath i '''' of
        None \<Rightarrow> None
      | Some src \<Rightarrow> Some (if src = '''' then s1 else InitMoudle rt i n src s1))"

section \<open>The life cycle\<close>

definition CallObjectMethod ::
  "'v ext_engine \<Rightarrow> nat \<Rightarrow> string \<Rightarrow> ability_arg list \<Rightarrow> 'v host \<Rightarrow> 'v host" where
  "CallObjectMethod x n name args s =
     (case abilities s n of
        Some (Some (Some obj)) \<Rightarrow>
          (case x_property x obj name of
             None \<Rightarrow> s
           | Some m \<Rightarrow> if x_typeof x m = napi_function then host_emit (CalledObject obj name args) s else s)
      | _ \<Rightarrow> s)"

text \<open>\<open>OnStart\<close>: what it does in the engine, and with the callback \<open>cb\<close> (\<open>WallpaperCallback\<close> below) handed to the client
  library.\<close>

definition OnStart_js :: "'v ext_engine \<Rightarrow> nat \<Rightarrow> want \<Rightarrow> 'v host \<Rightarrow> 'v host" where
  "OnStart_js x n w s =
     (let s1 = host_emit (BaseStart n) s; s2 = CallObjectMethod x n ''onCreate'' [AWant w] s1 in
      CallObjectMethod x n ''createWallpaperWin'' [] s2)"

definition OnStart_extension ::
  "'v ext_engine \<Rightarrow> mgr_env \<Rightarrow> 'r proxy \<Rightarrow> handle \<Rightarrow> nat \<Rightarrow> want \<Rightarrow> 'v host \<times> 'r client \<Rightarrow> 'v host \<times> 'r client" where
  "OnStart_extension x e px cb n w sc =
     (case sc of (s, c) \<Rightarrow> (OnStart_js x n w s, snd (Manager_RegisterWallpaperCallback e px (Some cb) c)))"

text \<open>\<open>None\<close>: the token of a null context is read.\<close>

definition OnStop_extension :: "'v ext_engine \<Rightarrow> 'v runtime_env \<Rightarrow> nat \<Rightarrow> 'v host \<Rightarrow> 'v host option" where
  "OnStop_extension x rt n s =
     (let s1 = host_emit (BaseStop n) s; s2 = CallObjectMethod x n ''onDestroy'' [] s1 in
      if \<not> rt_context rt then None else Some (host_emit (DisconnectCaller n) s2))"

text \<open>The remote object handed out is a new stub; it answers nothing.\<close>

definition OnConnect_extension :: "'v runtime_env \<Rightarrow> handle \<Rightarrow> nat \<Rightarrow> 'v host \<Rightarrow> handle option \<times> 'v host" where
  "OnConnect_extension rt remoteObj n s =
     ((if rt_memory rt then Some remoteObj else None), host_emit (BaseConnect n) s)"

definition OnDisconnect_extension :: "nat \<Rightarrow> 'v host \<Rightarrow> 'v host" where
  "OnDisconnect_extension n s = host_emit (BaseDisconnect n) s"

definition OnCommand_extension :: "nat \<Rightarrow> bool \<Rightarrow> int32 \<Rightarrow> 'v host \<Rightarrow> 'v host" where
  "OnCommand_extension n restart startId s = host_emit (BaseCommand n restart startId) s"

section \<open>The wallpaper callback\<close>

definition WallpaperCallback ::
  "'v ext_engine \<Rightarrow> 'v runtime_env \<Rightarrow> int32 \<Rightarrow> 'v host \<Rightarrow> bool \<times> 'v host" where
  "WallpaperCallback x rt wallpaperType s =
     (if ability_instance s = None then (False, s)
      else if \<not> rt_memory rt then (False, s)
      else let s1 = s\<lparr>work_live := work_live s + 1\<rparr> in
           if \<not> x_send_event_ok x then (False, s1)
           else (True, s1\<lparr>host_tasks := host_tasks s1 @ [wallpaperType]\<rparr>))"

definition work_task :: "'v ext_engine \<Rightarrow> 'v runtime_env \<Rightarrow> int32 \<Rightarrow> 'v host \<Rightarrow> 'v host" where
  "work_task x rt wallpaperType s =
     (let s1 = (if \<not> rt_scope_ok rt then s
                else case ability_instance s of
                       None \<Rightarrow> s
                     | Some n \<Rightarrow> CallObjectMethod x n ''onWallpaperChange'' [AType wallpaperType] s) in
      s1\<lparr>work_live := work_live s1 - 1\<rparr>)"

definition RunHostTask :: "'v ext_engine \<Rightarrow> 'v runtime_env \<Rightarrow> 'v host \<Rightarrow> 'v host" where
  "RunHostTask x rt s =
     (case host_tasks s of [] \<Rightarrow> s | v # rest \<Rightarrow> work_task x rt v (s\<lparr>host_tasks := rest\<rparr>))"

section \<open>Any order of events\<close>

inductive host_step :: "'v ext_engine \<Rightarrow> 'v host \<Rightarrow> 'v host \<Rightarrow> bool" for x :: "'v ext_engine" where
  create: "host_step x s (snd (CreateExtension runtime s))"
| destroy: "abilities s n \<noteq> None \<Longrightarrow> host_step x s (JsDestroy n s)"
| init: "\<lbrakk>abilities s n \<noteq> None; InitExtension rt i n s = Some s'\<rbrakk> \<Longrightarrow> host_step x s s'"
| start: "abilities s n \<noteq> None \<Longrightarrow> host_step x s (OnStart_js x n w s)"
| stop: "\<lbrakk>abilities s n \<noteq> None; OnStop_extension x rt n s = Some s'\<rbrakk> \<Longrightarrow> host_step x s s'"
| connect: "abilities s n \<noteq> None \<Longrightarrow> host_step x s (snd (OnConnect_extension rt r n s))"
| disconnect: "abilities s n \<noteq> None \<Longrightarrow> host_step x s (OnDisconnect_extension n s)"
| command: "abilities s n \<noteq> None \<Longrightarrow> host_step x s (OnCommand_extension n restart startId s)"
| changed: "host_step x s (snd (WallpaperCallback x rt v s))"
| run: "host_step x s (RunHostTask x rt s)"

text \<open>\<open>init\<close> and \<open>start\<close> are those of the objects alive; before \<open>host_start\<close> no object was made.\<close>

definition host_start :: "'v ext \<Rightarrow> 'v host" where
  "host_start s = ext.extend s \<lparr>ability_instance = None, abilities = Map.empty, next_ability = 0, host_tasks = [],
                                work_live = 0, host_events = []\<rparr>"

definition host_ok :: "'v host \<Rightarrow> bool" where
  "host_ok s \<longleftrightarrow> (\<forall>n. ability_instance s = Some n \<longrightarrow> abilities s n \<noteq> None) \<and> length (host_tasks s) \<le> work_live s"

text \<open>\<open>host_same s s'\<close>: the same objects are alive, and the work items are the same.\<close>

definition host_same :: "'v host \<Rightarrow> 'v host \<Rightarrow> bool" where
  "host_same s s' \<longleftrightarrow> ability_instance s' = ability_instance s \<and> dom (abilities s') = dom (abilities s) \<and>
     host_tasks s' = host_tasks s \<and> work_live s' = work_live s"

lemma host_same_refl: "host_same s s"
  by (simp add: host_same_def)

lemma host_same_trans: "host_same s s' \<Longrightarrow> host_same s' s'' \<Longrightarrow> host_same s s''"
  by (simp add: host_same_def)

lemma host_same_emit: "host_same s s' \<Longrightarrow> host_same s (host_emit v s')"
  by (simp add: host_same_def host_emit_def)

lemma host_same_call: "host_same s s' \<Longrightarrow> host_same s (CallObjectMethod x n name args s')"
  by (simp add: CallObjectMethod_def host_same_emit split: option.split)

lemma host_same_init:
  assumes "InitExtension rt i n s = Some s'" "abilities s n \<noteq> None"
  shows "host_same s s'"
proof -
  have "host_same s (InitMoudle rt i n src (host_emit (BaseInit n) s))" for src
    using assms(2)
    by (auto simp: InitMoudle_def CreateJsWallpaperExtensionContext_def Let_def host_emit_def set_obj_def host_same_def split: option.split)
  then show ?thesis
    using assms(1) host_same_emit[OF host_same_refl]
    by (auto simp: InitExtension_def Let_def split: option.splits if_splits)
qed

lemma host_ok_same: "host_same s s' \<Longrightarrow> host_ok s \<Longrightarrow> host_ok s'"
  by (fastforce simp: host_same_def host_ok_def)

lemma work_task_fields:
  "ability_instance (work_task x rt v s) = ability_instance s" "abilities (work_task x rt v s) = abilities s"
  "host_tasks (work_task x rt v s) = host_tasks s" "work_live (work_task x rt v s) = work_live s - 1"
  by (auto simp: work_task_def Let_def CallObjectMethod_def host_emit_def split: option.split)

lemmas host_call_defs =
  OnStart_js_def OnStop_extension_def OnConnect_extension_def OnDisconnect_extension_def OnCommand_extension_def

lemma host_step_kinds [consumes 1, case_names same create destroy changed run]:
  assumes "host_step x s s'"
  obtains "host_same s s'" | runtime where "s' = snd (CreateExtension runtime s)" | n where "s' = JsDestroy n s"
  | rt v where "s' = snd (WallpaperCallback x rt v s)" | rt where "s' = RunHostTask x rt s"
  using assms
proof cases
  case (init n rt i)
  then show ?thesis using host_same_init that(1) by blast
next
  case (start n w)
  then show ?thesis
    using that(1) by (auto simp: host_call_defs Let_def intro!: host_same_call host_same_emit host_same_refl)
next
  case (stop n rt)
  then show ?thesis
    using that(1) by (auto simp: host_call_defs Let_def split: if_splits intro!: host_same_call host_same_emit host_same_refl)
qed (use that in \<open>auto simp: host_call_defs host_same_emit host_same_refl\<close>)

lemma host_step_ok:
  assumes "host_step x s s'" "host_ok s"
  shows "host_ok s'"
  using assms(1)
proof (cases rule: host_step_kinds)
  case (create runtime)
  then show ?thesis
    using assms(2) by (auto simp: CreateExtension_def JsCreate_def host_ok_def Let_def split: option.split language.split)
next
  case (destroy n)
  then show ?thesis
    using assms(2) by (simp add: JsDestroy_def host_ok_def)
next
  case (changed rt v)
  then show ?thesis
    using assms(2) by (simp add: WallpaperCallback_def host_ok_def Let_def)
next
  case (run rt)
  then show ?thesis
    using assms(2) by (cases "host_tasks s") (auto simp: RunHostTask_def work_task_fields host_ok_def)
qed (use assms(2) host_ok_same in blast)

definition host_reachable :: "'v ext_engine \<Rightarrow> 'v host \<Rightarrow> bool" where
  "host_reachable x s \<longleftrightarrow> (\<exists>s0. (host_step x)\<^sup>*\<^sup>* (host_start s0) s)"

lemma host_invariant:
  assumes "host_reachable x s" "\<And>s0. P (host_start s0)" "\<And>s s'. host_step x s s' \<Longrightarrow> P s \<Longrightarrow> P s'"
  shows "P s"
proof -
  have "(host_step x)\<^sup>*\<^sup>* s1 s \<Longrightarrow> P s1 \<Longrightarrow> P s" for s1
    by (induction rule: rtranclp_induct) (auto intro: assms(3))
  then show ?thesis
    using assms(1,2) by (auto simp: host_reachable_def)
qed

lemma host_start_fields:
  "ability_instance (host_start s) = None" "abilities (host_start s) = Map.empty" "host_tasks (host_start s) = []"
  "work_live (host_start s) = 0" "next_ability (host_start s) = 0" "host_events (host_start s) = []"
  by (simp_all add: host_start_def ext.defs)

lemma host_start_ok: "host_ok (host_start s)"
  by (simp add: host_ok_def host_start_fields)

lemma host_reachable_ok: "host_reachable x s \<Longrightarrow> host_ok s"
  by (erule host_invariant) (auto intro: host_start_ok host_step_ok)

lemma work_items:
  assumes "x_send_event_ok x" "host_reachable x s"
  shows "work_live s = length (host_tasks s)"
  using assms(2)
proof (rule host_invariant)
  show "work_live s' = length (host_tasks s')" if "host_step x s s'" "work_live s = length (host_tasks s)" for s s'
    using that(1)
  proof (cases rule: host_step_kinds)
    case (create runtime)
    then show ?thesis
      using that(2) by (auto simp: CreateExtension_def JsCreate_def Let_def split: option.split language.split)
  next
    case (run rt)
    then show ?thesis
      using that(2) by (auto simp: RunHostTask_def work_task_fields split: list.split)
  qed (use that(2) assms(1) in \<open>auto simp: host_same_def JsDestroy_def WallpaperCallback_def Let_def\<close>)
qed (simp add: host_start_fields)

section \<open>What the callback reaches\<close>

text \<open>C40: the global pointer the wallpaper callback goes through never dangles: whatever order extension
  objects are created, loaded, started, stopped and destroyed in, and wallpaper changes reported and
  their tasks run, the pointer is null or an object that is alive, so that no callback calls into a destroyed
  extension; and when tasks can be posted, the work items allocated are those of the waiting tasks.\<close>

theorem callback_object_alive:
  assumes "host_reachable x s"
  shows "(case ability_instance s of None \<Rightarrow> True | Some n \<Rightarrow> abilities s n \<noteq> None) \<and>
    (x_send_event_ok x \<longrightarrow> work_live s = length (host_tasks s))"
  using host_reachable_ok[OF assms] work_items[OF _ assms] by (auto simp: host_ok_def split: option.split)

text \<open>A work item whose task cannot be posted is never freed.\<close>

lemma work_item_lost:
  "\<lbrakk>ability_instance s = Some n; rt_memory rt; \<not> x_send_event_ok x\<rbrakk> \<Longrightarrow>
   WallpaperCallback x rt v s = (False, s\<lparr>work_live := Suc (work_live s)\<rparr>)"
  by (simp add: WallpaperCallback_def Let_def)

text \<open>Destroying an extension object resets the pointer even when it points to another one: after a second object
  was created and the first one destroyed, the second is alive and its module loaded, but a wallpaper change is
  refused and the tasks that wait call nothing.\<close>

theorem newer_ability_silenced:
  assumes "JsCreate s = (JsExtension m, s1)" "JsCreate s1 = (JsExtension n, s2)"
    and "InitExtension rt i n s2 = Some s3" "JsDestroy m s3 = s4"
  shows "abilities s4 n = abilities s3 n \<and> abilities s4 n \<noteq> None \<and> WallpaperCallback x rt v s4 = (False, s4) \<and>
    host_events (work_task x rt v s4) = host_events s4"
proof -
  have "abilities s2 n \<noteq> None" "m \<noteq> n"
    using assms(1,2) by (auto simp: JsCreate_def Let_def)
  then have "abilities s3 n \<noteq> None"
    using host_same_init[OF assms(3)] by (auto simp: host_same_def dom_def)
  then show ?thesis
    using assms(4) \<open>m \<noteq> n\<close> by (auto simp: JsDestroy_def WallpaperCallback_def work_task_def Let_def)
qed

section \<open>The source path\<close>

text \<open>The module loaded is the compiled form of the entry of the description: the last suffix of the entry is
  replaced by \<^verbatim>\<open>.abc\<close>. An entry without any dot, in a module whose name has none either, makes \<open>GetSrcPath\<close> throw, and nothing
  catches the exception; this is the only way it does.\<close>

theorem source_path_of_entry:
  assumes "isModuleJson i" "CHR ''.'' \<notin> set sfx"
  shows "(srcEntrance i = stem @ ''.'' @ sfx \<longrightarrow> GetSrcPath i '''' = Some (moduleName i @ ''/'' @ stem @ ''.abc'')) \<and>
    (GetSrcPath i '''' = None \<longleftrightarrow> srcEntrance i \<noteq> '''' \<and> CHR ''.'' \<notin> set (moduleName i @ srcEntrance i))"
proof -
  have "find_last_of CHR ''.'' sfx = None"
    using assms(2) by (simp add: find_last_of_None)
  then have "find_last_of CHR ''.'' (moduleName i @ ''/'' @ stem @ ''.'' @ sfx) = Some (length (moduleName i @ ''/'' @ stem))"
    by (simp add: find_last_of_append)
  then show ?thesis
    using assms(1) find_last_of_None[of "CHR ''.''" "moduleName i @ ''/'' @ srcEntrance i"]
    by (auto simp: GetSrcPath_def Let_def split: option.split)
qed

section \<open>An example\<close>

definition sample_rt :: "string runtime_env" where
  "sample_rt = \<lparr>rt_load_module = (\<lambda>m src hap es. Some (Some ''extension'')), rt_context = True, rt_ability_info = None, rt_module_info = None,
                rt_system_module = Some (Some ''context''), rt_wrap_ok = True, rt_scope_ok = True, rt_memory = True\<rparr>"

definition sample_entry :: entry_info where
  "sample_entry = \<lparr>isModuleJson = True, package = ''com.clock'', srcPath = '''', entry_name = ''Main'', moduleName = ''entry'',
                   srcEntrance = ''./ets/Main.ets'', hapPath = ''/a.hap'', esModule = True\<rparr>"

lemma sample_src: "GetSrcPath sample_entry '''' = Some ''entry/./ets/Main.abc''"
  by (simp add: GetSrcPath_def sample_entry_def)

theorem source_path_of_entry_witness: "GetSrcPath sample_entry '''' = Some ''entry/./ets/Main.abc''"
  using source_path_of_entry[of sample_entry "''ets''" "''./ets/Main''"] by (simp add: sample_entry_def)

definition host_idle :: "string host" where
  "host_idle = host_start ext_idle"

definition host_ready :: "string host" where
  "host_ready = InitMoudle sample_rt sample_entry 0 ''entry/./ets/Main.abc'' (host_emit (BaseInit 0) (snd (JsCreate host_idle)))"

lemma host_idle_created:
  "JsCreate host_idle = (JsExtension 0, snd (JsCreate host_idle))"
  "abilities (snd (JsCreate host_idle)) = [0 \<mapsto> None]" "ability_instance (snd (JsCreate host_idle)) = Some 0"
  "host_tasks (snd (JsCreate host_idle)) = []"
  by (simp_all add: JsCreate_def host_idle_def host_start_fields Let_def)

lemma host_ready_init: "InitExtension sample_rt sample_entry 0 (snd (JsCreate host_idle)) = Some host_ready"
  by (simp add: host_ready_def InitExtension_def sample_src Let_def)

lemma host_ready_fields:
  "ability_instance host_ready = Some 0" "abilities host_ready 0 = Some (Some (Some ''extension''))" "host_tasks host_ready = []"
  by (simp_all add: host_ready_def InitMoudle_def CreateJsWallpaperExtensionContext_def Let_def sample_rt_def host_emit_def set_obj_def host_idle_created(2-4))

lemma host_ready_reachable: "host_reachable x host_ready"
proof -
  have "host_step x host_idle (snd (JsCreate host_idle))"
    using create[of x host_idle "Some LanguageJS"] by (simp add: CreateExtension_def)
  moreover have "host_step x (snd (JsCreate host_idle)) host_ready"
    by (rule init[OF _ host_ready_init]) (simp add: host_idle_created(2))
  ultimately show ?thesis
    unfolding host_reachable_def host_idle_def by (blast intro: rtranclp.rtrancl_into_rtrancl)
qed

theorem callback_object_alive_witness: "abilities host_ready 0 \<noteq> None"
  using callback_object_alive[OF host_ready_reachable[of sample_ext]] by (simp add: host_ready_fields(1))

theorem newer_ability_silenced_witness:
  "\<exists>s n. abilities s n \<noteq> None \<and> WallpaperCallback sample_ext sample_rt 0 s = (False, s)"
proof -
  let ?s2 = "snd (JsCreate (snd (JsCreate host_idle)))"
  have "JsCreate (snd (JsCreate host_idle)) = (JsExtension 1, ?s2)"
    by (simp add: JsCreate_def host_idle_def host_start_fields Let_def)
  moreover have "InitExtension sample_rt sample_entry 1 ?s2 = Some (the (InitExtension sample_rt sample_entry 1 ?s2))"
    by (simp add: InitExtension_def sample_src Let_def)
  ultimately show ?thesis
    using newer_ability_silenced[OF host_idle_created(1) _ _ refl, of 1 ?s2 sample_rt sample_entry] by blast
qed

end
