(* ===== verification/ChangeDelivery.thy ===== *)
theory ChangeDelivery
  imports EndToEnd ExtensionAbility
begin

text \<open>
  A changed wallpaper on its way to the extension's JavaScript, across the components: the extension
  registers its callback with the client library when it starts, the client library with the service,
  the service calls back when it announces a change, and the callback posts the task that runs
  \<^verbatim>\<open>onWallpaperChange\<close>.
\<close>

lemma OnStart_js_fields:
  "ability_instance (OnStart_js x n w s) = ability_instance s" "abilities (OnStart_js x n w s) = abilities s"
  "host_tasks (OnStart_js x n w s) = host_tasks s" "work_live (OnStart_js x n w s) = work_live s"
  by (auto simp: OnStart_js_def CallObjectMethod_def host_emit_def Let_def split: option.split)

lemma registered_with_service:
  assumes "IsSystemApp e" "wallpaperProxy c = Some p"
  shows "callbackProxy (remote (snd (Manager_RegisterWallpaperCallback me (direct_proxy off e) (Some cb) c))) = Some 1"
    "jsCallback (snd (Manager_RegisterWallpaperCallback me (direct_proxy off e) (Some cb) c)) = Some cb"
  using assms
  by (simp_all add: Manager_RegisterWallpaperCallback_def GetService_def SetCallback_def call_remote_def
      direct_proxy_def RegisterWallpaperCallback_def)

text \<open>C11: a wallpaper change reaches the JavaScript of the extension: once a started extension of a system application
  is registered, every change of a picture wallpaper the service announces calls it back, the request crosses the
  parcel to its stub and its callback, and ends, when the main thread runs the task, in one call of \<^verbatim>\<open>onWallpaperChange\<close> on the extension's
  object, with the type of the wallpaper, as long as the engine posts tasks and has memory.\<close>

theorem extension_hears_change:
  assumes "IsSystemApp e" "wallpaperProxy c = Some p"
    and start: "OnStart_extension x me (direct_proxy off e) cb n a (s, c) = (s1, c1)"
    and "ability_instance s = Some n" "abilities s n = Some (Some (Some obj))" "host_tasks s = []"
    and "x_property x obj ''onWallpaperChange'' = Some m" "x_typeof x m = napi_function"
    and "x_send_event_ok x" "rt_memory rt" "rt_scope_ok rt"
    and "entry w u (remote c1) = Some d" "resourceType d = PICTURE \<or> resourceType d = DEFAULT"
    and "parcel_fifo P content" "content q = []"
  shows "\<exists>r s2. SendWallpaperChangeEvent e' u w (remote c1) = (True, r) \<and>
    CallbackOnCall 1 w \<in> set (drop (length (effects (remote c1))) (effects r)) \<and>
    (\<forall>code p'. CbProxy_OnCall P q (WallpaperType_value w) = (E_OK, Some (code, p')) \<longrightarrow>
      CbStub_OnRemoteRequest P (jsCallback c1) code p' = (Answer NO_ERROR, [(cb, WallpaperType_value w)])) \<and>
    WallpaperCallback x rt (WallpaperType_value w) s1 = (True, s2) \<and>
    host_events (RunHostTask x rt s2) =
      host_events s1 @ [CalledObject obj ''onWallpaperChange'' [AType (WallpaperType_value w)]]"
proof -
  have s1: "s1 = OnStart_js x n a s" and c1: "c1 = snd (Manager_RegisterWallpaperCallback me (direct_proxy off e) (Some cb) c)"
    using start by (simp_all add: OnStart_extension_def)
  have cb: "callbackProxy (remote c1) = Some 1" "jsCallback c1 = Some cb"
    using registered_with_service[OF assms(1,2)] c1 by auto
  have "CallbackOnCall 1 w \<in> set (change_effects w (resourceType d) (remote c1))"
    using cb(1) assms(13) by (auto simp: change_effects_def)
  moreover have "SendWallpaperChangeEvent e' u w (remote c1) =
      (True, (remote c1)\<lparr>effects := effects (remote c1) @ change_effects w (resourceType d) (remote c1)\<rparr>)"
    using assms(12) by (rule SendWallpaperChangeEvent_eq)
  ultimately show ?thesis
    using cb(2) assms(4-11) callback_notification[OF assms(14,15)]
    by (simp add: s1 OnStart_js_fields WallpaperCallback_def RunHostTask_def work_task_def
        CallObjectMethod_def host_emit_def Let_def)
qed

section \<open>An example\<close>

definition painted_client :: "service client" where
  "painted_client = sample_client\<lparr>remote := insert_wallpaper WALLPAPER_SYSTEM 100
     (WallpaperData_default\<lparr>resourceType := PICTURE\<rparr>) sample_service\<rparr>"

text \<open>An engine where every property is a function.\<close>

definition loaded_ext :: "string ext_engine" where
  "loaded_ext = sample_ext\<lparr>x_typeof := \<lambda>v. napi_function\<rparr>"

lemma loaded_ext_answers:
  "x_property loaded_ext ''extension'' ''onWallpaperChange'' = Some ''undefined''"
  "x_typeof loaded_ext ''undefined'' = napi_function" "x_send_event_ok loaded_ext" "rt_memory sample_rt" "rt_scope_ok sample_rt"
  by (simp_all add: loaded_ext_def sample_ext_def sample_rt_def)

theorem extension_hears_change_witness:
  "\<exists>s2. host_events (RunHostTask loaded_ext sample_rt s2) =
     host_events (OnStart_js loaded_ext 0 sample_want host_ready) @ [CalledObject ''extension'' ''onWallpaperChange'' [AType 0]]"
proof -
  let ?c1 = "snd (Manager_RegisterWallpaperCallback sample_mgr (direct_proxy 1000 sample_env) (Some 5) painted_client)"
  have sys: "IsSystemApp sample_env" "wallpaperProxy painted_client = Some 21"
    by (simp_all add: IsSystemApp_def sample_env_def painted_client_def sample_client_def)
  have start: "OnStart_extension loaded_ext sample_mgr (direct_proxy 1000 sample_env) 5 0 sample_want (host_ready, painted_client)
      = (OnStart_js loaded_ext 0 sample_want host_ready, ?c1)"
    by (simp add: OnStart_extension_def)
  have "remote ?c1 = (remote painted_client)\<lparr>callbackProxy := Some 1\<rparr>"
    using sys by (simp add: Manager_RegisterWallpaperCallback_def GetService_def SetCallback_def call_remote_def
        direct_proxy_def RegisterWallpaperCallback_def)
  then have painted: "entry WALLPAPER_SYSTEM 100 (remote ?c1) = Some (WallpaperData_default\<lparr>resourceType := PICTURE\<rparr>)"
    by (simp add: painted_client_def)
  show ?thesis
    using extension_hears_change[OF sys start host_ready_fields loaded_ext_answers painted _ list_parcel_fifo, of "[]" sample_env]
    by (auto simp: WallpaperType_value_def)
qed

end
