(* ===== verification/ColourDelivery.thy ===== *)
theory ColourDelivery
  imports ChangeDelivery
begin

text \<open>
  The colour of a new picture on its way from the service to both bindings: a JavaScript function switched on for
  colour changes, a picture set from JavaScript, the service that takes the main colour of the picture and tells its
  listeners, the parcel, the call of the function, and the functions of both bindings that ask for the colours.
\<close>

section \<open>Registering\<close>

lemma listener_heard: "listener_at ev token s = Some (Some h) \<Longrightarrow> h \<in> set (listeners_of ev s)"
  by (auto simp: listener_at_def listeners_of_def List.map_filter_def image_iff dest!: map_of_SomeD
      split: option.splits Option.bind_splits intro!: exI [of _ token] exI [of _ "Some h"])

text \<open>\<^verbatim>\<open>on\<close> with the name of the event and a function registers the listener of the function at the service.\<close>

lemma on_colorChange:
  assumes "n_typeof n ev = napi_string" "Convert2String n ev = COLOR_CHANGE_EVENT" "n_typeof n f = napi_function"
    and up: "wallpaperProxy s = Some p" and "NothrowOk m"
  obtains l where "NAPI_On n m (direct_proxy (ErrOffset m) e) [ev, f] s =
      (Returned (Some JUndefined), s\<lparr>listenerMap := l, remote := snd (On e COLOR_CHANGE (Some (n_listener n f)) (remote s))\<rparr>)"
proof -
  let ?l = "snd (InsertOrAssign COLOR_CHANGE_EVENT (Some (n_listener n f)) (listenerMap s))"
  have ev: "COLOR_CHANGE = COLOR_CHANGE_EVENT" by (simp add: COLOR_CHANGE_def COLOR_CHANGE_EVENT_def)
  have "fst (On e COLOR_CHANGE (Some (n_listener n f)) (remote s)) = NO_ERROR"
    by (simp add: On_def COLOR_CHANGE_def WALLPAPER_CHANGE_def Let_def)
  then have "Manager_On m (direct_proxy (ErrOffset m) e) COLOR_CHANGE_EVENT (Some (n_listener n f)) s =
      (E_OK, s\<lparr>listenerMap := ?l, remote := snd (On e COLOR_CHANGE (Some (n_listener n f)) (remote s))\<rparr>)"
    using assms(5) by (simp add: Manager_On_def GetService_connected [OF up] call_remote_def direct_proxy_def answer_def ev
        split_beta Let_def)
  then show thesis
    using assms(1-3) that by (simp add: NAPI_On_def IsValidArgCount_def IsValidArgType_def Let_def)
qed

lemma On_registers:
  fixes r :: service
  assumes "service_accepts e wt c r"
  shows "service_accepts e wt c (snd (On e COLOR_CHANGE (Some h) r))"
    "h \<in> set (listeners_of COLOR_CHANGE (snd (On e COLOR_CHANGE (Some h) r)))"
    "stored_colour w (snd (On e COLOR_CHANGE (Some h) r)) = stored_colour w r"
proof -
  obtain c1 r1 where run: "On e COLOR_CHANGE (Some h) r = (c1, r1)" by fastforce
  have eff: "r1 = r\<lparr>wallpaperEventMap := wallpaperEventMap r1\<rparr>"
    "listener_at COLOR_CHANGE (wrap32 (CallingTokenID e)) r1 = Some (Some h)"
    using On_effect [where e = e and ty = COLOR_CHANGE and l = "Some h" and s = r, unfolded run prod.case]
    by (auto simp: COLOR_CHANGE_def WALLPAPER_CHANGE_def)
  have "service_ok (GetDefaultResDir e) r1"
    using service_ok_On [of "GetDefaultResDir e" r e COLOR_CHANGE "Some h"] assms by (simp add: service_accepts_def run)
  moreover have "files r1 = files r" "fds r1 = fds r" "wallpaperTmpFullPath r1 = wallpaperTmpFullPath r"
    by (subst eff(1), simp)+
  ultimately show "service_accepts e wt c (snd (On e COLOR_CHANGE (Some h) r))"
    using assms by (simp add: run service_accepts_def ready_def cfg_writable_def)
  show "h \<in> set (listeners_of COLOR_CHANGE (snd (On e COLOR_CHANGE (Some h) r)))"
    using listener_heard [OF eff(2)] run by simp
  show "stored_colour w (snd (On e COLOR_CHANGE (Some h) r)) = stored_colour w r"
    unfolding run snd_conv by (subst eff(1)) simp
qed

section \<open>Asking\<close>

lemma colours_asked:
  assumes "wallpaperProxy s = Some p" "CallingIsSystemApp e" "wt = 0 \<or> wt = 1"
  shows "Manager_GetColors m (direct_proxy (ErrOffset m) e) wt system_api [] s
    = (E_OK, [stored_colour (as_WallpaperType wt) (remote s)], s)"
  using assms
  by (auto simp: Manager_GetColors_def GetService_connected direct_proxy_def system_api_def GetColorsV9_def IsSystemApp_def
      GetColors_def WallpaperType_value_def as_WallpaperType_def stored_colour_def)

section \<open>Properties\<close>

text \<open>C12: the colour of a new picture reaches both bindings: after a function was switched on for \<^verbatim>\<open>colorChange\<close>, a picture
  set with \<^verbatim>\<open>setImage\<close> whose bytes have a main colour other than the one stored is announced and then told, with its colour, to every registered
  listener, the function's among them; the request crosses the parcel and ends in one call of the function with the
  colour and the type; \<^verbatim>\<open>getColorsSync\<close> of JavaScript then returns the same colour, and that of ETS says of each of its channels only
  whether its byte is 255, because the quotient by 255 is cut. The picture is one of the
  process that the connected service accepts, as in C3, and the engine has the memory and posts the events it is asked for.\<close>

theorem colour_reaches_both_bindings:
  assumes event: "n_typeof n ev = napi_string" "Convert2String n ev = ''colorChange''" "n_typeof n f = napi_function" "NothrowOk m"
    and path: "n_typeof n u = napi_string" "Convert2String n u = uri"
    and type: "n_typeof n t = napi_number" "n_value_int32 n t = Some wt" "wt = 0 \<or> wt = 1"
    and up: "wallpaperProxy s = Some p" and pic: "local_picture m uri c s" and acc: "service_accepts e wt c (remote s)"
    and colour: "main_colour e (picture_file (QueryActiveUserId e) (as_WallpaperType wt)) (Some c) = Some col"
      "stored_colour (as_WallpaperType wt) (remote s) \<noteq> col"
    and engine: "n_new_ok n" "n_send_event_ok n" "n_scope_ok n" "n_array_ok n"
    and parcel: "parcel_fifo P content" "content q = []"
  shows "\<exists>s1 s2. NAPI_On n m (direct_proxy (ErrOffset m) e) [ev, f] s = (Returned (Some JUndefined), s1) \<and>
    NAPI_SetImage n m (direct_proxy (ErrOffset m) e) [u, t] s1 = (Resolved JUndefined, s2) \<and>
    effects (remote s2) = effects (remote s1) @ change_effects (as_WallpaperType wt) PICTURE (remote s1) @
      map (\<lambda>h. ListenerOnColorsChange h [col] (as_WallpaperType wt)) (listeners_of COLOR_CHANGE (remote s1)) \<and>
    n_listener n f \<in> set (listeners_of COLOR_CHANGE (remote s1)) \<and>
    (\<forall>code p'. Proxy_OnColorsChange P q [col] wt = Some (code, p') \<longrightarrow>
      ListenerStub_OnRemoteRequest P code p' = (Answer NO_ERROR, Some (OnColorsChange_call [col] wt))) \<and>
    Napi_OnColorsChange n (n_listener n f) [col] wt = [(n_listener n f, [Some (JColors [n_color n col]), Some (JInt wt)])] \<and>
    fst (NAPI_GetColorsSync n m (direct_proxy (ErrOffset m) e) [t] s2) = Returned (Some (JColors [n_color n col])) \<and>
    fst (snd (GetColorsSync m (direct_proxy (ErrOffset m) e) wt s2)) =
      [\<lparr>red = of_bool (and (drop_bit 48 col) 0xff = 0xff), green = of_bool (and (drop_bit 40 col) 0xff = 0xff),
        blue = of_bool (and (drop_bit 32 col) 0xff = 0xff), alpha = of_bool (and (drop_bit 56 col) 0xff = 0xff)\<rparr>]"
proof -
  let ?w = "as_WallpaperType wt" and ?px = "direct_proxy (ErrOffset m) e" and ?h = "n_listener n f"
  have ev: "Convert2String n ev = COLOR_CHANGE_EVENT" using event(2) by (simp add: COLOR_CHANGE_EVENT_def)
  obtain l where on: "NAPI_On n m ?px [ev, f] s =
      (Returned (Some JUndefined), s\<lparr>listenerMap := l, remote := snd (On e COLOR_CHANGE (Some ?h) (remote s))\<rparr>)"
    by (rule on_colorChange [OF event(1) ev event(3) up event(4)])
  let ?s1 = "s\<lparr>listenerMap := l, remote := snd (On e COLOR_CHANGE (Some ?h) (remote s))\<rparr>"
  note reg = On_registers [OF acc, where h = ?h]
  have "files ?s1 = files s" by (cases s) simp
  then have up1: "wallpaperProxy ?s1 = Some p" and pic1: "local_picture m uri c ?s1" and acc1: "service_accepts e wt c (remote ?s1)"
    using up pic reg(1) by (simp_all add: local_picture_def)
  obtain s2 where s2: "NAPI_SetImage n m ?px [u, t] ?s1 = (Resolved JUndefined, s2)"
    "service_serves e (remote ?s1) wt c (remote s2)" "wallpaperProxy s2 = Some p"
    by (rule setImage_serves [OF path type up1 pic1 acc1])
  have new: "stored_colour ?w (remote ?s1) \<noteq> col" using colour(2) reg(3) by simp
  have heard: "effects (remote s2) = effects (remote ?s1) @ change_effects ?w PICTURE (remote ?s1) @
      map (\<lambda>h. ListenerOnColorsChange h [col] ?w) (listeners_of COLOR_CHANGE (remote ?s1))"
    "stored_colour ?w (remote s2) = col"
    using s2(2) new colour(1) by (simp_all add: service_serves_def heard_def colour_effects_def colour_after_def)
  have sys: "CallingIsSystemApp e" using acc by (simp add: service_accepts_def)
  have asked: "Manager_GetColors m ?px wt system_api [] s2 = (E_OK, [col], s2)"
    using colours_asked [OF s2(3) sys type(3), of m] heard(2) by simp
  have "fst (NAPI_GetColorsSync n m ?px [t] s2) = Returned (Some (JColors [n_color n col]))"
    using getColorsSync_outcome [OF type asked] engine(4) by (simp add: Convert2JSRgbaArray_def)
  moreover have "Napi_OnColorsChange n ?h [col] wt = [(?h, [Some (JColors [n_color n col]), Some (JInt wt)])]"
    using engine by (simp add: Napi_OnColorsChange_def Convert2JSRgbaArray_def)
  moreover have "fst (snd (GetColorsSync m ?px wt s2)) =
      [\<lparr>red = of_bool (and (drop_bit 48 col) 0xff = 0xff), green = of_bool (and (drop_bit 40 col) 0xff = 0xff),
        blue = of_bool (and (drop_bit 32 col) 0xff = 0xff), alpha = of_bool (and (drop_bit 56 col) 0xff = 0xff)\<rparr>]"
    using colours_are_cut [OF asked [unfolded system_api_def] type(3)] by simp
  ultimately show ?thesis
    using on s2(1) heard(1) reg(2) colors_notification [OF parcel]
    by (intro exI [of _ ?s1] exI [of _ s2]) simp
qed

theorem colour_reaches_both_bindings_witness:
  "\<exists>s1 s2. NAPI_On sample_napi sample_mgr (direct_proxy 1000 sample_env) [Str ''colorChange'', Fun 44] sample_client
       = (Returned (Some JUndefined), s1) \<and>
     NAPI_SetImage sample_napi sample_mgr (direct_proxy 1000 sample_env) [Str ''/a.jpg'', Num 0] s1 = (Resolved JUndefined, s2) \<and>
     ListenerOnColorsChange 44 [7] WALLPAPER_SYSTEM \<in> set (effects (remote s2)) \<and>
     fst (NAPI_GetColorsSync sample_napi sample_mgr (direct_proxy 1000 sample_env) [Num 0] s2) = Returned (Some (JColors [(0, 0, 0, 0)]))"
proof -
  have w: "as_WallpaperType 0 = WALLPAPER_SYSTEM" by (simp add: as_WallpaperType_def WallpaperType_value_def)
  have "c_str ''/a.jpg'' = ''/a.jpg''" "c_str ''colorChange'' = ''colorChange''" by code_simp+
  then have js: "n_typeof sample_napi (Str x) = napi_string" "Convert2String sample_napi (Str ''/a.jpg'') = ''/a.jpg''"
    "Convert2String sample_napi (Str ''colorChange'') = ''colorChange''" "n_typeof sample_napi (Fun k) = napi_function"
    "n_typeof sample_napi (Num 0) = napi_number" "n_value_int32 sample_napi (Num 0) = Some 0" for x k
    by (simp_all add: sample_napi_def Convert2String_def Let_def)
  have engine: "n_new_ok sample_napi" "n_send_event_ok sample_napi" "n_scope_ok sample_napi" "n_array_ok sample_napi"
    "n_listener sample_napi (Fun 44) = 44" "n_color sample_napi = (\<lambda>_. (0, 0, 0, 0))"
    by (simp_all add: sample_napi_def)
  have "NothrowOk sample_mgr" by (simp add: sample_mgr_def)
  have col: "main_colour sample_env (picture_file (QueryActiveUserId sample_env) (as_WallpaperType 0)) (Some ''new picture'') = Some 7"
    by (simp add: main_colour_def sample_env_def)
  have new: "stored_colour (as_WallpaperType 0) (remote sample_client) \<noteq> 7"
    by (simp add: w stored_colour_def sample_client_def sample_service_def constructed_def)
  from colour_reaches_both_bindings [OF js(1) [of "''colorChange''"] js(3) js(4) [of 44] \<open>NothrowOk sample_mgr\<close>
      js(1) [of "''/a.jpg''"] js(2,5,6) _ sample_connected(1) sample_picture sample_accepts
      col new engine(1-4) list_parcel_fifo, where q = "[]"]
  show ?thesis by (auto simp: sample_mgr_simps w engine(5,6))
qed

end
