(* ===== verification/Spec2Isabelle.thy ===== *)
theory Spec2Isabelle
  imports ChangeDelivery ColourDelivery
begin

text \<open>
  The wallpaper manager of OpenHarmony (\<^verbatim>\<open>theme_wallpaper_mgr\<close>): a system service that keeps, for
  every user, the wallpaper of the home screen and of the lock screen; the client library through
  which applications reach it; the JavaScript and the ETS binding over that library; and the
  extension ability that runs a wallpaper's own code.

  How the parts work together. An application calls a function of the JavaScript module
  (\<open>Napi\<close>) or of the ETS module (\<open>Ets\<close>). It checks the arguments and asks the client library (\<open>Manager\<close>), a singleton of the
  process, which opens the files to send, calls the service over its proxy and translates the
  codes that come back. The service (\<open>SetWallpaper\<close>, \<open>GetWallpaper\<close>, \<open>Notify\<close>, \<open>UserStore\<close>,
  \<open>Lifecycle\<close>) checks permissions, copies the bytes it is sent to a temporary file and from there
  into the directory of the user, keeps a record per user and screen, and tells listeners, the
  launcher extension and the event bus. Lists of pictures, notifications and the replies with
  descriptors cross the process boundary in parcels (\<open>Ipc\<close>). The extension (\<open>ExtensionAbility\<close>) is a
  client too: it registers a callback when it starts, and each change the service announces runs
  \<^verbatim>\<open>onWallpaperChange\<close> of its module. Its context (\<open>ExtensionContext\<close>) lets that module start, connect and
  disconnect other abilities.

  Theories and code.

  \<^item> \<open>Prelude\<close>: 32-bit integers, \<^verbatim>\<open>std::to_string\<close>, splitting of paths; shared lemmas.
  \<^item> \<open>ConcurrentMap\<close>: \<^verbatim>\<open>utils/include/concurrent_map.h\<close>, the map behind a mutex that holds the
    records and listeners, as a sorted association list; both bodies of \<^verbatim>\<open>EraseIf\<close>.
  \<^item> \<open>Dump\<close>: \<^verbatim>\<open>utils/dfx/hidumper_adapter\<close>.
  \<^item> \<open>FileSystem\<close>: the system calls the code uses, over a tree of paths; \<open>FileDeal\<close>:
    \<^verbatim>\<open>utils/src/file_deal.cpp\<close> over it.
  \<^item> \<open>WallpaperTypes\<close>: enumerations and records of \<^verbatim>\<open>utils/include\<close>, \<^verbatim>\<open>component_name.cpp\<close> and
    \<^verbatim>\<open>wallpaper_data.cpp\<close>. \<open>ServiceState\<close>: the data members of \<^verbatim>\<open>WallpaperService\<close>
    (\<^verbatim>\<open>wallpaper_service.h\<close>) as the record \<open>service\<close>; the environment \<open>env\<close> of a call; \<open>effect\<close>, what
    leaves the process.
  \<^item> \<open>WallpaperPaths\<close>, \<open>UserStore\<close>, \<open>Notify\<close>, \<open>SetWallpaper\<close>, \<open>GetWallpaper\<close>, \<open>Lifecycle\<close>:
    \<^verbatim>\<open>services/src/wallpaper_service.cpp\<close> from its lowest helpers to its handlers and its start and
    stop, with \<^verbatim>\<open>wallpaper_common_event_manager.cpp\<close>, the event subscriber, the connection to the
    extension and its death recipient.
  \<^item> \<open>ServiceInvariant\<close>: the well-formedness \<open>service_ok\<close> of a service and the footprint \<open>safe\<close> of an
    operation. \<open>Requests\<close>: the service as a state machine over calls. \<open>UserLifetime\<close>: the first and
    last moment of a user. \<open>Changes\<close>: what videos, pixel maps and packages leave behind. \<open>Batches\<close>: what a
    batch of pictures leaves behind and shows in each fold and rotation. \<open>Refinement\<close>: the
    abstract service.
  \<^item> \<open>Ipc\<close>: the parcel handlers of the service, the parcel of a list of pictures, raw data, the
    proxies and stubs of listener and callback.
  \<^item> \<open>Manager\<close>: \<^verbatim>\<open>frameworks/native/src/wallpaper_manager.cpp\<close> and the functions of
    \<^verbatim>\<open>wallpaper_manager_client.cpp\<close>. \<open>Napi\<close>: \<^verbatim>\<open>frameworks/js/napi\<close>. \<open>Ets\<close>: \<^verbatim>\<open>frameworks/ets/taihe/wallpapermgr\<close>, its
    functions and observers.
  \<^item> \<open>ExtensionContext\<close>: \<^verbatim>\<open>js_wallpaper_extension_context.cpp\<close> and \<^verbatim>\<open>wallpaper_extension_context.cpp\<close> of
    \<^verbatim>\<open>frameworks/kits/extension\<close>; \<open>ExtensionTable\<close>: what holds of them along any interleaving.
    \<open>ExtensionAbility\<close>: \<^verbatim>\<open>js_wallpaper_extension_ability.cpp\<close>, \<^verbatim>\<open>wallpaper_extension_ability.cpp\<close> and the module loader.
  \<^item> \<open>EndToEnd\<close>, \<open>ChangeDelivery\<close>, \<open>ColourDelivery\<close>: the layers composed. \<open>Samples\<close>: the concrete state most witnesses run on.

  How state and operations correspond. A handler is a function of the environment of the call, its arguments and
  the state to its result and the new state; out-parameters are options, \<open>None\<close> when the code did
  not assign them. A guard, an early return or an error code of the source is a branch of the definition of the
  same name. Overloads get a suffix. An operation holds the locks it takes for as long as it runs, or leaves and
  takes them between steps that commute with the other operations; one call is one step here, and
  \<open>reachable\<close> ranges over all sequences of calls. What the code asks of code that is not in the
  repository (accounts, permissions, window and display services, decoders, the ability runtime, the JavaScript
  engine, \<^verbatim>\<open>MessageParcel\<close>) is a field of \<open>env\<close>, \<open>mgr_env\<close>,
  \<open>ipc_env\<close>, \<open>parcel_ops\<close>, \<open>napi\<close>, \<open>ani\<close>,
  \<open>ext_engine\<close>, \<open>ability_env\<close> or \<open>runtime_env\<close>; an answer does not change
  during one operation. Files a function opens, streams of the C library included, are entries of the descriptor
  table of its process until it closes them; only \<^verbatim>\<open>ForcedRefreshDisk\<close> and the reader of
  a manifest, an input stream that closes itself, work on the tree of files alone. The colour of a picture is
  asked of its bytes at that moment. Handles and pointers to such objects are numbers, null is
  \<open>None\<close>. A 32-bit integer is an \<open>int\<close> with its wrap-around (\<open>wrap32\<close>)
  written where the code can reach it, a 64-bit colour is a word.

  What the lemmas show. Setting, restoring and reading a wallpaper do exactly what they promise
  to one user and one screen and nothing else (\<open>SetWallpaper\<close>, \<open>GetWallpaper\<close>, \<open>UserLifetime\<close>), and
  together they refine a map from users and wallpapers to what each fold and rotation is shown (\<open>Refinement\<close>); whatever calls
  arrive, the service stays well formed, no call touches files outside its directories, and a
  caller without a permission changes nothing (\<open>Requests\<close>); announcements reach exactly the
  registered listeners (\<open>Notify\<close>); posted retries come to an end (\<open>Lifecycle\<close>); parcels carry lists
  and notifications unchanged and refuse what is out of range (\<open>Ipc\<close>); the client closes what it
  opens and reports the code of the service (\<open>Manager\<close>); JavaScript learns of errors as documented,
  with the exceptions the theorems name (\<open>Napi\<close>), and ETS as JavaScript does, but for batches without the normal
  picture (\<open>Ets\<close>); every promise of the extension's
  context is settled once, the number of a connection keeps its meaning, and the pointer its callback
  goes through never dangles (\<open>ExtensionTable\<close>, \<open>ExtensionAbility\<close>); a change the service announces reaches the
  extension's JavaScript (\<open>ChangeDelivery\<close>); the colour of a new picture reaches the registered
  functions and the queries of both bindings (\<open>ColourDelivery\<close>); and a picture set from JavaScript is read
  back from JavaScript (\<open>EndToEnd\<close>). The locales \<open>picture_service\<close> and \<open>listener_service\<close> state what the
  client library relies on; they are interpreted on the handlers of the service.

  Bounds and fuel. \<open>DeleteDir_go\<close> recurses over a tree with fuel; \<open>DeleteDir_terminates\<close> shows the depth
  of the tree is enough. The queue of posted tasks runs until it is empty (\<open>RunPosted\<close>), with the
  retry counters as its measure. Buffers copied in slices and the four-kilobyte limits of strings are kept as in the
  code.

  Not modelled: log lines and traces, \<^verbatim>\<open>memory_guard.cpp\<close> and
  \<^verbatim>\<open>fault_reporter.cpp\<close> (a report is an effect), the stubs and proxies generated from
  the IDL files, the code taihe generates around the ETS functions, the registration of the two JavaScript files
  embedded by the build, \<^verbatim>\<open>Emplace\<close> and \<^verbatim>\<open>Steal\<close> of
  \<open>ConcurrentMap\<close>, the template \<^verbatim>\<open>CallService\<close> of
  \<^verbatim>\<open>wallpaper_manager.cpp\<close>, which nothing calls, tests and fuzzers. The generated proxy
  and stub between client and service are stood in for by \<open>direct_proxy\<close> (\<open>Manager\<close>),
  which runs the handler of the service on the same arguments: only the theorems about client and service
  together depend on it. \<open>dir_entries\<close> lists the entries of a directory without its links to itself
  and its parent, which the code skips. Interleavings inside one call are not modelled, nor are symbolic links;
  a JavaScript callback that calls back into the context while a task runs is a later step of the model.
\<close>

end
